(* ===== verification/Prelude.thy ===== *)
theory Prelude
  imports Main "HOL-Library.Word"
begin

text \<open>
  Shared vocabulary of the development: the error monad in which every fallible C function is
  written, the text produced by the \<^verbatim>\<open>printf()\<close> conversions the spooler uses
  (\<^verbatim>\<open>%d\<close>, \<^verbatim>\<open>%02X\<close>, ...), the linear search loop, and the generic lemmas on sums, lists
  and numerals that the component theories rely on.
\<close>

section \<open>Lemma collections\<close>

named_theorems bind_simps \<open>rewriting through the error monad\<close>
named_theorems scan_simps \<open>evaluation of the scanner on printed text\<close>

section \<open>Definitions\<close>

subsection \<open>The error monad\<close>

text \<open>
  A C function that can stop the daemon (\<^verbatim>\<open>fatal()\<close>), throw (\<^verbatim>\<open>gu_Throw()\<close>) or run into undefined
  behaviour returns a sum: \<open>Inl\<close> the reason, \<open>Inr\<close> the result. \<open>bindE\<close> sequences two of them.
\<close>

definition bindE :: "'e + 'a \<Rightarrow> ('a \<Rightarrow> 'e + 'b) \<Rightarrow> 'e + 'b" where
  "bindE m k = (case m of Inl e \<Rightarrow> Inl e | Inr a \<Rightarrow> k a)"

fun foldE :: "('a \<Rightarrow> 's \<Rightarrow> 'e + 's) \<Rightarrow> 'a list \<Rightarrow> 's \<Rightarrow> 'e + 's" where
  "foldE f [] s = Inr s"
| "foldE f (x # xs) s = bindE (f x s) (foldE f xs)"

text \<open>Weakest precondition of a computation for a postcondition on its normal results.\<close>

definition onR :: "'e + 'a \<Rightarrow> ('a \<Rightarrow> bool) \<Rightarrow> bool" where
  "onR m P = (case m of Inl e \<Rightarrow> True | Inr a \<Rightarrow> P a)"

text \<open>The same for total correctness: the computation returns, and its result has the property.\<close>

definition returns :: "'e + 'a \<Rightarrow> ('a \<Rightarrow> bool) \<Rightarrow> bool" where
  "returns m P = (case m of Inl e \<Rightarrow> False | Inr a \<Rightarrow> P a)"

subsection \<open>Text produced by printf conversions\<close>

definition digit_char :: "nat \<Rightarrow> char" where
  "digit_char n = (if n < 10 then char_of (48 + n) else char_of (55 + n))"

fun print_nat :: "nat \<Rightarrow> nat \<Rightarrow> string" where
  "print_nat b n =
     (if b < 2 \<or> n < b then [digit_char n]
      else print_nat b (n div b) @ [digit_char (n mod b)])"

declare print_nat.simps [simp del]

definition print_d :: "int \<Rightarrow> string" where
  "print_d i = (if i < 0 then CHR ''-'' # print_nat 10 (nat (- i)) else print_nat 10 (nat i))"

definition zero_pad :: "nat \<Rightarrow> string \<Rightarrow> string" where
  "zero_pad w s = replicate (w - length s) (CHR ''0'') @ s"

text \<open>
  \<^verbatim>\<open>%0<w>X\<close>: the argument, an \<^verbatim>\<open>int\<close> or \<^verbatim>\<open>unsigned int\<close>, is read as an unsigned 32-bit number.
\<close>

definition print_X :: "nat \<Rightarrow> int \<Rightarrow> string" where
  "print_X w i = zero_pad w (print_nat 16 (nat (i mod 2 ^ 32)))"

subsection \<open>Linear search\<close>

text \<open>
  The loop \<^verbatim>\<open>for(x=0; x < n; x++) if(p(a[x])) break;\<close> leaves in \<^verbatim>\<open>x\<close> the first matching index, or
  \<open>n\<close> when nothing matches.
\<close>

definition find_index :: "('a \<Rightarrow> bool) \<Rightarrow> 'a list \<Rightarrow> nat" where
  "find_index p xs = length (takeWhile (\<lambda>x. \<not> p x) xs)"

text \<open>Conversion of an \<^verbatim>\<open>int\<close> to \<^verbatim>\<open>INT16_T\<close> (two's complement).\<close>

definition to_int16 :: "int \<Rightarrow> int" where
  "to_int16 i = (i + 2 ^ 15) mod 2 ^ 16 - 2 ^ 15"

text \<open>The value of a \<^verbatim>\<open>char\<close>, which is signed on the usual machines.\<close>

definition c_char :: "char \<Rightarrow> int" where
  "c_char c = (if (of_char c :: int) < 128 then of_char c else of_char c - 256)"

section \<open>Lemmas\<close>

subsection \<open>The monad\<close>

lemma bindE_Inl [simp, bind_simps]: "bindE (Inl e) k = Inl e"
  by (simp add: bindE_def)

lemma bindE_Inr [simp, bind_simps]: "bindE (Inr a) k = k a"
  by (simp add: bindE_def)

lemma bindE_assoc: "bindE (bindE m k) h = bindE m (\<lambda>a. bindE (k a) h)"
  by (cases m) simp_all

lemma bindE_right_Inr [simp]: "bindE m Inr = m"
  by (cases m) simp_all

lemma bindE_eq_Inr: "bindE m k = Inr b \<longleftrightarrow> (\<exists>a. m = Inr a \<and> k a = Inr b)"
  by (cases m) auto

lemma bindE_InrE [elim!]:
  assumes "bindE m k = Inr b"
  obtains a where "m = Inr a" "k a = Inr b"
  using assms by (auto simp: bindE_eq_Inr)

lemma if_eq_InrD: "(if b then m else k) = Inr x \<Longrightarrow> (b \<and> m = Inr x) \<or> (\<not> b \<and> k = Inr x)"
  by (cases b) auto

lemma onR_Inl [simp]: "onR (Inl e) P"
  by (simp add: onR_def)

lemma onR_Inr [simp]: "onR (Inr a) P \<longleftrightarrow> P a"
  by (simp add: onR_def)

lemma onR_bindE [simp]: "onR (bindE m k) P \<longleftrightarrow> onR m (\<lambda>a. onR (k a) P)"
  by (cases m) simp_all

lemma onR_if [simp]: "onR (if b then m else k) P \<longleftrightarrow> (if b then onR m P else onR k P)"
  by simp

lemma onR_mono: "onR m P \<Longrightarrow> (\<And>a. m = Inr a \<Longrightarrow> P a \<Longrightarrow> Q a) \<Longrightarrow> onR m Q"
  by (cases m) auto

lemma onR_D: "onR m P \<Longrightarrow> m = Inr a \<Longrightarrow> P a"
  by simp

lemma onR_I: "(\<And>a. m = Inr a \<Longrightarrow> P a) \<Longrightarrow> onR m P"
  by (cases m) auto

lemma onR_conj: "onR m P \<Longrightarrow> onR m Q \<Longrightarrow> onR m (\<lambda>a. P a \<and> Q a)"
  by (cases m) auto

lemma returns_iff: "returns m P \<longleftrightarrow> (\<exists>a. m = Inr a \<and> P a)"
  by (cases m) (auto simp: returns_def)

lemma returnsE:
  assumes "returns m P"
  obtains a where "m = Inr a" "P a"
  using assms by (auto simp: returns_iff)

text \<open>A loop keeps an invariant that every iteration keeps.\<close>

lemma foldE_invariant:
  assumes "\<And>x s. x \<in> set xs \<Longrightarrow> P s \<Longrightarrow> onR (f x s) P" and "P s"
  shows "onR (foldE f xs s) P"
  using assms
proof (induction xs arbitrary: s)
  case Nil
  then show ?case by simp
next
  case (Cons x xs)
  have "onR (f x s) P" using Cons.prems by simp
  moreover have "onR (foldE f xs t) P" if "P t" for t
    using that Cons.prems(1) by (intro Cons.IH) auto
  ultimately show ?case by (auto elim: onR_mono)
qed

subsection \<open>Search\<close>

lemma find_index_le [simp]: "find_index p xs \<le> length xs"
  by (simp add: find_index_def length_takeWhile_le)

lemma find_index_less_iff: "find_index p xs < length xs \<longleftrightarrow> (\<exists>x \<in> set xs. p x)"
proof
  assume "find_index p xs < length xs"
  then have "p (xs ! find_index p xs)"
    unfolding find_index_def using nth_length_takeWhile by blast
  with \<open>find_index p xs < length xs\<close> show "\<exists>x \<in> set xs. p x" by (meson nth_mem)
next
  assume "\<exists>x \<in> set xs. p x"
  then show "find_index p xs < length xs"
    unfolding find_index_def by (induction xs) auto
qed

lemma find_index_eq_length_iff: "find_index p xs = length xs \<longleftrightarrow> (\<forall>x \<in> set xs. \<not> p x)"
  using find_index_less_iff [of p xs] find_index_le [of p xs] by (auto simp: order_less_le)

lemma find_index_nth: "find_index p xs < length xs \<Longrightarrow> p (xs ! find_index p xs)"
  unfolding find_index_def using nth_length_takeWhile by blast

lemma find_index_before: "i < find_index p xs \<Longrightarrow> \<not> p (xs ! i)"
  unfolding find_index_def
  by (metis (mono_tags, lifting) set_takeWhileD nth_mem takeWhile_nth)

lemma find_index_unique:
  assumes "i < length xs" "p (xs ! i)" "\<And>j. j < i \<Longrightarrow> \<not> p (xs ! j)"
  shows "find_index p xs = i"
proof (rule linorder_cases [of "find_index p xs" i])
  assume less: "find_index p xs < i"
  then have "find_index p xs < length xs" using assms(1) by simp
  then have "p (xs ! find_index p xs)" by (rule find_index_nth)
  with assms(3) [OF less] show ?thesis by blast
next
  assume "i < find_index p xs"
  then show ?thesis using assms(2) find_index_before by blast
qed

lemma find_index_map: "find_index p (map f xs) = find_index (\<lambda>x. p (f x)) xs"
  by (simp add: find_index_def takeWhile_map o_def)

lemma find_index_Nil [simp]: "find_index p [] = 0"
  by (simp add: find_index_def)

lemma find_index_Cons [simp]:
  "find_index p (x # xs) = (if p x then 0 else Suc (find_index p xs))"
  by (simp add: find_index_def)

subsection \<open>Digits\<close>

lemma print_nat_small: "n < b \<Longrightarrow> print_nat b n = [digit_char n]"
  by (simp add: print_nat.simps)

lemma print_nat_big: "2 \<le> b \<Longrightarrow> b \<le> n \<Longrightarrow> print_nat b n = print_nat b (n div b) @ [digit_char (n mod b)]"
  by (subst print_nat.simps) simp

lemma print_nat_not_Nil [simp]: "print_nat b n \<noteq> []"
  by (subst print_nat.simps) simp

lemma of_digit_char:
  "n < 16 \<Longrightarrow> of_char (digit_char n) = (if n < 10 then 48 + n else 55 + n)"
  by (simp add: digit_char_def)

lemma length_print_nat_less:
  assumes "2 \<le> b" "n < b ^ k" "0 < k"
  shows "length (print_nat b n) \<le> k"
  using assms(2,3)
proof (induction k arbitrary: n)
  case 0
  then show ?case by simp
next
  case (Suc k)
  show ?case
  proof (cases "n < b")
    case True
    then show ?thesis by (simp add: print_nat_small)
  next
    case False
    from Suc.prems False have k: "0 < k" by (cases k) auto
    from Suc.prems have "n div b < b ^ k"
      by (metis less_mult_imp_div_less mult.commute power_Suc)
    from Suc.IH [OF this k] False assms(1) show ?thesis by (simp add: print_nat_big)
  qed
qed

lemma print_nat_digits:
  assumes b: "2 \<le> b" "b \<le> 16"
  shows "c \<in> set (print_nat b n) \<Longrightarrow> \<exists>d < b. c = digit_char d"
proof (induction n rule: less_induct)
  case (less n)
  show ?case
  proof (cases "n < b")
    case True
    with less.prems show ?thesis by (auto simp: print_nat_small)
  next
    case False
    with less.prems b have "c \<in> set (print_nat b (n div b)) \<or> c = digit_char (n mod b)"
      by (auto simp: print_nat_big)
    moreover have "n div b < n" and "n mod b < b" using b False by auto
    ultimately show ?thesis using less.IH by blast
  qed
qed

lemma length_zero_pad: "length s \<le> w \<Longrightarrow> length (zero_pad w s) = w"
  by (simp add: zero_pad_def)

lemma length_print_X:
  assumes "0 \<le> i" "nat i < 16 ^ w" "0 < w" "i < 2 ^ 32"
  shows "length (print_X w i) = w"
proof -
  from assms have "length (print_nat 16 (nat i)) \<le> w"
    by (intro length_print_nat_less) auto
  with assms show ?thesis by (simp add: print_X_def length_zero_pad)
qed

lemma length_print_d:
  assumes "\<bar>i\<bar> < 2 ^ 31"
  shows "length (print_d i) \<le> 11"
proof -
  have "length (print_nat 10 n) \<le> 10" if "n < 2 ^ 31" for n
    using that by (intro length_print_nat_less) auto
  from this [of "nat \<bar>i\<bar>"] assms have "length (print_nat 10 (nat \<bar>i\<bar>)) \<le> 10" by simp
  then show ?thesis by (auto simp: print_d_def)
qed

lemma dropWhile_replicate_append: "P c \<Longrightarrow> dropWhile P (replicate k c @ s) = dropWhile P s"
  by (induction k) auto

subsection \<open>INT16\<close>

lemma to_int16_id: "- (2 ^ 15) \<le> i \<Longrightarrow> i < 2 ^ 15 \<Longrightarrow> to_int16 i = i"
  by (simp add: to_int16_def)

lemma to_int16_range: "- (2 ^ 15) \<le> to_int16 i \<and> to_int16 i < 2 ^ 15"
  unfolding to_int16_def by (simp add: pos_mod_bound pos_mod_sign)

subsection \<open>Characters\<close>

lemma c_char_byte [simp]: "char_of (c_char c) = c"
proof (cases "(of_char c :: int) < 128")
  case False
  have "char_of (of_char c - 256 :: int) = (char_of ((of_char c - 256 :: int) mod 256) :: char)" by (rule char_of_mod_256 [symmetric])
  also have "\<dots> = char_of ((of_char c :: int) mod 256)" by (simp only: minus_mod_self2)
  also have "\<dots> = c" by (simp only: char_of_mod_256 char_of_char)
  finally show ?thesis using False by (simp add: c_char_def)
qed (simp add: c_char_def)

end
