(* ===== verification/Libgu.thy ===== *)
theory Libgu
  imports Prelude
begin

text \<open>
  The routines of \<^verbatim>\<open>src/libgu/\<close> (and two of \<^verbatim>\<open>src/libppr/\<close>) on which the daemon's text protocol rests:
  the locale-independent character classes, the formatted scanner \<open>gu_sscanf\<close>, the token splitter
  \<open>gu_strsep\<close>, the prefix matcher \<open>lmatchp\<close>, the boolean reader, blank-padded fields, the file name
  formatter \<open>ppr_fnamef\<close> and the job id formatter \<open>jobid\<close>.

  A C string is the list of its characters without the terminating NUL.
\<close>

section \<open>Definitions\<close>

subsection \<open>Character classes\<close>

text \<open>\<^verbatim>\<open>gu_isspace.c\<close>, \<^verbatim>\<open>gu_isdigit.c\<close>, \<^verbatim>\<open>gu_isxdigit.c\<close>.\<close>

definition gu_ascii_isspace :: "char \<Rightarrow> bool" where
  "gu_ascii_isspace c \<longleftrightarrow>
     c = CHR '' '' \<or> c = CHR 0x09 \<or> c = CHR 0x0B \<or> c = CHR 0x0C \<or> c = CHR 0x0D \<or> c = CHR 0x0A"

definition gu_ascii_isdigit :: "char \<Rightarrow> bool" where
  "gu_ascii_isdigit c \<longleftrightarrow> 48 \<le> (of_char c :: int) \<and> (of_char c :: int) \<le> 57"

definition gu_ascii_digit_value :: "char \<Rightarrow> int" where
  "gu_ascii_digit_value c = (if gu_ascii_isdigit c then of_char c - 48 else -1)"

definition gu_ascii_isxdigit :: "char \<Rightarrow> bool" where
  "gu_ascii_isxdigit c \<longleftrightarrow>
     gu_ascii_isdigit c
     \<or> (97 \<le> (of_char c :: int) \<and> (of_char c :: int) \<le> 102)
     \<or> (65 \<le> (of_char c :: int) \<and> (of_char c :: int) \<le> 70)"

definition gu_ascii_xdigit_value :: "char \<Rightarrow> int" where
  "gu_ascii_xdigit_value c =
     (if gu_ascii_isdigit c then of_char c - 48
      else if 97 \<le> (of_char c :: int) \<and> (of_char c :: int) \<le> 102 then of_char c - 97 + 10
      else if 65 \<le> (of_char c :: int) \<and> (of_char c :: int) \<le> 70 then of_char c - 65 + 10
      else -1)"

subsection \<open>C library strings\<close>

definition strcspn :: "string \<Rightarrow> string \<Rightarrow> nat" where
  "strcspn s reject = length (takeWhile (\<lambda>c. c \<notin> set reject) s)"

definition strspn :: "string \<Rightarrow> string \<Rightarrow> nat" where
  "strspn s accept = length (takeWhile (\<lambda>c. c \<in> set accept) s)"

text \<open>\<^verbatim>\<open>atoi()\<close>, \<^verbatim>\<open>atol()\<close> of the C library on values that fit the result type.\<close>

definition c_atoi :: "string \<Rightarrow> int" where
  "c_atoi s =
     (let t = dropWhile gu_ascii_isspace s;
          neg = (t \<noteq> [] \<and> hd t = CHR ''-'');
          u = (if t \<noteq> [] \<and> (hd t = CHR ''-'' \<or> hd t = CHR ''+'') then tl t else t);
          v = foldl (\<lambda>n c. 10 * n + gu_ascii_digit_value c) 0 (takeWhile gu_ascii_isdigit u)
      in if neg then - v else v)"

text \<open>
  The macros \<^verbatim>\<open>lmatch\<close> and \<^verbatim>\<open>lmatchp\<close> of \<^verbatim>\<open>gu.h\<close>: test for a literal prefix; \<open>lmatchp\<close> returns what
  follows it with leading spaces and tabs skipped.
\<close>

definition lmatch :: "string \<Rightarrow> string \<Rightarrow> bool" where
  "lmatch a b \<longleftrightarrow> take (length b) a = b"

definition lmatchp :: "string \<Rightarrow> string \<Rightarrow> string option" where
  "lmatchp a b =
     (if lmatch a b
      then Some (dropWhile (\<lambda>c. c = CHR '' '' \<or> c = CHR 0x09) (drop (length b) a))
      else None)"

text \<open>\<^verbatim>\<open>lmatchsp\<close>: the prefix has to be followed by white space.\<close>

definition lmatchsp :: "string \<Rightarrow> string \<Rightarrow> string option" where
  "lmatchsp a b =
     (if lmatch a b \<and> length b < length a \<and> gu_ascii_isspace (a ! length b)
      then Some (dropWhile (\<lambda>c. c = CHR '' '' \<or> c = CHR 0x09) (drop (length b) a))
      else None)"

text \<open>
  \<open>gu_strsep\<close>: \<open>None\<close> is the NULL string pointer. The result pairs the token with the new value of
  \<^verbatim>\<open>*stringp\<close>.
\<close>

fun gu_strsep :: "string option \<Rightarrow> string \<Rightarrow> string option \<times> string option" where
  "gu_strsep None delim = (None, None)"
| "gu_strsep (Some start) delim =
     (let len = strcspn start delim
      in if len < length start then (Some (take len start), Some (drop (Suc len) start))
         else (Some start, None))"

text \<open>\<open>gu_torf_setBOOL\<close>: \<open>None\<close> is the return value -1, which leaves the flag alone.\<close>

definition gu_torf_setBOOL :: "string \<Rightarrow> bool option" where
  "gu_torf_setBOOL s =
     (case dropWhile (\<lambda>c. c = CHR '' '' \<or> c = CHR 0x09) s of
        [] \<Rightarrow> None
      | c # _ \<Rightarrow> if c \<in> set ''yYtT'' then Some True
                else if c \<in> set ''nNfF'' then Some False else None)"

text \<open>
  Blank-padded fields (\<^verbatim>\<open>padded.c\<close>). The loop that clips trailing blanks tests \<^verbatim>\<open>len!=-1\<close> before it
  decrements, so on an all-blank field it goes on to read \<^verbatim>\<open>padded[-1]\<close>; that byte is the argument
  \<open>prev_byte\<close>. It has no influence on the result (\<open>padded_roundtrip\<close> below holds for every \<open>prev_byte\<close>).
\<close>

definition ASCIIZ_to_padded :: "string \<Rightarrow> nat \<Rightarrow> string" where
  "ASCIIZ_to_padded asciiz len = take len asciiz @ replicate (len - length asciiz) CHR '' ''"

fun clip_blanks :: "char \<Rightarrow> string \<Rightarrow> int \<Rightarrow> int" where
  "clip_blanks prev_byte padded len =
     (if len = -1 then -1
      else let l = len - 1;
               c = (if l < 0 then prev_byte else padded ! nat l)
           in if c = CHR '' '' then (if l < 0 then l else clip_blanks prev_byte padded l) else l)"

declare clip_blanks.simps [simp del]

definition padded_to_ASCIIZ :: "char \<Rightarrow> string \<Rightarrow> nat \<Rightarrow> string" where
  "padded_to_ASCIIZ prev_byte padded len = take (nat (clip_blanks prev_byte padded (int len) + 1)) padded"

subsection \<open>gu_sscanf\<close>

text \<open>
  What the scanner stores through its pointer arguments, in order. A floating point conversion is
  kept symbolic: sign, whole part and the digits after the point. Integer conversions to a narrower
  type wrap as the compiler's conversion does; an \<^verbatim>\<open>int\<close> or \<^verbatim>\<open>long\<close> accumulator that would overflow is
  undefined behaviour.
\<close>

datatype sval = SInt int | SStr string | SFloat bool int string

datatype gu_err = GuThrow string | GuUB string

text \<open>The flags between the \<^verbatim>\<open>%\<close> and the conversion letter.\<close>

record conv_flags =
  cf_suppress :: bool
  cf_maxextlen :: int
  cf_islong :: bool
  cf_isshort :: bool

definition scan_number :: "string \<Rightarrow> int" where
  "scan_number ds = foldl (\<lambda>n c. 10 * n + gu_ascii_digit_value c) 0 ds"

definition scan_hex :: "string \<Rightarrow> int" where
  "scan_hex ds = foldl (\<lambda>n c. 16 * n + gu_ascii_xdigit_value c) 0 ds"

text \<open>Parse the flags; the result is the flags, the remaining field widths and the pattern at the letter.\<close>

definition parse_flags :: "string \<Rightarrow> int list \<Rightarrow> gu_err + (conv_flags \<times> int list \<times> string)" where
  "parse_flags pattern widths =
     (let suppress = (pattern \<noteq> [] \<and> hd pattern = CHR ''*'');
          p1 = (if suppress then tl pattern else pattern)
      in bindE
           (if p1 \<noteq> [] \<and> hd p1 = CHR ''@''
            then (case widths of [] \<Rightarrow> Inl (GuUB ''missing field width argument'')
                  | w # ws \<Rightarrow> Inr (w, ws, tl p1))
            else Inr (scan_number (takeWhile gu_ascii_isdigit p1), widths,
                      dropWhile gu_ascii_isdigit p1))
           (\<lambda>(maxextlen, ws, p2).
              let lh = takeWhile (\<lambda>c. c = CHR ''l'' \<or> c = CHR ''h'') p2;
                  p3 = dropWhile (\<lambda>c. c = CHR ''l'' \<or> c = CHR ''h'') p2
              in if p3 = [] then Inl (GuUB ''strchr matches the NUL: pattern overrun'')
                 else Inr (\<lparr>cf_suppress = suppress, cf_maxextlen = maxextlen,
                            cf_islong = CHR ''l'' \<in> set lh, cf_isshort = CHR ''h'' \<in> set lh\<rparr>,
                           ws, p3)))"

text \<open>
  One conversion: \<open>None\<close> is the jump to \<^verbatim>\<open>break_break\<close>; otherwise the rest of the input, the values
  stored, and the amount added to \<^verbatim>\<open>count\<close>. \<open>consumed\<close> is \<^verbatim>\<open>string - input\<close>, used by \<^verbatim>\<open>%n\<close>.
\<close>

type_synonym conv_result = "gu_err + (string \<times> sval list \<times> int) option"

definition store :: "conv_flags \<Rightarrow> sval \<Rightarrow> sval list" where
  "store f v = (if cf_suppress f then [] else [v])"

definition conv_d :: "conv_flags \<Rightarrow> string \<Rightarrow> conv_result" where
  "conv_d f string =
     (let neg = (string \<noteq> [] \<and> hd string = CHR ''-'');
          s1 = (if neg then tl string else string);
          ds = takeWhile gu_ascii_isdigit s1;
          n = scan_number ds;
          v = (if neg then - n else n)
      in if ds = [] then Inr None
         else if cf_islong f then
           (if n \<ge> 2 ^ 63 then Inl (GuUB ''long overflow'')
            else Inr (Some (drop (length ds) s1, store f (SInt v), 1)))
         else if n \<ge> 2 ^ 31 then Inl (GuUB ''int overflow'')
         else Inr (Some (drop (length ds) s1,
                         store f (SInt (if cf_isshort f then to_int16 v else v)), 1)))"

definition conv_u :: "conv_flags \<Rightarrow> string \<Rightarrow> conv_result" where
  "conv_u f string =
     (let ds = takeWhile gu_ascii_isdigit string;
          n = scan_number ds
      in if ds = [] then Inr None
         else if cf_islong f then Inl (GuThrow ''gu_sscanf(): %lu not implemented'')
         else Inr (Some (drop (length ds) string,
                         store f (SInt (n mod (if cf_isshort f then 2 ^ 16 else 2 ^ 32))), 1)))"

definition conv_x :: "conv_flags \<Rightarrow> string \<Rightarrow> conv_result" where
  "conv_x f string =
     (let ds = takeWhile gu_ascii_isxdigit string;
          n = scan_hex ds
      in Inr (Some (drop (length ds) string,
                    store f (SInt (n mod (if cf_islong f then 2 ^ 64
                                          else if cf_isshort f then 2 ^ 16 else 2 ^ 32))), 1)))"

definition conv_f :: "conv_flags \<Rightarrow> string \<Rightarrow> conv_result" where
  "conv_f f string =
     (let neg = (string \<noteq> [] \<and> hd string = CHR ''-'');
          s1 = (if neg then tl string else string);
          ds = takeWhile gu_ascii_isdigit s1;
          whole = scan_number ds;
          s2 = drop (length ds) s1;
          point = (s2 \<noteq> [] \<and> hd s2 = CHR ''.'');
          fs = (if point then takeWhile gu_ascii_isdigit (tl s2) else []);
          s3 = (if point then drop (length fs) (tl s2) else s2)
      in if ds = [] then Inr None
         else if whole \<ge> 2 ^ 31 then Inl (GuUB ''int overflow'')
         else Inr (Some (s3, store f (SFloat neg whole fs), 1)))"

definition conv_s :: "conv_flags \<Rightarrow> string \<Rightarrow> conv_result" where
  "conv_s f string =
     (let word = takeWhile (\<lambda>c. \<not> gu_ascii_isspace c) string
      in if \<not> cf_suppress f \<and> cf_maxextlen f < 1
         then Inl (GuThrow ''gu_sscanf(): field width for %s'')
         else Inr (Some (drop (length word) string,
                         store f (SStr (take (nat (cf_maxextlen f - 1)) word)), 1)))"

text \<open>\<^verbatim>\<open>%S\<close>, \<^verbatim>\<open>%T\<close>, \<^verbatim>\<open>%W\<close>, \<^verbatim>\<open>%A\<close>: allocated strings; these ignore the suppression flag.\<close>

definition conv_S :: "string \<Rightarrow> conv_result" where
  "conv_S string =
     (let len = strcspn string [CHR '' '', CHR 0x09, CHR 0x0A]
      in Inr (Some (drop len string, [SStr (take len string)], 1)))"

definition conv_T :: "string \<Rightarrow> conv_result" where
  "conv_T string =
     (let len = strcspn string [CHR 0x0A]
      in Inr (Some (drop len string, [SStr (take len string)], 1)))"

definition skip_quote :: "string \<Rightarrow> string" where
  "skip_quote s = (if s \<noteq> [] \<and> (hd s = CHR 0x22 \<or> hd s = CHR 0x27) then tl s else s)"

definition conv_quoted :: "(string \<Rightarrow> nat) \<Rightarrow> string \<Rightarrow> conv_result" where
  "conv_quoted bareword string =
     (let quote = (string \<noteq> [] \<and> (hd string = CHR 0x22 \<or> hd string = CHR 0x27));
          s1 = (if quote then tl string else string);
          len = (if quote then strcspn s1 [hd string] else bareword s1)
      in Inr (Some (skip_quote (drop len s1), [SStr (take len s1)], 1)))"

definition conv_W :: "string \<Rightarrow> conv_result" where
  "conv_W = conv_quoted (\<lambda>s. strcspn s [CHR '' '', CHR 0x09, CHR 0x0A])"

definition conv_A :: "string \<Rightarrow> conv_result" where
  "conv_A = conv_quoted (\<lambda>s. length (dropWhile gu_ascii_isspace (rev s)))"

definition conv_U :: "string \<Rightarrow> conv_result" where
  "conv_U string =
     (let ds = takeWhile gu_ascii_isdigit string
      in if scan_number ds \<ge> 2 ^ 63 then Inl (GuUB ''time_t overflow'')
         else Inr (Some (drop (length ds) string, [SInt (scan_number ds)], 1)))"

definition conversion :: "char \<Rightarrow> conv_flags \<Rightarrow> int \<Rightarrow> string \<Rightarrow> conv_result" where
  "conversion c f consumed string =
     (if c = CHR ''%'' then
        (case string of [] \<Rightarrow> Inr None
         | s # ss \<Rightarrow> if s = CHR ''%'' then Inr (Some (ss, [], 0)) else Inr None)
      else if c = CHR ''d'' then conv_d f string
      else if c = CHR ''u'' then conv_u f string
      else if c = CHR ''x'' then conv_x f string
      else if c = CHR ''f'' then conv_f f string
      else if c = CHR ''s'' then conv_s f string
      else if c = CHR ''S'' then conv_S string
      else if c = CHR ''W'' then conv_W string
      else if c = CHR ''T'' then conv_T string
      else if c = CHR ''A'' then conv_A string
      else if c = CHR ''n'' then Inr (Some (string, [SInt consumed], 1))
      else if c = CHR ''U'' then conv_U string
      else Inl (GuThrow ''gu_sscanf(): unrecognized format''))"

text \<open>
  The main loop: it runs while both the pattern and the input last, so a conversion at the end of
  the input is never reached. Each round consumes at least one character of the pattern; \<open>fuel\<close> is
  the pattern's length, which is therefore enough (\<open>sscanf_loop_fuel\<close>).
\<close>

fun sscanf_loop ::
  "nat \<Rightarrow> string \<Rightarrow> string \<Rightarrow> string \<Rightarrow> int list \<Rightarrow> int \<Rightarrow> sval list \<Rightarrow> gu_err + (int \<times> sval list)" where
  "sscanf_loop 0 input pattern string widths count vals = Inr (count, vals)"
| "sscanf_loop (Suc fuel) input pattern string widths count vals =
     (if pattern = [] \<or> string = [] then Inr (count, vals)
      else if hd pattern = CHR ''%'' then
        bindE (parse_flags (tl pattern) widths) (\<lambda>(f, ws, p).
        bindE (conversion (hd p) f (int (length input) - int (length string)) string) (\<lambda>r.
          case r of
            None \<Rightarrow> Inr (count, vals)
          | Some (s, vs, k) \<Rightarrow> sscanf_loop fuel input (tl p) s ws (count + k) (vals @ vs)))
      else if gu_ascii_isspace (hd pattern) then
        sscanf_loop fuel input (tl pattern) (dropWhile gu_ascii_isspace string) widths count vals
      else if hd pattern \<noteq> hd string then Inr (count, vals)
      else sscanf_loop fuel input (tl pattern) (tl string) widths count vals)"

definition gu_sscanf :: "string \<Rightarrow> string \<Rightarrow> int list \<Rightarrow> gu_err + (int \<times> sval list)" where
  "gu_sscanf input format widths = sscanf_loop (length format) input format input widths 0 []"

subsection \<open>File names and job ids\<close>

text \<open>\<^verbatim>\<open>libppr/ppr_fnamef.c\<close>; the arguments are the variadic ones, \<^verbatim>\<open>%d\<close> and \<^verbatim>\<open>%ld\<close> taking an \<open>FInt\<close>.\<close>

datatype farg = FStr string | FInt int

abbreviation (input) MAX_PPR_PATH :: nat where "MAX_PPR_PATH \<equiv> 128"

fun fnamef_loop :: "nat \<Rightarrow> string \<Rightarrow> farg list \<Rightarrow> nat \<Rightarrow> string \<Rightarrow> gu_err + string" where
  "fnamef_loop 0 pattern args space_left di = Inr di"
| "fnamef_loop (Suc fuel) [] args space_left di = Inr di"
| "fnamef_loop (Suc fuel) (c # si) args space_left di =
     (if c = CHR ''%'' then
        bindE
          (if si \<noteq> [] \<and> hd si = CHR ''l'' then
             (if tl si \<noteq> [] \<and> hd (tl si) = CHR ''d'' then
                (case args of FInt i # as \<Rightarrow> Inr (print_d i, as, tl (tl si))
                 | _ \<Rightarrow> Inl (GuUB ''ppr_fnamef(): wrong argument''))
              else Inl (GuThrow ''ppr_fnamef(): unrecognized format''))
           else if si \<noteq> [] \<and> hd si = CHR ''d'' then
             (case args of FInt i # as \<Rightarrow> Inr (print_d i, as, tl si)
              | _ \<Rightarrow> Inl (GuUB ''ppr_fnamef(): wrong argument''))
           else if si \<noteq> [] \<and> hd si = CHR ''s'' then
             (case args of FStr s # as \<Rightarrow> Inr (s, as, tl si)
              | _ \<Rightarrow> Inl (GuUB ''ppr_fnamef(): wrong argument''))
           else Inl (GuThrow ''ppr_fnamef(): unrecognized format''))
          (\<lambda>(str, as, si').
             if length str > space_left then Inl (GuThrow ''ppr_fnamef(): overflow'')
             else fnamef_loop fuel si' as (space_left - length str) (di @ str))
      else if space_left < 1 then Inl (GuThrow ''ppr_fnamef(): overflow in pattern'')
      else fnamef_loop fuel si args (space_left - 1) (di @ [c]))"

definition ppr_fnamef :: "string \<Rightarrow> farg list \<Rightarrow> gu_err + string" where
  "ppr_fnamef pattern args = fnamef_loop (length pattern) pattern args (MAX_PPR_PATH - 1) []"

text \<open>
  \<^verbatim>\<open>libppr/jobid.c\<close>. The static buffer has room for the name and ten more bytes; \<^verbatim>\<open>snprintf()\<close> cuts the
  text off at \<open>strlen(destname) + 9\<close> characters. The buffer is never shrunk: \<open>storage\<close> is the size
  it had before the call.
\<close>

definition jobid :: "nat \<Rightarrow> string \<Rightarrow> int \<Rightarrow> int \<Rightarrow> string" where
  "jobid storage destname jid subid =
     (let storage_size = max storage (length destname + 10);
          s1 = take (storage_size - 1) (destname @ ''-'' @ print_d jid)
      in if subid > 0 then take (storage_size - 1) (s1 @ ''.'' @ print_d subid) else s1)"

text \<open>
  \<^verbatim>\<open>libppr/parse_qfname.c\<close>: whether it returned 0, what \<^verbatim>\<open>*destname\<close> points to afterwards (it is set in
  either case; the string is cut at its last \<^verbatim>\<open>-\<close>), and what has been stored in \<^verbatim>\<open>*id\<close> and \<^verbatim>\<open>*subid\<close>.
\<close>

definition parse_qfname :: "string \<Rightarrow> gu_err + (bool \<times> string \<times> int option \<times> int option)" where
  "parse_qfname buffer =
     (if CHR ''-'' \<notin> set buffer then Inr (False, buffer, None, None)
      else let k = length buffer - Suc (length (takeWhile (\<lambda>c. c \<noteq> CHR ''-'') (rev buffer)))
           in bindE (gu_sscanf (drop (Suc k) buffer) ''%hd.%hd'' []) (\<lambda>(n, vs).
                Inr (case vs of
                       [SInt jid, SInt subid] \<Rightarrow>
                         (n = 2 \<and> \<not> jid < 0 \<and> \<not> subid < 0, take k buffer, Some jid, Some subid)
                     | [SInt jid] \<Rightarrow> (False, take k buffer, Some jid, None)
                     | _ \<Rightarrow> (False, take k buffer, None, None))))"

subsection \<open>Reference definitions\<close>

text \<open>Digits followed by something that is not a digit.\<close>

definition ends_number :: "(char \<Rightarrow> bool) \<Rightarrow> string \<Rightarrow> bool" where
  "ends_number P s \<longleftrightarrow> s = [] \<or> \<not> P (hd s)"

text \<open>The expansion of a pattern without a limit on the length.\<close>

function expand :: "string \<Rightarrow> farg list \<Rightarrow> string option" where
  "expand [] args = Some []"
| "expand (c # p) args =
     (if c \<noteq> CHR ''%'' then map_option ((#) c) (expand p args)
      else case args of
        FStr s # as \<Rightarrow>
          if p \<noteq> [] \<and> hd p = CHR ''s'' then map_option ((@) s) (expand (tl p) as) else None
      | FInt i # as \<Rightarrow>
          if p \<noteq> [] \<and> hd p = CHR ''d'' then map_option ((@) (print_d i)) (expand (tl p) as)
          else if p \<noteq> [] \<and> hd p = CHR ''l'' \<and> tl p \<noteq> [] \<and> hd (tl p) = CHR ''d''
          then map_option ((@) (print_d i)) (expand (tl (tl p)) as) else None
      | [] \<Rightarrow> None)"
  by pat_completeness auto
termination by (relation "measure (\<lambda>(p, _). length p)") auto

section \<open>Lemmas\<close>

subsection \<open>The scanner's loop\<close>

lemma length_dropWhile_leI: "length xs \<le> n \<Longrightarrow> length (dropWhile P xs) \<le> n"
  using length_dropWhile_le [of P xs] by simp

lemma parse_flags_shorter:
  assumes "parse_flags p ws = Inr (f, ws', p')"
  shows "p' \<noteq> [] \<and> length p' \<le> length p"
  using assms unfolding parse_flags_def Let_def
  by (auto split: if_splits list.splits intro!: length_dropWhile_leI)

lemma sscanf_loop_fuel:
  "length pattern \<le> fuel \<Longrightarrow>
   sscanf_loop fuel input pattern string widths count vals
     = sscanf_loop (length pattern) input pattern string widths count vals"
proof (induction "length pattern" arbitrary: fuel pattern string widths count vals rule: less_induct)
  case less
  show ?case
  proof (cases pattern)
    case Nil
    then show ?thesis by (cases fuel) auto
  next
    case (Cons c rest)
    then obtain n where n: "fuel = Suc n" "length rest \<le> n" using less.prems by (cases fuel) auto
    have IH: "sscanf_loop n input p s w k v = sscanf_loop (length rest) input p s w k v"
      if "length p \<le> length rest" for p s w k v
      using less.hyps [of p n] less.hyps [of p "length rest"] that n(2) Cons by simp
    have conv: "(case r of None \<Rightarrow> Inr (count, vals)
                 | Some (s, vs, k) \<Rightarrow> sscanf_loop n input (tl p) s ws (count + k) (vals @ vs))
              = (case r of None \<Rightarrow> Inr (count, vals)
                 | Some (s, vs, k) \<Rightarrow> sscanf_loop (length rest) input (tl p) s ws (count + k) (vals @ vs))"
      if "parse_flags rest widths = Inr (f, ws, p)" for f ws p r
      using parse_flags_shorter [OF that] by (auto intro!: IH split: option.split prod.split)
    show ?thesis
      using Cons n IH conv
      by (cases "parse_flags rest widths") (auto simp: bindE_def split: prod.split sum.split)
  qed
qed

subsection \<open>Scanning printed numbers\<close>

lemma of_digit_char_int:
  "n < 16 \<Longrightarrow> (of_char (digit_char n) :: int) = (if n < 10 then 48 + int n else 55 + int n)"
  using of_digit_char [of n] of_nat_of_char [of "digit_char n", where 'a = int] by (simp split: if_splits)

lemma digit_char_class:
  "d < 10 \<Longrightarrow> gu_ascii_isdigit (digit_char d) \<and> gu_ascii_digit_value (digit_char d) = int d"
  by (auto simp: gu_ascii_isdigit_def gu_ascii_digit_value_def of_digit_char_int)

lemma xdigit_char_class:
  "d < 16 \<Longrightarrow> gu_ascii_isxdigit (digit_char d) \<and> gu_ascii_xdigit_value (digit_char d) = int d"
  by (auto simp: gu_ascii_isxdigit_def gu_ascii_isdigit_def gu_ascii_xdigit_value_def of_digit_char_int)

lemma digit_not_space: "gu_ascii_isxdigit c \<Longrightarrow> \<not> gu_ascii_isspace c"
  by (auto simp: gu_ascii_isxdigit_def gu_ascii_isdigit_def gu_ascii_isspace_def)

lemma digit_is_xdigit: "gu_ascii_isdigit c \<Longrightarrow> gu_ascii_isxdigit c"
  by (simp add: gu_ascii_isxdigit_def)

lemma minus_not_digit [simp]: "\<not> gu_ascii_isdigit CHR ''-''"
  by (simp add: gu_ascii_isdigit_def)

lemma takeWhile_ends:
  assumes "\<forall>c \<in> set ds. P c" "ends_number P rest"
  shows "takeWhile P (ds @ rest) = ds"
proof -
  have "takeWhile P (ds @ rest) = ds @ takeWhile P rest"
    using assms(1) by (intro takeWhile_append2) auto
  then show ?thesis using assms(2) by (cases rest) (auto simp: ends_number_def)
qed

lemma all_digits: "\<forall>c \<in> set (print_nat 10 n). gu_ascii_isdigit c"
  using print_nat_digits [of 10] digit_char_class by fastforce

lemma all_xdigits: "\<forall>c \<in> set (print_nat 16 n). gu_ascii_isxdigit c"
  using print_nat_digits [of 16] xdigit_char_class by fastforce

lemma scan_number_print: "scan_number (print_nat 10 n) = int n"
proof (induction n rule: less_induct)
  case (less n)
  show ?case
  proof (cases "n < 10")
    case True
    then show ?thesis by (simp add: print_nat_small scan_number_def digit_char_class)
  next
    case False
    then show ?thesis
      using less.IH [of "n div 10"]
      by (simp add: print_nat_big scan_number_def digit_char_class zdiv_int zmod_int)
  qed
qed

lemma scan_hex_print: "scan_hex (print_nat 16 n) = int n"
proof (induction n rule: less_induct)
  case (less n)
  show ?case
  proof (cases "n < 16")
    case True
    then show ?thesis by (simp add: print_nat_small scan_hex_def xdigit_char_class)
  next
    case False
    then show ?thesis
      using less.IH [of "n div 16"]
      by (simp add: print_nat_big scan_hex_def xdigit_char_class zdiv_int zmod_int)
  qed
qed

lemma scan_hex_pad: "scan_hex (replicate k CHR ''0'' @ s) = scan_hex s"
  by (induction k) (simp_all add: scan_hex_def gu_ascii_xdigit_value_def gu_ascii_isdigit_def)

lemma print_X_digits: "\<forall>c \<in> set (print_X w i). gu_ascii_isxdigit c"
  using all_xdigits by (auto simp: print_X_def zero_pad_def gu_ascii_isxdigit_def gu_ascii_isdigit_def)

lemma scan_hex_print_X: "scan_hex (print_X w i) = i mod 2 ^ 32"
  by (simp add: print_X_def zero_pad_def scan_hex_pad scan_hex_print)

lemma print_d_not_Nil [simp]: "print_d i \<noteq> []"
  by (simp add: print_d_def)

lemma print_X_not_Nil [simp]: "print_X w i \<noteq> []"
  by (simp add: print_X_def zero_pad_def)

lemma hd_print_nat_digit: "gu_ascii_isdigit (hd (print_nat 10 n))"
  by (rule bspec [OF all_digits [of n]]) simp

lemma hd_print_d_not_space [simp]: "\<not> gu_ascii_isspace (hd (print_d i))"
  using hd_print_nat_digit [of "nat i"] digit_is_xdigit digit_not_space
  by (auto simp: print_d_def gu_ascii_isspace_def [of "CHR ''-''"])

lemma hd_print_X_not_space [simp]: "\<not> gu_ascii_isspace (hd (print_X w i))"
  by (intro digit_not_space bspec [OF print_X_digits [of w i]]) simp

lemma dropWhile_hd: "s \<noteq> [] \<Longrightarrow> \<not> P (hd s) \<Longrightarrow> dropWhile P (s @ rest) = s @ rest"
  by (cases s) auto

lemma skip_to_print_d [scan_simps]:
  "dropWhile gu_ascii_isspace (print_d i @ rest) = print_d i @ rest"
  "dropWhile gu_ascii_isspace (print_d i) = print_d i"
  using dropWhile_hd [of "print_d i" gu_ascii_isspace] dropWhile_hd [of "print_d i" gu_ascii_isspace "[]"] by simp_all

lemma skip_to_print_X [scan_simps]:
  "dropWhile gu_ascii_isspace (print_X w i @ rest) = print_X w i @ rest"
  "dropWhile gu_ascii_isspace (print_X w i) = print_X w i"
  using dropWhile_hd [of "print_X w i" gu_ascii_isspace] dropWhile_hd [of "print_X w i" gu_ascii_isspace "[]"] by simp_all

lemma last_print_d: "gu_ascii_isdigit (last (print_d i))"
proof -
  have "gu_ascii_isdigit (last (print_nat 10 n))" for n by (rule bspec [OF all_digits [of n]]) simp
  then show ?thesis by (simp add: print_d_def)
qed

lemma conv_d_print [scan_simps]:
  assumes "\<bar>i\<bar> < 2 ^ 31" "ends_number gu_ascii_isdigit rest" "\<not> cf_islong f"
  shows "conv_d f (print_d i @ rest)
    = Inr (Some (rest, store f (SInt (if cf_isshort f then to_int16 i else i)), 1))"
proof -
  have "hd (print_nat 10 n @ rest) \<noteq> CHR ''-''" for n
    using hd_print_nat_digit [of n] by (auto simp: hd_append)
  then show ?thesis
    using assms
    by (auto simp: conv_d_def print_d_def Let_def takeWhile_ends [OF all_digits] scan_number_print
             simp del: takeWhile_append)
qed

lemma conv_x_print [scan_simps]:
  assumes "ends_number gu_ascii_isxdigit rest" "\<not> cf_islong f"
  shows "conv_x f (print_X w i @ rest)
    = Inr (Some (rest, store f (SInt (i mod 2 ^ 32 mod (if cf_isshort f then 2 ^ 16 else 2 ^ 32))), 1))"
  using assms by (simp add: conv_x_def Let_def takeWhile_ends [OF print_X_digits] scan_hex_print_X
            del: takeWhile_append)

lemma ends_number_simps [scan_simps]:
  "ends_number P []" "ends_number P (c # s) \<longleftrightarrow> \<not> P c"
  by (simp_all add: ends_number_def)

lemma isspace_simps [scan_simps]:
  "gu_ascii_isspace CHR '' ''" "gu_ascii_isspace CHR 0x0A" "\<not> gu_ascii_isspace CHR ''%''"
  "\<not> gu_ascii_isdigit CHR '' ''" "\<not> gu_ascii_isdigit CHR 0x0A" "\<not> gu_ascii_isdigit CHR ''.''"
  "\<not> gu_ascii_isxdigit CHR '' ''"
  by (simp_all add: gu_ascii_isspace_def gu_ascii_isdigit_def gu_ascii_isxdigit_def)

lemma conv_x_print_end [scan_simps]:
  "\<not> cf_islong f \<Longrightarrow> conv_x f (print_X w i)
    = Inr (Some ([], store f (SInt (i mod 2 ^ 32 mod (if cf_isshort f then 2 ^ 16 else 2 ^ 32))), 1))"
  using conv_x_print [of "[]"] by (simp add: scan_simps)

lemma parse_flags_plain [scan_simps]:
  "parse_flags (CHR ''d'' # p) ws = Inr (\<lparr>cf_suppress = False, cf_maxextlen = 0, cf_islong = False, cf_isshort = False\<rparr>, ws, CHR ''d'' # p)"
  "parse_flags (CHR ''x'' # p) ws = Inr (\<lparr>cf_suppress = False, cf_maxextlen = 0, cf_islong = False, cf_isshort = False\<rparr>, ws, CHR ''x'' # p)"
  "parse_flags (CHR ''S'' # p) ws = Inr (\<lparr>cf_suppress = False, cf_maxextlen = 0, cf_islong = False, cf_isshort = False\<rparr>, ws, CHR ''S'' # p)"
  "parse_flags (CHR ''h'' # CHR ''d'' # p) ws = Inr (\<lparr>cf_suppress = False, cf_maxextlen = 0, cf_islong = False, cf_isshort = True\<rparr>, ws, CHR ''d'' # p)"
  "parse_flags (CHR ''h'' # CHR ''x'' # p) ws = Inr (\<lparr>cf_suppress = False, cf_maxextlen = 0, cf_islong = False, cf_isshort = True\<rparr>, ws, CHR ''x'' # p)"
  by (simp_all add: parse_flags_def gu_ascii_isdigit_def scan_number_def)

lemma conversion_letters [scan_simps]:
  "conversion CHR ''d'' f n s = conv_d f s"
  "conversion CHR ''x'' f n s = conv_x f s"
  "conversion CHR ''S'' f n s = conv_S s"
  by (simp_all add: conversion_def)

subsection \<open>Padded fields\<close>

lemma clip_blanks_step:
  "0 \<le> l \<Longrightarrow> padded ! nat l = CHR '' '' \<Longrightarrow> clip_blanks b padded (l + 1) = clip_blanks b padded l"
  by (subst clip_blanks.simps) (simp add: Let_def)

lemma clip_blanks_stop:
  "0 \<le> l \<Longrightarrow> padded ! nat l \<noteq> CHR '' '' \<Longrightarrow> clip_blanks b padded (l + 1) = l"
  by (subst clip_blanks.simps) (simp add: Let_def)

lemma clip_blanks_pad:
  "clip_blanks b (s @ replicate k CHR '' '') (int (length s) + int j) = clip_blanks b (s @ replicate k CHR '' '') (int (length s))"
  if "j \<le> k"
  using that
proof (induction j)
  case (Suc j)
  then show ?case
    using clip_blanks_step [of "int (length s) + int j" "s @ replicate k CHR '' ''" b]
    by (simp add: nat_add_distrib nth_append add.assoc add.commute [of 1])
qed simp

lemma padded_to_ASCIIZ_pad:
  assumes "s = [] \<or> last s \<noteq> CHR '' ''" "length s \<le> w"
  shows "padded_to_ASCIIZ b (ASCIIZ_to_padded s w) w = s"
proof -
  let ?p = "s @ replicate (w - length s) CHR '' ''"
  have p: "ASCIIZ_to_padded s w = ?p" using assms(2) by (simp add: ASCIIZ_to_padded_def)
  have c: "clip_blanks b ?p (int w) = clip_blanks b ?p (int (length s))"
    using clip_blanks_pad [of "w - length s" "w - length s" b s] assms(2) by (simp add: of_nat_diff)
  show ?thesis
  proof (cases s rule: rev_cases)
    case Nil
    then have "clip_blanks b ?p (int w) = -1" by (subst c, subst clip_blanks.simps) (simp add: Let_def)
    then show ?thesis using Nil p by (simp add: padded_to_ASCIIZ_def)
  next
    case (snoc t a)
    then have "clip_blanks b ?p (int w) = int (length t)"
      using clip_blanks_stop [of "int (length t)" ?p b] assms(1) c by (simp add: nth_append add.commute)
    then show ?thesis using snoc p by (simp add: padded_to_ASCIIZ_def nat_add_distrib)
  qed
qed

subsection \<open>File names\<close>

lemma fnamef_loop_expand:
  "length p \<le> n \<Longrightarrow> fnamef_loop n p args space di = Inr s
   \<longleftrightarrow> (\<exists>t. expand p args = Some t \<and> length t \<le> space \<and> s = di @ t)"
proof (induction n arbitrary: p args space di s)
  case 0
  then show ?case by auto
next
  case (Suc n)
  show ?case
  proof (cases p)
    case Nil
    then show ?thesis by auto
  next
    case (Cons c q)
    have IH: "fnamef_loop n r as k t = Inr s
        \<longleftrightarrow> (\<exists>u. expand r as = Some u \<and> length u \<le> k \<and> s = t @ u)"
      if "r = q \<or> r = tl q \<or> r = tl (tl q)" for r as k t s
      using that Suc.prems Cons by (intro Suc.IH) auto
    show ?thesis
      unfolding Cons
      by (cases args; cases "hd args") (auto simp: bindE_def IH)
  qed
qed

subsection \<open>Queue file names\<close>

lemma parse_qfname_print:
  assumes "0 \<le> jid" "jid < 2 ^ 15" "0 \<le> subid" "subid < 2 ^ 15"
  shows "parse_qfname (destname @ ''-'' @ print_d jid @ ''.'' @ print_d subid)
    = Inr (True, destname, Some jid, Some subid)"
proof -
  let ?t = "print_d jid @ ''.'' @ print_d subid"
  let ?b = "destname @ ''-'' @ ?t"
  have no: "CHR ''-'' \<notin> set ?t"
    using assms bspec [OF all_digits, of "CHR ''-''"] by (auto simp: print_d_def)
  have tw: "takeWhile (\<lambda>c. c \<noteq> CHR ''-'') (rev ?t @ CHR ''-'' # rev destname) = rev ?t"
    using no by (intro takeWhile_ends) (auto simp: ends_number_def)
  have k: "length ?b - Suc (length (takeWhile (\<lambda>c. c \<noteq> CHR ''-'') (rev ?b))) = length destname"
    using tw by simp
  have scan: "gu_sscanf ?t ''%hd.%hd'' [] = Inr (2, [SInt jid, SInt subid])"
    using assms conv_d_print [where rest = "[]"]
    by (simp add: gu_sscanf_def scan_simps store_def to_int16_id)
  show ?thesis
    unfolding parse_qfname_def k using scan assms by (simp add: Let_def)
qed

section \<open>Properties\<close>


text \<open>
  A text that does not end in a blank and fits the field is read back unchanged from its blank-padded
  form, which fills the field exactly; the byte in front of the buffer, which the clipping loop reads
  when the field is all blank, makes no difference.
\<close>

theorem padded_roundtrip:
  assumes "s = [] \<or> last s \<noteq> CHR '' ''" "length s \<le> w"
  shows "padded_to_ASCIIZ prev_byte (ASCIIZ_to_padded s w) w = s \<and> length (ASCIIZ_to_padded s w) = w"
  using padded_to_ASCIIZ_pad [OF assms] assms(2) by (simp add: ASCIIZ_to_padded_def)

theorem padded_roundtrip_witness:
  "padded_to_ASCIIZ CHR ''x'' (ASCIIZ_to_padded ''letter'' 16) 16 = ''letter''
   \<and> padded_to_ASCIIZ CHR '' '' (ASCIIZ_to_padded [] 16) 16 = []"
  using padded_roundtrip [of "''letter''" 16 "CHR ''x''"] padded_roundtrip [of "[]" 16 "CHR '' ''"] by simp

text \<open>
  A file name is the expansion of its pattern, or it is refused: \<^verbatim>\<open>ppr_fnamef()\<close> returns a name exactly
  when the pattern fits its arguments and the name, with its NUL, fits \<^verbatim>\<open>MAX_PPR_PATH\<close> bytes. A name is
  never cut off.
\<close>

theorem fnamef_exact:
  "ppr_fnamef pattern args = Inr s \<longleftrightarrow> expand pattern args = Some s \<and> length s < MAX_PPR_PATH"
  by (auto simp: ppr_fnamef_def fnamef_loop_expand)

text \<open>
  C38. The name of a queue file determines destination, id and subid, also when the destination's name
  contains hyphens, dots or digits.
\<close>

theorem qfname_roundtrip:
  assumes "0 \<le> jid" "jid < 2 ^ 15" "0 \<le> subid" "subid < 2 ^ 15"
    and "expand ''%s-%d.%d'' [FStr destname, FInt jid, FInt subid] = Some qfname"
  shows "parse_qfname qfname = Inr (True, destname, Some jid, Some subid)"
proof -
  from assms(5) have "qfname = destname @ ''-'' @ print_d jid @ ''.'' @ print_d subid"
    by auto
  then show ?thesis using parse_qfname_print [OF assms(1-4)] by simp
qed

theorem qfname_roundtrip_witness:
  "parse_qfname ''big-red-17.3'' = Inr (True, ''big-red'', Some 17, Some 3)"
proof -
  have "expand ''%s-%d.%d'' [FStr ''big-red'', FInt 17, FInt 3] = Some ''big-red-17.3''" by code_simp
  from qfname_roundtrip [OF _ _ _ _ this] show ?thesis by simp
qed

end
