(* ===== verification/Daemon.thy ===== *)
theory Daemon
  imports Libgu
begin

unbundle bit_operations_syntax

text \<open>
  The state of the spooler daemon \<^verbatim>\<open>pprd\<close> and its view of the operating system.

  The records follow the structures of \<^verbatim>\<open>include/global_structs.h\<close> and \<^verbatim>\<open>pprd/pprd.h\<close>; a field keeps its
  C name behind a prefix (\<open>q_\<close> for \<^verbatim>\<open>QEntry\<close>, \<open>p_\<close> for \<^verbatim>\<open>Printer\<close>, \<open>g_\<close> for \<^verbatim>\<open>Group\<close>, \<open>ps_\<close> and \<open>gs_\<close> for the two
  spool states), because record fields share one name space. An array together with its element
  count is a list. The global and static variables of the daemon are the fields of \<open>daemon\<close>.

  The operating system appears as: the files (\<open>fs\<close>, a path to its contents), the results of the
  coming \<^verbatim>\<open>fork()\<close> and \<^verbatim>\<open>time()\<close> calls, whether a process can be signalled (\<open>proc_exists\<close>), and \<open>outs\<close>, the list of everything the daemon has emitted
  (state updates, replies, signals, responder and driver launches, mail, log lines).
\<close>

section \<open>Definitions\<close>

subsection \<open>Constants\<close>

abbreviation (input) MAX_PRINTERS :: int where "MAX_PRINTERS \<equiv> 250"
abbreviation (input) MAX_GROUPS :: int where "MAX_GROUPS \<equiv> 150"
abbreviation (input) MAX_GROUPSIZE :: nat where "MAX_GROUPSIZE \<equiv> 8"
abbreviation (input) MAX_BINS :: nat where "MAX_BINS \<equiv> 10"
abbreviation (input) MAX_DOCMEDIA :: nat where "MAX_DOCMEDIA \<equiv> 4"
abbreviation (input) MAX_BINNAME :: nat where "MAX_BINNAME \<equiv> 16"
abbreviation (input) MAX_MEDIANAME :: nat where "MAX_MEDIANAME \<equiv> 16"
abbreviation (input) MAX_MEDIA :: nat where "MAX_MEDIA \<equiv> 20"

abbreviation (input) TICK_INTERVAL :: int where "TICK_INTERVAL \<equiv> 5"
abbreviation (input) RETRY_MULTIPLIER :: int where "RETRY_MULTIPLIER \<equiv> 30"
abbreviation (input) MIN_RETRY :: int where "MIN_RETRY \<equiv> 600"
abbreviation (input) ENGAGED_RETRY :: int where "ENGAGED_RETRY \<equiv> 60"
abbreviation (input) MAX_ACTIVE :: int where "MAX_ACTIVE \<equiv> 15"
abbreviation (input) STARVING_RETRY_INTERVAL :: int where "STARVING_RETRY_INTERVAL \<equiv> 5"
abbreviation (input) ENGAGED_NAG_TIME :: int where "ENGAGED_NAG_TIME \<equiv> 20"
abbreviation (input) QUEUE_SIZE_INITIAL :: int where "QUEUE_SIZE_INITIAL \<equiv> 200"
abbreviation (input) QUEUE_SIZE_GROWBY :: int where "QUEUE_SIZE_GROWBY \<equiv> 50"
abbreviation (input) QUEUE_SIZE_MAX :: int where "QUEUE_SIZE_MAX \<equiv> 10000"

text \<open>Job status: a value of at least 0 is the id of the printer that prints the job.\<close>

abbreviation (input) STATUS_WAITING :: int where "STATUS_WAITING \<equiv> -1"
abbreviation (input) STATUS_HELD :: int where "STATUS_HELD \<equiv> -2"
abbreviation (input) STATUS_WAITING4MEDIA :: int where "STATUS_WAITING4MEDIA \<equiv> -3"
abbreviation (input) STATUS_ARRESTED :: int where "STATUS_ARRESTED \<equiv> -4"
abbreviation (input) STATUS_CANCEL :: int where "STATUS_CANCEL \<equiv> -5"
abbreviation (input) STATUS_SEIZING :: int where "STATUS_SEIZING \<equiv> -6"
abbreviation (input) STATUS_STRANDED :: int where "STATUS_STRANDED \<equiv> -7"
abbreviation (input) STATUS_FINISHED :: int where "STATUS_FINISHED \<equiv> -8"
abbreviation (input) STATUS_FUNDS :: int where "STATUS_FUNDS \<equiv> -9"
abbreviation (input) STATUS_RECEIVING :: int where "STATUS_RECEIVING \<equiv> -10"

text \<open>Printer status.\<close>

abbreviation (input) PRNSTATUS_IDLE :: int where "PRNSTATUS_IDLE \<equiv> 0"
abbreviation (input) PRNSTATUS_PRINTING :: int where "PRNSTATUS_PRINTING \<equiv> 1"
abbreviation (input) PRNSTATUS_CANCELING :: int where "PRNSTATUS_CANCELING \<equiv> 2"
abbreviation (input) PRNSTATUS_SEIZING :: int where "PRNSTATUS_SEIZING \<equiv> 3"
abbreviation (input) PRNSTATUS_FAULT :: int where "PRNSTATUS_FAULT \<equiv> 4"
abbreviation (input) PRNSTATUS_ENGAGED :: int where "PRNSTATUS_ENGAGED \<equiv> 5"
abbreviation (input) PRNSTATUS_STARVED :: int where "PRNSTATUS_STARVED \<equiv> 6"
abbreviation (input) PRNSTATUS_STOPT :: int where "PRNSTATUS_STOPT \<equiv> 7"
abbreviation (input) PRNSTATUS_STOPPING :: int where "PRNSTATUS_STOPPING \<equiv> 8"
abbreviation (input) PRNSTATUS_HALTING :: int where "PRNSTATUS_HALTING \<equiv> 9"
abbreviation (input) PRNSTATUS_DELETED :: int where "PRNSTATUS_DELETED \<equiv> 10"
abbreviation (input) PRNSTATUS_DELIBERATELY_DOWN :: int where "PRNSTATUS_DELIBERATELY_DOWN \<equiv> 7"

text \<open>Wildcards and reply codes of the ppop protocol (\<^verbatim>\<open>include/util_exits.h\<close>).\<close>

abbreviation (input) QUEUEID_WILDCARD :: int where "QUEUEID_WILDCARD \<equiv> -1"
abbreviation (input) WILDCARD_JOBID :: int where "WILDCARD_JOBID \<equiv> -1"
abbreviation (input) WILDCARD_SUBID :: int where "WILDCARD_SUBID \<equiv> -1"
abbreviation (input) EXIT_OK_DATA :: int where "EXIT_OK_DATA \<equiv> -1"
abbreviation (input) EXIT_OK :: int where "EXIT_OK \<equiv> 0"
abbreviation (input) EXIT_BADDEST :: int where "EXIT_BADDEST \<equiv> 1"
abbreviation (input) EXIT_BADJOB :: int where "EXIT_BADJOB \<equiv> 2"
abbreviation (input) EXIT_BADBIN :: int where "EXIT_BADBIN \<equiv> 3"
abbreviation (input) EXIT_PRNONLY :: int where "EXIT_PRNONLY \<equiv> 6"
abbreviation (input) EXIT_CANTWAIT :: int where "EXIT_CANTWAIT \<equiv> 7"
abbreviation (input) EXIT_ALREADY :: int where "EXIT_ALREADY \<equiv> 8"
abbreviation (input) EXIT_INTERNAL :: int where "EXIT_INTERNAL \<equiv> 10"
abbreviation (input) EXIT_NOTPOSSIBLE :: int where "EXIT_NOTPOSSIBLE \<equiv> 22"

text \<open>Operations and status codes of the Internet Printing Protocol (\<^verbatim>\<open>include/ipp_constants.h\<close>).\<close>

abbreviation (input) IPP_CANCEL_JOB :: int where "IPP_CANCEL_JOB \<equiv> 0x0008"
abbreviation (input) IPP_HOLD_JOB :: int where "IPP_HOLD_JOB \<equiv> 0x000c"
abbreviation (input) IPP_RELEASE_JOB :: int where "IPP_RELEASE_JOB \<equiv> 0x000d"
abbreviation (input) IPP_PAUSE_PRINTER :: int where "IPP_PAUSE_PRINTER \<equiv> 0x0010"
abbreviation (input) IPP_RESUME_PRINTER :: int where "IPP_RESUME_PRINTER \<equiv> 0x0011"
abbreviation (input) IPP_PURGE_JOBS :: int where "IPP_PURGE_JOBS \<equiv> 0x0012"
abbreviation (input) CUPS_ACCEPT_JOBS :: int where "CUPS_ACCEPT_JOBS \<equiv> 0x4008"
abbreviation (input) CUPS_REJECT_JOBS :: int where "CUPS_REJECT_JOBS \<equiv> 0x4009"
abbreviation (input) CUPS_MOVE_JOB :: int where "CUPS_MOVE_JOB \<equiv> 0x400d"
abbreviation (input) IPP_OK :: int where "IPP_OK \<equiv> 0"
abbreviation (input) IPP_BAD_REQUEST :: int where "IPP_BAD_REQUEST \<equiv> 0x0400"
abbreviation (input) IPP_NOT_POSSIBLE :: int where "IPP_NOT_POSSIBLE \<equiv> 0x0402"
abbreviation (input) IPP_NOT_FOUND :: int where "IPP_NOT_FOUND \<equiv> 0x0406"
abbreviation (input) IPP_INTERNAL_ERROR :: int where "IPP_INTERNAL_ERROR \<equiv> 0x0500"
abbreviation (input) IPP_OPERATION_NOT_SUPPORTED :: int where "IPP_OPERATION_NOT_SUPPORTED \<equiv> 0x0501"

text \<open>Exit codes of \<^verbatim>\<open>pprdrv\<close> (\<^verbatim>\<open>include/interface.h\<close>) and response codes (\<^verbatim>\<open>include/respond.h\<close>).\<close>

abbreviation (input) EXIT_PRINTED :: int where "EXIT_PRINTED \<equiv> 0"
abbreviation (input) EXIT_PRNERR :: int where "EXIT_PRNERR \<equiv> 1"
abbreviation (input) EXIT_PRNERR_NORETRY :: int where "EXIT_PRNERR_NORETRY \<equiv> 2"
abbreviation (input) EXIT_JOBERR :: int where "EXIT_JOBERR \<equiv> 3"
abbreviation (input) EXIT_SIGNAL :: int where "EXIT_SIGNAL \<equiv> 4"
abbreviation (input) EXIT_ENGAGED :: int where "EXIT_ENGAGED \<equiv> 5"
abbreviation (input) EXIT_STARVED :: int where "EXIT_STARVED \<equiv> 6"
abbreviation (input) EXIT_PRNERR_NORETRY_ACCESS_DENIED :: int where "EXIT_PRNERR_NORETRY_ACCESS_DENIED \<equiv> 7"
abbreviation (input) EXIT_PRNERR_NOT_RESPONDING :: int where "EXIT_PRNERR_NOT_RESPONDING \<equiv> 8"
abbreviation (input) EXIT_PRNERR_NORETRY_BAD_SETTINGS :: int where "EXIT_PRNERR_NORETRY_BAD_SETTINGS \<equiv> 9"
abbreviation (input) EXIT_PRNERR_NO_SUCH_ADDRESS :: int where "EXIT_PRNERR_NO_SUCH_ADDRESS \<equiv> 10"
abbreviation (input) EXIT_PRNERR_NORETRY_NO_SUCH_ADDRESS :: int where "EXIT_PRNERR_NORETRY_NO_SUCH_ADDRESS \<equiv> 11"
abbreviation (input) EXIT_INCAPABLE :: int where "EXIT_INCAPABLE \<equiv> 50"

abbreviation (input) RESP_FINISHED :: int where "RESP_FINISHED \<equiv> 0"
abbreviation (input) RESP_ARRESTED :: int where "RESP_ARRESTED \<equiv> 1"
abbreviation (input) RESP_CANCELED :: int where "RESP_CANCELED \<equiv> 2"
abbreviation (input) RESP_CANCELED_PRINTING :: int where "RESP_CANCELED_PRINTING \<equiv> 3"
abbreviation (input) RESP_CANCELED_BADDEST :: int where "RESP_CANCELED_BADDEST \<equiv> 4"
abbreviation (input) RESP_CANCELED_REJECTING :: int where "RESP_CANCELED_REJECTING \<equiv> 5"
abbreviation (input) RESP_STRANDED_PRINTER_INCAPABLE :: int where "RESP_STRANDED_PRINTER_INCAPABLE \<equiv> 9"
abbreviation (input) RESP_STRANDED_GROUP_INCAPABLE :: int where "RESP_STRANDED_GROUP_INCAPABLE \<equiv> 10"

abbreviation (input) JOB_FLAG_QUESTION_UNANSWERED :: "16 word" where "JOB_FLAG_QUESTION_UNANSWERED \<equiv> 8"
abbreviation (input) JOB_FLAG_QUESTION_ASKING_NOW :: "16 word" where "JOB_FLAG_QUESTION_ASKING_NOW \<equiv> 16"

subsection \<open>Structures\<close>

record QEntry =
  q_destid :: int
  q_id :: int
  q_subid :: int
  q_priority :: int
  q_sequence_number :: "32 word"
  q_status :: int
  q_flags :: "16 word"
  q_resend_message_at :: int
  q_media :: "int list"
  q_pass :: int
  q_never :: "8 word"
  q_notnow :: "8 word"

record PRINTER_SPOOL_STATE =
  ps_accepting :: bool
  ps_previous_status :: int
  ps_status :: int
  ps_next_error_retry :: int
  ps_next_engaged_retry :: int
  ps_countdown :: int
  ps_printer_state_change_time :: int
  ps_protected :: bool
  ps_job_count :: int

record GROUP_SPOOL_STATE =
  gs_accepting :: bool
  gs_held :: bool
  gs_printer_state_change_time :: int
  gs_protected :: bool
  gs_job_count :: int

record ALERT =
  al_interval :: int
  al_method :: "string option"
  al_address :: "string option"

record Printer =
  p_name :: string
  p_spool_state :: PRINTER_SPOOL_STATE
  p_alert :: ALERT
  p_charge_per_duplex :: int
  p_charge_per_simplex :: int
  p_bins :: "string list"
  p_AutoSelect_exists :: bool
  p_media :: "int list"
  p_cancel_job :: bool
  p_hold_job :: bool
  p_job_pid :: int
  p_job_destid :: int
  p_job_id :: int
  p_job_subid :: int
  p_ppop_pid :: int

record Group =
  g_name :: string
  g_spool_state :: GROUP_SPOOL_STATE
  g_printers :: "int list"
  g_last :: int
  g_rotate :: bool
  g_deleted :: bool

text \<open>One slot of \<^verbatim>\<open>active_question[]\<close> (\<^verbatim>\<open>pprd_question.c\<close>).\<close>

record question_slot =
  aq_pid :: int
  aq_destid :: int
  aq_id :: int
  aq_subid :: int

text \<open>Directories fixed when the program is configured (\<^verbatim>\<open>config.h\<close> is generated).\<close>

record directories =
  QUEUEDIR :: string
  DATADIR :: string
  PRINTERS_PERSISTENT_STATEDIR :: string
  PRINTERS_PURGABLE_STATEDIR :: string
  GROUPS_PERSISTENT_STATEDIR :: string
  PRCONF :: string
  GRCONF :: string
  TEMPDIR :: string

text \<open>What the daemon emits. \<open>Reply\<close> is a piece of text written to the reply file of
  the ppop command, \<open>SocketReply\<close> the answer to a request from the Unix-domain socket.\<close>

datatype effect =
    StateUpdate string
  | Reply string
  | Respond string int int int string int
  | KillSIGUSR1 int
  | KillSIGTERM int
  | ExecPprdrv string string string
  | ExecQuestion string
  | Alert string bool string
  | SendMail string string
  | LogError string
  | SocketReply string

record daemon =
  queue :: "QEntry list"
  queue_size :: int
  printers :: "Printer list"
  groups :: "Group list"
  active_printers :: int
  starving_printers :: int
  lock_level :: int
  hungry_countdown :: int
  hungry_x :: int
  media_table :: "string list"
  active_question :: "question_slot list"
  active_questions :: int
  launches_this_tick :: int
  outstanding_questions :: int
  reply_pid :: int
  reply_open :: bool
  jobid_storage :: nat
  dirs :: directories
  fs :: "string \<Rightarrow> string option"
  fork_result :: "nat \<Rightarrow> int"
  fork_calls :: nat
  clock :: "nat \<Rightarrow> int"
  time_calls :: nat
  struct_text :: "int \<Rightarrow> string"
  file_ctime :: "string \<Rightarrow> int"
  proc_exists :: "int \<Rightarrow> bool"
  outs :: "effect list"

text \<open>
  How a computation ends when it does not return: \<^verbatim>\<open>fatal()\<close>, undefined behaviour of the C code, or an
  exception, which carries the state at the throw because \<^verbatim>\<open>queue_accept_queuefile()\<close> catches some.
\<close>

datatype abort = Fatal string | UB string | Throw string daemon

type_synonym 'a res = "abort + 'a"

subsection \<open>Primitive operations\<close>

definition emit :: "effect \<Rightarrow> daemon \<Rightarrow> daemon" where
  "emit e d = d\<lparr>outs := outs d @ [e]\<rparr>"

definition lift_gu :: "daemon \<Rightarrow> gu_err + 'a \<Rightarrow> 'a res" where
  "lift_gu d r =
     (case r of Inl (GuThrow m) \<Rightarrow> Inl (Throw m d) | Inl (GuUB m) \<Rightarrow> Inl (UB m) | Inr a \<Rightarrow> Inr a)"

text \<open>
  Array accesses. \<^verbatim>\<open>printers[]\<close> comes from \<^verbatim>\<open>gu_alloc()\<close>, so outside the elements in use there is no
  defined value; \<^verbatim>\<open>groups[]\<close> comes from \<^verbatim>\<open>calloc()\<close>, so an unused element of the array is all zeros.
\<close>

definition zero_group :: Group where
  "zero_group = \<lparr>g_name = [],
     g_spool_state = \<lparr>gs_accepting = False, gs_held = False, gs_printer_state_change_time = 0,
                     gs_protected = False, gs_job_count = 0\<rparr>,
     g_printers = [], g_last = 0, g_rotate = False, g_deleted = False\<rparr>"

definition get_printer :: "int \<Rightarrow> daemon \<Rightarrow> Printer res" where
  "get_printer i d =
     (if 0 \<le> i \<and> i < int (length (printers d)) then Inr (printers d ! nat i)
      else Inl (UB ''printers[] index out of range''))"

definition upd_printer :: "int \<Rightarrow> (Printer \<Rightarrow> Printer) \<Rightarrow> daemon \<Rightarrow> daemon res" where
  "upd_printer i f d =
     (if 0 \<le> i \<and> i < int (length (printers d))
      then Inr (d\<lparr>printers := (printers d)[nat i := f (printers d ! nat i)]\<rparr>)
      else Inl (UB ''printers[] index out of range''))"

definition get_group :: "int \<Rightarrow> daemon \<Rightarrow> Group res" where
  "get_group i d =
     (if 0 \<le> i \<and> i < int (length (groups d)) then Inr (groups d ! nat i)
      else if 0 \<le> i \<and> i < MAX_GROUPS then Inr zero_group
      else Inl (UB ''groups[] index out of range''))"

definition upd_group :: "int \<Rightarrow> (Group \<Rightarrow> Group) \<Rightarrow> daemon \<Rightarrow> daemon res" where
  "upd_group i f d =
     (if 0 \<le> i \<and> i < int (length (groups d))
      then Inr (d\<lparr>groups := (groups d)[nat i := f (groups d ! nat i)]\<rparr>)
      else Inl (UB ''groups[] index out of range''))"

definition get_job :: "nat \<Rightarrow> daemon \<Rightarrow> QEntry res" where
  "get_job x d =
     (if x < length (queue d) then Inr (queue d ! x) else Inl (UB ''queue[] index out of range''))"

definition set_job :: "nat \<Rightarrow> QEntry \<Rightarrow> daemon \<Rightarrow> daemon res" where
  "set_job x q d =
     (if x < length (queue d) then Inr (d\<lparr>queue := (queue d)[x := q]\<rparr>)
      else Inl (UB ''queue[] index out of range''))"

definition path_of :: "string \<Rightarrow> farg list \<Rightarrow> daemon \<Rightarrow> string res" where
  "path_of pattern args d = lift_gu d (ppr_fnamef pattern args)"

text \<open>\<^verbatim>\<open>pprd.c\<close>: \<open>lock\<close> and \<open>unlock\<close> only count.\<close>

definition lock :: "daemon \<Rightarrow> daemon" where
  "lock d = d\<lparr>lock_level := lock_level d + 1\<rparr>"

definition unlock :: "daemon \<Rightarrow> daemon" where
  "unlock d = d\<lparr>lock_level := lock_level d - 1\<rparr>"

text \<open>\<^verbatim>\<open>pprd_log.c\<close>: \<open>error\<close> writes a log line.\<close>

definition error :: "string \<Rightarrow> daemon \<Rightarrow> daemon" where
  "error message d = emit (LogError message) d"

text \<open>
  \<^verbatim>\<open>pprd_state.c\<close>: one line for the queue display programs. \<^verbatim>\<open>vsnprintf()\<close> leaves at most 127
  characters in the 128 byte buffer and \<^verbatim>\<open>strcat()\<close> then appends the newline, so a line of 127
  characters or more writes past the end of the buffer.
\<close>

definition state_update :: "string \<Rightarrow> daemon \<Rightarrow> daemon res" where
  "state_update line d =
     (if 127 \<le> length line then Inl (UB ''state_update(): line[] overflow'')
      else Inr (emit (StateUpdate line) d))"

definition with_jobid :: "string \<Rightarrow> int \<Rightarrow> int \<Rightarrow> (string \<Rightarrow> daemon \<Rightarrow> 'a) \<Rightarrow> daemon \<Rightarrow> 'a" where
  "with_jobid destname jid subid k d =
     k (jobid (jobid_storage d) destname jid subid)
       (d\<lparr>jobid_storage := max (jobid_storage d) (length destname + 10)\<rparr>)"

text \<open>\<^verbatim>\<open>time(NULL)\<close> and \<^verbatim>\<open>fork()\<close> as the parent process sees them.\<close>

definition with_time :: "(int \<Rightarrow> daemon \<Rightarrow> 'a) \<Rightarrow> daemon \<Rightarrow> 'a" where
  "with_time k d = k (clock d (time_calls d)) (d\<lparr>time_calls := Suc (time_calls d)\<rparr>)"

definition with_fork :: "(int \<Rightarrow> daemon \<Rightarrow> 'a) \<Rightarrow> daemon \<Rightarrow> 'a" where
  "with_fork k d = k (fork_result d (fork_calls d)) (d\<lparr>fork_calls := Suc (fork_calls d)\<rparr>)"

definition unlink :: "string \<Rightarrow> daemon \<Rightarrow> daemon" where
  "unlink fname d = d\<lparr>fs := (fs d)(fname := None)\<rparr>"

definition write_file :: "string \<Rightarrow> string \<Rightarrow> daemon \<Rightarrow> daemon" where
  "write_file fname contents d = d\<lparr>fs := (fs d)(fname := Some contents)\<rparr>"

text \<open>\<^verbatim>\<open>rename(2)\<close>: no effect when the old name does not exist.\<close>

definition rename :: "string \<Rightarrow> string \<Rightarrow> daemon \<Rightarrow> daemon" where
  "rename oldname newname d =
     (case fs d oldname of
        None \<Rightarrow> d
      | Some c \<Rightarrow> if oldname = newname then d
                  else d\<lparr>fs := (fs d)(newname := Some c, oldname := None)\<rparr>)"

text \<open>
  The part of the state that commands act on: everything but the outside world (files, output, the
  positions in the sequences of \<^verbatim>\<open>fork()\<close> and \<^verbatim>\<open>time()\<close> results), the size of the static buffer of \<open>jobid\<close>
  and the lock counter.
\<close>

definition core :: "daemon \<Rightarrow> daemon" where
  "core d = d\<lparr>outs := [], fs := (\<lambda>_. None), jobid_storage := 0, time_calls := 0, fork_calls := 0,
              lock_level := 0\<rparr>"

subsection \<open>A small installation\<close>

text \<open>Two printers and a group of both, used to apply the theorems to a concrete state.\<close>

definition example_printer :: "string \<Rightarrow> Printer" where
  "example_printer name =
     \<lparr>p_name = name,
      p_spool_state =
        \<lparr>ps_accepting = True, ps_previous_status = PRNSTATUS_IDLE, ps_status = PRNSTATUS_IDLE,
         ps_next_error_retry = 0, ps_next_engaged_retry = 0, ps_countdown = 0,
         ps_printer_state_change_time = 0, ps_protected = False, ps_job_count = 0\<rparr>,
      p_alert = \<lparr>al_interval = 3, al_method = Some ''mail'', al_address = Some ''op''\<rparr>,
      p_charge_per_duplex = 0, p_charge_per_simplex = 0,
      p_bins = [''Upper'', ''Lower''], p_AutoSelect_exists = False, p_media = [0, -1],
      p_cancel_job = False, p_hold_job = False, p_job_pid = 0, p_job_destid = 0, p_job_id = 0,
      p_job_subid = 0, p_ppop_pid = 0\<rparr>"

definition example_job :: "int \<Rightarrow> int \<Rightarrow> int \<Rightarrow> QEntry" where
  "example_job destid jid priority =
     \<lparr>q_destid = destid, q_id = jid, q_subid = 0, q_priority = priority,
      q_sequence_number = word_of_int jid, q_status = STATUS_WAITING, q_flags = 0,
      q_resend_message_at = 0, q_media = [0, -1, -1, -1], q_pass = 0, q_never = 0, q_notnow = 0\<rparr>"

definition example_daemon :: daemon where
  "example_daemon =
     \<lparr>queue = [], queue_size = QUEUE_SIZE_INITIAL,
      printers = [example_printer ''laser'', example_printer ''plotter''],
      groups = [zero_group\<lparr>g_name := ''pool'', g_printers := [0, 1], g_last := -1, g_rotate := True\<rparr>],
      active_printers = 0, starving_printers = 0, lock_level = 0, hungry_countdown = 5, hungry_x = 0,
      media_table = [''letter''],
      active_question = replicate 10 \<lparr>aq_pid = 0, aq_destid = 0, aq_id = 0, aq_subid = 0\<rparr>,
      active_questions = 0, launches_this_tick = 0, outstanding_questions = 0, reply_pid = 0,
      reply_open = False, jobid_storage = 0,
      dirs = \<lparr>QUEUEDIR = ''/q'', DATADIR = ''/j'', PRINTERS_PERSISTENT_STATEDIR = ''/p'',
              PRINTERS_PURGABLE_STATEDIR = ''/t'', GROUPS_PERSISTENT_STATEDIR = ''/g'',
              PRCONF = ''/pc'', GRCONF = ''/gc'', TEMPDIR = ''/tmp''\<rparr>,
      fs = (\<lambda>_. None), fork_result = (\<lambda>n. 100 + int n), fork_calls = 0, clock = int,
      time_calls = 0, struct_text = (\<lambda>_. ''laser''), file_ctime = (\<lambda>_. 0),
      proc_exists = (\<lambda>_. True), outs = []\<rparr>"

text \<open>The same with two jobs in the queue, one for the first printer and one for the group.\<close>

definition example_busy :: daemon where
  "example_busy = example_daemon
     \<lparr>queue := [example_job 0 7 50, example_job MAX_PRINTERS 8 40],
      printers := [(example_printer ''laser'')\<lparr>p_spool_state :=
                     (p_spool_state (example_printer ''laser''))\<lparr>ps_job_count := 1\<rparr>\<rparr>,
                   example_printer ''plotter''],
      groups := [zero_group\<lparr>g_name := ''pool'', g_printers := [0, 1], g_last := -1, g_rotate := True,
                   g_spool_state := (g_spool_state zero_group)\<lparr>gs_accepting := True, gs_job_count := 1\<rparr>\<rparr>],
      fs := [''/q/laser-7.0'' \<mapsto> replicate 64 CHR '' '' @ ''Media: letter'',
             ''/q/pool-8.0'' \<mapsto> replicate 64 CHR '' '' @ ''Media: letter'']\<rparr>"

section \<open>Lemmas\<close>

lemma path_of_iff:
  "path_of pattern args d = Inr fn \<longleftrightarrow> expand pattern args = Some fn \<and> length fn < MAX_PPR_PATH"
  using fnamef_loop_expand [of pattern "length pattern" args "MAX_PPR_PATH - 1" "[]" fn]
  by (auto simp: path_of_def lift_gu_def ppr_fnamef_def split: sum.splits gu_err.splits)


lemma example_fields [simp]:
  "printers example_daemon = [example_printer ''laser'', example_printer ''plotter'']"
  "groups example_daemon =
     [zero_group\<lparr>g_name := ''pool'', g_printers := [0, 1], g_last := -1, g_rotate := True\<rparr>]"
  "queue example_daemon = []" "queue_size example_daemon = QUEUE_SIZE_INITIAL"
  by (simp_all add: example_daemon_def)

lemma example_busy_fields [simp]:
  "length (printers example_busy) = 2" "p_name (printers example_busy ! 0) = ''laser''"
  "p_name (printers example_busy ! Suc 0) = ''plotter''" "length (groups example_busy) = 1"
  "queue example_busy = [example_job 0 7 50, example_job MAX_PRINTERS 8 40]"
  "dirs example_busy = dirs example_daemon"
  by (simp_all add: example_busy_def example_printer_def)

lemma quiet_fields [simp]:
  "printers (lock d) = printers d" "printers (unlock d) = printers d" "printers (emit e d) = printers d"
  "printers (error m d) = printers d" "printers (write_file f c d) = printers d"
  "queue (lock d) = queue d" "queue (unlock d) = queue d" "queue (emit e d) = queue d"
  "queue (error m d) = queue d" "queue (write_file f c d) = queue d"
  "groups (lock d) = groups d" "groups (unlock d) = groups d" "groups (emit e d) = groups d"
  "groups (error m d) = groups d" "groups (write_file f c d) = groups d"
  by (simp_all add: emit_def lock_def unlock_def error_def write_file_def)

lemma core_simps [simp]:
  "core (emit e d) = core d" "core (lock d) = core d" "core (unlock d) = core d"
  "core (error m d) = core d" "core (unlink f d) = core d" "core (write_file f c d) = core d"
  "core (rename f g d) = core d"
  "core (d\<lparr>jobid_storage := n\<rparr>) = core d" "core (d\<lparr>time_calls := n\<rparr>) = core d"
  "core (d\<lparr>fork_calls := n\<rparr>) = core d"
  by (simp_all add: core_def emit_def lock_def unlock_def error_def unlink_def write_file_def rename_def
      split: option.split)

lemma core_upd [simp]: "core (d\<lparr>outs := es\<rparr>) = core d" "core (d\<lparr>lock_level := n\<rparr>) = core d" "core (d\<lparr>fs := f\<rparr>) = core d"
  by (simp_all add: core_def)

lemma core_printers: "core (d\<lparr>printers := ps\<rparr>) = (core d)\<lparr>printers := ps\<rparr>"
  by (simp add: core_def)

lemma core_queue: "core (d\<lparr>queue := qs\<rparr>) = (core d)\<lparr>queue := qs\<rparr>"
  by (simp add: core_def)

lemma core_sel [simp]:
  "queue (core d) = queue d"
  "queue_size (core d) = queue_size d"
  "printers (core d) = printers d"
  "groups (core d) = groups d"
  "active_printers (core d) = active_printers d"
  "starving_printers (core d) = starving_printers d"
  "media_table (core d) = media_table d"
  "active_question (core d) = active_question d"
  "active_questions (core d) = active_questions d"
  "launches_this_tick (core d) = launches_this_tick d"
  "outstanding_questions (core d) = outstanding_questions d"
  "dirs (core d) = dirs d"
  "fork_result (core d) = fork_result d"
  "reply_open (core d) = reply_open d"
  "hungry_x (core d) = hungry_x d"
  "hungry_countdown (core d) = hungry_countdown d"
  "reply_pid (core d) = reply_pid d"
  by (simp_all add: core_def)

lemma core_fields:
  assumes "core d' = core d"
  shows "queue d' = queue d"
    "queue_size d' = queue_size d"
    "printers d' = printers d"
    "groups d' = groups d"
    "active_printers d' = active_printers d"
    "starving_printers d' = starving_printers d"
    "media_table d' = media_table d"
    "active_question d' = active_question d"
    "active_questions d' = active_questions d"
    "launches_this_tick d' = launches_this_tick d"
    "outstanding_questions d' = outstanding_questions d"
    "dirs d' = dirs d"
    "fork_result d' = fork_result d"
    "reply_open d' = reply_open d"
    "hungry_x d' = hungry_x d"
    "hungry_countdown d' = hungry_countdown d"
    "reply_pid d' = reply_pid d"
  using arg_cong [OF assms, of queue]
    arg_cong [OF assms, of queue_size]
    arg_cong [OF assms, of printers]
    arg_cong [OF assms, of groups]
    arg_cong [OF assms, of active_printers]
    arg_cong [OF assms, of starving_printers]
    arg_cong [OF assms, of media_table]
    arg_cong [OF assms, of active_question]
    arg_cong [OF assms, of active_questions]
    arg_cong [OF assms, of launches_this_tick]
    arg_cong [OF assms, of outstanding_questions]
    arg_cong [OF assms, of dirs]
    arg_cong [OF assms, of fork_result]
    arg_cong [OF assms, of reply_open]
    arg_cong [OF assms, of hungry_x]
    arg_cong [OF assms, of hungry_countdown]
    arg_cong [OF assms, of reply_pid]
  by simp_all

end
