(* ===== verification/Destid.thy ===== *)
theory Destid
  imports Daemon
begin

text \<open>
  Destination ids (\<^verbatim>\<open>pprd/pprd_destid.c\<close>). A printer's id is its index in \<^verbatim>\<open>printers[]\<close>; a group's id is
  its index in \<^verbatim>\<open>groups[]\<close> plus \<^verbatim>\<open>MAX_PRINTERS\<close>. The operations follow the file's functions one by one,
  the failed assertions being \<open>Fatal\<close>.
\<close>

section \<open>Definitions\<close>

definition destid_is_group :: "int \<Rightarrow> daemon \<Rightarrow> bool" where
  "destid_is_group destid d \<longleftrightarrow> destid \<ge> int (length (printers d))"

definition destid_is_printer :: "int \<Rightarrow> daemon \<Rightarrow> bool" where
  "destid_is_printer destid d \<longleftrightarrow> destid < int (length (printers d))"

definition destid_to_gindex :: "int \<Rightarrow> int res" where
  "destid_to_gindex destid =
     (let answer = destid - MAX_PRINTERS
      in if answer < 0 \<or> answer \<ge> MAX_GROUPS
         then Inl (Fatal ''destid_to_gindex(): assertion failed'') else Inr answer)"

definition destid_by_gindex :: "int \<Rightarrow> int res" where
  "destid_by_gindex gindex =
     (if gindex < 0 \<or> gindex \<ge> MAX_GROUPS
      then Inl (Fatal ''destid_by_gindex(): assertion failed'') else Inr (gindex + MAX_PRINTERS))"

definition destid_to_name :: "int \<Rightarrow> daemon \<Rightarrow> string res" where
  "destid_to_name destid d =
     (if destid_is_group destid d then
        bindE (destid_to_gindex destid) (\<lambda>group_index.
          if group_index < int (length (groups d)) \<and> \<not> g_deleted (groups d ! nat group_index)
          then Inr (g_name (groups d ! nat group_index)) else Inr ''<invalid>'')
      else if destid \<ge> 0 \<and> destid < int (length (printers d))
              \<and> ps_status (p_spool_state (printers d ! nat destid)) \<noteq> PRNSTATUS_DELETED
           then Inr (p_name (printers d ! nat destid)) else Inr ''<invalid>'')"

definition printer_matches :: "string \<Rightarrow> Printer \<Rightarrow> bool" where
  "printer_matches name p \<longleftrightarrow> ps_status (p_spool_state p) \<noteq> PRNSTATUS_DELETED \<and> p_name p = name"

definition destid_by_printer :: "string \<Rightarrow> daemon \<Rightarrow> int" where
  "destid_by_printer name d =
     (let x = find_index (printer_matches name) (printers d)
      in if x < length (printers d) then int x else -1)"

definition group_matches :: "string \<Rightarrow> Group \<Rightarrow> bool" where
  "group_matches name g \<longleftrightarrow> \<not> g_deleted g \<and> g_name g = name"

definition destid_by_group :: "string \<Rightarrow> daemon \<Rightarrow> int res" where
  "destid_by_group name d =
     (let x = find_index (group_matches name) (groups d)
      in if x < length (groups d) then destid_by_gindex (int x) else Inr (-1))"

definition destid_by_name :: "string \<Rightarrow> daemon \<Rightarrow> int res" where
  "destid_by_name name d =
     bindE (destid_by_group name d) (\<lambda>ret.
       if ret \<noteq> -1 then Inr ret
       else let ret = destid_by_printer name d in if ret \<noteq> -1 then Inr ret else Inr (-1))"

definition destid_by_name_reversed :: "string \<Rightarrow> daemon \<Rightarrow> int res" where
  "destid_by_name_reversed name d =
     (let ret = destid_by_printer name d
      in if ret \<noteq> -1 then Inr ret
         else bindE (destid_by_group name d) (\<lambda>ret. if ret \<noteq> -1 then Inr ret else Inr (-1)))"

definition destid_get_member_offset :: "int \<Rightarrow> int \<Rightarrow> daemon \<Rightarrow> int res" where
  "destid_get_member_offset destid prnid d =
     (if \<not> destid_is_group destid d
      then Inl (Fatal ''destid_get_member_offset(): assertion failed'')
      else bindE (destid_to_gindex destid) (\<lambda>gi.
           bindE (get_group gi d) (\<lambda>cl.
             let x = find_index (\<lambda>p. p = prnid) (g_printers cl)
             in Inr (if x < length (g_printers cl) then int x else -1))))"

definition destid_printer_bit :: "int \<Rightarrow> int \<Rightarrow> daemon \<Rightarrow> int res" where
  "destid_printer_bit destid prnid d =
     (if prnid = destid then Inr 1
      else if \<not> destid_is_group destid d then Inr 0
      else bindE (destid_get_member_offset destid prnid d) (\<lambda>off.
             if off = -1 then Inr 0 else Inr (2 ^ nat off)))"

definition destid_accepting :: "int \<Rightarrow> daemon \<Rightarrow> bool res" where
  "destid_accepting destid d =
     (if destid_is_group destid d then
        bindE (destid_to_gindex destid) (\<lambda>gi.
        bindE (get_group gi d) (\<lambda>g. Inr (gs_accepting (g_spool_state g))))
      else bindE (get_printer destid d) (\<lambda>p. Inr (ps_accepting (p_spool_state p))))"

section \<open>Lemmas\<close>

lemma gindex_roundtrip: "destid_by_gindex i = Inr j \<Longrightarrow> destid_to_gindex j = Inr i"
  by (auto simp: destid_by_gindex_def destid_to_gindex_def Let_def split: if_splits)

lemma by_group_name:
  assumes "destid_by_group name d = Inr i" "i \<noteq> -1" "int (length (printers d)) \<le> MAX_PRINTERS"
  shows "destid_is_group i d \<and> destid_to_name i d = Inr name"
  using assms find_index_nth [of "group_matches name" "groups d"]
  by (auto simp: destid_by_group_def Let_def destid_by_gindex_def destid_to_name_def destid_to_gindex_def
      destid_is_group_def group_matches_def split: if_splits)

lemma by_printer_name:
  assumes "destid_by_printer name d = i" "i \<noteq> -1"
  shows "\<not> destid_is_group i d \<and> destid_to_name i d = Inr name"
  using assms find_index_nth [of "printer_matches name" "printers d"]
  by (auto simp: destid_by_printer_def Let_def destid_to_name_def destid_is_group_def printer_matches_def
      split: if_splits)

lemma by_group_exists:
  "destid_by_group name d = Inr (-1) \<longleftrightarrow> (\<forall>g \<in> set (groups d). \<not> group_matches name g)"
  using find_index_eq_length_iff [of "group_matches name" "groups d"] 
  by (auto simp: destid_by_group_def Let_def destid_by_gindex_def find_index_less_iff)

lemma by_printer_exists:
  "destid_by_printer name d = -1 \<longleftrightarrow> (\<forall>p \<in> set (printers d). \<not> printer_matches name p)"
  by (auto simp: destid_by_printer_def Let_def find_index_less_iff)

lemma by_name_name:
  assumes "destid_by_name name d = Inr i" "i \<noteq> -1" "int (length (printers d)) \<le> MAX_PRINTERS"
  shows "destid_to_name i d = Inr name"
  using assms by_group_name [of name d i] by_printer_name [of name d i]
  by (auto simp: destid_by_name_def Let_def split: if_splits)

lemma member_offset:
  assumes "destid_is_group destid d" "destid_to_gindex destid = Inr gi" "get_group gi d = Inr g"
  shows "destid_get_member_offset destid prnid d =
    Inr (if prnid \<in> set (g_printers g) then int (find_index (\<lambda>p. p = prnid) (g_printers g)) else -1)"
  using assms find_index_less_iff [of "\<lambda>p. p = prnid" "g_printers g"]
  by (simp add: destid_get_member_offset_def Let_def)

section \<open>Properties\<close>

text \<open>
  Looking a name up gives -1 exactly when no group and no printer in service has it; otherwise it gives
  an id whose name it is. A group hides a printer of the same name.
\<close>

theorem destid_lookup:
  assumes "destid_by_name name d = Inr i" "int (length (printers d)) \<le> MAX_PRINTERS"
  shows "if i = -1
    then \<not> (\<exists>g \<in> set (groups d). group_matches name g) \<and> \<not> (\<exists>p \<in> set (printers d). printer_matches name p)
    else destid_to_name i d = Inr name
      \<and> (destid_is_group i d \<longleftrightarrow> (\<exists>g \<in> set (groups d). group_matches name g))"
proof (cases "destid_by_group name d = Inr (-1)")
  case True
  then have "i = destid_by_printer name d" using assms(1) by (auto simp: destid_by_name_def Let_def split: if_splits)
  then show ?thesis
    using True by_printer_name [of name d i] by_printer_exists [of name d] by (auto simp: by_group_exists)
next
  case False
  then have "destid_by_group name d = Inr i" "i \<noteq> -1"
    using assms(1) by (auto simp: destid_by_name_def Let_def split: if_splits)
  then show ?thesis using by_group_name [of name d i] assms(2) False by_group_exists [of name d] by auto
qed

theorem destid_lookup_witness:
  "destid_to_name 250 example_daemon = Inr ''pool'' \<and> destid_is_group 250 example_daemon
   \<and> destid_to_name 1 example_daemon = Inr ''plotter''"
proof -
  have "returns (destid_by_name ''pool'' example_daemon) (\<lambda>i. i = 250)"
    "returns (destid_by_name ''plotter'' example_daemon) (\<lambda>i. i = 1)"
    "int (length (printers example_daemon)) \<le> MAX_PRINTERS" "destid_is_group 250 example_daemon"
    by code_simp+
  then show ?thesis
    unfolding returns_iff using destid_lookup [of "''pool''" example_daemon 250] destid_lookup [of "''plotter''" example_daemon 1] by simp
qed

text \<open>
  The reversed lookup differs only in that a printer hides a group of the same name.
\<close>

theorem destid_lookup_reversed:
  assumes "destid_by_name_reversed name d = Inr i" "int (length (printers d)) \<le> MAX_PRINTERS"
  shows "if i = -1
    then \<not> (\<exists>g \<in> set (groups d). group_matches name g) \<and> \<not> (\<exists>p \<in> set (printers d). printer_matches name p)
    else destid_to_name i d = Inr name
      \<and> (destid_is_printer i d \<longleftrightarrow> (\<exists>p \<in> set (printers d). printer_matches name p))"
proof (cases "destid_by_printer name d = -1")
  case True
  then have "destid_by_group name d = Inr i"
    using assms(1) by (auto simp: destid_by_name_reversed_def Let_def split: if_splits)
  then show ?thesis
    using True by_group_name [of name d i] assms(2) 
    by (auto simp: by_group_exists by_printer_exists destid_is_printer_def destid_is_group_def)
next
  case False
  then have "destid_by_printer name d = i" "i \<noteq> -1"
    using assms(1) by (auto simp: destid_by_name_reversed_def Let_def split: if_splits)
  then show ?thesis using by_printer_name [of name d i] False
    by (auto simp: by_printer_exists destid_is_printer_def destid_is_group_def)
qed

theorem destid_lookup_reversed_witness:
  "destid_to_name 1 example_daemon = Inr ''plotter'' \<and> destid_is_printer 1 example_daemon"
proof -
  have "returns (destid_by_name_reversed ''plotter'' example_daemon) (\<lambda>i. i = 1)" by code_simp
  moreover have "destid_is_printer 1 example_daemon" by (simp add: destid_is_printer_def)
  ultimately show ?thesis
    unfolding returns_iff using destid_lookup_reversed [of "''plotter''" example_daemon 1] by simp
qed

text \<open>
  The bit of a printer in the bitmaps of a group's jobs: a member has the bit of its position in the
  group, a printer that is no member has none.
\<close>

theorem printer_bits:
  assumes "get_group gi d = Inr g" "gi < MAX_GROUPS" "int (length (printers d)) \<le> MAX_PRINTERS"
    and "prnid < int (length (printers d))"
  shows "if prnid \<in> set (g_printers g)
    then \<exists>k < length (g_printers g). g_printers g ! k = prnid \<and> destid_printer_bit (gi + MAX_PRINTERS) prnid d = Inr (2 ^ k)
    else destid_printer_bit (gi + MAX_PRINTERS) prnid d = Inr 0"
proof -
  have g: "destid_is_group (gi + MAX_PRINTERS) d" "destid_to_gindex (gi + MAX_PRINTERS) = Inr gi" "prnid \<noteq> gi + MAX_PRINTERS"
    using assms by (auto simp: destid_is_group_def destid_to_gindex_def get_group_def split: if_splits)
  show ?thesis
    using member_offset [OF g(1,2) assms(1), of prnid] g find_index_less_iff [of "\<lambda>p. p = prnid" "g_printers g"]
      find_index_nth [of "\<lambda>p. p = prnid" "g_printers g"]
    by (auto simp: destid_printer_bit_def)
qed

theorem printer_bits_witness:
  "(\<exists>k < 2. [0, 1::int] ! k = 1 \<and> destid_printer_bit 250 1 example_daemon = Inr (2 ^ k))
   \<and> length (printers example_daemon) = 2"
proof -
  have g: "get_group 0 example_daemon = Inr (groups example_daemon ! 0)" by (simp add: get_group_def)
  show ?thesis using printer_bits [OF g, of 1] by (simp add: eval_nat_numeral)
qed

end
