(* ===== verification/Spool_State.thy ===== *)
theory Spool_State
  imports Destid
begin

text \<open>
  The saved state of printers and groups: \<^verbatim>\<open>pprd/pprd_statedirs.c\<close> writes the file, \<^verbatim>\<open>libppr/spool_state.c\<close>
  reads it back. The C functions take the structure and the name; so do these.
\<close>

section \<open>Definitions\<close>

definition b2i :: "bool \<Rightarrow> int" where
  "b2i b = (if b then 1 else 0)"

fun join_d :: "int list \<Rightarrow> string" where
  "join_d [] = []"
| "join_d [i] = print_d i"
| "join_d (i # j # is) = print_d i @ '' '' @ join_d (j # is)"

definition printer_state_values :: "PRINTER_SPOOL_STATE \<Rightarrow> int list" where
  "printer_state_values ps =
     [b2i (ps_accepting ps), ps_previous_status ps, ps_status ps, ps_next_error_retry ps,
      ps_next_engaged_retry ps, ps_countdown ps, ps_printer_state_change_time ps,
      b2i (ps_protected ps), ps_job_count ps]"

definition group_state_values :: "GROUP_SPOOL_STATE \<Rightarrow> int list" where
  "group_state_values gs =
     [b2i (gs_accepting gs), b2i (gs_held gs), gs_printer_state_change_time gs,
      b2i (gs_protected gs), gs_job_count gs]"

definition printer_spool_state_save :: "PRINTER_SPOOL_STATE \<Rightarrow> string \<Rightarrow> daemon \<Rightarrow> daemon res" where
  "printer_spool_state_save pstate prnname d =
     bindE (path_of ''%s/%s/spool_state''
              [FStr (PRINTERS_PERSISTENT_STATEDIR (dirs d)), FStr prnname] d) (\<lambda>fn.
       Inr (write_file fn (join_d (printer_state_values pstate) @ [CHR 0x0A]) d))"

definition group_spool_state_save :: "GROUP_SPOOL_STATE \<Rightarrow> string \<Rightarrow> daemon \<Rightarrow> daemon res" where
  "group_spool_state_save gstate grpname d =
     bindE (path_of ''%s/%s/spool_state''
              [FStr (GROUPS_PERSISTENT_STATEDIR (dirs d)), FStr grpname] d) (\<lambda>fn.
       Inr (write_file fn (join_d (group_state_values gstate) @ [CHR 0x0A]) d))"

text \<open>The values the scanner has stored are assigned to the fields in order, also when it stops early.\<close>

fun assign_fields :: "(int \<Rightarrow> 's \<Rightarrow> 's) list \<Rightarrow> sval list \<Rightarrow> 's \<Rightarrow> 's" where
  "assign_fields (f # rest) (SInt v # vs) s = assign_fields rest vs (f v s)"
| "assign_fields _ _ s = s"

definition printer_state_setters :: "(int \<Rightarrow> PRINTER_SPOOL_STATE \<Rightarrow> PRINTER_SPOOL_STATE) list" where
  "printer_state_setters =
     [\<lambda>v ps. ps\<lparr>ps_accepting := (v \<noteq> 0)\<rparr>, \<lambda>v ps. ps\<lparr>ps_previous_status := v\<rparr>,
      \<lambda>v ps. ps\<lparr>ps_status := v\<rparr>, \<lambda>v ps. ps\<lparr>ps_next_error_retry := v\<rparr>,
      \<lambda>v ps. ps\<lparr>ps_next_engaged_retry := v\<rparr>, \<lambda>v ps. ps\<lparr>ps_countdown := v\<rparr>,
      \<lambda>v ps. ps\<lparr>ps_printer_state_change_time := v\<rparr>, \<lambda>v ps. ps\<lparr>ps_protected := (v \<noteq> 0)\<rparr>,
      \<lambda>v ps. ps\<lparr>ps_job_count := v\<rparr>]"

definition group_state_setters :: "(int \<Rightarrow> GROUP_SPOOL_STATE \<Rightarrow> GROUP_SPOOL_STATE) list" where
  "group_state_setters =
     [\<lambda>v gs. gs\<lparr>gs_accepting := (v \<noteq> 0)\<rparr>, \<lambda>v gs. gs\<lparr>gs_held := (v \<noteq> 0)\<rparr>,
      \<lambda>v gs. gs\<lparr>gs_printer_state_change_time := v\<rparr>, \<lambda>v gs. gs\<lparr>gs_protected := (v \<noteq> 0)\<rparr>,
      \<lambda>v gs. gs\<lparr>gs_job_count := v\<rparr>]"

definition default_printer_state :: PRINTER_SPOOL_STATE where
  "default_printer_state =
     \<lparr>ps_accepting = True, ps_previous_status = PRNSTATUS_IDLE, ps_status = PRNSTATUS_IDLE,
      ps_next_error_retry = 0, ps_next_engaged_retry = 0, ps_countdown = 0,
      ps_printer_state_change_time = 0, ps_protected = False, ps_job_count = 0\<rparr>"

definition default_group_state :: GROUP_SPOOL_STATE where
  "default_group_state =
     \<lparr>gs_accepting = True, gs_held = False, gs_printer_state_change_time = 0,
      gs_protected = False, gs_job_count = 0\<rparr>"

text \<open>
  A missing file leaves the defaults and returns 0; a file of 128 bytes or more, or one with too few
  numbers, returns -1.
\<close>

definition printer_spool_state_load ::
  "string \<Rightarrow> daemon \<Rightarrow> (int \<times> PRINTER_SPOOL_STATE) res" where
  "printer_spool_state_load prnname d =
     bindE (path_of ''%s/%s/spool_state''
              [FStr (PRINTERS_PERSISTENT_STATEDIR (dirs d)), FStr prnname] d) (\<lambda>fn.
       case fs d fn of
         None \<Rightarrow> Inr (0, default_printer_state)
       | Some c \<Rightarrow>
           if length c \<ge> 128 then Inr (-1, default_printer_state)
           else bindE (lift_gu d (gu_sscanf c ''%d %d %d %d %d %d %d %d %d'' [])) (\<lambda>(n, vs).
                  Inr (if n \<noteq> 9 then -1 else 0,
                       assign_fields printer_state_setters vs default_printer_state)))"

definition group_spool_state_load :: "string \<Rightarrow> daemon \<Rightarrow> (int \<times> GROUP_SPOOL_STATE) res" where
  "group_spool_state_load grpname d =
     bindE (path_of ''%s/%s/spool_state''
              [FStr (GROUPS_PERSISTENT_STATEDIR (dirs d)), FStr grpname] d) (\<lambda>fn.
       case fs d fn of
         None \<Rightarrow> Inr (0, default_group_state)
       | Some c \<Rightarrow>
           if length c \<ge> 128 then Inr (-1, default_group_state)
           else bindE (lift_gu d (gu_sscanf c ''%d %d %d %d %d'' [])) (\<lambda>(n, vs).
                  Inr (if n \<noteq> 5 then -1 else 0,
                       assign_fields group_state_setters vs default_group_state)))"

text \<open>The format of \<open>n\<close> decimal numbers.\<close>

fun d_format :: "nat \<Rightarrow> string" where
  "d_format 0 = []"
| "d_format (Suc 0) = ''%d''"
| "d_format (Suc (Suc n)) = ''%d '' @ d_format (Suc n)"

section \<open>Lemmas\<close>

lemma join_d_not_Nil [simp]: "vs \<noteq> [] \<Longrightarrow> join_d vs \<noteq> []"
  by (cases vs rule: join_d.cases) auto

lemma skip_to_join_d [scan_simps]:
  "vs \<noteq> [] \<Longrightarrow> dropWhile gu_ascii_isspace (join_d vs @ rest) = join_d vs @ rest"
  by (cases vs rule: join_d.cases) (auto simp: scan_simps)

lemma scan_join_d:
  assumes "\<forall>v \<in> set vs. \<bar>v\<bar> < 2 ^ 31" "ends_number gu_ascii_isdigit rest"
    "length (d_format (length vs)) \<le> fuel"
  shows "sscanf_loop fuel input (d_format (length vs)) (join_d vs @ rest) ws k acc
    = Inr (k + int (length vs), acc @ map SInt vs)"
  using assms
proof (induction vs arbitrary: fuel k acc rule: join_d.induct)
  case 1
  then show ?case by (cases fuel) auto
next
  case (2 i)
  then obtain n where "fuel = Suc (Suc n)" by (cases fuel; cases "fuel - 1") auto
  with 2 show ?case by (cases n) (auto simp: scan_simps store_def)
next
  case (3 i j js)
  then obtain m where m: "fuel = Suc (Suc m)" "length (d_format (length (j # js))) \<le> m"
    by (cases fuel; cases "fuel - 1") auto
  from 3 m(2) have "sscanf_loop m input (d_format (length (j # js))) (join_d (j # js) @ rest) ws
      (k + 1) (acc @ [SInt i]) = Inr (k + 1 + int (length (j # js)), (acc @ [SInt i]) @ map SInt (j # js))"
    by (intro "3.IH") auto
  with 3 m show ?case by (simp add: scan_simps store_def)
qed


lemma length_join_d:
  "\<forall>v \<in> set vs. \<bar>v\<bar> < 2 ^ 31 \<Longrightarrow> length (join_d vs) \<le> 12 * length vs"
proof (induction vs rule: join_d.induct)
  case (2 i)
  then show ?case using length_print_d [of i] by simp
next
  case (3 i j js)
  then show ?case using length_print_d [of i] by simp
qed simp

lemma b2i_not_0 [simp]: "b2i b \<noteq> 0 \<longleftrightarrow> b" and b2i_bound [simp]: "\<bar>b2i b\<bar> < 2 ^ 31"
  by (simp_all add: b2i_def)

lemma assign_printer_values:
  "assign_fields printer_state_setters (map SInt (printer_state_values ps)) s = ps"
  by (simp add: printer_state_setters_def printer_state_values_def b2i_not_0 [simplified])

lemma assign_group_values:
  "assign_fields group_state_setters (map SInt (group_state_values gs)) s = gs"
  by (simp add: group_state_setters_def group_state_values_def)

lemma scan_saved:
  assumes "\<forall>v \<in> set vs. \<bar>v\<bar> < 2 ^ 31"
  shows "gu_sscanf (join_d vs @ [CHR 0x0A]) (d_format (length vs)) [] = Inr (int (length vs), map SInt vs)"
  using scan_join_d [OF assms, of "[CHR 0x0A]" "length (d_format (length vs))"]
  by (simp add: gu_sscanf_def scan_simps)

text \<open>
  What a saved structure must satisfy for its file to be read back: its numbers are those the setters
  store, there are \<open>n\<close> of them, and the text stays below the 128 bytes of the reader's buffer.
\<close>

locale saved_state =
  fixes state_values :: "'s \<Rightarrow> int list"
    and setters :: "(int \<Rightarrow> 's \<Rightarrow> 's) list"
    and n :: nat
  assumes values_length: "length (state_values s) = n"
    and values_few: "n \<le> 10"
    and assign_values: "assign_fields setters (map SInt (state_values s)) s0 = s"
begin

definition text_of :: "'s \<Rightarrow> string" where
  "text_of s = join_d (state_values s) @ [CHR 0x0A]"

lemma text_fits:
  "\<forall>v \<in> set (state_values s). \<bar>v\<bar> < 2 ^ 31 \<Longrightarrow> \<not> 128 \<le> length (text_of s)"
  using length_join_d [of "state_values s"] values_length values_few by (simp add: text_of_def)

lemma text_scanned:
  "\<forall>v \<in> set (state_values s). \<bar>v\<bar> < 2 ^ 31 \<Longrightarrow>
   gu_sscanf (text_of s) (d_format n) [] = Inr (int n, map SInt (state_values s))"
  using scan_saved [of "state_values s"] by (simp add: text_of_def values_length)

end

interpretation printer_file: saved_state printer_state_values printer_state_setters 9
  by unfold_locales (simp_all add: printer_state_values_def printer_state_setters_def)

interpretation group_file: saved_state group_state_values group_state_setters 5
  by unfold_locales (simp_all add: group_state_values_def group_state_setters_def)

lemma format9: "''%d %d %d %d %d %d %d %d %d'' = d_format 9"
  by (simp add: eval_nat_numeral)

lemma format5: "''%d %d %d %d %d'' = d_format 5"
  by (simp add: eval_nat_numeral)

lemma printer_saved_text:
  assumes "printer_spool_state_save s name d = Inr d'"
  shows "\<exists>fn. path_of ''%s/%s/spool_state'' [FStr (PRINTERS_PERSISTENT_STATEDIR (dirs d')), FStr name] d' = Inr fn
    \<and> d' = write_file fn (printer_file.text_of s) d \<and> fs d' fn = Some (printer_file.text_of s)"
  using assms
  by (auto simp: printer_spool_state_save_def printer_file.text_of_def path_of_iff write_file_def bindE_eq_Inr)

lemma printer_load_saved:
  assumes "printer_spool_state_save s name d = Inr d'"
    and "\<forall>v \<in> set (printer_state_values s). \<bar>v\<bar> < 2 ^ 31"
  shows "printer_spool_state_load name d' = Inr (0, s)"
  using printer_saved_text [OF assms(1)]
  by (auto simp: printer_spool_state_load_def format9 lift_gu_def printer_file.assign_values
        printer_file.text_fits [OF assms(2)] printer_file.text_scanned [OF assms(2)])

lemma group_saved_text:
  assumes "group_spool_state_save s name d = Inr d'"
  shows "\<exists>fn. path_of ''%s/%s/spool_state'' [FStr (GROUPS_PERSISTENT_STATEDIR (dirs d')), FStr name] d' = Inr fn
    \<and> d' = write_file fn (group_file.text_of s) d \<and> fs d' fn = Some (group_file.text_of s)"
  using assms
  by (auto simp: group_spool_state_save_def group_file.text_of_def path_of_iff write_file_def bindE_eq_Inr)

lemma group_load_saved:
  assumes "group_spool_state_save s name d = Inr d'"
    and "\<forall>v \<in> set (group_state_values s). \<bar>v\<bar> < 2 ^ 31"
  shows "group_spool_state_load name d' = Inr (0, s)"
  using group_saved_text [OF assms(1)]
  by (auto simp: group_spool_state_load_def format5 lift_gu_def group_file.assign_values
        group_file.text_fits [OF assms(2)] group_file.text_scanned [OF assms(2)])

lemma printer_load_cong:
  assumes "printer_spool_state_load name d = Inr r" "fs d' = fs d" "dirs d' = dirs d"
  shows "printer_spool_state_load name d' = Inr r"
proof -
  obtain fn where fn: "path_of ''%s/%s/spool_state'' [FStr (PRINTERS_PERSISTENT_STATEDIR (dirs d)), FStr name] d = Inr fn"
    using assms(1) by (auto simp: printer_spool_state_load_def)
  then have "path_of ''%s/%s/spool_state'' [FStr (PRINTERS_PERSISTENT_STATEDIR (dirs d)), FStr name] d' = Inr fn"
    by (simp add: path_of_iff)
  with fn assms show ?thesis
    by (auto simp: printer_spool_state_load_def lift_gu_def split: option.splits if_splits sum.splits gu_err.splits)
qed

section \<open>Properties\<close>

text \<open>
  The state file of a printer is read back as it was written, whatever the state, as long as its
  numbers fit an \<^verbatim>\<open>int\<close>.
\<close>

theorem printer_state_roundtrip:
  assumes "printer_spool_state_save s name d = Inr d'" "\<forall>v \<in> set (printer_state_values s). \<bar>v\<bar> < 2 ^ 31"
  shows "printer_spool_state_load name d' = Inr (0, s)"
  by (rule printer_load_saved [OF assms])

theorem printer_state_roundtrip_witness:
  "\<exists>d'. printer_spool_state_save (p_spool_state (example_printer ''laser'')) ''laser'' example_daemon = Inr d'
     \<and> printer_spool_state_load ''laser'' d' = Inr (0, p_spool_state (example_printer ''laser''))"
proof -
  have "returns (printer_spool_state_save (p_spool_state (example_printer ''laser'')) ''laser'' example_daemon) (\<lambda>_. True)"
    by code_simp
  then obtain d' where d': "printer_spool_state_save (p_spool_state (example_printer ''laser'')) ''laser'' example_daemon = Inr d'"
    by (elim returnsE)
  then show ?thesis
    using printer_state_roundtrip [OF d'] by (simp add: printer_state_values_def example_printer_def b2i_def)
qed

text \<open>
  The same for the state file of a group.
\<close>

theorem group_state_roundtrip:
  assumes "group_spool_state_save s name d = Inr d'" "\<forall>v \<in> set (group_state_values s). \<bar>v\<bar> < 2 ^ 31"
  shows "group_spool_state_load name d' = Inr (0, s)"
  by (rule group_load_saved [OF assms])

theorem group_state_roundtrip_witness:
  "\<exists>d'. group_spool_state_save (g_spool_state zero_group) ''pool'' example_daemon = Inr d'
     \<and> group_spool_state_load ''pool'' d' = Inr (0, g_spool_state zero_group)"
proof -
  have "returns (group_spool_state_save (g_spool_state zero_group) ''pool'' example_daemon) (\<lambda>_. True)"
    by code_simp
  then obtain d' where d': "group_spool_state_save (g_spool_state zero_group) ''pool'' example_daemon = Inr d'"
    by (elim returnsE)
  then show ?thesis
    using group_state_roundtrip [OF d'] by (simp add: group_state_values_def zero_group_def b2i_def)
qed

end
