(* ===== verification/Queue.thy ===== *)
theory Queue
  imports Spool_State
begin

text \<open>
  The print queue array (\<^verbatim>\<open>pprd/pprd_queue.c\<close>): removing a job, writing its status back to the queue
  file, and changing its status. A job pointer is the job's index in \<^verbatim>\<open>queue[]\<close>; the functions that also
  run on an entry that is not in the queue yet take and return the entry itself.
\<close>

section \<open>Definitions\<close>

definition delete_job_file :: "string \<Rightarrow> int \<Rightarrow> int \<Rightarrow> string \<Rightarrow> daemon \<Rightarrow> daemon res" where
  "delete_job_file queuename jid subid suffix d =
     bindE (path_of (''%s/%s-%d.%d'' @ suffix)
              [FStr (DATADIR (dirs d)), FStr queuename, FInt jid, FInt subid] d) (\<lambda>fn.
       Inr (unlink fn d))"

definition delete_job_files :: "string \<Rightarrow> int \<Rightarrow> int \<Rightarrow> daemon \<Rightarrow> daemon res" where
  "delete_job_files queuename jid subid d =
     bindE (path_of ''%s/%s-%d.%d''
              [FStr (QUEUEDIR (dirs d)), FStr queuename, FInt jid, FInt subid] d) (\<lambda>fn.
       foldE (delete_job_file queuename jid subid)
         [''-comments'', ''-pages'', ''-text'', ''-log'', ''-infile'', ''-barbar'', ''-cmdline'']
         (unlink fn d))"

definition add_printer_jobs :: "int \<Rightarrow> Printer \<Rightarrow> Printer" where
  "add_printer_jobs increment p =
     p\<lparr>p_spool_state := (p_spool_state p)\<lparr>ps_job_count := ps_job_count (p_spool_state p) + increment\<rparr>\<rparr>"

definition add_group_jobs :: "int \<Rightarrow> Group \<Rightarrow> Group" where
  "add_group_jobs increment g =
     g\<lparr>g_spool_state := (g_spool_state g)\<lparr>gs_job_count := gs_job_count (g_spool_state g) + increment\<rparr>\<rparr>"

definition job_count_adjust :: "int \<Rightarrow> int \<Rightarrow> bool \<Rightarrow> daemon \<Rightarrow> daemon res" where
  "job_count_adjust destid increment flush d =
     (if destid_is_group destid d then
        bindE (destid_to_gindex destid) (\<lambda>gindex.
        bindE (upd_group gindex (add_group_jobs increment) d) (\<lambda>d.
          if flush then
            bindE (get_group gindex d) (\<lambda>g. group_spool_state_save (g_spool_state g) (g_name g) d)
          else Inr d))
      else
        bindE (upd_printer destid (add_printer_jobs increment) d) (\<lambda>d.
          if flush then
            bindE (get_printer destid d) (\<lambda>p. printer_spool_state_save (p_spool_state p) (p_name p) d)
          else Inr d))"

text \<open>The test by which the array is searched for a job.\<close>

definition is_job :: "int \<Rightarrow> int \<Rightarrow> int \<Rightarrow> QEntry \<Rightarrow> bool" where
  "is_job destid jid subid q \<longleftrightarrow> q_destid q = destid \<and> q_id q = jid \<and> q_subid q = subid"

text \<open>The \<^verbatim>\<open>memmove()\<close> that closes the gap left by entry \<open>x\<close>.\<close>

definition remove_nth :: "nat \<Rightarrow> 'a list \<Rightarrow> 'a list" where
  "remove_nth x xs = take x xs @ drop (Suc x) xs"

definition queue_dequeue_job :: "int \<Rightarrow> int \<Rightarrow> int \<Rightarrow> daemon \<Rightarrow> daemon res" where
  "queue_dequeue_job destid jid subid d =
     bindE (destid_to_name destid d) (\<lambda>destname.
     with_jobid destname jid subid (\<lambda>full_job_id d.
     bindE (state_update (''DEL '' @ full_job_id) d) (\<lambda>d.
     let d = lock d; x = find_index (is_job destid jid subid) (queue d) in
     bindE
       (if x < length (queue d) then
          bindE (delete_job_files destname jid subid d) (\<lambda>d.
            job_count_adjust destid (-1) True (d\<lparr>queue := remove_nth x (queue d)\<rparr>))
        else Inr d) (\<lambda>d.
     Inr (unlock d)))) d)"

definition pprd_line :: "QEntry \<Rightarrow> string" where
  "pprd_line job =
     ''PPRD: '' @ print_X 2 (q_priority job) @ '' '' @ print_X 8 (uint (q_sequence_number job)) @ '' '' @
     print_X 2 (if q_status job \<ge> 0 then 0 else q_status job * -1) @ '' '' @
     print_X 4 (uint (q_flags job)) @ replicate 38 CHR '' '' @ [CHR 0x0A]"

definition queue_write_status_and_flags :: "QEntry \<Rightarrow> daemon \<Rightarrow> daemon res" where
  "queue_write_status_and_flags job d =
     bindE (destid_to_name (q_destid job) d) (\<lambda>name.
     bindE (path_of ''%s/%s-%d.%d''
              [FStr (QUEUEDIR (dirs d)), FStr name, FInt (q_id job), FInt (q_subid job)] d) (\<lambda>fn.
       case fs d fn of
         None \<Rightarrow> Inr (error (''queue_write_status_and_flags(): can't open '' @ fn) d)
       | Some contents \<Rightarrow>
           let buf = pprd_line job in
           if length buf \<noteq> 64 then Inl (Throw ''Length of PPRD line is not 64 bytes!'' d)
           else Inr (write_file fn (buf @ drop 64 contents) d)))"

definition status_string :: "int \<Rightarrow> string option" where
  "status_string status =
     (if status = STATUS_WAITING then Some ''waiting for printer''
      else if status = STATUS_HELD then Some ''held''
      else if status = STATUS_SEIZING then Some ''being seized''
      else if status = STATUS_WAITING4MEDIA then Some ''waiting for media''
      else if status = STATUS_ARRESTED then Some ''arrested''
      else if status = STATUS_STRANDED then Some ''stranded''
      else if status = STATUS_CANCEL then Some ''being canceled''
      else if status = STATUS_RECEIVING then Some ''receiving job''
      else None)"

definition queue_p_job_new_status :: "QEntry \<Rightarrow> int \<Rightarrow> daemon \<Rightarrow> (QEntry \<times> daemon) res" where
  "queue_p_job_new_status job newstat d =
     (let job = job\<lparr>q_status := newstat\<rparr> in
      bindE (queue_write_status_and_flags job d) (\<lambda>d.
      bindE (destid_to_name (q_destid job) d) (\<lambda>name.
        case status_string (q_status job) of
          Some s \<Rightarrow>
            with_jobid name (q_id job) (q_subid job) (\<lambda>j d.
            bindE (state_update (''JST '' @ j @ '' '' @ s) d) (\<lambda>d. Inr (job, d))) d
        | None \<Rightarrow>
            if q_status job < 0
            then Inl (Fatal ''queue_p_job_new_status(): assertion failed'')
            else with_jobid name (q_id job) (q_subid job) (\<lambda>j d.
                 bindE (destid_to_name (q_status job) d) (\<lambda>printer.
                 bindE (state_update (''JST '' @ j @ '' printing on '' @ printer) d) (\<lambda>d.
                   Inr (job, d)))) d)))"

text \<open>The same on the entry with index \<open>x\<close>.\<close>

definition job_new_status_at :: "nat \<Rightarrow> int \<Rightarrow> daemon \<Rightarrow> daemon res" where
  "job_new_status_at x newstat d =
     bindE (get_job x d) (\<lambda>job.
     bindE (queue_p_job_new_status job newstat d) (\<lambda>(job, d).
       set_job x job d))"

definition queue_job_new_status ::
  "int \<Rightarrow> int \<Rightarrow> int \<Rightarrow> int \<Rightarrow> daemon \<Rightarrow> (nat \<times> daemon) res" where
  "queue_job_new_status destid jid subid newstat d =
     (let d = lock d; x = find_index (is_job destid jid subid) (queue d) in
      if x = length (queue d) then Inl (Fatal ''queue_job_new_status(): not found in queue'')
      else bindE (job_new_status_at x newstat d) (\<lambda>d. Inr (x, unlock d)))"

text \<open>The number of jobs queued for a destination, and the claim that the counters in the spool states have it.\<close>

definition jobs_for :: "int \<Rightarrow> QEntry list \<Rightarrow> int" where
  "jobs_for destid qs = int (length (filter (\<lambda>q. q_destid q = destid) qs))"

definition counts_ok :: "daemon \<Rightarrow> bool" where
  "counts_ok d \<longleftrightarrow>
     int (length (printers d)) \<le> MAX_PRINTERS
     \<and> (\<forall>i < length (printers d). ps_job_count (p_spool_state (printers d ! i)) = jobs_for (int i) (queue d))
     \<and> (\<forall>g < length (groups d). gs_job_count (g_spool_state (groups d ! g)) = jobs_for (int g + MAX_PRINTERS) (queue d))"

text \<open>The paths of the queue file and the data files of a job.\<close>

definition job_paths :: "string \<Rightarrow> int \<Rightarrow> int \<Rightarrow> daemon \<Rightarrow> string set" where
  "job_paths name jid subid d =
     {fn. path_of ''%s/%s-%d.%d'' [FStr (QUEUEDIR (dirs d)), FStr name, FInt jid, FInt subid] d = Inr fn}
     \<union> {fn. \<exists>suffix \<in> {''-comments'', ''-pages'', ''-text'', ''-log'', ''-infile'', ''-barbar'', ''-cmdline''}.
          path_of (''%s/%s-%d.%d'' @ suffix) [FStr (DATADIR (dirs d)), FStr name, FInt jid, FInt subid] d = Inr fn}"

section \<open>Lemmas\<close>

lemma job_count_adjust_queue:
  "job_count_adjust i n b d = Inr d' \<Longrightarrow> queue d' = queue d"
  by (auto simp: job_count_adjust_def upd_printer_def upd_group_def printer_spool_state_save_def
      group_spool_state_save_def split: if_splits)

lemma state_update_queue: "state_update l d = Inr d' \<Longrightarrow> queue d' = queue d"
  by (auto simp: state_update_def split: if_splits)

subsection \<open>Job counts\<close>

lemma filter_split: "filter P xs = filter P (take x xs) @ filter P (drop x xs)"
  by (metis append_take_drop_id filter_append)

lemma jobs_for_remove:
  assumes "x < length qs"
  shows "jobs_for i (remove_nth x qs) = jobs_for i qs - of_bool (q_destid (qs ! x) = i)"
proof -
  have "drop x qs = qs ! x # drop (Suc x) qs" using Cons_nth_drop_Suc [OF assms] by simp
  then show ?thesis
    using filter_split [of "\<lambda>q. q_destid q = i" qs x] by (simp add: jobs_for_def remove_nth_def)
qed

text \<open>What \<open>job_count_adjust\<close> does to the counters.\<close>

lemma job_count_adjust_counts:
  assumes "job_count_adjust destid n b d = Inr d'" "int (length (printers d)) \<le> MAX_PRINTERS"
  shows "length (printers d') = length (printers d)" "length (groups d') = length (groups d)"
    "i < length (printers d) \<Longrightarrow> ps_job_count (p_spool_state (printers d' ! i))
       = ps_job_count (p_spool_state (printers d ! i)) + n * of_bool (destid = int i)"
    "g < length (groups d) \<Longrightarrow> gs_job_count (g_spool_state (groups d' ! g))
       = gs_job_count (g_spool_state (groups d ! g)) + n * of_bool (destid = int g + MAX_PRINTERS)"
  using assms
  by (auto simp: job_count_adjust_def upd_printer_def upd_group_def printer_spool_state_save_def
      group_spool_state_save_def destid_to_gindex_def Let_def nth_list_update add_printer_jobs_def
      add_group_jobs_def destid_is_group_def split: if_splits)

lemma delete_job_file_core: "core d = c \<Longrightarrow> onR (delete_job_file n i j s d) (\<lambda>d'. core d' = c)"
  by (simp add: delete_job_file_def onR_I)

lemma delete_job_files_core:
  assumes "delete_job_files n i j d = Inr d'"
  shows "core d' = core d"
proof -
  obtain fn where fn: "foldE (delete_job_file n i j)
      [''-comments'', ''-pages'', ''-text'', ''-log'', ''-infile'', ''-barbar'', ''-cmdline''] (unlink fn d) = Inr d'"
    using assms by (auto simp: delete_job_files_def simp del: foldE.simps)
  have "onR (foldE (delete_job_file n i j) xs (unlink fn d)) (\<lambda>d'. core d' = core d)" for xs
    by (rule foldE_invariant) (simp_all add: delete_job_file_core)
  from onR_D [OF this fn] show ?thesis .
qed

lemma queue_dequeue_job_effect:
  assumes "queue_dequeue_job destid jid subid d = Inr d'" "x = find_index (is_job destid jid subid) (queue d)"
  shows "if x < length (queue d)
    then \<exists>e e'. core e = core d \<and> core d' = core e'
       \<and> job_count_adjust destid (-1) True (e\<lparr>queue := remove_nth x (queue e)\<rparr>) = Inr e'
    else core d' = core d"
  using assms
  by (auto simp: queue_dequeue_job_def with_jobid_def state_update_def Let_def split: if_splits
      dest!: delete_job_files_core) blast

lemma queue_dequeue_job_queue:
  assumes "queue_dequeue_job destid jid subid d = Inr d'" "x = find_index (is_job destid jid subid) (queue d)"
  shows "queue d' = (if x < length (queue d) then remove_nth x (queue d) else queue d)"
proof (cases "x < length (queue d)")
  case True
  then obtain e e' where e: "core e = core d" "core d' = core e'"
    "job_count_adjust destid (-1) True (e\<lparr>queue := remove_nth x (queue e)\<rparr>) = Inr e'"
    using queue_dequeue_job_effect [OF assms] by auto
  show ?thesis
    using True job_count_adjust_queue [OF e(3)] core_fields(1) [OF e(1)] core_fields(1) [OF e(2)] by simp
next
  case False
  then show ?thesis using queue_dequeue_job_effect [OF assms] core_fields(1) [of d' d] by simp
qed

lemma counts_core: "core d' = core d \<Longrightarrow> counts_ok d' \<longleftrightarrow> counts_ok d"
  using core_fields(1,3,4) [of d' d] by (simp add: counts_ok_def)

lemma counts_adjust:
  assumes "job_count_adjust destid n b (e\<lparr>queue := qs\<rparr>) = Inr e'" "core e = core d" "counts_ok d"
    "\<And>i. jobs_for i qs = jobs_for i (queue d) + n * of_bool (destid = i)"
  shows "counts_ok e'"
proof -
  have e: "printers e = printers d" "groups e = groups d" using core_fields(3,4) [OF assms(2)] .
  have l: "int (length (printers (e\<lparr>queue := qs\<rparr>))) \<le> MAX_PRINTERS" using assms(3) e by (simp add: counts_ok_def)
  show ?thesis
    using job_count_adjust_counts [OF assms(1) l] job_count_adjust_queue [OF assms(1)] assms(3,4) e
    by (simp add: counts_ok_def)
qed

lemma dequeue_counts:
  assumes "queue_dequeue_job destid jid subid d = Inr d'" "counts_ok d"
  shows "counts_ok d'"
proof -
  let ?x = "find_index (is_job destid jid subid) (queue d)"
  show ?thesis
  proof (cases "?x < length (queue d)")
    case True
    then obtain e e' where e: "core e = core d" "core d' = core e'"
      "job_count_adjust destid (-1) True (e\<lparr>queue := remove_nth ?x (queue e)\<rparr>) = Inr e'"
      using queue_dequeue_job_effect [OF assms(1) refl] by auto
    have "q_destid (queue d ! ?x) = destid" using find_index_nth [OF True] by (simp add: is_job_def)
    then have "counts_ok e'"
      using counts_adjust [OF e(3,1) assms(2)] core_fields(1) [OF e(1)] jobs_for_remove [OF True] by simp
    then show ?thesis using e(2) by (simp add: counts_core [OF e(2)])
  next
    case False
    then show ?thesis using queue_dequeue_job_effect [OF assms(1) refl] assms(2) by (simp add: counts_core [of d' d])
  qed
qed

subsection \<open>Files\<close>

lemma length_pprd_line:
  assumes "0 \<le> q_priority job" "q_priority job < 256" "-256 < q_status job"
  shows "length (pprd_line job) = 64"
proof -
  have p: "length (print_X 2 (q_priority job)) = 2" using assms by (intro length_print_X) auto
  have n: "length (print_X 8 (uint (q_sequence_number job))) = 8"
    using uint_bounded [of "q_sequence_number job"] unsigned_less [where 'a = nat, of "q_sequence_number job"] by (intro length_print_X) auto
  have s: "length (print_X 2 (if q_status job \<ge> 0 then 0 else q_status job * -1)) = 2"
    using assms by (intro length_print_X) auto
  have f: "length (print_X 4 (uint (q_flags job))) = 4"
    using uint_bounded [of "q_flags job"] unsigned_less [where 'a = nat, of "q_flags job"] by (intro length_print_X) auto
  show ?thesis unfolding pprd_line_def length_append p n s f by simp
qed

lemma unlink_quiet: "dirs (unlink f d) = dirs d" "path_of p a (unlink f d) = Inr x \<longleftrightarrow> path_of p a d = Inr x"
  by (simp_all add: unlink_def path_of_iff)

lemma delete_loop_files:
  assumes "foldE (delete_job_file name jid subid) xs d = Inr d'"
  shows "fs d' fn = (if \<exists>s \<in> set xs. path_of (''%s/%s-%d.%d'' @ s)
           [FStr (DATADIR (dirs d)), FStr name, FInt jid, FInt subid] d = Inr fn then None else fs d fn)"
  using assms
proof (induction xs arbitrary: d)
  case (Cons s xs)
  from Cons.prems obtain f where f: "path_of (''%s/%s-%d.%d'' @ s) [FStr (DATADIR (dirs d)), FStr name, FInt jid, FInt subid] d = Inr f"
    "foldE (delete_job_file name jid subid) xs (unlink f d) = Inr d'"
    by (auto simp: delete_job_file_def [of _ _ _ s])
  from Cons.IH [OF f(2)] f(1) show ?case by (simp add: unlink_quiet) (auto simp: unlink_def)
qed simp

lemma delete_job_files_files:
  assumes "delete_job_files name jid subid d = Inr d'"
  shows "fs d' fn = (if fn \<in> job_paths name jid subid d then None else fs d fn)"
proof -
  let ?xs = "[''-comments'', ''-pages'', ''-text'', ''-log'', ''-infile'', ''-barbar'', ''-cmdline'']"
  obtain f where f: "path_of ''%s/%s-%d.%d'' [FStr (QUEUEDIR (dirs d)), FStr name, FInt jid, FInt subid] d = Inr f"
    "foldE (delete_job_file name jid subid) ?xs (unlink f d) = Inr d'"
    using assms by (auto simp: delete_job_files_def simp del: foldE.simps)
  have "fs d' fn = (if \<exists>s \<in> set ?xs. path_of (''%s/%s-%d.%d'' @ s)
      [FStr (DATADIR (dirs d)), FStr name, FInt jid, FInt subid] d = Inr fn then None else fs (unlink f d) fn)"
    using delete_loop_files [OF f(2), of fn] by (simp only: unlink_quiet)
  moreover have "(\<exists>s \<in> set ?xs. path_of (''%s/%s-%d.%d'' @ s)
      [FStr (DATADIR (dirs d)), FStr name, FInt jid, FInt subid] d = Inr fn) \<or> fn = f \<longleftrightarrow> fn \<in> job_paths name jid subid d"
    using f(1) by (auto simp: job_paths_def)
  ultimately show ?thesis by (auto simp: unlink_def)
qed

lemma spool_path_end:
  assumes "path_of ''%s/%s/spool_state'' [FStr dir, FStr name] d = Inr fn"
  shows "\<exists>p. fn = p @ ''/spool_state''"
  using assms by (auto simp: path_of_iff)

lemma job_path_not_spool:
  assumes "fn \<in> job_paths name i j d" "path_of ''%s/%s/spool_state'' [FStr dir, FStr prn] e = Inr sp"
  shows "fn \<noteq> sp"
proof -
  obtain p where p: "sp = p @ ''/spool_state''" using spool_path_end [OF assms(2)] by blast
  then have sp: "take 2 (rev sp) = ''et''" by simp
  have main: "take 2 (rev (a @ print_d j)) \<noteq> ''et''" for a
    using last_print_d [of j] by (cases "print_d j" rule: rev_cases) (auto simp: gu_ascii_isdigit_def)
  have "take 2 (rev fn) \<noteq> ''et''"
    using assms(1) main [of "QUEUEDIR (dirs d) @ ''/'' @ name @ ''-'' @ print_d i @ ''.''"]
    by (auto simp: job_paths_def path_of_iff)
  with sp show ?thesis by blast
qed

lemma job_count_adjust_fs:
  assumes "job_count_adjust destid n b d = Inr d'" "fn \<in> job_paths name i j e"
  shows "fs d' fn = fs d fn"
  using assms job_path_not_spool [OF assms(2)]
  by (auto simp: job_count_adjust_def upd_printer_def upd_group_def printer_spool_state_save_def group_spool_state_save_def
      write_file_def split: if_splits)

section \<open>Properties\<close>

text \<open>
  C11. Removing a job takes exactly its entry out of the array, deletes its queue file and all its data
  files, and keeps the job counters of printers and groups equal to the number of queued jobs.
\<close>

theorem dequeue_exact:
  assumes "queue_dequeue_job destid jid subid d = Inr d'" "destid_to_name destid d = Inr name"
    and "find_index (is_job destid jid subid) (queue d) < length (queue d)"
  shows "queue d' = remove_nth (find_index (is_job destid jid subid) (queue d)) (queue d)
    \<and> (\<forall>fn \<in> job_paths name jid subid d. fs d' fn = None) \<and> (counts_ok d \<longrightarrow> counts_ok d')"
proof -
  obtain e1 e2 e3 where e: "dirs e1 = dirs d" "delete_job_files name jid subid e1 = Inr e2"
    "job_count_adjust destid (-1) True
       (e2\<lparr>queue := remove_nth (find_index (is_job destid jid subid) (queue d)) (queue e2)\<rparr>) = Inr e3"
    "d' = unlock e3"
    using assms
    by (simp add: queue_dequeue_job_def with_jobid_def state_update_def Let_def emit_def lock_def split: if_splits)
      (elim bindE_InrE, erule that [rotated], assumption, simp_all)
  have jp: "job_paths name jid subid e1 = job_paths name jid subid d"
    using e(1) by (simp add: job_paths_def path_of_iff)
  have "fs d' fn = None" if "fn \<in> job_paths name jid subid d" for fn
    using job_count_adjust_fs [OF e(3) that] delete_job_files_files [OF e(2), of fn] that jp e(4)
    by (simp add: unlock_def)
  then show ?thesis
    using queue_dequeue_job_queue [OF assms(1) refl] assms(3) dequeue_counts [OF assms(1)] by auto
qed

theorem dequeue_exact_witness:
  "\<exists>d'. queue_dequeue_job 0 7 0 example_busy = Inr d'
     \<and> queue d' = [example_job MAX_PRINTERS 8 40] \<and> fs d' ''/q/laser-7.0'' = None"
proof -
  have "returns (queue_dequeue_job 0 7 0 example_busy) (\<lambda>_. True)"
    "returns (destid_to_name 0 example_busy) (\<lambda>n. n = ''laser'')"
    "returns (path_of ''%s/%s-%d.%d'' [FStr ''/q'', FStr ''laser'', FInt 7, FInt 0] example_busy) (\<lambda>f. f = ''/q/laser-7.0'')"
    "QUEUEDIR (dirs example_busy) = ''/q''"
    by code_simp+
  then obtain d' where d': "queue_dequeue_job 0 7 0 example_busy = Inr d'" "destid_to_name 0 example_busy = Inr ''laser''"
    "''/q/laser-7.0'' \<in> job_paths ''laser'' 7 0 example_busy"
    by (auto simp: returns_iff job_paths_def)
  show ?thesis
    using dequeue_exact [OF d'(1,2)] d' by (simp add: is_job_def example_job_def remove_nth_def)
qed

end
