(* ===== verification/Printers.thy ===== *)
theory Printers
  imports Queue
begin

text \<open>
  Printer status and the matching of jobs to printers (\<^verbatim>\<open>pprd/pprd_printer.c\<close>), together with the part of
  \<^verbatim>\<open>pprd/pprd_pprdrv.c\<close> that launches the driver.

  \<open>printer_start\<close> and \<open>pprdrv_start\<close> return the C function's return value with the new state: 0 the
  job was started, -1 it was not and the search should stop, -2 the job does not suit this printer.
\<close>

section \<open>Definitions\<close>

subsection \<open>Printer status\<close>

definition upd_spool ::
  "int \<Rightarrow> (PRINTER_SPOOL_STATE \<Rightarrow> PRINTER_SPOOL_STATE) \<Rightarrow> daemon \<Rightarrow> daemon res" where
  "upd_spool prnid f = upd_printer prnid (\<lambda>p. p\<lparr>p_spool_state := f (p_spool_state p)\<rparr>)"

text \<open>
  The line for the queue display programs. The source passes \<^verbatim>\<open>printer\<close>, a pointer to the structure,
  for \<^verbatim>\<open>%s\<close>; what \<^verbatim>\<open>vsnprintf()\<close> then reads is \<open>struct_text\<close>, which the source does not determine.
\<close>

definition pst_job_line :: "int \<Rightarrow> string \<Rightarrow> Printer \<Rightarrow> string \<Rightarrow> daemon \<Rightarrow> daemon res" where
  "pst_job_line prnid verb p tail d =
     bindE (destid_to_name (p_job_destid p) d) (\<lambda>name.
     with_jobid name (p_job_id p) (p_job_subid p) (\<lambda>j d.
       state_update (''PST '' @ struct_text d prnid @ verb @ j @ tail) d) d)"

definition pst_update :: "int \<Rightarrow> Printer \<Rightarrow> daemon \<Rightarrow> daemon res" where
  "pst_update prnid p d =
     (let ps = p_spool_state p; s = ps_status ps; head = ''PST '' @ struct_text d prnid in
      if s = PRNSTATUS_PRINTING
      then pst_job_line prnid '' printing '' p ('' '' @ print_d (ps_next_error_retry ps)) d
      else if s = PRNSTATUS_IDLE then state_update (head @ '' idle'') d
      else if s = PRNSTATUS_CANCELING then pst_job_line prnid '' canceling '' p [] d
      else if s = PRNSTATUS_SEIZING then pst_job_line prnid '' seizing '' p [] d
      else if s = PRNSTATUS_FAULT
      then state_update (head @ '' fault '' @ print_d (ps_next_error_retry ps) @ '' '' @
                         print_d (ps_countdown ps)) d
      else if s = PRNSTATUS_ENGAGED
      then state_update (head @ '' engaged '' @ print_d (ps_next_engaged_retry ps) @ '' '' @
                         print_d (ps_countdown ps)) d
      else if s = PRNSTATUS_STARVED then state_update (head @ '' starved'') d
      else if s = PRNSTATUS_STOPT then state_update (head @ '' stopt'') d
      else if s = PRNSTATUS_STOPPING then pst_job_line prnid '' stopping (printing '' p '')'' d
      else if s = PRNSTATUS_HALTING then pst_job_line prnid '' halting (printing '' p '')'' d
      else Inr d)"

definition set_status :: "int \<Rightarrow> int \<Rightarrow> PRINTER_SPOOL_STATE \<Rightarrow> PRINTER_SPOOL_STATE" where
  "set_status newstatus now ps =
     ps\<lparr>ps_previous_status := ps_status ps, ps_status := newstatus,
        ps_printer_state_change_time := now\<rparr>"

definition printer_new_status :: "int \<Rightarrow> int \<Rightarrow> daemon \<Rightarrow> daemon res" where
  "printer_new_status prnid newstatus d =
     (let d = lock d in
      bindE (get_printer prnid d) (\<lambda>p.
        if ps_status (p_spool_state p) = PRNSTATUS_DELETED
        then Inr (unlock
                   (error ''printer_new_status(): attempt to change state of deleted printer'' d))
        else with_time (\<lambda>now d.
          bindE (upd_spool prnid (set_status newstatus now) d) (\<lambda>d.
          bindE (get_printer prnid d) (\<lambda>p.
          bindE (printer_spool_state_save (p_spool_state p) (p_name p) d) (\<lambda>d.
          bindE (if newstatus = PRNSTATUS_STOPT \<and> p_ppop_pid p \<noteq> 0
                 then upd_printer prnid (\<lambda>p. p\<lparr>p_ppop_pid := 0\<rparr>)
                        (emit (KillSIGUSR1 (p_ppop_pid p)) d)
                 else Inr d) (\<lambda>d.
          bindE (pst_update prnid p d) (\<lambda>d.
            Inr (unlock d))))))) d))"

subsection \<open>Launching the driver\<close>

text \<open>What the child process does: it becomes \<^verbatim>\<open>pprdrv\<close> for this printer and job.\<close>

definition exec_pprdrv :: "int \<Rightarrow> QEntry \<Rightarrow> daemon \<Rightarrow> daemon" where
  "exec_pprdrv prnid job d =
     (case (destid_to_name prnid d, destid_to_name (q_destid job) d) of
        (Inr printer, Inr dest) \<Rightarrow>
          emit (ExecPprdrv printer
                 (take 127 (dest @ ''-'' @ print_d (q_id job) @ ''.'' @ print_d (q_subid job)))
                 (take 9 (print_d (q_pass job)))) d
      | _ \<Rightarrow> d)"

definition printer_starve :: "int \<Rightarrow> daemon \<Rightarrow> (int \<times> daemon) res" where
  "printer_starve prnid d =
     bindE (printer_new_status prnid PRNSTATUS_STARVED d) (\<lambda>d.
       Inr (-1, d\<lparr>starving_printers := starving_printers d + 1\<rparr>))"

definition set_printer_job :: "int \<Rightarrow> QEntry \<Rightarrow> Printer \<Rightarrow> Printer" where
  "set_printer_job pid job p =
     p\<lparr>p_job_pid := pid, p_job_destid := q_destid job, p_job_id := q_id job,
       p_job_subid := q_subid job\<rparr>"

text \<open>The parent's bookkeeping after a successful \<^verbatim>\<open>fork()\<close>.\<close>

definition pprdrv_started :: "int \<Rightarrow> QEntry \<Rightarrow> int \<Rightarrow> daemon \<Rightarrow> (int \<times> daemon) res" where
  "pprdrv_started prnid job pid d =
     (let d = d\<lparr>active_printers := active_printers d + 1\<rparr> in
      bindE (upd_printer prnid (set_printer_job pid job) d) (\<lambda>d.
      bindE (printer_new_status prnid PRNSTATUS_PRINTING d) (\<lambda>d.
      bindE (queue_job_new_status (q_destid job) (q_id job) (q_subid job) prnid d) (\<lambda>(_, d).
      bindE (if destid_is_group (q_destid job) d then
               bindE (destid_to_gindex (q_destid job)) (\<lambda>gi.
               bindE (destid_get_member_offset (q_destid job) prnid d) (\<lambda>off.
                 upd_group gi (\<lambda>g. g\<lparr>g_last := off\<rparr>) d))
             else Inr d) (\<lambda>d.
        Inr (0, d))))))"

definition pprdrv_start :: "int \<Rightarrow> nat \<Rightarrow> daemon \<Rightarrow> (int \<times> daemon) res" where
  "pprdrv_start prnid x d =
     bindE (get_job x d) (\<lambda>job.
     bindE (get_printer prnid d) (\<lambda>p.
       if q_status job \<noteq> STATUS_WAITING
       then Inl (Fatal ''pprdrv_start(): job->status != STATUS_WAITING'')
       else if ps_status (p_spool_state p) \<noteq> PRNSTATUS_IDLE
       then Inl (Fatal ''pprdrv_start(): printer not idle'')
       else if lock_level d = 0 then Inl (Fatal ''pprdrv_start(): tables not locked'')
       else if active_printers d = MAX_ACTIVE then printer_starve prnid d
       else if ps_previous_status (p_spool_state p) \<noteq> PRNSTATUS_STARVED
               \<and> active_printers d + starving_printers d \<ge> MAX_ACTIVE
       then printer_starve prnid d
       else with_fork (\<lambda>pid d.
              if pid = -1
              then printer_starve prnid (error ''pprdrv_start(): Couldn't fork'' d)
              else pprdrv_started prnid job pid (exec_pprdrv prnid job d)) d))"

definition printer_start :: "int \<Rightarrow> nat \<Rightarrow> daemon \<Rightarrow> (int \<times> daemon) res" where
  "printer_start prnid x d =
     bindE (get_job x d) (\<lambda>job.
       if q_status job \<noteq> STATUS_WAITING
       then Inl (Fatal ''printer_start(): job->status != STATUS_WAITING'')
       else if lock_level d = 0 then Inl (Fatal ''printer_start(): tables not locked'')
       else
         bindE (get_printer prnid d) (\<lambda>p.
           if ps_status (p_spool_state p) \<noteq> PRNSTATUS_IDLE then Inr (-1, d)
           else
             bindE (if destid_is_group (q_destid job) d then
                      bindE (destid_to_gindex (q_destid job)) (\<lambda>gi.
                      bindE (get_group gi d) (\<lambda>g. Inr (gs_held (g_spool_state g))))
                    else Inr False) (\<lambda>held.
             if held then Inr (-2, d)
             else
               bindE (destid_printer_bit (q_destid job) prnid d) (\<lambda>bitmask.
                 if uint (q_notnow job) AND bitmask \<noteq> 0 then Inr (-2, d)
                 else if uint (q_never job) AND bitmask \<noteq> 0 then Inr (-2, d)
                 else
                   bindE (pprdrv_start prnid x d) (\<lambda>(retval, d).
                     if retval \<noteq> 0 \<and> retval \<noteq> -1
                     then Inl (Fatal ''printer_start(): assertion_failed'')
                     else Inr (retval, d))))))"

subsection \<open>Looking for work\<close>

text \<open>The condition of the loop: the job is ready, and the printer is its destination or a member of it.\<close>

definition job_for_printer :: "int \<Rightarrow> QEntry \<Rightarrow> daemon \<Rightarrow> bool res" where
  "job_for_printer prnid job d =
     (if q_status job \<noteq> STATUS_WAITING then Inr False
      else if q_destid job = prnid then Inr True
      else if \<not> destid_is_group (q_destid job) d then Inr False
      else bindE (destid_get_member_offset (q_destid job) prnid d) (\<lambda>off. Inr (off \<noteq> -1)))"

fun look_loop :: "int \<Rightarrow> nat list \<Rightarrow> daemon \<Rightarrow> daemon res" where
  "look_loop prnid [] d = Inr d"
| "look_loop prnid (x # xs) d =
     bindE (get_job x d) (\<lambda>job.
     bindE (job_for_printer prnid job d) (\<lambda>suitable.
       if suitable then
         bindE (printer_start prnid x d) (\<lambda>(r, d).
           if r \<noteq> -2 then Inr d else look_loop prnid xs d)
       else look_loop prnid xs d))"

definition printer_look_for_work :: "int \<Rightarrow> daemon \<Rightarrow> daemon res" where
  "printer_look_for_work prnid d =
     (let d = lock d in
      bindE (get_printer prnid d) (\<lambda>p.
        if ps_status (p_spool_state p) \<noteq> PRNSTATUS_IDLE
        then Inl (Fatal ''printer_look_for_work(): printer is not idle'')
        else bindE (look_loop prnid [0..<length (queue d)] d) (\<lambda>d. Inr (unlock d))))"

definition look_if_idle :: "int \<Rightarrow> daemon \<Rightarrow> daemon res" where
  "look_if_idle prnid d =
     bindE (get_printer prnid d) (\<lambda>p.
       if ps_status (p_spool_state p) = PRNSTATUS_IDLE then printer_look_for_work prnid d
       else Inr d)"

definition group_look_for_work :: "int \<Rightarrow> daemon \<Rightarrow> daemon res" where
  "group_look_for_work gindex d =
     bindE (get_group gindex d) (\<lambda>g. foldE look_if_idle (g_printers g) d)"

text \<open>
  The members are tried in order, beginning after the one used last when the group rotates; \<open>n\<close> counts
  the members still to be tried, \<open>y\<close> is the one tried before.
\<close>

fun try_members :: "nat \<Rightarrow> int list \<Rightarrow> int \<Rightarrow> nat \<Rightarrow> daemon \<Rightarrow> daemon res" where
  "try_members 0 members y x d = Inr d"
| "try_members (Suc n) members y x d =
     (let y = (y + 1) mod int (length members) in
      bindE (printer_start (members ! nat y) x d) (\<lambda>(r, d).
        if r = 0 then Inr d else try_members n members y x d))"

definition printer_try_start_suitable_4_this_job :: "nat \<Rightarrow> daemon \<Rightarrow> daemon res" where
  "printer_try_start_suitable_4_this_job x d =
     (let d = lock d in
      bindE (get_job x d) (\<lambda>job.
        if q_status job \<noteq> STATUS_WAITING
        then Inl (Fatal ''printer_try_start_suitable_4_this_job(): job->status != STATUS_WAITING'')
        else
          bindE (if destid_is_group (q_destid job) d then
                   bindE (destid_to_gindex (q_destid job)) (\<lambda>gi.
                   bindE (get_group gi d) (\<lambda>cl.
                     try_members (length (g_printers cl)) (g_printers cl)
                       (if g_rotate cl then g_last cl else -1) x d))
                 else bindE (printer_start (q_destid job) x d) (\<lambda>(_, d). Inr d)) (\<lambda>d.
          Inr (unlock d))))"

subsection \<open>The timer tick\<close>

definition tick_printer :: "nat \<Rightarrow> daemon \<Rightarrow> daemon res" where
  "tick_printer x d =
     bindE (get_printer (int x) d) (\<lambda>p.
       let ps = p_spool_state p in
       if (ps_status ps = PRNSTATUS_FAULT \<and> ps_next_error_retry ps \<noteq> 0)
          \<or> ps_status ps = PRNSTATUS_ENGAGED
       then
         bindE (upd_spool (int x) (\<lambda>ps. ps\<lparr>ps_countdown := ps_countdown ps - TICK_INTERVAL\<rparr>) d) (\<lambda>d.
           if ps_countdown ps - TICK_INTERVAL \<le> 0 then
             bindE (printer_new_status (int x) PRNSTATUS_IDLE d) (\<lambda>d.
               printer_look_for_work (int x) d)
           else Inr d)
       else Inr d)"

text \<open>The second loop feeds starving printers; \<open>n\<close> is \<^verbatim>\<open>printer_count - x\<close>, the rounds left.\<close>

fun hungry_loop :: "nat \<Rightarrow> daemon \<Rightarrow> daemon res" where
  "hungry_loop 0 d = Inr d"
| "hungry_loop (Suc n) d =
     (if starving_printers d = 0 \<or> \<not> active_printers d < MAX_ACTIVE then Inr d
      else
        let d = (if hungry_x d \<ge> int (length (printers d)) then d\<lparr>hungry_x := 0\<rparr> else d) in
        bindE (get_printer (hungry_x d) d) (\<lambda>p.
        bindE (if ps_status (p_spool_state p) = PRNSTATUS_STARVED then
                 bindE (printer_new_status (hungry_x d) PRNSTATUS_IDLE d) (\<lambda>d.
                   printer_look_for_work (hungry_x d)
                     (d\<lparr>starving_printers := starving_printers d - 1\<rparr>))
               else Inr d) (\<lambda>d.
          hungry_loop n (d\<lparr>hungry_x := hungry_x d + 1\<rparr>))))"

definition printer_tick :: "daemon \<Rightarrow> daemon res" where
  "printer_tick d =
     bindE (foldE tick_printer [0..<length (printers d)] d) (\<lambda>d.
       let d = d\<lparr>hungry_countdown := hungry_countdown d - TICK_INTERVAL\<rparr> in
       if hungry_countdown d \<le> 0
       then hungry_loop (length (printers d)) (d\<lparr>hungry_countdown := STARVING_RETRY_INTERVAL\<rparr>)
       else Inr d)"

end
