(* ===== verification/Respond.thy ===== *)
theory Respond
  imports Printers
begin

text \<open>
  Messages to people: the responder launched for the job's owner (\<^verbatim>\<open>pprd/pprd_respond.c\<close>), the mail to
  the operator when a printer fails or recovers (\<^verbatim>\<open>pprd/pprd_alert.c\<close>) and the reminder mail
  (\<^verbatim>\<open>pprd/pprd_remind.c\<close>). Creating a pipe and attaching a stream to it are taken to succeed; the
  result of \<^verbatim>\<open>fork()\<close> is the environment's.
\<close>

section \<open>Definitions\<close>

definition respond2 ::
  "string \<Rightarrow> int \<Rightarrow> int \<Rightarrow> int \<Rightarrow> string \<Rightarrow> int \<Rightarrow> daemon \<Rightarrow> daemon res" where
  "respond2 destname jid subid prnid prnname response_code d =
     bindE (path_of ''%s/%s''
              [FStr (QUEUEDIR (dirs d)),
               FStr (take 255 (destname @ ''-'' @ print_d jid @ ''.'' @ print_d subid))] d) (\<lambda>fn.
       case fs d fn of
         None \<Rightarrow> Inr d
       | Some _ \<Rightarrow>
           with_fork (\<lambda>pid d.
             Inr (if pid = -1 then error ''respond2(): can't fork()'' d
                  else emit (Respond destname jid subid prnid prnname response_code) d)) d)"

definition respond :: "int \<Rightarrow> int \<Rightarrow> int \<Rightarrow> int \<Rightarrow> int \<Rightarrow> daemon \<Rightarrow> daemon res" where
  "respond destid jid subid prnid response d =
     bindE (destid_to_name destid d) (\<lambda>destname.
     bindE (if prnid \<ge> 0 then destid_to_name prnid d else Inr []) (\<lambda>prnname.
       respond2 destname jid subid prnid prnname response d))"

text \<open>C's remainder: the sign is that of the dividend.\<close>

definition c_rem :: "int \<Rightarrow> int \<Rightarrow> int" where
  "c_rem a b = sgn a * (\<bar>a\<bar> mod \<bar>b\<bar>)"

text \<open>A method that was never set is a NULL pointer, which \<^verbatim>\<open>strcmp()\<close> must not be given.\<close>

definition with_method :: "ALERT \<Rightarrow> (string \<Rightarrow> 'a res) \<Rightarrow> 'a res" where
  "with_method al k =
     (case al_method al of None \<Rightarrow> Inl (UB ''strcmp(NULL)'') | Some m \<Rightarrow> k m)"

definition send_mail :: "string \<Rightarrow> string \<Rightarrow> ALERT \<Rightarrow> daemon \<Rightarrow> daemon" where
  "send_mail function subject al d =
     with_fork (\<lambda>pid d.
       if pid = -1 then error (function @ ''(): fork() failed'') d
       else emit (SendMail (case al_address al of None \<Rightarrow> [] | Some a \<Rightarrow> a) subject) d) d"

definition alert_due :: "int \<Rightarrow> int \<Rightarrow> bool" where
  "alert_due frequency n \<longleftrightarrow>
     n = 0 \<or> (frequency < 0 \<and> n = frequency * -1) \<or> (frequency > 0 \<and> c_rem n frequency = 0)"

definition alert_printer_failed :: "string \<Rightarrow> ALERT \<Rightarrow> int \<Rightarrow> daemon \<Rightarrow> daemon res" where
  "alert_printer_failed prn al n d =
     (let frequency = al_interval al in
      if frequency = 0 then Inr d
      else with_method al (\<lambda>meth.
        if meth = ''none'' then Inr d
        else if alert_due frequency n then
          Inr (send_mail ''alert_printer_failed''
                 (''Faults on '' @ prn @ (if frequency > 0 then [] else '' (first and final notice)''))
                 al d)
        else Inr d))"

definition alert_printer_working :: "string \<Rightarrow> ALERT \<Rightarrow> int \<Rightarrow> daemon \<Rightarrow> daemon res" where
  "alert_printer_working prn al n d =
     (let frequency = al_interval al in
      if frequency \<ge> 0 then Inr d
      else if n < frequency * -1 then Inr d
      else with_method al (\<lambda>meth.
        if meth = ''none'' then Inr d
        else Inr (send_mail ''alert_printer_working'' (''Recovery of '' @ prn) al d)))"

text \<open>
  \<open>ppad_remind\<close> scans the printers twice, with two conditions: the first decides whether a mail is sent
  at all, the second which printers it mentions. Division is C's, on non-negative operands.
\<close>

definition remind_scan :: "Printer \<Rightarrow> bool" where
  "remind_scan p \<longleftrightarrow>
     (let ps = p_spool_state p; interval = \<bar>al_interval (p_alert p)\<bar> in
      (ps_status ps = PRNSTATUS_FAULT
         \<and> (ps_next_engaged_retry ps > interval \<or> ps_next_error_retry ps = 0))
      \<or> (ps_status ps = PRNSTATUS_ENGAGED \<and> ps_next_engaged_retry ps * ENGAGED_RETRY div 60 > 20))"

definition remind_text :: "Printer \<Rightarrow> string list" where
  "remind_text p =
     (let ps = p_spool_state p; interval = \<bar>al_interval (p_alert p)\<bar>;
          minutes = ps_next_engaged_retry ps * ENGAGED_RETRY div 60 in
      if ps_status ps = PRNSTATUS_FAULT
         \<and> (ps_next_error_retry ps = 0 \<or> ps_next_error_retry ps > interval)
      then (if ps_next_error_retry ps > 0
            then [''The printer \"'' @ p_name p @ ''\" has suffered '' @
                  print_d (ps_next_error_retry ps) @ '' faults.'', []]
            else [''The printer \"'' @ p_name p @ ''\" has suffered a fault from'',
                  ''which it can not recover on its own.'', []])
      else if ps_status ps = PRNSTATUS_ENGAGED \<and> minutes > ENGAGED_NAG_TIME
      then [''The printer \"'' @ p_name p @ ''\" has been otherwise engaged or off line for '' @
            print_d minutes @ '' minutes.'', []]
      else [])"

definition ppad_remind :: "daemon \<Rightarrow> daemon" where
  "ppad_remind d =
     (if \<not> (\<exists>p \<in> set (printers d). remind_scan p) then d
      else with_fork (\<lambda>pid d.
             if pid = -1 then error ''ppad_remind(): fork() failed'' d
             else emit (SendMail ''ppr''
                    (''Subject: Remaining printer problems'' @ [CHR 0x0A, CHR 0x0A] @
                     concat (map (\<lambda>l. l @ [CHR 0x0A]) (concat (map remind_text (printers d)))))) d) d)"

end
