(* ===== verification/Media.thy ===== *)
theory Media
  imports Printers
begin

text \<open>
  Mounted media (\<^verbatim>\<open>pprd/pprd_media.c\<close>): the table of media names, which jobs a printer has the media
  for (the \<^verbatim>\<open>notnow\<close> bitmap of each job), and whether a waiting job waits for a printer or for media.
\<close>

section \<open>Definitions\<close>

subsection \<open>Media names\<close>

definition get_media_name :: "int \<Rightarrow> daemon \<Rightarrow> string" where
  "get_media_name mediaid d =
     (if mediaid = -1 then []
      else if mediaid < int (length (media_table d)) \<and> mediaid \<ge> 0
      then media_table d ! nat mediaid else ''<invalid>'')"

definition get_media_id :: "string \<Rightarrow> daemon \<Rightarrow> (int \<times> daemon) res" where
  "get_media_id medianame d =
     (if medianame = [] then Inr (-1, d)
      else let x = find_index (\<lambda>m. m = medianame) (media_table d) in
           if x < length (media_table d) then Inr (int x, d)
           else if x = MAX_MEDIA then Inl (Fatal ''get_media_id(): media array overflow'')
           else Inr (int x, d\<lparr>media_table := media_table d @ [medianame]\<rparr>))"

subsection \<open>Saving the mounted media\<close>

definition media_mounted_save :: "int \<Rightarrow> daemon \<Rightarrow> daemon res" where
  "media_mounted_save prnid d =
     bindE (destid_to_name prnid d) (\<lambda>name.
     bindE (path_of ''%s/%s/mounted''
              [FStr (PRINTERS_PERSISTENT_STATEDIR (dirs d)), FStr name] d) (\<lambda>fn.
     bindE (get_printer prnid d) (\<lambda>p.
       Inr (write_file fn
              (concat (map (\<lambda>(bin, m). ASCIIZ_to_padded bin MAX_BINNAME @
                                       ASCIIZ_to_padded (get_media_name m d) MAX_MEDIANAME)
                           (zip (p_bins p) (p_media p)))) d))))"

text \<open>
  Reading it back, a bin and a medium at a time; a trailing partial record is ignored. \<open>b1\<close> and \<open>b2\<close> are
  the bytes that precede the two buffers in memory (see \<open>padded_to_ASCIIZ\<close>).
\<close>

fun mounted_loop :: "char \<Rightarrow> char \<Rightarrow> nat \<Rightarrow> int \<Rightarrow> string \<Rightarrow> daemon \<Rightarrow> daemon res" where
  "mounted_loop b1 b2 0 prnid c d = Inr d"
| "mounted_loop b1 b2 (Suc n) prnid c d =
     (if length c < MAX_BINNAME + MAX_MEDIANAME then Inr d
      else
        let abin = padded_to_ASCIIZ b1 (take MAX_BINNAME c) MAX_BINNAME;
            amedia = padded_to_ASCIIZ b2 (take MAX_MEDIANAME (drop MAX_BINNAME c)) MAX_MEDIANAME in
        bindE (get_printer prnid d) (\<lambda>p.
        let x = find_index (\<lambda>b. b = abin) (p_bins p) in
        bindE (if x < length (p_bins p) then
                 bindE (get_media_id amedia d) (\<lambda>(m, d).
                   upd_printer prnid (\<lambda>p. p\<lparr>p_media := (p_media p)[x := m]\<rparr>) d)
               else Inr d) (\<lambda>d.
          mounted_loop b1 b2 n prnid (drop (MAX_BINNAME + MAX_MEDIANAME) c) d)))"

definition media_mounted_recover :: "char \<Rightarrow> char \<Rightarrow> int \<Rightarrow> daemon \<Rightarrow> daemon res" where
  "media_mounted_recover b1 b2 prnid d =
     bindE (destid_to_name prnid d) (\<lambda>name.
     bindE (path_of ''%s/%s/mounted''
              [FStr (PRINTERS_PERSISTENT_STATEDIR (dirs d)), FStr name] d) (\<lambda>fn.
       case fs d fn of
         None \<Rightarrow> Inr d
       | Some c \<Rightarrow> mounted_loop b1 b2 (length c) prnid c d))"

subsection \<open>Does the printer have the media?\<close>

definition hasmedia :: "int \<Rightarrow> QEntry \<Rightarrow> daemon \<Rightarrow> bool res" where
  "hasmedia prnid job d =
     bindE (get_printer prnid d) (\<lambda>p.
       Inr (p_bins p = [] \<or> p_AutoSelect_exists p
            \<or> (\<forall>m \<in> set (takeWhile (\<lambda>m. m \<noteq> -1) (take MAX_DOCMEDIA (q_media job))).
                 find_index (\<lambda>b. b = m) (p_media p) < length (p_bins p))))"

fun stopt_loop :: "nat \<Rightarrow> int list \<Rightarrow> int \<Rightarrow> daemon \<Rightarrow> int res" where
  "stopt_loop x [] msk d = Inr msk"
| "stopt_loop x (prn # rest) msk d =
     bindE (get_printer prn d) (\<lambda>p.
       stopt_loop (Suc x) rest
         (if ps_status (p_spool_state p) \<ge> PRNSTATUS_DELIBERATELY_DOWN then msk OR 2 ^ x else msk) d)"

definition stoptmask :: "int \<Rightarrow> daemon \<Rightarrow> int res" where
  "stoptmask destid d =
     (if \<not> destid_is_group destid d then
        bindE (get_printer destid d) (\<lambda>p.
          Inr (if ps_status (p_spool_state p) < PRNSTATUS_DELIBERATELY_DOWN then 0 else 1))
      else
        bindE (destid_to_gindex destid) (\<lambda>gi.
        bindE (get_group gi d) (\<lambda>g. stopt_loop 0 (g_printers g) 0 d)))"

definition wait_status :: "QEntry \<Rightarrow> int \<Rightarrow> daemon \<Rightarrow> int res" where
  "wait_status job stopt_members_mask d =
     (if destid_is_group (q_destid job) d then
        bindE (destid_to_gindex (q_destid job)) (\<lambda>gi.
        bindE (get_group gi d) (\<lambda>g.
          let allmask = 2 ^ length (g_printers g) - 1 in
          Inr (if (uint (q_notnow job) OR stopt_members_mask) = allmask \<and> stopt_members_mask \<noteq> allmask
               then STATUS_WAITING4MEDIA else STATUS_WAITING)))
      else Inr (if q_notnow job \<noteq> 0 \<and> stopt_members_mask = 0
                then STATUS_WAITING4MEDIA else STATUS_WAITING))"

definition media_set_job_wait_reason :: "QEntry \<Rightarrow> int \<Rightarrow> bool \<Rightarrow> daemon \<Rightarrow> (QEntry \<times> daemon) res" where
  "media_set_job_wait_reason job stopt_members_mask inqueue d =
     (if q_status job = STATUS_WAITING \<or> q_status job = STATUS_WAITING4MEDIA then
        bindE (wait_status job stopt_members_mask d) (\<lambda>new_status.
          if new_status \<noteq> q_status job then
            (if inqueue then queue_p_job_new_status job new_status d
             else Inr (job\<lparr>q_status := new_status\<rparr>, d))
          else Inr (job, d))
      else Inr (job, d))"

fun notnow_loop :: "nat \<Rightarrow> int list \<Rightarrow> QEntry \<Rightarrow> daemon \<Rightarrow> QEntry res" where
  "notnow_loop x [] nj d = Inr nj"
| "notnow_loop x (prn # rest) nj d =
     bindE (hasmedia prn nj d) (\<lambda>has.
       notnow_loop (Suc x) rest
         (if \<not> has then nj\<lparr>q_notnow := q_notnow nj OR word_of_int (2 ^ x)\<rparr> else nj) d)"

definition media_set_notnow_for_job :: "QEntry \<Rightarrow> bool \<Rightarrow> daemon \<Rightarrow> (QEntry \<times> daemon) res" where
  "media_set_notnow_for_job nj inqueue d =
     bindE (if destid_is_group (q_destid nj) d then
              bindE (destid_to_gindex (q_destid nj)) (\<lambda>gi.
              bindE (get_group gi d) (\<lambda>g. notnow_loop 0 (g_printers g) (nj\<lparr>q_notnow := 0\<rparr>) d))
            else
              bindE (hasmedia (q_destid nj) nj d) (\<lambda>has.
                Inr (nj\<lparr>q_notnow := (if has then 0 else 1)\<rparr>))) (\<lambda>nj.
     bindE (stoptmask (q_destid nj) d) (\<lambda>msk.
       media_set_job_wait_reason nj msk inqueue d))"

text \<open>The same on the queue entry with index \<open>x\<close>.\<close>

definition set_notnow_at :: "nat \<Rightarrow> daemon \<Rightarrow> daemon res" where
  "set_notnow_at x d =
     bindE (get_job x d) (\<lambda>job.
     bindE (media_set_notnow_for_job job True d) (\<lambda>(job, d). set_job x job d))"

subsection \<open>Scanning the queue after a change\<close>

definition waitreason_at :: "int \<Rightarrow> int \<Rightarrow> nat \<Rightarrow> daemon \<Rightarrow> daemon res" where
  "waitreason_at destid stopt x d =
     bindE (get_job x d) (\<lambda>job.
       if q_destid job = destid then
         bindE (media_set_job_wait_reason job stopt True d) (\<lambda>(job, d). set_job x job d)
       else Inr d)"

definition media_startstop_update_waitreason2 :: "int \<Rightarrow> daemon \<Rightarrow> daemon res" where
  "media_startstop_update_waitreason2 destid d =
     bindE (stoptmask destid d) (\<lambda>stopt.
       foldE (waitreason_at destid stopt) [0..<length (queue d)] d)"

definition waitreason_group :: "int \<Rightarrow> nat \<Rightarrow> daemon \<Rightarrow> daemon res" where
  "waitreason_group prnid g d =
     bindE (destid_by_gindex (int g)) (\<lambda>g_destid.
     bindE (destid_get_member_offset g_destid prnid d) (\<lambda>off.
       if off \<noteq> -1 then media_startstop_update_waitreason2 g_destid d else Inr d))"

definition media_startstop_update_waitreason :: "int \<Rightarrow> daemon \<Rightarrow> daemon res" where
  "media_startstop_update_waitreason prnid d =
     bindE (media_startstop_update_waitreason2 prnid (lock d)) (\<lambda>d.
     bindE (foldE (waitreason_group prnid) [0..<length (groups d)] d) (\<lambda>d.
       Inr (unlock d)))"

definition notnow_at :: "int \<Rightarrow> int \<Rightarrow> int \<Rightarrow> int \<Rightarrow> nat \<Rightarrow> daemon \<Rightarrow> daemon res" where
  "notnow_at destid prnbit prnid stopt x d =
     bindE (get_job x d) (\<lambda>job.
       if q_destid job = destid then
         bindE (hasmedia prnid job d) (\<lambda>has.
         let job = (if has then job\<lparr>q_notnow := q_notnow job AND word_of_int (255 XOR prnbit)\<rparr>
                    else job\<lparr>q_notnow := q_notnow job OR word_of_int prnbit\<rparr>) in
         bindE (media_set_job_wait_reason job stopt True d) (\<lambda>(job, d). set_job x job d))
       else Inr d)"

definition media_update_notnow2 :: "int \<Rightarrow> int \<Rightarrow> int \<Rightarrow> daemon \<Rightarrow> daemon res" where
  "media_update_notnow2 destid prnbit prnid d =
     bindE (stoptmask destid d) (\<lambda>stopt.
       foldE (notnow_at destid prnbit prnid stopt) [0..<length (queue d)] d)"

definition notnow_group :: "int \<Rightarrow> nat \<Rightarrow> daemon \<Rightarrow> daemon res" where
  "notnow_group prnid g d =
     bindE (destid_by_gindex (int g)) (\<lambda>g_destid.
     bindE (destid_printer_bit g_destid prnid d) (\<lambda>prnbit.
       if prnbit \<noteq> 0 then media_update_notnow2 g_destid prnbit prnid d else Inr d))"

definition media_update_notnow :: "int \<Rightarrow> daemon \<Rightarrow> daemon res" where
  "media_update_notnow prnid d =
     bindE (media_update_notnow2 prnid 1 prnid (lock d)) (\<lambda>d.
     bindE (foldE (notnow_group prnid) [0..<length (groups d)] d) (\<lambda>d.
       Inr (unlock d)))"

end
