(* ===== verification/Question.thy ===== *)
theory Question
  imports Media
begin

text \<open>
  Questions to the submitters of jobs (\<^verbatim>\<open>pprd/pprd_question.c\<close>): at most ten questioner processes, at
  most three launched per tick.
\<close>

section \<open>Definitions\<close>

abbreviation (input) MAX_ACTIVE_QUESTIONS :: int where "MAX_ACTIVE_QUESTIONS \<equiv> 10"
abbreviation (input) MAX_LAUNCHES_PER_TICK :: int where "MAX_LAUNCHES_PER_TICK \<equiv> 3"

text \<open>Termination status of a child process, as the \<^verbatim>\<open>wait(2)\<close> macros classify it. The last argument
  of \<open>Signaled\<close> is what \<^verbatim>\<open>WSTOPSIG()\<close> yields, which is only specified for a stopped process.\<close>

datatype wstat = Exited int | Signaled int bool int | Stopped int | OtherStatus

definition question_init :: "daemon \<Rightarrow> daemon" where
  "question_init d = d\<lparr>active_question := map (\<lambda>s. s\<lparr>aq_pid := 0\<rparr>) (active_question d)\<rparr>"

definition unanswered :: "QEntry \<Rightarrow> bool" where
  "unanswered job \<longleftrightarrow> q_flags job AND JOB_FLAG_QUESTION_UNANSWERED \<noteq> 0"

definition asking_now :: "QEntry \<Rightarrow> bool" where
  "asking_now job \<longleftrightarrow> q_flags job AND JOB_FLAG_QUESTION_ASKING_NOW \<noteq> 0"

definition upd_slot :: "nat \<Rightarrow> (question_slot \<Rightarrow> question_slot) \<Rightarrow> daemon \<Rightarrow> daemon" where
  "upd_slot x f d = d\<lparr>active_question := (active_question d)[x := f (active_question d ! x)]\<rparr>"

definition question_launch :: "nat \<Rightarrow> daemon \<Rightarrow> (int \<times> daemon) res" where
  "question_launch jobx d =
     (let x = find_index (\<lambda>s. aq_pid s = 0) (active_question d) in
      if x = length (active_question d) then Inl (Fatal ''question_launch(): assertion failed'')
      else with_fork (\<lambda>pid d.
        let d = upd_slot x (\<lambda>s. s\<lparr>aq_pid := pid\<rparr>) d in
        if pid = -1 then Inr (-1, error ''question_launch(): fork() failed'' d)
        else
          bindE (get_job jobx d) (\<lambda>job.
          bindE (destid_to_name (q_destid job) d) (\<lambda>name.
          let d = emit (ExecQuestion (take 255 (name @ ''-'' @ print_d (q_id job) @ ''.'' @
                                                print_d (q_subid job)))) d;
              job = job\<lparr>q_flags := q_flags job OR JOB_FLAG_QUESTION_ASKING_NOW\<rparr> in
          bindE (set_job jobx job d) (\<lambda>d.
          let d = upd_slot x (\<lambda>s. s\<lparr>aq_destid := q_destid job, aq_id := q_id job,
                                      aq_subid := q_subid job\<rparr>) d in
          Inr (0, d\<lparr>active_questions := active_questions d + 1,
                    launches_this_tick := launches_this_tick d + 1\<rparr>))))) d)"

text \<open>The scan; the result is the index at which it stopped, the questions counted and the state.\<close>

fun question_loop :: "int \<Rightarrow> nat list \<Rightarrow> nat \<Rightarrow> int \<Rightarrow> daemon \<Rightarrow> (nat \<times> int \<times> daemon) res" where
  "question_loop time_now [] x count d = Inr (x, count, d)"
| "question_loop time_now (i # rest) x count d =
     (if \<not> (count < outstanding_questions d \<and> active_questions d < MAX_ACTIVE_QUESTIONS
            \<and> launches_this_tick d < MAX_LAUNCHES_PER_TICK)
      then Inr (x, count, d)
      else
        bindE (get_job i d) (\<lambda>job.
          if unanswered job then
            (if \<not> asking_now job \<and> q_resend_message_at job \<le> time_now then
               bindE (question_launch i d) (\<lambda>(_, d).
                 question_loop time_now rest (Suc x) (count + 1) d)
             else question_loop time_now rest (Suc x) (count + 1) d)
          else question_loop time_now rest (Suc x) count d))"

definition question_look_for_work :: "daemon \<Rightarrow> daemon res" where
  "question_look_for_work d =
     (if outstanding_questions d > 0 then
        with_time (\<lambda>time_now d.
          let d = lock d in
          bindE (question_loop time_now [0..<length (queue d)] 0 0 d) (\<lambda>(x, count, d).
            let d = (if x = length (queue d) then d\<lparr>outstanding_questions := count\<rparr> else d) in
            Inr (unlock d))) d
      else Inr d)"

definition question_job :: "nat \<Rightarrow> daemon \<Rightarrow> daemon res" where
  "question_job jobx d =
     (let d = lock d; d = d\<lparr>outstanding_questions := outstanding_questions d + 1\<rparr> in
      bindE (if active_questions d < MAX_ACTIVE_QUESTIONS then
               bindE (question_launch jobx d) (\<lambda>(_, d). Inr d)
             else Inr d) (\<lambda>d.
        Inr (unlock d)))"

definition question_child_hook :: "int \<Rightarrow> wstat \<Rightarrow> daemon \<Rightarrow> (bool \<times> daemon) res" where
  "question_child_hook pid wstat d =
     (let d = lock d; x = find_index (\<lambda>s. aq_pid s = pid) (active_question d) in
      if x = length (active_question d) then Inr (False, unlock d)
      else
        let slot = active_question d ! x;
            y = find_index (is_job (aq_destid slot) (aq_id slot) (aq_subid slot)) (queue d) in
        bindE (if y < length (queue d) then
                 bindE (get_job y d) (\<lambda>job.
                   if \<not> asking_now job
                   then Inl (Fatal ''question_child_hook(): ASKING_NOW not set'')
                   else with_time (\<lambda>time_now d.
                     set_job y
                       (job\<lparr>q_resend_message_at := time_now + (if wstat = Exited 0 then 300 else 60),
                            q_flags := q_flags job AND NOT JOB_FLAG_QUESTION_ASKING_NOW\<rparr>) d) d)
               else Inr d) (\<lambda>d.
        let d = upd_slot x (\<lambda>s. s\<lparr>aq_pid := 0\<rparr>) d;
            d = d\<lparr>active_questions := active_questions d - 1\<rparr> in
        bindE (question_look_for_work d) (\<lambda>d.
          Inr (True, unlock d))))"

definition question_tick :: "daemon \<Rightarrow> daemon res" where
  "question_tick d = question_look_for_work (d\<lparr>launches_this_tick := 0\<rparr>)"

definition question_on_off :: "nat \<Rightarrow> bool \<Rightarrow> daemon \<Rightarrow> daemon res" where
  "question_on_off jobx on_off d =
     bindE (get_job jobx d) (\<lambda>job.
     let job = job\<lparr>q_resend_message_at := 0\<rparr> in
     bindE (if on_off then
              let job = job\<lparr>q_flags := q_flags job OR JOB_FLAG_QUESTION_UNANSWERED\<rparr> in
              bindE (set_job jobx job d) (\<lambda>d.
                if \<not> asking_now job then question_job jobx d else Inr d)
            else set_job jobx
                   (job\<lparr>q_flags := q_flags job AND NOT JOB_FLAG_QUESTION_UNANSWERED\<rparr>) d) (\<lambda>d.
     bindE (get_job jobx d) (\<lambda>job. queue_write_status_and_flags job d)))"

end
