(* ===== verification/Pprdrv_Exit.thy ===== *)
theory Pprdrv_Exit
  imports Respond Question
begin

text \<open>
  What the daemon does when a driver process ends (\<^verbatim>\<open>pprd/pprd_pprdrv.c\<close>: \<open>pprdrv_exited\<close>,
  \<open>pprdrv_child_hook\<close>, \<open>pprdrv_kill\<close>). \<open>pprdrv_exited\<close> is split where the source has its two switches:
  the exit code is classified, the first switch acts on it and reduces it, the second sets the
  printer's retry state, and the last part settles job and printer.
\<close>

section \<open>Definitions\<close>

definition alert_d :: "int \<Rightarrow> bool \<Rightarrow> string \<Rightarrow> daemon \<Rightarrow> daemon res" where
  "alert_d prnid stamp message d =
     bindE (get_printer prnid d) (\<lambda>p. Inr (emit (Alert (p_name p) stamp message) d))"

subsection \<open>Classifying the status\<close>

definition exit_code :: "int \<Rightarrow> wstat \<Rightarrow> daemon \<Rightarrow> (int \<times> daemon) res" where
  "exit_code prnid wstat d =
     (case wstat of
        Exited estat \<Rightarrow> Inr (estat, d)
      | Signaled sig dumped stopsig \<Rightarrow>
          if dumped then
            bindE (alert_d prnid False ''Internal error, pprdrv core dumped after receiving signal'' d)
              (\<lambda>d. Inr (EXIT_PRNERR_NORETRY, d))
          else Inr (EXIT_SIGNAL, d)
      | Stopped sig \<Rightarrow>
          bindE (alert_d prnid True ''Mischief afoot, pprdrv stopt by signal'' d)
            (\<lambda>d. Inr (EXIT_PRNERR_NORETRY, d))
      | OtherStatus \<Rightarrow>
          bindE (alert_d prnid True ''Bizaar pprdrv malfunction, exit status not understood.'' d)
            (\<lambda>d. Inr (EXIT_PRNERR_NORETRY, d)))"

subsection \<open>The first switch\<close>

text \<open>The result of the first switch: exit code, job status, printer status, state.\<close>

type_synonym verdict = "int \<times> int \<times> int \<times> daemon"

definition respond_job :: "int \<Rightarrow> int \<Rightarrow> daemon \<Rightarrow> daemon res" where
  "respond_job prnid response d =
     bindE (get_printer prnid d) (\<lambda>p.
       respond (p_job_destid p) (p_job_id p) (p_job_subid p) prnid response d)"

definition working_again :: "int \<Rightarrow> daemon \<Rightarrow> daemon res" where
  "working_again prnid d =
     bindE (get_printer prnid d) (\<lambda>p.
     bindE (alert_printer_working (p_name p) (p_alert p) (ps_next_error_retry (p_spool_state p)) d) (\<lambda>d.
       upd_spool prnid (\<lambda>ps. ps\<lparr>ps_next_error_retry := 0, ps_next_engaged_retry := 0\<rparr>) d))"

definition exit_printed :: "int \<Rightarrow> daemon \<Rightarrow> verdict res" where
  "exit_printed prnid d =
     bindE (upd_printer prnid (\<lambda>p. p\<lparr>p_cancel_job := False\<rparr>) d) (\<lambda>d.
     bindE (respond_job prnid RESP_FINISHED d) (\<lambda>d.
     bindE (working_again prnid d) (\<lambda>d.
       Inr (EXIT_PRINTED, STATUS_WAITING, PRNSTATUS_IDLE, d))))"

definition exit_joberr :: "int \<Rightarrow> daemon \<Rightarrow> verdict res" where
  "exit_joberr prnid d =
     bindE (respond_job prnid RESP_ARRESTED d) (\<lambda>d.
     bindE (working_again prnid d) (\<lambda>d.
       Inr (EXIT_JOBERR, STATUS_ARRESTED, PRNSTATUS_IDLE, d)))"

text \<open>
  The printer cannot print the job. Note that the entry is looked up by id and subid only. For a
  group the printer's \<^verbatim>\<open>never\<close> bit is set; when every member has refused, the second pass begins, and
  after the second pass the job is stranded.
\<close>

definition exit_incapable :: "int \<Rightarrow> daemon \<Rightarrow> verdict res" where
  "exit_incapable prnid d =
     bindE (get_printer prnid d) (\<lambda>p.
     let d = lock d;
         y = find_index (\<lambda>q. q_id q = p_job_id p \<and> q_subid q = p_job_subid p) (queue d) in
     if y = length (queue d) then Inl (Fatal ''pprdrv_exited(): job missing from array'')
     else
       bindE (get_job y d) (\<lambda>job.
       if \<not> destid_is_group (p_job_destid p) d then
         bindE (set_job y (job\<lparr>q_never := q_never job OR 1\<rparr>) d) (\<lambda>d.
         bindE (respond_job prnid RESP_STRANDED_PRINTER_INCAPABLE d) (\<lambda>d.
           Inr (EXIT_INCAPABLE, STATUS_STRANDED, PRNSTATUS_IDLE, unlock d)))
       else
         bindE (destid_printer_bit (p_job_destid p) prnid d) (\<lambda>bit.
         let job = job\<lparr>q_never := q_never job OR word_of_int bit\<rparr> in
         bindE (destid_to_gindex (p_job_destid p)) (\<lambda>gi.
         bindE (get_group gi d) (\<lambda>g.
         if uint (q_never job) = 2 ^ length (g_printers g) - 1 then
           let job = job\<lparr>q_pass := to_int16 (q_pass job + 1)\<rparr> in
           if q_pass job > 2 then
             bindE (set_job y job d) (\<lambda>d.
             bindE (respond_job prnid RESP_STRANDED_GROUP_INCAPABLE d) (\<lambda>d.
               Inr (EXIT_INCAPABLE, STATUS_STRANDED, PRNSTATUS_IDLE, unlock d)))
           else
             bindE (set_job y (job\<lparr>q_never := 0\<rparr>) d) (\<lambda>d.
               Inr (EXIT_INCAPABLE, STATUS_WAITING, PRNSTATUS_IDLE, unlock d))
         else
           bindE (set_job y job d) (\<lambda>d.
             Inr (EXIT_INCAPABLE, STATUS_WAITING, PRNSTATUS_IDLE, unlock d)))))))"

definition exit_engaged :: "int \<Rightarrow> daemon \<Rightarrow> verdict res" where
  "exit_engaged prnid d =
     bindE (upd_spool prnid (\<lambda>ps. ps\<lparr>ps_next_engaged_retry := ps_next_engaged_retry ps + 1,
                                       ps_countdown := ENGAGED_RETRY\<rparr>) d) (\<lambda>d.
       Inr (EXIT_ENGAGED, STATUS_WAITING, PRNSTATUS_ENGAGED, d))"

definition exit_starved :: "daemon \<Rightarrow> verdict res" where
  "exit_starved d =
     Inr (EXIT_STARVED, STATUS_WAITING, PRNSTATUS_STARVED,
          d\<lparr>starving_printers := starving_printers d + 1\<rparr>)"

definition exit_signal :: "int \<Rightarrow> wstat \<Rightarrow> daemon \<Rightarrow> verdict res" where
  "exit_signal prnid wstat d =
     bindE (get_printer prnid d) (\<lambda>p.
       if ps_status (p_spool_state p) = PRNSTATUS_HALTING
          \<or> ps_status (p_spool_state p) = PRNSTATUS_SEIZING
          \<or> ps_status (p_spool_state p) = PRNSTATUS_CANCELING
       then Inr (EXIT_SIGNAL, STATUS_WAITING, PRNSTATUS_IDLE, d)
       else
         bindE (alert_d prnid True
                  (case wstat of
                     Signaled sig dumped stopsig \<Rightarrow>
                       if stopsig = 0
                       then ''Printing aborted because pprdrv died.  The stated reason for its death is nonsense''
                       else ''Printing aborted because pprdrv was killed by signal '' @ print_d stopsig
                   | _ \<Rightarrow> ''Unexpected pprdrv shutdown.'') d) (\<lambda>d.
           Inr (EXIT_PRNERR, STATUS_WAITING, PRNSTATUS_IDLE, d)))"

definition first_switch :: "int \<Rightarrow> wstat \<Rightarrow> int \<Rightarrow> daemon \<Rightarrow> verdict res" where
  "first_switch prnid wstat estat d =
     (if estat = EXIT_PRINTED then exit_printed prnid d
      else if estat = EXIT_JOBERR then exit_joberr prnid d
      else if estat = EXIT_INCAPABLE then exit_incapable prnid d
      else if estat = EXIT_ENGAGED then exit_engaged prnid d
      else if estat = EXIT_STARVED then exit_starved d
      else if estat = EXIT_SIGNAL then exit_signal prnid wstat d
      else if estat = EXIT_PRNERR \<or> estat = EXIT_PRNERR_NOT_RESPONDING
              \<or> estat = EXIT_PRNERR_NO_SUCH_ADDRESS
      then Inr (EXIT_PRNERR, STATUS_WAITING, PRNSTATUS_IDLE, d)
      else if estat = EXIT_PRNERR_NORETRY \<or> estat = EXIT_PRNERR_NORETRY_ACCESS_DENIED
              \<or> estat = EXIT_PRNERR_NORETRY_BAD_SETTINGS
              \<or> estat = EXIT_PRNERR_NORETRY_NO_SUCH_ADDRESS
      then Inr (EXIT_PRNERR_NORETRY, STATUS_WAITING, PRNSTATUS_IDLE, d)
      else bindE (alert_d prnid False
                    (''Unrecognized exit code '' @ print_d estat @ '' returned by pprdrv.'') d) (\<lambda>d.
             Inr (EXIT_PRNERR, STATUS_WAITING, PRNSTATUS_IDLE, d)))"

subsection \<open>The second switch\<close>

definition fault_retry :: "PRINTER_SPOOL_STATE \<Rightarrow> PRINTER_SPOOL_STATE" where
  "fault_retry ps =
     (let n = ps_next_error_retry ps + 1
      in ps\<lparr>ps_next_error_retry := n, ps_countdown := min (n * RETRY_MULTIPLIER) MIN_RETRY\<rparr>)"

definition second_switch :: "int \<Rightarrow> int \<Rightarrow> int \<Rightarrow> daemon \<Rightarrow> (int \<times> daemon) res" where
  "second_switch prnid estat prn_status d =
     (if estat = EXIT_PRNERR_NORETRY then
        bindE (alert_d prnid False ''Printer placed in fault mode, no auto-retry.'' d) (\<lambda>d.
        bindE (upd_spool prnid (\<lambda>ps. ps\<lparr>ps_next_error_retry := 0, ps_countdown := 0\<rparr>) d) (\<lambda>d.
          Inr (PRNSTATUS_FAULT, d)))
      else if estat = EXIT_PRNERR then
        bindE (alert_d prnid False ''Printer placed in auto-retry mode.'' d) (\<lambda>d.
        bindE (upd_spool prnid fault_retry d) (\<lambda>d.
          Inr (PRNSTATUS_FAULT, d)))
      else Inr (prn_status, d))"

subsection \<open>Settling job and printer\<close>

definition fault_alert :: "int \<Rightarrow> int \<Rightarrow> daemon \<Rightarrow> daemon res" where
  "fault_alert prnid prn_status d =
     (if prn_status = PRNSTATUS_FAULT then
        bindE (get_printer prnid d) (\<lambda>p.
          alert_printer_failed (p_name p) (p_alert p) (ps_next_error_retry (p_spool_state p)) d)
      else Inr d)"

definition settle_job :: "int \<Rightarrow> int \<Rightarrow> int \<Rightarrow> daemon \<Rightarrow> daemon res" where
  "settle_job prnid estat job_status d =
     bindE (get_printer prnid d) (\<lambda>p.
     let job_status = (if p_hold_job p then STATUS_HELD else job_status) in
     bindE (upd_printer prnid (\<lambda>p. p\<lparr>p_hold_job := False\<rparr>) d) (\<lambda>d.
     bindE (if p_cancel_job p then respond_job prnid RESP_CANCELED_PRINTING d else Inr d) (\<lambda>d.
       if estat = EXIT_PRINTED \<or> p_cancel_job p then
         bindE (queue_dequeue_job (p_job_destid p) (p_job_id p) (p_job_subid p) d) (\<lambda>d.
           upd_printer prnid (\<lambda>p. p\<lparr>p_cancel_job := False\<rparr>) d)
       else
         bindE (queue_job_new_status (p_job_destid p) (p_job_id p) (p_job_subid p) job_status d)
           (\<lambda>(x, d).
              if job_status = STATUS_WAITING then printer_try_start_suitable_4_this_job x d
              else Inr d))))"

definition settle_printer :: "int \<Rightarrow> int \<Rightarrow> daemon \<Rightarrow> daemon res" where
  "settle_printer prnid prn_status d =
     bindE (get_printer prnid d) (\<lambda>p.
     let prn_status = (if ps_status (p_spool_state p) = PRNSTATUS_STOPPING
                          \<or> ps_status (p_spool_state p) = PRNSTATUS_HALTING
                       then PRNSTATUS_STOPT else prn_status) in
     bindE (printer_new_status prnid prn_status d) (\<lambda>d.
       look_if_idle prnid d))"

definition pprdrv_exited :: "int \<Rightarrow> wstat \<Rightarrow> daemon \<Rightarrow> daemon res" where
  "pprdrv_exited prnid wstat d =
     bindE (upd_printer prnid (\<lambda>p. p\<lparr>p_job_pid := 0\<rparr>) d) (\<lambda>d.
     let d = d\<lparr>active_printers := active_printers d - 1\<rparr> in
     bindE (exit_code prnid wstat d) (\<lambda>(estat, d).
     bindE (first_switch prnid wstat estat d) (\<lambda>(estat, job_status, prn_status, d).
     bindE (second_switch prnid estat prn_status d) (\<lambda>(prn_status, d).
     bindE (fault_alert prnid prn_status d) (\<lambda>d.
     bindE (settle_job prnid estat job_status d) (\<lambda>d.
       settle_printer prnid prn_status d))))))"

definition pprdrv_child_hook :: "int \<Rightarrow> wstat \<Rightarrow> daemon \<Rightarrow> (bool \<times> daemon) res" where
  "pprdrv_child_hook pid wstat d =
     (let x = find_index (\<lambda>p. p_job_pid p = pid) (printers d) in
      if x < length (printers d) then bindE (pprdrv_exited (int x) wstat d) (\<lambda>d. Inr (True, d))
      else Inr (False, d))"

definition pprdrv_kill :: "int \<Rightarrow> daemon \<Rightarrow> daemon res" where
  "pprdrv_kill prnid d =
     bindE (get_printer prnid d) (\<lambda>p.
       Inr (if p_job_pid p \<le> 0 then error ''pprdrv_kill(): assertion failed'' d
            else emit (KillSIGTERM (p_job_pid p)) d))"

end
