(* ===== verification/Enqueue.thy ===== *)
theory Enqueue
  imports Pprdrv_Exit
begin

text \<open>
  Receiving a job (\<^verbatim>\<open>pprd/pprd_queue.c\<close>: \<open>queue_accept_queuefile\<close>, \<open>queue_new_job\<close>, \<open>queue_reload_job\<close>). The
  exceptions thrown inside the \<^verbatim>\<open>gu_Try\<close> block carry the state at the throw; the handler goes on from it.
\<close>

section \<open>Definitions\<close>

subsection \<open>Reading the queue file\<close>

text \<open>The lines \<open>gu_getline\<close> returns: trailing white space removed, a last line without newline kept.\<close>

definition rstrip :: "string \<Rightarrow> string" where
  "rstrip s = rev (dropWhile gu_ascii_isspace (rev s))"

fun split_lines :: "nat \<Rightarrow> string \<Rightarrow> string list" where
  "split_lines 0 c = []"
| "split_lines (Suc n) c =
     (if c = [] then []
      else let len = strcspn c [CHR 0x0A] in take len c # split_lines n (drop (Suc len) c))"

definition file_lines :: "string \<Rightarrow> string list" where
  "file_lines c = map rstrip (split_lines (length c) c)"

text \<open>Stores of the scanner into the fields of the new entry; \<^verbatim>\<open>%hx\<close> stores 16 bits.\<close>

definition pprd_setters :: "(int \<Rightarrow> QEntry \<Rightarrow> QEntry) list" where
  "pprd_setters =
     [\<lambda>v q. q\<lparr>q_priority := to_int16 v\<rparr>, \<lambda>v q. q\<lparr>q_sequence_number := word_of_int v\<rparr>,
      \<lambda>v q. q\<lparr>q_status := to_int16 v\<rparr>, \<lambda>v q. q\<lparr>q_flags := word_of_int v\<rparr>]"

text \<open>One line: the entry, whether a PPRD line has been seen, the media read so far, the state.\<close>

definition read_line ::
  "string \<Rightarrow> QEntry \<times> bool \<times> int list \<times> daemon \<Rightarrow> (QEntry \<times> bool \<times> int list \<times> daemon) res" where
  "read_line line s =
     (case s of (q, seen, medias, d) \<Rightarrow>
        bindE (lift_gu d (gu_sscanf line ''PPRD: %hx %x %hx %hx'' [])) (\<lambda>(n, vs).
        let q = assign_fields pprd_setters vs q in
        if n = 4 then Inr (q\<lparr>q_status := to_int16 (q_status q * -1)\<rparr>, True, medias, d)
        else if length medias < MAX_DOCMEDIA then
          bindE (lift_gu d (gu_sscanf line ''Media: %@s'' [int MAX_MEDIANAME + 1])) (\<lambda>(n, vs).
            case (n = 1, vs) of
              (True, [SStr tmedia]) \<Rightarrow>
                bindE (get_media_id tmedia d) (\<lambda>(m, d). Inr (q, seen, medias @ [m], d))
            | _ \<Rightarrow> Inr (q, seen, medias, d))
        else Inr (q, seen, medias, d)))"

text \<open>The entry before anything has been read; the fields the file determines start out arbitrary.\<close>

definition blank_entry :: "int \<Rightarrow> int \<Rightarrow> int \<Rightarrow> QEntry" where
  "blank_entry destid jid subid =
     \<lparr>q_destid = destid, q_id = jid, q_subid = subid, q_priority = 0, q_sequence_number = 0,
      q_status = 0, q_flags = 0, q_resend_message_at = 0, q_media = [], q_pass = 0, q_never = 0,
      q_notnow = 0\<rparr>"

definition read_queue_file :: "string \<Rightarrow> int \<Rightarrow> int \<Rightarrow> int \<Rightarrow> daemon \<Rightarrow> (QEntry \<times> daemon) res" where
  "read_queue_file qfname destid jid subid d =
     bindE (path_of ''%s/%s'' [FStr (QUEUEDIR (dirs d)), FStr qfname] d) (\<lambda>fn.
       case fs d fn of
         None \<Rightarrow> Inl (Throw ''can't open queue file'' d)
       | Some c \<Rightarrow>
           bindE (foldE read_line (file_lines c) (blank_entry destid jid subid, False, [], d))
             (\<lambda>(q, seen, medias, d).
                if \<not> seen then Inl (Throw ''no PPRD line'' d)
                else Inr (q\<lparr>q_media := medias @ replicate (MAX_DOCMEDIA - length medias) (-1),
                            q_pass := (if destid_is_group destid d then 1 else 0),
                            q_resend_message_at := 0, q_never := 0, q_notnow := 0,
                            q_status := (if q_status q = 0 then STATUS_WAITING else q_status q)\<rparr>, d)))"

subsection \<open>Entering the job in the queue\<close>

text \<open>A new job goes in front of the first job that is less urgent, or as urgent and later.\<close>

definition goes_before :: "QEntry \<Rightarrow> QEntry \<Rightarrow> bool" where
  "goes_before new q \<longleftrightarrow>
     q_priority new > q_priority q
     \<or> (q_priority new = q_priority q \<and> q_sequence_number new < q_sequence_number q)"

definition insert_at :: "nat \<Rightarrow> 'a \<Rightarrow> 'a list \<Rightarrow> 'a list" where
  "insert_at x a xs = take x xs @ a # drop x xs"

definition grow_queue :: "daemon \<Rightarrow> daemon res" where
  "grow_queue d =
     (if int (length (queue d)) = queue_size d then
        (if queue_size d + QUEUE_SIZE_GROWBY \<le> QUEUE_SIZE_MAX
         then Inr (d\<lparr>queue_size := queue_size d + QUEUE_SIZE_GROWBY\<rparr>)
         else Inl (Throw ''queue array overflow'' d))
      else Inr d)"

definition insert_job :: "QEntry \<Rightarrow> string \<Rightarrow> bool \<Rightarrow> daemon \<Rightarrow> (nat \<times> daemon) res" where
  "insert_job newent destname job_is_new d =
     bindE (grow_queue d) (\<lambda>d.
     let x = find_index (goes_before newent) (queue d);
         destmates_passed = length (filter (\<lambda>q. q_destid q = q_destid newent) (take x (queue d)));
         d = d\<lparr>queue := insert_at x newent (queue d)\<rparr> in
     bindE (job_count_adjust (q_destid newent) 1 job_is_new d) (\<lambda>d.
     with_jobid destname (q_id newent) (q_subid newent) (\<lambda>j d.
     bindE (state_update (''JOB '' @ j @ '' '' @ print_d (int x) @ '' '' @
                          print_d (int destmates_passed)) d) (\<lambda>d.
       Inr (x, d))) d))"

definition replace_job :: "QEntry \<Rightarrow> daemon \<Rightarrow> (nat \<times> daemon) res" where
  "replace_job newent d =
     (let x = find_index (is_job (q_destid newent) (q_id newent) (q_subid newent)) (queue d) in
      if \<not> x < length (queue d) then Inl (Throw ''can't find job in queue array'' d)
      else Inr (x, d\<lparr>queue := (queue d)[x := newent]\<rparr>))"

text \<open>The body of the \<^verbatim>\<open>gu_Try\<close> block after the name has been parsed.\<close>

definition accept_body :: "string \<Rightarrow> string \<Rightarrow> int \<Rightarrow> int \<Rightarrow> bool \<Rightarrow> bool \<Rightarrow> daemon \<Rightarrow> daemon res" where
  "accept_body qfname destname jid subid job_is_new reload_job d =
     bindE (destid_by_name destname d) (\<lambda>destid.
     if destid = -1 then
       (if job_is_new then
          bindE (respond2 destname jid subid (-1) destname RESP_CANCELED_BADDEST d) (\<lambda>d.
            Inl (Throw ''destination does not exist'' d))
        else Inl (Throw ''destination no longer exists'' d))
     else
       bindE (if job_is_new then destid_accepting destid d else Inr True) (\<lambda>accepting.
       if \<not> accepting then
         bindE (respond destid jid subid (-1) RESP_CANCELED_REJECTING d) (\<lambda>d.
           Inl (Throw ''destination is not accepting jobs'' d))
       else
         bindE (read_queue_file qfname destid jid subid d) (\<lambda>(newent, d).
         bindE (media_set_notnow_for_job newent False (lock d)) (\<lambda>(newent, d).
         if int (length (queue d)) > queue_size d
         then Inl (Fatal ''queue_accept_queuefile(): queue_entries > queue_size'')
         else
           bindE (if reload_job then replace_job newent d
                  else insert_job newent destname job_is_new d) (\<lambda>(x, d).
           bindE (get_job x d) (\<lambda>job.
           bindE (if unanswered job \<and> q_status job \<noteq> STATUS_RECEIVING
                  then question_job x d else Inr d) (\<lambda>d.
           bindE (get_job x d) (\<lambda>job.
           bindE (if job_is_new \<and> q_status job = STATUS_WAITING
                  then printer_try_start_suitable_4_this_job x d else Inr d) (\<lambda>d.
             Inr (unlock d))))))))))"

text \<open>
  The handler deletes the job's files. \<^verbatim>\<open>destname\<close> is set even when the name could not be parsed; the id
  and subid have then not been assigned.
\<close>

definition queue_accept_queuefile :: "string \<Rightarrow> bool \<Rightarrow> bool \<Rightarrow> daemon \<Rightarrow> daemon res" where
  "queue_accept_queuefile qfname job_is_new reload_job d =
     bindE (lift_gu d (parse_qfname qfname)) (\<lambda>(ok, destname, jid, subid).
       case (if ok
             then accept_body qfname destname (the jid) (the subid) job_is_new reload_job d
             else Inl (Throw ''can't parse queue file name'' d)) of
         Inl (Throw m d) \<Rightarrow>
           (case (jid, subid) of
              (Some j, Some s) \<Rightarrow>
                delete_job_files destname j s
                  (error (''queue_accept_queuefile(): failed to enqueue '' @ qfname @ '': '' @ m) d)
            | _ \<Rightarrow> Inl (UB ''newent.id read before it is set''))
       | r \<Rightarrow> r)"

definition queue_new_job :: "string \<Rightarrow> daemon \<Rightarrow> daemon res" where
  "queue_new_job command d =
     (case lmatchp command ''j '' of
        None \<Rightarrow> Inr (error (''queue_new_job(): bad j command: '' @ command) d)
      | Some qfname \<Rightarrow> queue_accept_queuefile qfname True False d)"

definition queue_reload_job :: "string \<Rightarrow> daemon \<Rightarrow> daemon res" where
  "queue_reload_job command d =
     (case lmatchp command ''J '' of
        None \<Rightarrow> Inr (error (''queue_reload_job(): bad J command: '' @ command) d)
      | Some qfname \<Rightarrow> queue_accept_queuefile qfname True True d)"

subsection \<open>Reference definitions\<close>

text \<open>The PPRD line without its padding.\<close>

definition pprd_text :: "QEntry \<Rightarrow> string" where
  "pprd_text job = ''PPRD: '' @ print_X 2 (q_priority job) @ '' '' @ print_X 8 (uint (q_sequence_number job)) @ '' '' @
     print_X 2 (if q_status job \<ge> 0 then 0 else q_status job * -1) @ '' '' @ print_X 4 (uint (q_flags job))"

text \<open>The array has room for its entries and is not larger than allowed.\<close>

definition queue_fits :: "daemon \<Rightarrow> bool" where
  "queue_fits d \<longleftrightarrow> int (length (queue d)) \<le> queue_size d \<and> queue_size d \<le> QUEUE_SIZE_MAX"

text \<open>The queue file is there and the responder can be started.\<close>

definition can_respond :: "string \<Rightarrow> int \<Rightarrow> int \<Rightarrow> daemon \<Rightarrow> bool" where
  "can_respond name jid subid d \<longleftrightarrow> fork_result d (fork_calls d) \<noteq> -1
     \<and> returns (path_of ''%s/%s'' [FStr (QUEUEDIR (dirs d)),
           FStr (take 255 (name @ ''-'' @ print_d jid @ ''.'' @ print_d subid))] d) (\<lambda>fn. fs d fn \<noteq> None)"

text \<open>How \<open>respond2\<close> ends, normally or with the exception of a file name that is too long.\<close>

definition responded :: "string \<Rightarrow> int \<Rightarrow> int \<Rightarrow> int \<Rightarrow> daemon \<Rightarrow> daemon \<Rightarrow> bool" where
  "responded name jid subid code d d' \<longleftrightarrow> core d' = core d
     \<and> (can_respond name jid subid d \<longrightarrow> (\<exists>prn. Respond name jid subid (-1) prn code \<in> set (outs d')))"

section \<open>Lemmas\<close>

subsection \<open>Ordered insertion\<close>

text \<open>
  The interface between the queue and the order of jobs: \<open>urgent a b\<close> means that \<open>a\<close>, when it arrives,
  goes in front of \<open>b\<close>.
\<close>

locale urgency =
  fixes urgent :: "'a \<Rightarrow> 'a \<Rightarrow> bool"
  assumes before_asym: "urgent a b \<Longrightarrow> \<not> urgent b a"
    and before_split: "urgent a c \<Longrightarrow> urgent a b \<or> urgent b c"
begin

definition in_order :: "'a list \<Rightarrow> bool" where
  "in_order xs \<longleftrightarrow> sorted_wrt (\<lambda>a b. \<not> urgent b a) xs"

definition place :: "'a \<Rightarrow> 'a list \<Rightarrow> nat" where
  "place a xs = find_index (urgent a) xs"

lemma not_before_trans: "\<not> urgent b a \<Longrightarrow> \<not> urgent c b \<Longrightarrow> \<not> urgent c a"
  using before_split by blast

lemma before_in_tail:
  assumes "in_order xs" "place a xs \<le> i" "i < length xs"
  shows "urgent a (xs ! i)"
proof -
  have p: "urgent a (xs ! place a xs)"
    using assms(2,3) find_index_nth [of "urgent a" xs] unfolding place_def by simp
  show ?thesis
  proof (cases "place a xs = i")
    case False
    then have "\<not> urgent (xs ! i) (xs ! place a xs)"
      using assms by (auto simp: in_order_def sorted_wrt_iff_nth_less)
    with p before_split show ?thesis by blast
  qed (use p in simp)
qed

lemma insert_in_order:
  assumes "in_order xs"
  shows "in_order (insert_at (place a xs) a xs)"
proof -
  have *: "\<forall>b \<in> set (drop (place a xs) xs). urgent a b"
    using before_in_tail [OF assms, of a] by (auto simp: in_set_conv_nth)
  have "\<forall>b \<in> set (take (place a xs) xs). \<not> urgent a b"
    using find_index_before [of _ "urgent a" xs] by (auto simp: in_set_conv_nth place_def)
  moreover have "\<forall>b \<in> set (drop (place a xs) xs). \<not> urgent b a"
    using * before_asym by blast
  moreover have "sorted_wrt (\<lambda>a b. \<not> urgent b a) (take (place a xs) xs @ drop (place a xs) xs)"
    using assms by (simp add: in_order_def)
  ultimately show ?thesis
    unfolding in_order_def insert_at_def sorted_wrt_append by auto
qed

lemma remove_in_order: "in_order xs \<Longrightarrow> in_order (take i xs @ drop (Suc i) xs)"
proof -
  assume "in_order xs"
  then have "sorted_wrt (\<lambda>a b. \<not> urgent b a) (take i xs @ drop i xs)" by (simp add: in_order_def)
  moreover have "set (drop (Suc i) xs) \<subseteq> set (drop i xs)" by (rule set_drop_subset_set_drop) simp
  ultimately show ?thesis
    unfolding in_order_def sorted_wrt_append
    using sorted_wrt_drop [of _ "drop i xs" 1] by auto
qed

end

interpretation job_order: urgency goes_before
  by unfold_locales (auto simp: goes_before_def)

lemma grow_queue_queue: "grow_queue d = Inr d' \<Longrightarrow> queue d' = queue d"
  by (auto simp: grow_queue_def split: if_splits)

lemma insert_job_queue:
  assumes "insert_job q name new d = Inr (x, d')"
  shows "x = job_order.place q (queue d) \<and> queue d' = insert_at x q (queue d)"
  using assms
  by (auto simp: insert_job_def Let_def with_jobid_def job_order.place_def
      dest!: grow_queue_queue state_update_queue job_count_adjust_queue)

lemma jobs_for_insert: "jobs_for i (insert_at x q qs) = jobs_for i qs + of_bool (q_destid q = i)"
  using filter_split [of "\<lambda>q. q_destid q = i" qs x] by (simp add: jobs_for_def insert_at_def)

lemma insert_counts:
  assumes "insert_job q name new d = Inr (x, d')" "counts_ok d"
  shows "counts_ok d'"
proof -
  have "\<exists>e e'. printers e = printers d \<and> groups e = groups d \<and> queue e = queue d \<and> core d' = core e'
      \<and> job_count_adjust (q_destid q) 1 new (e\<lparr>queue := insert_at x q (queue e)\<rparr>) = Inr e'"
    using assms(1)
    apply (auto simp: insert_job_def Let_def with_jobid_def grow_queue_def state_update_def split: if_splits)
    subgoal for a by (rule exI [of _ "d\<lparr>queue_size := queue_size d + 50\<rparr>"]) simp
    subgoal for a by (rule exI [of _ d]) simp
    done
  then obtain e e' where e: "printers e = printers d" "groups e = groups d" "queue e = queue d"
    and adj: "job_count_adjust (q_destid q) 1 new (e\<lparr>queue := insert_at x q (queue e)\<rparr>) = Inr e'"
    and d': "core d' = core e'"
    by blast
  have "counts_ok e" using e assms(2) by (simp add: counts_ok_def)
  then have "counts_ok e'"
    using counts_adjust [OF adj refl] e by (simp add: jobs_for_insert)
  then show ?thesis by (simp add: counts_core [OF d'])
qed

subsection \<open>The status line\<close>

lemma split_lines_first:
  assumes "CHR 0x0A \<notin> set l"
  shows "hd (file_lines (l @ [CHR 0x0A] @ rest)) = rstrip l"
proof -
  have "takeWhile (\<lambda>c. c \<noteq> CHR 0x0A) (l @ CHR 0x0A # rest) = l"
    using assms by (intro takeWhile_ends) (auto simp: ends_number_def)
  then show ?thesis by (simp add: file_lines_def strcspn_def Let_def)
qed

lemma rstrip_blanks:
  assumes "s \<noteq> []" "\<not> gu_ascii_isspace (last s)"
  shows "rstrip (s @ replicate k CHR '' '') = s"
  using assms by (cases s rule: rev_cases) (auto simp: rstrip_def dropWhile_replicate_append scan_simps)

lemma pprd_first_line: "hd (file_lines (pprd_line job @ rest)) = pprd_text job"
proof -
  have x: "CHR 0x0A \<notin> set (print_X w i)" for w i
    using print_X_digits [of w i] by (auto simp: gu_ascii_isxdigit_def gu_ascii_isdigit_def)
  have l: "pprd_line job @ rest = (pprd_text job @ replicate 38 CHR '' '') @ [CHR 0x0A] @ rest"
    by (simp add: pprd_line_def pprd_text_def)
  have "last (pprd_text job) \<in> set (print_X 4 (uint (q_flags job)))" by (simp add: pprd_text_def)
  then have "\<not> gu_ascii_isspace (last (pprd_text job))" using print_X_digits digit_not_space by blast
  moreover have "CHR 0x0A \<notin> set (pprd_text job @ replicate 38 CHR '' '')" using x by (simp add: pprd_text_def)
  moreover have "pprd_text job \<noteq> []" by (simp add: pprd_text_def)
  ultimately show ?thesis unfolding l by (simp only: split_lines_first rstrip_blanks not_False_eq_True)
qed

lemma scan_pprd_text:
  "gu_sscanf (pprd_text job) ''PPRD: %hx %x %hx %hx'' []
   = Inr (4, [SInt (q_priority job mod 2 ^ 32 mod 2 ^ 16), SInt (uint (q_sequence_number job)),
              SInt ((if q_status job \<ge> 0 then 0 else q_status job * -1) mod 2 ^ 32 mod 2 ^ 16), SInt (uint (q_flags job))])"
proof -
  have "print_X w i = c # s \<Longrightarrow> False" if "c = CHR '' ''" for w i c s
    using that hd_print_X_not_space [of w i] by (simp add: scan_simps)
  then show ?thesis
  using uint_bounded [of "q_flags job"] uint_bounded [of "q_sequence_number job"]
  by (simp add: gu_sscanf_def pprd_text_def scan_simps store_def) 
qed

subsection \<open>Refusals\<close>

lemma job_count_adjust_queue_size: "job_count_adjust i n b d = Inr d' \<Longrightarrow> queue_size d' = queue_size d"
  by (auto simp: job_count_adjust_def upd_printer_def upd_group_def printer_spool_state_save_def
      group_spool_state_save_def write_file_def split: if_splits)

lemma respond2_effect:
  "respond2 name jid subid (-1) prn code d = Inr d' \<Longrightarrow> responded name jid subid code d d'"
  "respond2 name jid subid (-1) prn code d = Inl (Throw m d') \<Longrightarrow> responded name jid subid code d d'"
  by (auto simp: responded_def respond2_def with_fork_def can_respond_def emit_def error_def core_def returns_def
      path_of_def lift_gu_def split: option.splits if_splits sum.splits gu_err.splits)

lemma delete_job_files_outs: "delete_job_files n i j d = Inr d' \<Longrightarrow> outs d' = outs d"
  by (auto simp: delete_job_files_def delete_job_file_def unlink_def)

section \<open>Properties\<close>

text \<open>
  C9. A new job is put in its place: in front of exactly those jobs that are less urgent or as urgent and
  later, so that the queue stays in order of urgency. The job counters stay right and the array keeps
  room for its entries within \<^verbatim>\<open>QUEUE_SIZE_MAX\<close>.
\<close>

theorem insert_exact:
  assumes "insert_job q name new d = Inr (x, d')" "job_order.in_order (queue d)" "counts_ok d" "queue_fits d"
  shows "queue d' = insert_at x q (queue d) \<and> job_order.in_order (queue d')
    \<and> (\<forall>i < x. \<not> goes_before q (queue d ! i)) \<and> (\<forall>i < length (queue d). x \<le> i \<longrightarrow> goes_before q (queue d ! i))
    \<and> counts_ok d' \<and> queue_fits d'"
proof -
  have x: "x = job_order.place q (queue d)" and q: "queue d' = insert_at x q (queue d)"
    using insert_job_queue [OF assms(1)] by simp_all
  have "queue_size d' \<le> QUEUE_SIZE_MAX \<and> int (length (queue d)) < queue_size d'"
    using assms(1,4)
    by (auto simp: insert_job_def Let_def with_jobid_def grow_queue_def queue_fits_def state_update_def emit_def
        split: if_splits dest!: job_count_adjust_queue_size)
  then have "queue_fits d'" using q x by (simp add: queue_fits_def insert_at_def job_order.place_def)
  moreover have "\<forall>i < x. \<not> goes_before q (queue d ! i)"
    using find_index_before [of _ "goes_before q" "queue d"] x by (auto simp: job_order.place_def)
  moreover have "\<forall>i < length (queue d). x \<le> i \<longrightarrow> goes_before q (queue d ! i)"
    using job_order.before_in_tail [OF assms(2)] x by blast
  ultimately show ?thesis
    using q x job_order.insert_in_order [OF assms(2)] insert_counts [OF assms(1,3)] by simp
qed

theorem insert_exact_witness:
  "\<exists>d'. insert_job (example_job 0 9 45) ''laser'' True example_busy = Inr (1, d')
     \<and> queue d' = [example_job 0 7 50, example_job 0 9 45, example_job MAX_PRINTERS 8 40]
     \<and> counts_ok d' \<and> queue_fits d'"
proof -
  have "returns (insert_job (example_job 0 9 45) ''laser'' True example_busy) (\<lambda>(x, _). x = 1)" by code_simp
  then obtain d' where d': "insert_job (example_job 0 9 45) ''laser'' True example_busy = Inr (1, d')"
    by (auto simp: returns_iff)
  moreover have "job_order.in_order (queue example_busy)"
    by (simp add: job_order.in_order_def goes_before_def example_job_def)
  moreover have "counts_ok example_busy"
    by (simp add: counts_ok_def jobs_for_def example_busy_def example_job_def example_printer_def zero_group_def less_Suc_eq)
  moreover have "queue_fits example_busy" by (simp add: queue_fits_def example_busy_def)
  ultimately show ?thesis using insert_exact [OF d'] by (simp add: insert_at_def)
qed



text \<open>
  C23. A job for a destination that does not exist or does not accept jobs is refused: the daemon's state is
  unchanged, all the files of the job are deleted, and its owner gets a response that says why.
\<close>

theorem refused_job:
  assumes "parse_qfname qfname = Inr (True, destname, Some jid, Some subid)"
    and "destid_by_name destname d = Inr i" "i = -1 \<or> destid_accepting i d = Inr False"
    and "queue_accept_queuefile qfname True reload d = Inr d'" "int (length (printers d)) \<le> MAX_PRINTERS"
  shows "core d' = core d \<and> (\<forall>fn \<in> job_paths destname jid subid d. fs d' fn = None)
    \<and> (can_respond destname jid subid d \<longrightarrow> (\<exists>prn. Respond destname jid subid (-1) prn
         (if i = -1 then RESP_CANCELED_BADDEST else RESP_CANCELED_REJECTING) \<in> set (outs d')))"
proof -
  let ?code = "if i = -1 then RESP_CANCELED_BADDEST else RESP_CANCELED_REJECTING"
  let ?r = "respond2 destname jid subid (-1) (if i = -1 then destname else []) ?code d"
  have name: "destid_to_name i d = Inr destname" if "i \<noteq> -1" using by_name_name assms that by blast
  have body: "accept_body qfname destname jid subid True reload d
     = bindE ?r (\<lambda>e. Inl (Throw (if i = -1 then ''destination does not exist'' else ''destination is not accepting jobs'') e))"
    using assms(2,3) name by (auto simp: accept_body_def respond_def)
  have throws: "\<exists>m e. a = Throw m e \<and> responded destname jid subid ?code d e"
    if "accept_body qfname destname jid subid True reload d = Inl a" "\<forall>s. a \<noteq> Fatal s \<and> a \<noteq> UB s" for a
    using that body respond2_effect [of destname jid subid _ ?code d] by (cases ?r; cases a) auto
  obtain e m where e: "responded destname jid subid ?code d e" "delete_job_files destname jid subid (error m e) = Inr d'"
    using assms(1,4) body
    by (cases ?r; simp add: queue_accept_queuefile_def lift_gu_def split: abort.splits; use throws in fastforce)
  have jp: "job_paths destname jid subid (error m e) = job_paths destname jid subid d"
    using core_fields(12) [of e d] e(1) by (simp add: job_paths_def path_of_iff responded_def error_def emit_def)
  have "outs d' = outs e @ [LogError m]" using delete_job_files_outs [OF e(2)] by (simp add: error_def emit_def)
  then show ?thesis
    using delete_job_files_core [OF e(2)] delete_job_files_files [OF e(2)] e(1) jp by (auto simp: responded_def)
qed

theorem refused_job_witness:
  "\<exists>d'. queue_accept_queuefile ''pool-8.0'' True False
        (example_busy\<lparr>groups := map (\<lambda>g. g\<lparr>g_spool_state := (g_spool_state g)\<lparr>gs_accepting := False\<rparr>\<rparr>) (groups example_busy)\<rparr>) = Inr d'
      \<and> length (queue d') = 2 \<and> fs d' ''/q/pool-8.0'' = None
      \<and> (\<exists>prn. Respond ''pool'' 8 0 (-1) prn RESP_CANCELED_REJECTING \<in> set (outs d'))"
proof -
  let ?d = "example_busy\<lparr>groups := map (\<lambda>g. g\<lparr>g_spool_state := (g_spool_state g)\<lparr>gs_accepting := False\<rparr>\<rparr>) (groups example_busy)\<rparr>"
  have "returns (parse_qfname ''pool-8.0'') (\<lambda>r. r = (True, ''pool'', Some 8, Some 0))"
    "returns (destid_by_name ''pool'' ?d) (\<lambda>i. i = 250)" "returns (destid_accepting 250 ?d) (\<lambda>b. b = False)"
    "returns (queue_accept_queuefile ''pool-8.0'' True False ?d) (\<lambda>_. True)" "int (length (printers ?d)) \<le> MAX_PRINTERS"
    "can_respond ''pool'' 8 0 ?d"
    "returns (path_of ''%s/%s-%d.%d'' [FStr ''/q'', FStr ''pool'', FInt 8, FInt 0] ?d) (\<lambda>f. f = ''/q/pool-8.0'')"
    "QUEUEDIR (dirs ?d) = ''/q''"
    by code_simp+
  note r = this [unfolded returns_iff]
  then obtain d' where d': "queue_accept_queuefile ''pool-8.0'' True False ?d = Inr d'" by auto
  have q: "core d' = core ?d" and f: "fs d' ''/q/pool-8.0'' = None" 
    and o: "\<exists>prn. Respond ''pool'' 8 0 (-1) prn RESP_CANCELED_REJECTING \<in> set (outs d')"
    using refused_job [OF _ _ _ d', of "''pool''" 8 0 250] r by (auto simp: job_paths_def)
  then show ?thesis using d' core_fields(1) [OF q] by auto
qed

end
