(* ===== verification/Ppop.thy ===== *)
theory Ppop
  imports Enqueue
begin

text \<open>
  The commands \<^verbatim>\<open>ppop\<close> sends to the daemon (\<^verbatim>\<open>pprd/pprd_ppop.c\<close>), first part: replies and arguments,
  listing, status, start and stop. Each command is a pair of definitions: one parses the command text,
  the other (\<open>..._cmd\<close>) does the work. The jobs' commands are in \<open>Ppop_Jobs\<close>, the rest in \<open>Ppop_Dest\<close>.
\<close>

section \<open>Definitions\<close>

subsection \<open>Replies and arguments\<close>

definition reply :: "string \<Rightarrow> daemon \<Rightarrow> daemon" where
  "reply line d = emit (Reply (line @ [CHR 0x0A])) d"

definition reply_code :: "int \<Rightarrow> daemon \<Rightarrow> daemon" where
  "reply_code code = reply (print_d code)"

definition refuse :: "int \<Rightarrow> string \<Rightarrow> daemon \<Rightarrow> daemon" where
  "refuse code message d = reply message (reply_code code d)"

text \<open>Scan the command; a wrong number of arguments is logged and the command ignored.\<close>

definition with_args ::
  "string \<Rightarrow> string \<Rightarrow> int list \<Rightarrow> (int \<Rightarrow> bool) \<Rightarrow> string \<Rightarrow> (sval list \<Rightarrow> daemon \<Rightarrow> daemon res)
   \<Rightarrow> daemon \<Rightarrow> daemon res" where
  "with_args command format widths good message k d =
     bindE (lift_gu d (gu_sscanf command format widths)) (\<lambda>(n, vs).
       if \<not> good n then Inr (error message d) else k vs d)"

definition with_destid ::
  "string \<Rightarrow> (string \<Rightarrow> string) \<Rightarrow> (int \<Rightarrow> daemon \<Rightarrow> daemon res) \<Rightarrow> daemon \<Rightarrow> daemon res" where
  "with_destid destname message k d =
     bindE (destid_by_name destname d) (\<lambda>destid.
       if destid = -1 then Inr (refuse EXIT_BADDEST (message destname) d) else k destid d)"

definition dest_missing :: "string \<Rightarrow> string" where
  "dest_missing destname = ''The destination \"'' @ destname @ ''\" does not exist.''"

definition no_dest_called :: "string \<Rightarrow> string" where
  "no_dest_called destname = ''No printer or group is called \"'' @ destname @ ''\".''"

text \<open>A reply of a code and a line that contains the name of the job.\<close>

definition refuse_job :: "int \<Rightarrow> string \<Rightarrow> string \<Rightarrow> string \<Rightarrow> int \<Rightarrow> int \<Rightarrow> daemon \<Rightarrow> daemon" where
  "refuse_job code pre post destname jid subid d =
     with_jobid destname jid subid (\<lambda>j d. refuse code (pre @ j @ post) d) d"

text \<open>A job named by destination, id and possibly wildcard subid.\<close>

definition job_selected :: "int \<Rightarrow> int \<Rightarrow> int \<Rightarrow> QEntry \<Rightarrow> bool" where
  "job_selected destid jid subid q \<longleftrightarrow>
     q_destid q = destid \<and> q_id q = jid \<and> (subid = WILDCARD_SUBID \<or> q_subid q = subid)"

text \<open>The same with wildcards for the id too, and for the destination.\<close>

definition job_in_set :: "int \<Rightarrow> int \<Rightarrow> int \<Rightarrow> QEntry \<Rightarrow> bool" where
  "job_in_set destid jid subid q \<longleftrightarrow>
     (destid = QUEUEID_WILDCARD \<or> q_destid q = destid)
     \<and> (jid = WILDCARD_JOBID \<or> q_id q = jid)
     \<and> (subid = WILDCARD_SUBID \<or> q_subid q = subid)"

subsection \<open>List jobs\<close>

definition list_line :: "QEntry \<Rightarrow> int \<Rightarrow> daemon \<Rightarrow> string res" where
  "list_line q ctime d =
     bindE (destid_to_name (q_destid q) d) (\<lambda>name.
     bindE (if q_status q \<ge> 0 then destid_to_name (q_status q) d else Inr ''?'') (\<lambda>prn.
       Inr (name @ '' '' @ print_d (q_id q) @ '' '' @ print_d (q_subid q) @ '' '' @
            print_d (q_priority q) @ '' '' @ print_d (q_status q) @ '' '' @ prn @ '' '' @
            print_d (uint (q_never q)) @ '' '' @ print_d (uint (q_notnow q)) @ '' '' @
            print_d (q_pass q) @ '' '' @ print_d ctime)))"

definition list_job :: "int \<Rightarrow> int \<Rightarrow> int \<Rightarrow> nat \<Rightarrow> daemon \<Rightarrow> daemon res" where
  "list_job destname_id jid subid x d =
     bindE (get_job x d) (\<lambda>q.
       if \<not> job_in_set destname_id jid subid q then Inr d
       else
         bindE (destid_to_name (q_destid q) d) (\<lambda>name.
         bindE (path_of ''%s/%s-%d.%d''
                  [FStr (QUEUEDIR (dirs d)), FStr name, FInt (q_id q), FInt (q_subid q)] d) (\<lambda>fn.
           case fs d fn of
             None \<Rightarrow> Inr (error (''ppop_list(): can't open '' @ fn) d)
           | Some c \<Rightarrow>
               bindE (list_line q (if q_status q = STATUS_ARRESTED then file_ctime d fn else 0) d) (\<lambda>line.
                 Inr (reply ''.'' (reply ''..'' (emit (Reply c) (reply line d))))))))"

definition ppop_list_cmd :: "string \<Rightarrow> int \<Rightarrow> int \<Rightarrow> daemon \<Rightarrow> daemon res" where
  "ppop_list_cmd destname jid subid d =
     bindE (if destname = ''all'' \<or> destname = ''any'' then Inr (Some QUEUEID_WILDCARD)
            else bindE (destid_by_name destname d) (\<lambda>i. Inr (if i = -1 then None else Some i))) (\<lambda>r.
       case r of
         None \<Rightarrow> Inr (refuse EXIT_BADDEST (''Destination \"'' @ destname @ ''\" does not exist.'') d)
       | Some destname_id \<Rightarrow>
           let d = lock (reply_code EXIT_OK_DATA d) in
           bindE (foldE (list_job destname_id jid subid) [0..<length (queue d)] d) (\<lambda>d.
             Inr (unlock d)))"

definition ppop_list :: "string \<Rightarrow> daemon \<Rightarrow> daemon res" where
  "ppop_list command =
     with_args command ''l %S %d %d'' [] (\<lambda>n. n = 3) ''ppop_list(): invalid list command'' (\<lambda>vs.
       case vs of [SStr destname, SInt jid, SInt subid] \<Rightarrow> ppop_list_cmd destname jid subid
       | _ \<Rightarrow> (\<lambda>d. Inl (UB ''arguments'')))"

subsection \<open>Printer status\<close>

definition status_line :: "int \<Rightarrow> daemon \<Rightarrow> string res" where
  "status_line prnid d =
     bindE (get_printer prnid d) (\<lambda>p.
     bindE (destid_to_name prnid d) (\<lambda>name.
     let ps = p_spool_state p; s = ps_status ps in
     if s = PRNSTATUS_PRINTING \<or> s = PRNSTATUS_CANCELING \<or> s = PRNSTATUS_STOPPING
        \<or> s = PRNSTATUS_HALTING \<or> s = PRNSTATUS_SEIZING
     then
       bindE (destid_to_name (p_job_destid p) d) (\<lambda>dest.
         Inr (name @ '' '' @ print_d s @ '' '' @
              print_d (ps_next_error_retry ps + ps_next_engaged_retry ps) @ '' '' @
              print_d (ps_countdown ps) @ '' '' @ dest @ '' '' @ print_d (p_job_id p) @ '' '' @
              print_d (p_job_subid p)))
     else
       Inr (name @ '' '' @ print_d s @ '' '' @
            print_d (if s = PRNSTATUS_ENGAGED then ps_next_engaged_retry ps
                     else ps_next_error_retry ps) @ '' '' @
            print_d (ps_countdown ps) @ '' ? 0 0 ?'')))"

definition ppop_status_do_printer :: "int \<Rightarrow> daemon \<Rightarrow> daemon res" where
  "ppop_status_do_printer prnid d =
     bindE (status_line prnid d) (\<lambda>line.
     bindE (destid_to_name prnid d) (\<lambda>name.
     let d = reply line d in
     bindE (path_of ''%s/%s/device_status''
              [FStr (PRINTERS_PURGABLE_STATEDIR (dirs d)), FStr name] d) (\<lambda>fn.
       Inr (reply ''.'' (case fs d fn of None \<Rightarrow> d | Some c \<Rightarrow> emit (Reply c) d)))))"

definition status_if_not_deleted :: "nat \<Rightarrow> daemon \<Rightarrow> daemon res" where
  "status_if_not_deleted x d =
     bindE (get_printer (int x) d) (\<lambda>p.
       if ps_status (p_spool_state p) \<noteq> PRNSTATUS_DELETED then ppop_status_do_printer (int x) d
       else Inr d)"

definition ppop_status_cmd :: "string \<Rightarrow> daemon \<Rightarrow> daemon res" where
  "ppop_status_cmd destname d =
     (if destname = ''all'' then
        let d = lock (reply_code EXIT_OK_DATA d) in
        bindE (foldE status_if_not_deleted [0..<length (printers d)] d) (\<lambda>d. Inr (unlock d))
      else
        with_destid destname dest_missing (\<lambda>destid d.
          let d = reply_code EXIT_OK_DATA d in
          if destid_is_group destid d then
            bindE (destid_to_gindex destid) (\<lambda>x.
            bindE (get_group x d) (\<lambda>g.
            bindE (foldE ppop_status_do_printer (g_printers g) (lock d)) (\<lambda>d. Inr (unlock d))))
          else bindE (ppop_status_do_printer destid (lock d)) (\<lambda>d. Inr (unlock d))) d)"

definition ppop_status :: "string \<Rightarrow> daemon \<Rightarrow> daemon res" where
  "ppop_status command =
     with_args command ''s %S'' [] (\<lambda>n. n = 1) ''ppop_status(): invalid command'' (\<lambda>vs.
       case vs of [SStr destname] \<Rightarrow> ppop_status_cmd destname | _ \<Rightarrow> (\<lambda>d. Inl (UB ''arguments'')))"

subsection \<open>Start, stop and halt a printer\<close>

definition printer_msg :: "string \<Rightarrow> string \<Rightarrow> string" where
  "printer_msg prnname tail = ''The printer \"'' @ prnname @ ''\"'' @ tail"

definition undefined_state_msg :: "string \<Rightarrow> string" where
  "undefined_state_msg prnname =
     ''Internal pprd error: printer \"'' @ prnname @ ''\" is in an undefined state.''"

definition ppop_start_printer :: "string \<Rightarrow> int \<Rightarrow> daemon \<Rightarrow> daemon res" where
  "ppop_start_printer prnname prnid d =
     bindE (get_printer prnid d) (\<lambda>p.
     let s = ps_status (p_spool_state p) in
     if s = PRNSTATUS_IDLE \<or> s = PRNSTATUS_CANCELING \<or> s = PRNSTATUS_SEIZING
        \<or> s = PRNSTATUS_ENGAGED \<or> s = PRNSTATUS_STARVED
     then Inr (refuse EXIT_ALREADY (printer_msg prnname '' is not stopt.'') d)
     else if s = PRNSTATUS_PRINTING
     then Inr (refuse EXIT_ALREADY (printer_msg prnname '' is already printing.'') d)
     else if s = PRNSTATUS_FAULT \<or> s = PRNSTATUS_STOPT then
       bindE (printer_new_status prnid PRNSTATUS_IDLE (reply_code EXIT_OK d)) (\<lambda>d.
       bindE (media_startstop_update_waitreason prnid d) (\<lambda>d.
         printer_look_for_work prnid d))
     else if s = PRNSTATUS_HALTING
     then Inr (refuse EXIT_NOTPOSSIBLE
                 (''There is an outstanding halt command for the printer \"'' @ prnname @ ''\".'') d)
     else if s = PRNSTATUS_STOPPING then
       let d = reply_code EXIT_OK d in
       bindE (if p_ppop_pid p > 0
              then upd_printer prnid (\<lambda>p. p\<lparr>p_ppop_pid := 0\<rparr>) (emit (KillSIGUSR1 (p_ppop_pid p)) d)
              else Inr d) (\<lambda>d.
       bindE (printer_new_status prnid PRNSTATUS_PRINTING d) (\<lambda>d.
         media_startstop_update_waitreason prnid d))
     else Inr (refuse EXIT_INTERNAL (undefined_state_msg prnname) d))"

text \<open>The result says whether the printer will stop later (\<^verbatim>\<open>delayed_action\<close>).\<close>

definition ppop_stop_printer :: "string \<Rightarrow> int \<Rightarrow> int \<Rightarrow> daemon \<Rightarrow> (bool \<times> daemon) res" where
  "ppop_stop_printer prnname prnid how d =
     bindE (get_printer prnid d) (\<lambda>p.
     let s = ps_status (p_spool_state p) in
     if s = PRNSTATUS_FAULT \<or> s = PRNSTATUS_IDLE \<or> s = PRNSTATUS_ENGAGED \<or> s = PRNSTATUS_STARVED then
       bindE (printer_new_status prnid PRNSTATUS_STOPT (reply_code EXIT_OK d)) (\<lambda>d.
       bindE (media_startstop_update_waitreason prnid d) (\<lambda>d. Inr (False, d)))
     else if s = PRNSTATUS_HALTING
     then Inr (False, refuse EXIT_ALREADY (printer_msg prnname '' is already halting.'') d)
     else if s = PRNSTATUS_STOPT
     then Inr (False, refuse EXIT_ALREADY (printer_msg prnname '' is already stopt.'') d)
     else if s = PRNSTATUS_CANCELING \<or> s = PRNSTATUS_SEIZING then
       bindE (printer_new_status prnid PRNSTATUS_HALTING d) (\<lambda>d.
       bindE (media_startstop_update_waitreason prnid d) (\<lambda>d. Inr (True, d)))
     else if s = PRNSTATUS_STOPPING \<and> how = 1
     then Inr (False, refuse EXIT_ALREADY (printer_msg prnname '' is already stopping.'') d)
     else if s = PRNSTATUS_STOPPING \<or> s = PRNSTATUS_PRINTING then
       bindE (if how = 2 then
                bindE (printer_new_status prnid PRNSTATUS_HALTING d) (\<lambda>d. pprdrv_kill prnid d)
              else printer_new_status prnid PRNSTATUS_STOPPING d) (\<lambda>d.
       bindE (media_startstop_update_waitreason prnid d) (\<lambda>d. Inr (True, d)))
     else Inr (False, refuse EXIT_INTERNAL (undefined_state_msg prnname) d))"

definition reply_delayed :: "string \<Rightarrow> int \<Rightarrow> bool \<Rightarrow> daemon \<Rightarrow> daemon res" where
  "reply_delayed prnname prnid wait d =
     (if wait then
        bindE (get_printer prnid d) (\<lambda>p.
          if p_ppop_pid p \<noteq> 0
          then Inr (reply (''feature for the printer \"'' @ prnname @ ''\".'')
                     (refuse EXIT_CANTWAIT ''Another process is already using the notify'' d))
          else upd_printer prnid (\<lambda>p. p\<lparr>p_ppop_pid := reply_pid d\<rparr>)
                 ((reply_code EXIT_OK d)\<lparr>reply_open := False\<rparr>))
      else Inr (reply_code EXIT_OK d))"

text \<open>
  \<open>action\<close>: 0 start, 1 stop, 2 halt, plus 128 to wait for the stop.
\<close>

definition ppop_start_stop_cmd :: "string \<Rightarrow> int \<Rightarrow> daemon \<Rightarrow> daemon res" where
  "ppop_start_stop_cmd prnname action d =
     bindE (destid_by_name_reversed prnname d) (\<lambda>prnid.
     if prnid = -1
     then Inr (refuse EXIT_BADDEST (printer_msg prnname '' does not exist.'') d)
     else if destid_is_group prnid d
     then Inr (refuse EXIT_PRNONLY (''\"'' @ prnname @ ''\" is a group of printers, not a printer.'') d)
     else
       bindE (if action AND 3 = 0
              then bindE (ppop_start_printer prnname prnid (lock d)) (\<lambda>d. Inr (False, d))
              else ppop_stop_printer prnname prnid (action AND 3) (lock d)) (\<lambda>(delayed_action, d).
       bindE (if delayed_action then reply_delayed prnname prnid (action AND 128 \<noteq> 0) d else Inr d) (\<lambda>d.
         Inr (unlock d))))"

definition ppop_start_stop_wstop_halt :: "string \<Rightarrow> int \<Rightarrow> daemon \<Rightarrow> daemon res" where
  "ppop_start_stop_wstop_halt command action =
     with_args (tl command) '' %S'' [] (\<lambda>n. n = 1) ''ppop_start_stop_wstop_halt(): invalid command''
       (\<lambda>vs. case vs of [SStr prnname] \<Rightarrow> ppop_start_stop_cmd prnname action
             | _ \<Rightarrow> (\<lambda>d. Inl (UB ''arguments'')))"

end
