(* ===== verification/Ppop_Jobs.thy ===== *)
theory Ppop_Jobs
  imports Ppop
begin

text \<open>
  The commands of \<^verbatim>\<open>pprd/pprd_ppop.c\<close> that act on jobs: hold and release, cancel and purge, move, rush,
  and turning a job's question on or off.
\<close>

section \<open>Definitions\<close>

abbreviation (input) newline :: string where "newline \<equiv> [CHR 0x0A]"

subsection \<open>Hold and release\<close>

definition hold_job :: "string \<Rightarrow> int \<Rightarrow> int \<Rightarrow> nat \<Rightarrow> daemon \<Rightarrow> daemon res" where
  "hold_job destname jid subid x d =
     bindE (get_job x d) (\<lambda>q.
     let s = q_status q in
     if s = STATUS_WAITING \<or> s = STATUS_WAITING4MEDIA
     then job_new_status_at x STATUS_HELD (reply_code EXIT_OK d)
     else if s = STATUS_HELD
     then Inr (refuse_job EXIT_ALREADY ''The print job \"'' ''\" is already held.'' destname jid subid d)
     else if s = STATUS_ARRESTED
     then Inr (refuse_job EXIT_ALREADY ''The print job \"'' ''\" is arrested.'' destname jid subid d)
     else if s = STATUS_SEIZING
     then Inr (refuse_job EXIT_ALREADY ''The print job \"''
                 (''\" is already undergoing a'' @ newline @ ''transition to the held state.'')
                 destname jid subid d)
     else if s = STATUS_CANCEL then
       let d = refuse_job EXIT_OK (''Converting outstanding cancel order for'' @ newline @ ''job \"'')
                 ''\" to a hold order.'' destname jid subid d in
       bindE (printer_new_status s PRNSTATUS_SEIZING d) (\<lambda>d.
       bindE (upd_printer s (\<lambda>p. p\<lparr>p_cancel_job := False, p_hold_job := True\<rparr>) d) (\<lambda>d.
         job_new_status_at x STATUS_SEIZING d))
     else if s = STATUS_RECEIVING
     then Inr (refuse EXIT_NOTPOSSIBLE ''Not implemented for not-yet-received jobs.'' d)
     else if s \<ge> 0 then
       bindE (destid_to_name s d) (\<lambda>prnname.
       let d = refuse_job EXIT_OK ''Seizing job \"''
                 (''\" which is printing on \"'' @ prnname @ ''\".'') destname jid subid d in
       bindE (job_new_status_at x STATUS_SEIZING d) (\<lambda>d.
       bindE (printer_new_status s PRNSTATUS_SEIZING d) (\<lambda>d.
       bindE (upd_printer s (\<lambda>p. p\<lparr>p_hold_job := True\<rparr>) d) (\<lambda>d.
       bindE (get_printer s d) (\<lambda>p.
         if p_job_pid p \<le> 0 then Inr (error ''ppop_hold_release(): assertion failed'' d)
         else pprdrv_kill s d)))))
     else Inr (refuse_job EXIT_INTERNAL ''Internal pprd error: job \"''
                 (''\" has unknown status '' @ print_d s @ ''.'') destname jid subid d))"

definition release_job :: "string \<Rightarrow> int \<Rightarrow> int \<Rightarrow> nat \<Rightarrow> daemon \<Rightarrow> daemon res" where
  "release_job destname jid subid x d =
     bindE (get_job x d) (\<lambda>q.
     let s = q_status q in
     if s = STATUS_HELD \<or> s = STATUS_ARRESTED then
       bindE (job_new_status_at x STATUS_WAITING (reply_code EXIT_OK d)) (\<lambda>d.
       bindE (set_notnow_at x d) (\<lambda>d.
       bindE (get_job x d) (\<lambda>q.
         if q_status q = STATUS_WAITING then printer_try_start_suitable_4_this_job x d else Inr d)))
     else if s = STATUS_SEIZING
     then Inr (refuse_job EXIT_ALREADY ''The print job \"''
                 (''\" can't be released until an'' @ newline @
                  ''outstanding hold order has been fully executed.'') destname jid subid d)
     else if s = STATUS_RECEIVING
     then Inr (refuse EXIT_NOTPOSSIBLE ''Not implemented for not-yet-received jobs.'' d)
     else Inr (refuse_job EXIT_ALREADY ''The print job \"'' ''\" is not being held.'' destname jid subid d))"

text \<open>\<open>action\<close> 0 is hold, 1 release; only the first matching job is treated.\<close>

definition ppop_hold_release_cmd :: "string \<Rightarrow> int \<Rightarrow> int \<Rightarrow> int \<Rightarrow> daemon \<Rightarrow> daemon res" where
  "ppop_hold_release_cmd destname jid subid action =
     with_destid destname dest_missing (\<lambda>destid d.
       let d = lock d; x = find_index (job_selected destid jid subid) (queue d) in
       bindE (if x < length (queue d) then
                (if action = 0 then hold_job destname jid subid x d
                 else release_job destname jid subid x d)
              else Inr d) (\<lambda>d.
       let d = unlock d in
       Inr (if x = length (queue d)
            then refuse_job EXIT_BADJOB ''The print job \"'' ''\" does not exist.'' destname jid subid d
            else d)))"

definition ppop_hold_release :: "string \<Rightarrow> int \<Rightarrow> daemon \<Rightarrow> daemon res" where
  "ppop_hold_release command action =
     with_args (tl command) '' %S %d %d'' [] (\<lambda>n. n = 3) ''ppop_hold_release(): invalid command''
       (\<lambda>vs. case vs of
               [SStr destname, SInt jid, SInt subid] \<Rightarrow> ppop_hold_release_cmd destname jid subid action
             | _ \<Rightarrow> (\<lambda>d. Inl (UB ''arguments'')))"

subsection \<open>Cancel and purge\<close>

definition holds_job :: "QEntry \<Rightarrow> Printer \<Rightarrow> bool" where
  "holds_job q p \<longleftrightarrow>
     p_job_destid p = q_destid q \<and> p_job_id p = q_id q \<and> p_job_subid p = q_subid q"

text \<open>
  A job that is being seized is canceled instead; its printer has to be searched for. \<open>who\<close> is the
  function named in the log: \<^verbatim>\<open>pprd_ipp.c\<close> has the same code for its own requests.
\<close>

definition cancel_seizing :: "string \<Rightarrow> nat \<Rightarrow> QEntry \<Rightarrow> daemon \<Rightarrow> daemon res" where
  "cancel_seizing who x q d =
     (let prnid = find_index (holds_job q) (printers d) in
      if prnid = length (printers d)
      then Inr (error (who @ ''(): couldn't find printer that job is printing on'') d)
      else
        bindE (get_printer (int prnid) d) (\<lambda>p.
        bindE (if ps_status (p_spool_state p) = PRNSTATUS_SEIZING
               then printer_new_status (int prnid) PRNSTATUS_CANCELING d else Inr d) (\<lambda>d.
        bindE (upd_printer (int prnid) (\<lambda>p. p\<lparr>p_hold_job := False, p_cancel_job := True\<rparr>) d) (\<lambda>d.
          job_new_status_at x STATUS_CANCEL d))))"

definition cancel_printing :: "nat \<Rightarrow> int \<Rightarrow> daemon \<Rightarrow> daemon res" where
  "cancel_printing x prnid d =
     bindE (get_printer prnid d) (\<lambda>p.
     bindE (if ps_status (p_spool_state p) = PRNSTATUS_PRINTING
            then printer_new_status prnid PRNSTATUS_CANCELING d else Inr d) (\<lambda>d.
     bindE (upd_printer prnid (\<lambda>p. p\<lparr>p_cancel_job := True\<rparr>) d) (\<lambda>d.
     bindE (job_new_status_at x STATUS_CANCEL d) (\<lambda>d.
       pprdrv_kill prnid d))))"

text \<open>One matching job; the result says whether its entry has been removed from the array.\<close>

definition cancel_job :: "string \<Rightarrow> bool \<Rightarrow> nat \<Rightarrow> daemon \<Rightarrow> (bool \<times> daemon) res" where
  "cancel_job who inform x d =
     bindE (get_job x d) (\<lambda>q.
     let s = q_status q in
     if s \<ge> 0 then bindE (cancel_printing x s d) (\<lambda>d. Inr (False, d))
     else if s = STATUS_CANCEL then Inr (False, d)
     else if s = STATUS_SEIZING then bindE (cancel_seizing who x q d) (\<lambda>d. Inr (False, d))
     else
       bindE (if inform \<and> s \<noteq> STATUS_ARRESTED
              then respond (q_destid q) (q_id q) (q_subid q) (-1) RESP_CANCELED d else Inr d) (\<lambda>d.
       bindE (queue_dequeue_job (q_destid q) (q_id q) (q_subid q) d) (\<lambda>d. Inr (True, d))))"

text \<open>
  The scan of the queue. Each round either advances \<open>x\<close> or shortens the queue, so the length of the
  queue is enough fuel (\<open>cancel_loop_fuel\<close>).
\<close>

fun cancel_loop ::
  "nat \<Rightarrow> (QEntry \<Rightarrow> bool) \<Rightarrow> string \<Rightarrow> bool \<Rightarrow> nat \<Rightarrow> int \<Rightarrow> daemon \<Rightarrow> (int \<times> daemon) res" where
  "cancel_loop fuel sel who inform x count d =
     (if \<not> x < length (queue d) then Inr (count, d)
      else case fuel of
        0 \<Rightarrow> Inl (UB ''cancel_loop: out of fuel'')
      | Suc n \<Rightarrow>
          if \<not> sel (queue d ! x) then cancel_loop n sel who inform (Suc x) count d
          else bindE (cancel_job who inform x d) (\<lambda>(removed, d).
                 cancel_loop n sel who inform (if removed then x else Suc x) (count + 1) d))"

declare cancel_loop.simps [simp del]

definition ppop_cancel_purge_cmd :: "string \<Rightarrow> int \<Rightarrow> int \<Rightarrow> bool \<Rightarrow> daemon \<Rightarrow> daemon res" where
  "ppop_cancel_purge_cmd destname jid subid inform d =
     bindE (destid_by_name destname d) (\<lambda>destid.
     if destid = -1 \<and> destname \<noteq> ''all'' \<and> destname \<noteq> ''any''
     then Inr (refuse EXIT_BADDEST (dest_missing destname) d)
     else
       let d = lock d in
       bindE (cancel_loop (length (queue d)) (job_in_set destid jid subid) ''ppop_cancel_purge'' inform 0 0 d)
         (\<lambda>(canceled_count, d).
            let d = unlock d in
            Inr (if canceled_count = 0 \<and> jid \<noteq> -1 \<and> subid \<noteq> -1
                 then refuse_job EXIT_BADJOB ''The print job \"'' ''\" does not exist.'' destname jid subid d
                 else refuse EXIT_OK_DATA (print_d canceled_count) d)))"

definition ppop_cancel_purge :: "string \<Rightarrow> daemon \<Rightarrow> daemon res" where
  "ppop_cancel_purge command =
     with_args command ''c %S %d %d %d'' [] (\<lambda>n. n = 4) (''ppop_cancel_purge(): invalid command: '' @ command)
       (\<lambda>vs. case vs of
               [SStr destname, SInt jid, SInt subid, SInt inform] \<Rightarrow>
                 ppop_cancel_purge_cmd destname jid subid (inform \<noteq> 0)
             | _ \<Rightarrow> (\<lambda>d. Inl (UB ''arguments'')))"

subsection \<open>Move\<close>

definition moved_files :: "string list" where
  "moved_files = [''comments'', ''pages'', ''text'', ''log'', ''infile'', ''barbar'']"

definition rename_data_file :: "string \<Rightarrow> string \<Rightarrow> QEntry \<Rightarrow> string \<Rightarrow> daemon \<Rightarrow> daemon res" where
  "rename_data_file oldname newname q which d =
     bindE (path_of ''%s/%s-%d.%d-%s''
       [FStr (DATADIR (dirs d)), FStr oldname, FInt (q_id q), FInt (q_subid q), FStr which] d) (\<lambda>old.
     bindE (path_of ''%s/%s-%d.%d-%s''
       [FStr (DATADIR (dirs d)), FStr newname, FInt (q_id q), FInt (q_subid q), FStr which] d) (\<lambda>new.
       Inr (rename old new d)))"

definition rename_job_files :: "string \<Rightarrow> string \<Rightarrow> QEntry \<Rightarrow> daemon \<Rightarrow> daemon res" where
  "rename_job_files oldname newname q d =
     bindE (path_of ''%s/%s-%d.%d''
       [FStr (QUEUEDIR (dirs d)), FStr oldname, FInt (q_id q), FInt (q_subid q)] d) (\<lambda>old.
     bindE (path_of ''%s/%s-%d.%d''
       [FStr (QUEUEDIR (dirs d)), FStr newname, FInt (q_id q), FInt (q_subid q)] d) (\<lambda>new.
       foldE (rename_data_file oldname newname q) moved_files (rename old new d)))"

definition log_move :: "string \<Rightarrow> string \<Rightarrow> QEntry \<Rightarrow> daemon \<Rightarrow> daemon res" where
  "log_move destname new_destname q d =
     bindE (path_of ''%s/%s-%d.%d-log''
       [FStr (DATADIR (dirs d)), FStr new_destname, FInt (q_id q), FInt (q_subid q)] d) (\<lambda>fn.
       Inr (write_file fn
              ((case fs d fn of None \<Rightarrow> [] | Some c \<Rightarrow> c) @
               ''Job moved from destination \"'' @ destname @ ''\" to \"'' @ new_destname @ ''\".'' @ newline) d))"

definition reset_moved :: "nat \<Rightarrow> daemon \<Rightarrow> daemon res" where
  "reset_moved x d =
     bindE (get_job x d) (\<lambda>q.
     bindE (if q_status q = STATUS_STRANDED then job_new_status_at x STATUS_WAITING d else Inr d) (\<lambda>d.
     bindE (get_job x d) (\<lambda>q.
     bindE (set_job x (q\<lparr>q_never := 0, q_pass := (if destid_is_group (q_destid q) d then 1 else 0)\<rparr>) d) (\<lambda>d.
     bindE (set_notnow_at x d) (\<lambda>d.
     bindE (get_job x d) (\<lambda>q.
       if q_status q = STATUS_WAITING then printer_try_start_suitable_4_this_job x d else Inr d))))))"

definition move_job :: "string \<Rightarrow> string \<Rightarrow> int \<Rightarrow> nat \<Rightarrow> int \<Rightarrow> daemon \<Rightarrow> (int \<times> daemon) res" where
  "move_job destname new_destname new_destid x rank2 d =
     bindE (get_job x d) (\<lambda>q.
     bindE (if q_destid q \<noteq> new_destid then
              bindE (destid_to_name (q_destid q) d) (\<lambda>oldname.
              with_jobid oldname (q_id q) (q_subid q) (\<lambda>j d.
              bindE (state_update (''MOV '' @ j @ '' '' @ new_destname @ '' '' @ print_d rank2) d) (\<lambda>d.
              bindE (rename_job_files oldname new_destname q d) (\<lambda>d.
              bindE (set_job x (q\<lparr>q_destid := new_destid\<rparr>) d) (\<lambda>d.
                Inr (rank2 + 1, d))))) d)
            else Inr (rank2, d)) (\<lambda>(rank2, d).
     bindE (log_move destname new_destname q d) (\<lambda>d.
     bindE (reset_moved x d) (\<lambda>d.
       Inr (rank2, d)))))"

text \<open>The loop state: \<^verbatim>\<open>rank2\<close>, \<^verbatim>\<open>moved\<close>, \<^verbatim>\<open>printing\<close> and the daemon.\<close>

definition move_step ::
  "string \<Rightarrow> string \<Rightarrow> int \<Rightarrow> int \<Rightarrow> int \<Rightarrow> int \<Rightarrow> nat \<Rightarrow> int \<times> int \<times> int \<times> daemon
   \<Rightarrow> (int \<times> int \<times> int \<times> daemon) res" where
  "move_step destname new_destname destid new_destid jid subid x s =
     (case s of (rank2, moved, printing, d) \<Rightarrow>
        bindE (get_job x d) (\<lambda>q.
          if q_destid q = destid \<and> (jid = WILDCARD_JOBID \<or> q_id q = jid)
             \<and> (subid = WILDCARD_SUBID \<or> q_subid q = subid) then
            (if q_status q \<ge> 0 then Inr (rank2, moved, printing + 1, d)
             else bindE (move_job destname new_destname new_destid x rank2 d) (\<lambda>(rank2, d).
                    Inr (rank2, moved + 1, printing, d)))
          else if q_destid q = new_destid then Inr (rank2 + 1, moved, printing, d)
          else Inr (rank2, moved, printing, d)))"

definition move_report :: "string \<Rightarrow> int \<Rightarrow> int \<Rightarrow> int \<Rightarrow> int \<Rightarrow> daemon \<Rightarrow> daemon" where
  "move_report destname jid subid moved printing d =
     (let d = (if moved = 0 then
                 (if jid = -1
                  then refuse EXIT_BADJOB (''No jobs are queued for \"'' @ destname @ ''\".'') d
                  else if printing > 0 then reply_code EXIT_OK d
                  else refuse_job EXIT_BADJOB ''Job \"'' ''\" does not exist.'' destname jid subid d)
               else if moved = 1 then refuse EXIT_OK ''1 file was moved.'' d
               else refuse EXIT_OK (print_d moved @ '' files where moved.'') d)
      in if printing > 0 then
           (if printing = 1 then reply ''1 file was not moved because it was being printed.'' d
            else reply (print_d printing @ '' files were not moved because they were being printed.'') d)
         else d)"

definition ppop_move_cmd :: "string \<Rightarrow> int \<Rightarrow> int \<Rightarrow> string \<Rightarrow> daemon \<Rightarrow> daemon res" where
  "ppop_move_cmd destname jid subid new_destname =
     with_destid destname no_dest_called (\<lambda>destid.
     with_destid new_destname no_dest_called (\<lambda>new_destid d.
       let d = lock d in
       bindE (foldE (move_step destname new_destname destid new_destid jid subid)
                [0..<length (queue d)] (0, 0, 0, d)) (\<lambda>(rank2, moved, printing, d).
         Inr (move_report destname jid subid moved printing (unlock d)))))"

definition ppop_move :: "string \<Rightarrow> daemon \<Rightarrow> daemon res" where
  "ppop_move command =
     with_args command ''m %S %d %d %S'' [] (\<lambda>n. n = 4) ''ppop_move(): invalid command''
       (\<lambda>vs. case vs of
               [SStr destname, SInt jid, SInt subid, SStr new_destname] \<Rightarrow>
                 ppop_move_cmd destname jid subid new_destname
             | _ \<Rightarrow> (\<lambda>d. Inl (UB ''arguments'')))"

subsection \<open>Rush\<close>

text \<open>The two \<^verbatim>\<open>while\<close> loops that slide entries over the gap at \<open>x\<close>, one \<^verbatim>\<open>memcpy()\<close> at a time.\<close>

fun slide_up :: "nat \<Rightarrow> 'a list \<Rightarrow> 'a list" where
  "slide_up 0 q = q"
| "slide_up (Suc x) q = slide_up x (q[Suc x := q ! x])"

fun slide_down :: "nat \<Rightarrow> nat \<Rightarrow> 'a list \<Rightarrow> 'a list" where
  "slide_down 0 x q = q"
| "slide_down (Suc n) x q = slide_down n (Suc x) (q[x := q ! Suc x])"

definition rush_queue :: "nat \<Rightarrow> int \<Rightarrow> QEntry list \<Rightarrow> QEntry list" where
  "rush_queue x newpos q =
     (if newpos = 0 then (slide_up x q)[0 := (q ! x)\<lparr>q_priority := 101\<rparr>]
      else (slide_down (length q - 1 - x) x q)[length q - 1 := (q ! x)\<lparr>q_priority := 1\<rparr>])"

definition ppop_rush_cmd :: "string \<Rightarrow> int \<Rightarrow> int \<Rightarrow> int \<Rightarrow> daemon \<Rightarrow> daemon res" where
  "ppop_rush_cmd destname jid subid newpos =
     with_destid destname no_dest_called (\<lambda>destid d.
       let d = lock d; x = find_index (job_selected destid jid subid) (queue d) in
       if x < length (queue d) then
         let q = queue d ! x in
         with_jobid destname (q_id q) (q_subid q) (\<lambda>j d.
         bindE (state_update (''RSH '' @ j) d) (\<lambda>d.
           Inr (unlock (d\<lparr>queue := rush_queue x newpos (queue d)\<rparr>)))) (reply_code EXIT_OK d)
       else Inr (refuse_job EXIT_BADJOB ''Queue entry \"'' ''\" does not exist.'' destname jid subid (unlock d)))"

definition ppop_rush :: "string \<Rightarrow> daemon \<Rightarrow> daemon res" where
  "ppop_rush command =
     with_args command ''U %S %d %d %d'' [] (\<lambda>n. n = 4) ''ppop_rush(): invalid command''
       (\<lambda>vs. case vs of
               [SStr destname, SInt jid, SInt subid, SInt newpos] \<Rightarrow>
                 ppop_rush_cmd destname jid subid newpos
             | _ \<Rightarrow> (\<lambda>d. Inl (UB ''arguments'')))"

subsection \<open>Question on or off\<close>

definition ppop_modify_question_cmd :: "string \<Rightarrow> int \<Rightarrow> int \<Rightarrow> bool \<Rightarrow> daemon \<Rightarrow> daemon res" where
  "ppop_modify_question_cmd destname jid subid on_off =
     with_destid destname no_dest_called (\<lambda>destid d.
       let d = lock d; x = find_index (job_selected destid jid subid) (queue d) in
       bindE (if x < length (queue d) then question_on_off x on_off (reply_code EXIT_OK d) else Inr d) (\<lambda>d.
       let d = unlock d in
       Inr (if x = length (queue d)
            then refuse_job EXIT_BADJOB ''Queue entry \"'' ''\" does not exist.'' destname jid subid d
            else d)))"

definition ppop_modify_question :: "string \<Rightarrow> daemon \<Rightarrow> daemon res" where
  "ppop_modify_question command =
     with_args command ''q %S %d %d %d'' [] (\<lambda>n. n = 4) ''ppop_modify_question(): invalid command''
       (\<lambda>vs. case vs of
               [SStr destname, SInt jid, SInt subid, SInt on_off] \<Rightarrow>
                 ppop_modify_question_cmd destname jid subid (on_off \<noteq> 0)
             | _ \<Rightarrow> (\<lambda>d. Inl (UB ''arguments'')))"

end
