(* ===== verification/Ppop_Dest.thy ===== *)
theory Ppop_Dest
  imports Ppop_Jobs
begin

text \<open>
  The remaining commands of \<^verbatim>\<open>pprd/pprd_ppop.c\<close>: listing and mounting media, accepting and rejecting jobs,
  showing destinations, and the dispatcher that receives every command.
\<close>

section \<open>Definitions\<close>

subsection \<open>Media\<close>

definition media_lines :: "Printer \<Rightarrow> daemon \<Rightarrow> string list" where
  "media_lines p d =
     (p_name p @ '' '' @ print_d (int (length (p_bins p))))
     # map (\<lambda>(bin, m). bin @ '' '' @ get_media_name m d) (zip (p_bins p) (p_media p))"

definition media_of_printer :: "int \<Rightarrow> bool \<Rightarrow> nat \<Rightarrow> daemon \<Rightarrow> daemon res" where
  "media_of_printer destid is_group x d =
     bindE (if destid = -1 \<or> int x = destid then Inr True
            else if is_group then
              bindE (destid_get_member_offset destid (int x) d) (\<lambda>off. Inr (off \<noteq> -1))
            else Inr False) (\<lambda>shown.
     if shown then bindE (get_printer (int x) d) (\<lambda>p. Inr (fold reply (media_lines p d) d))
     else Inr d)"

definition list_media :: "int \<Rightarrow> daemon \<Rightarrow> daemon res" where
  "list_media destid d =
     foldE (media_of_printer destid (destid \<noteq> -1 \<and> destid_is_group destid d))
       [0..<length (printers d)] (reply_code EXIT_OK_DATA d)"

definition ppop_media_cmd :: "string \<Rightarrow> daemon \<Rightarrow> daemon res" where
  "ppop_media_cmd destname =
     (if destname = ''all'' then list_media (-1) else with_destid destname dest_missing list_media)"

definition ppop_media :: "string \<Rightarrow> daemon \<Rightarrow> daemon res" where
  "ppop_media command =
     with_args command ''f %S'' [] (\<lambda>n. n = 1) ''ppop_media(): invalid command'' (\<lambda>vs.
       case vs of [SStr destname] \<Rightarrow> ppop_media_cmd destname | _ \<Rightarrow> (\<lambda>d. Inl (UB ''arguments'')))"

definition ppop_mount_cmd :: "string \<Rightarrow> string \<Rightarrow> string \<Rightarrow> daemon \<Rightarrow> daemon res" where
  "ppop_mount_cmd printer binname medianame d =
     bindE (destid_by_name_reversed printer d) (\<lambda>printer_id.
     if printer_id = -1
     then Inr (refuse EXIT_BADDEST (''Printer \"'' @ printer @ ''\" does not exist.'') d)
     else if destid_is_group printer_id d
     then Inr (refuse EXIT_PRNONLY (''\"'' @ printer @ ''\" is not a printer.'') d)
     else
       bindE (get_printer printer_id d) (\<lambda>p.
       let x = find_index (\<lambda>b. b = binname) (p_bins p) in
       if x = length (p_bins p)
       then Inr (refuse EXIT_BADBIN
                   (''\"'' @ printer @ ''\" does not have a bin called \"'' @ binname @ ''\".'') d)
       else
         bindE (get_media_id medianame d) (\<lambda>(m, d).
         bindE (upd_printer printer_id (\<lambda>p. p\<lparr>p_media := (p_media p)[x := m]\<rparr>) d) (\<lambda>d.
         bindE (media_update_notnow printer_id (reply_code EXIT_OK d)) (\<lambda>d.
         bindE (look_if_idle printer_id d) (\<lambda>d.
         bindE (media_mounted_save printer_id d) (\<lambda>d.
           state_update (''MOUNT '' @ printer @ '' '' @ binname @ '' '' @ medianame) d)))))))"

definition ppop_mount :: "string \<Rightarrow> daemon \<Rightarrow> daemon res" where
  "ppop_mount command =
     with_args command ''M %S %@s %@s'' [int MAX_BINNAME + 1, int MAX_MEDIANAME + 1]
       (\<lambda>n. \<not> n < 2) ''ppop_mount(): invalid command'' (\<lambda>vs.
       case vs of
         [SStr printer, SStr binname] \<Rightarrow> ppop_mount_cmd printer binname []
       | [SStr printer, SStr binname, SStr medianame] \<Rightarrow> ppop_mount_cmd printer binname medianame
       | _ \<Rightarrow> (\<lambda>d. Inl (UB ''arguments'')))"

subsection \<open>Accept and reject\<close>

definition set_group_accepting :: "int \<Rightarrow> bool \<Rightarrow> daemon \<Rightarrow> daemon res" where
  "set_group_accepting gindex accepting d =
     with_time (\<lambda>now d.
     bindE (upd_group gindex (\<lambda>g. g\<lparr>g_spool_state :=
              (g_spool_state g)\<lparr>gs_accepting := accepting, gs_printer_state_change_time := now\<rparr>\<rparr>) d) (\<lambda>d.
     bindE (get_group gindex d) (\<lambda>g. group_spool_state_save (g_spool_state g) (g_name g) d))) d"

definition set_printer_accepting :: "int \<Rightarrow> bool \<Rightarrow> daemon \<Rightarrow> daemon res" where
  "set_printer_accepting prnid accepting d =
     with_time (\<lambda>now d.
     bindE (upd_spool prnid (\<lambda>ps. ps\<lparr>ps_accepting := accepting, ps_printer_state_change_time := now\<rparr>) d) (\<lambda>d.
     bindE (get_printer prnid d) (\<lambda>p. printer_spool_state_save (p_spool_state p) (p_name p) d))) d"

definition not_a_dest :: "string \<Rightarrow> string" where
  "not_a_dest destname = ''\"'' @ destname @ ''\" is not a valid destination.''"

definition ppop_accept_reject_cmd :: "string \<Rightarrow> bool \<Rightarrow> daemon \<Rightarrow> daemon res" where
  "ppop_accept_reject_cmd destname action =
     with_destid destname not_a_dest (\<lambda>destid d.
       bindE (if destid_is_group destid d
              then bindE (destid_to_gindex destid) (\<lambda>gindex. set_group_accepting gindex action d)
              else set_printer_accepting destid action d) (\<lambda>d.
         Inr (reply_code EXIT_OK d)))"

definition ppop_accept_reject :: "string \<Rightarrow> bool \<Rightarrow> daemon \<Rightarrow> daemon res" where
  "ppop_accept_reject command action =
     with_args (tl command) '' %S'' [] (\<lambda>n. n = 1) ''ppop_accept_reject(): invalid command'' (\<lambda>vs.
       case vs of [SStr destname] \<Rightarrow> ppop_accept_reject_cmd destname action
       | _ \<Rightarrow> (\<lambda>d. Inl (UB ''arguments'')))"

subsection \<open>Destinations\<close>

definition dest_line :: "string \<Rightarrow> string \<Rightarrow> bool \<Rightarrow> bool \<Rightarrow> string" where
  "dest_line name kind accepting protected =
     name @ '' '' @ kind @ '' '' @ print_d (b2i accepting) @ '' '' @ print_d (b2i protected)"

definition ppop_dest_show_printer :: "Printer \<Rightarrow> daemon \<Rightarrow> daemon" where
  "ppop_dest_show_printer p =
     reply (dest_line (p_name p) ''0'' (ps_accepting (p_spool_state p)) (ps_protected (p_spool_state p)))"

definition ppop_dest_show_group :: "Group \<Rightarrow> daemon \<Rightarrow> daemon" where
  "ppop_dest_show_group g =
     reply (dest_line (g_name g) ''1'' (gs_accepting (g_spool_state g)) (gs_protected (g_spool_state g)))"

definition ppop_dest_cmd :: "string \<Rightarrow> daemon \<Rightarrow> daemon res" where
  "ppop_dest_cmd destname d =
     (if destname = ''all'' then
        Inr (fold ppop_dest_show_group (filter (\<lambda>g. \<not> g_deleted g) (groups d))
              (fold ppop_dest_show_printer
                (filter (\<lambda>p. ps_status (p_spool_state p) \<noteq> PRNSTATUS_DELETED) (printers d))
                (reply_code EXIT_OK_DATA d)))
      else
        with_destid destname not_a_dest (\<lambda>destid d.
          let d = reply_code EXIT_OK_DATA d in
          if destid_is_group destid d then
            bindE (destid_to_gindex destid) (\<lambda>gi.
            bindE (get_group gi d) (\<lambda>g. Inr (ppop_dest_show_group g d)))
          else bindE (get_printer destid d) (\<lambda>p. Inr (ppop_dest_show_printer p d))) d)"

definition ppop_dest :: "string \<Rightarrow> daemon \<Rightarrow> daemon res" where
  "ppop_dest command =
     with_args (tl command) '' %S'' [] (\<lambda>n. n = 1) ''ppop_dest(): invalid command'' (\<lambda>vs.
       case vs of [SStr destname] \<Rightarrow> ppop_dest_cmd destname | _ \<Rightarrow> (\<lambda>d. Inl (UB ''arguments'')))"

subsection \<open>The dispatcher\<close>

text \<open>An empty command has the NUL as its first character and is unknown like any other letter.\<close>

definition ppop_command :: "string \<Rightarrow> string \<Rightarrow> daemon \<Rightarrow> daemon res" where
  "ppop_command command c =
     (case c of
        [] \<Rightarrow> (\<lambda>d. Inr (error (''unknown command: '' @ command) d))
      | ch # _ \<Rightarrow>
          if ch = CHR ''l'' then ppop_list c
          else if ch = CHR ''s'' then ppop_status c
          else if ch = CHR ''t'' then ppop_start_stop_wstop_halt c 0
          else if ch = CHR ''p'' then ppop_start_stop_wstop_halt c 1
          else if ch = CHR ''P'' then ppop_start_stop_wstop_halt c 129
          else if ch = CHR ''b'' then ppop_start_stop_wstop_halt c 2
          else if ch = CHR ''h'' then ppop_hold_release c 0
          else if ch = CHR ''r'' then ppop_hold_release c 1
          else if ch = CHR ''c'' then ppop_cancel_purge c
          else if ch = CHR ''f'' then ppop_media c
          else if ch = CHR ''M'' then ppop_mount c
          else if ch = CHR ''A'' then ppop_accept_reject c True
          else if ch = CHR ''R'' then ppop_accept_reject c False
          else if ch = CHR ''D'' then ppop_dest c
          else if ch = CHR ''m'' then ppop_move c
          else if ch = CHR ''U'' then ppop_rush c
          else if ch = CHR ''q'' then ppop_modify_question c
          else (\<lambda>d. Inr (error (''unknown command: '' @ command) d)))"

text \<open>
  The reply file is created exclusively. When a command has not closed it (\<^verbatim>\<open>reply_file\<close> is not NULL),
  ppop is signalled; when it no longer exists the reply file is deleted.
\<close>

definition ppop_dispatch :: "string \<Rightarrow> daemon \<Rightarrow> daemon res" where
  "ppop_dispatch command d =
     (let d = d\<lparr>reply_pid := c_atoi command\<rparr> in
      if reply_pid d = 0 then Inr (error ''ppop_dispatch(): no PID for reply'' d)
      else
        bindE (path_of ''%s/ppr-ppop-%ld'' [FStr (TEMPDIR (dirs d)), FInt (reply_pid d)] d) (\<lambda>reply_fname.
        if fs d reply_fname \<noteq> None
        then Inr (error (''ppop_dispatch(): can't open '' @ reply_fname) d)
        else
          bindE (ppop_command command (drop (strspn command ''0123456789 '') command)
                   ((write_file reply_fname [] d)\<lparr>reply_open := True\<rparr>)) (\<lambda>d.
          Inr (if reply_open d then
                 let d = emit (KillSIGUSR1 (reply_pid d)) d in
                 if proc_exists d (reply_pid d) then d else unlink reply_fname d
               else d))))"

end
