(* ===== verification/Ipp.thy ===== *)
theory Ipp
  imports Ppop_Dest
begin

text \<open>
  Requests of the Internet Printing Protocol (\<^verbatim>\<open>pprd/pprd_ipp.c\<close>), which \<^verbatim>\<open>ppr-httpd\<close> passes on over a
  Unix-domain socket as a line \<^verbatim>\<open>IPP <operation> <arguments>\<close>. Every handler returns a status code, an extra
  code and the new state.
\<close>

section \<open>Definitions\<close>

record PPRD_CALL_RETVAL =
  status_code :: int
  extra_code :: int

definition new_retval :: "int \<Rightarrow> int \<Rightarrow> PPRD_CALL_RETVAL" where
  "new_retval status extra = \<lparr>status_code = status, extra_code = extra\<rparr>"

subsection \<open>Jobs\<close>

text \<open>
  The loop and its body are those of \<^verbatim>\<open>ppop_cancel_purge()\<close> with the user always informed; only the function
  named in the log differs. The subid is not part of the selection.
\<close>

definition ipp_cancel_job_core :: "int \<Rightarrow> int \<Rightarrow> daemon \<Rightarrow> (PPRD_CALL_RETVAL \<times> daemon) res" where
  "ipp_cancel_job_core destid jid d =
     (let d = lock d in
      bindE (cancel_loop (length (queue d)) (job_in_set destid jid WILDCARD_SUBID) ''ipp_cancel_job_core'' True 0 0 d)
        (\<lambda>(matched, d).
           Inr (new_retval (if matched = 0 then IPP_NOT_FOUND else IPP_OK) 0, unlock d)))"

definition ipp_cancel_job :: "string \<Rightarrow> daemon \<Rightarrow> (PPRD_CALL_RETVAL \<times> daemon) res" where
  "ipp_cancel_job command_args = ipp_cancel_job_core QUEUEID_WILDCARD (c_atoi command_args)"

text \<open>What is done to the job with index \<open>x\<close>.\<close>

definition ipp_hold_this :: "nat \<Rightarrow> daemon \<Rightarrow> (PPRD_CALL_RETVAL \<times> daemon) res" where
  "ipp_hold_this x d =
     bindE (get_job x d) (\<lambda>q.
     let s = q_status q; done = (\<lambda>d. Inr (new_retval IPP_OK 0, d)) in
     if s = STATUS_WAITING \<or> s = STATUS_WAITING4MEDIA
     then bindE (job_new_status_at x STATUS_HELD d) done
     else if s = STATUS_HELD then Inr (new_retval IPP_OK 1, d)
     else if s = STATUS_ARRESTED then Inr (new_retval IPP_NOT_POSSIBLE 0, d)
     else if s = STATUS_SEIZING then Inr (new_retval IPP_OK 1, d)
     else if s = STATUS_CANCEL then
       bindE (printer_new_status s PRNSTATUS_SEIZING d) (\<lambda>d.
       bindE (upd_printer s (\<lambda>p. p\<lparr>p_cancel_job := False, p_hold_job := True\<rparr>) d) (\<lambda>d.
       bindE (job_new_status_at x STATUS_SEIZING d) done))
     else if s = STATUS_RECEIVING then done d
     else if s \<ge> 0 then
       bindE (job_new_status_at x STATUS_SEIZING d) (\<lambda>d.
       bindE (printer_new_status s PRNSTATUS_SEIZING d) (\<lambda>d.
       bindE (upd_printer s (\<lambda>p. p\<lparr>p_hold_job := True\<rparr>) d) (\<lambda>d.
       bindE (get_printer s d) (\<lambda>p.
       bindE (if p_job_pid p \<le> 0 then Inr (error ''ipp_hold_job(): assertion failed'' d)
              else pprdrv_kill s d) done))))
     else Inr (new_retval IPP_INTERNAL_ERROR 0, d))"

definition ipp_release_this :: "nat \<Rightarrow> daemon \<Rightarrow> (PPRD_CALL_RETVAL \<times> daemon) res" where
  "ipp_release_this x d =
     bindE (get_job x d) (\<lambda>q.
     let s = q_status q in
     if s = STATUS_HELD then
       bindE (job_new_status_at x STATUS_WAITING d) (\<lambda>d.
       bindE (set_notnow_at x d) (\<lambda>d.
       bindE (get_job x d) (\<lambda>q.
       bindE (if q_status q = STATUS_WAITING then printer_try_start_suitable_4_this_job x d else Inr d) (\<lambda>d.
         Inr (new_retval IPP_OK 0, d)))))
     else if s = STATUS_ARRESTED \<or> s = STATUS_SEIZING then Inr (new_retval IPP_NOT_POSSIBLE 0, d)
     else if s = STATUS_RECEIVING then Inr (new_retval IPP_OK 0, d)
     else Inr (new_retval IPP_OK 1, d))"

text \<open>Both search the queue for the first job with that id, whatever its destination and subid.\<close>

definition ipp_hold_job :: "string \<Rightarrow> daemon \<Rightarrow> (PPRD_CALL_RETVAL \<times> daemon) res" where
  "ipp_hold_job command_args d =
     (let d = lock d; x = find_index (\<lambda>q. q_id q = c_atoi command_args) (queue d) in
      bindE (if x < length (queue d) then ipp_hold_this x d else Inr (new_retval IPP_NOT_FOUND 0, d)) (\<lambda>(r, d).
        Inr (r, unlock d)))"

definition ipp_release_job :: "string \<Rightarrow> daemon \<Rightarrow> (PPRD_CALL_RETVAL \<times> daemon) res" where
  "ipp_release_job command_args d =
     (let d = lock d; x = find_index (\<lambda>q. q_id q = c_atoi command_args) (queue d) in
      bindE (if x < length (queue d) then ipp_release_this x d else Inr (new_retval IPP_NOT_FOUND 0, d)) (\<lambda>(r, d).
        Inr (r, unlock d)))"

subsection \<open>Printers and groups\<close>

definition set_group_held :: "int \<Rightarrow> bool \<Rightarrow> daemon \<Rightarrow> daemon res" where
  "set_group_held gindex held d =
     with_time (\<lambda>now d.
     bindE (upd_group gindex (\<lambda>g. g\<lparr>g_spool_state :=
              (g_spool_state g)\<lparr>gs_held := held, gs_printer_state_change_time := now\<rparr>\<rparr>) d) (\<lambda>d.
     bindE (get_group gindex d) (\<lambda>g. group_spool_state_save (g_spool_state g) (g_name g) d))) d"

text \<open>
  The arguments begin with \<^verbatim>\<open>group\<close> or \<^verbatim>\<open>printer\<close> and the name follows. \<open>neither\<close> is the status code when they do
  not.
\<close>

definition with_dest_args ::
  "string \<Rightarrow> (int \<Rightarrow> daemon \<Rightarrow> (PPRD_CALL_RETVAL \<times> daemon) res) \<Rightarrow> (int \<Rightarrow> daemon \<Rightarrow> (PPRD_CALL_RETVAL \<times> daemon) res)
   \<Rightarrow> daemon \<Rightarrow> (PPRD_CALL_RETVAL \<times> daemon) res" where
  "with_dest_args command_args on_group on_printer d =
     (case lmatchp command_args ''group'' of
        Some name \<Rightarrow>
          bindE (destid_by_group name d) (\<lambda>destid.
            if destid = -1 then Inr (new_retval IPP_NOT_FOUND 0, d)
            else bindE (destid_to_gindex destid) (\<lambda>gindex. on_group gindex d))
      | None \<Rightarrow>
          (case lmatchp command_args ''printer'' of
             Some name \<Rightarrow>
               (let prnid = destid_by_printer name d in
                if prnid = -1 then Inr (new_retval IPP_NOT_FOUND 0, d) else on_printer prnid d)
           | None \<Rightarrow> Inr (new_retval IPP_INTERNAL_ERROR 0, d)))"

definition ipp_pause_this :: "int \<Rightarrow> daemon \<Rightarrow> (PPRD_CALL_RETVAL \<times> daemon) res" where
  "ipp_pause_this prnid d =
     bindE (get_printer prnid d) (\<lambda>p.
     let s = ps_status (p_spool_state p) in
     if s = PRNSTATUS_FAULT \<or> s = PRNSTATUS_IDLE \<or> s = PRNSTATUS_ENGAGED \<or> s = PRNSTATUS_STARVED then
       bindE (printer_new_status prnid PRNSTATUS_STOPT d) (\<lambda>d.
       bindE (media_startstop_update_waitreason prnid d) (\<lambda>d. Inr (new_retval IPP_OK 0, d)))
     else if s = PRNSTATUS_HALTING \<or> s = PRNSTATUS_STOPT \<or> s = PRNSTATUS_STOPPING
     then Inr (new_retval IPP_OK 1, d)
     else if s = PRNSTATUS_CANCELING \<or> s = PRNSTATUS_SEIZING then
       bindE (printer_new_status prnid PRNSTATUS_HALTING d) (\<lambda>d.
       bindE (media_startstop_update_waitreason prnid d) (\<lambda>d. Inr (new_retval IPP_OK 0, d)))
     else if s = PRNSTATUS_PRINTING then
       bindE (printer_new_status prnid PRNSTATUS_HALTING d) (\<lambda>d.
       bindE (pprdrv_kill prnid d) (\<lambda>d.
       bindE (media_startstop_update_waitreason prnid d) (\<lambda>d. Inr (new_retval IPP_OK 0, d))))
     else Inr (new_retval IPP_INTERNAL_ERROR 0, error ''printer is in undefined state'' d))"

definition ipp_pause_printer :: "string \<Rightarrow> daemon \<Rightarrow> (PPRD_CALL_RETVAL \<times> daemon) res" where
  "ipp_pause_printer command_args =
     with_dest_args command_args
       (\<lambda>gindex d. bindE (set_group_held gindex True d) (\<lambda>d. Inr (new_retval IPP_OK 0, d)))
       ipp_pause_this"

definition ipp_resume_this :: "int \<Rightarrow> daemon \<Rightarrow> (PPRD_CALL_RETVAL \<times> daemon) res" where
  "ipp_resume_this prnid d =
     bindE (get_printer prnid d) (\<lambda>p.
     let s = ps_status (p_spool_state p) in
     if s = PRNSTATUS_IDLE \<or> s = PRNSTATUS_CANCELING \<or> s = PRNSTATUS_SEIZING \<or> s = PRNSTATUS_ENGAGED
        \<or> s = PRNSTATUS_STARVED \<or> s = PRNSTATUS_PRINTING
     then Inr (new_retval IPP_OK 1, d)
     else if s = PRNSTATUS_FAULT \<or> s = PRNSTATUS_STOPT then
       bindE (printer_new_status prnid PRNSTATUS_IDLE d) (\<lambda>d.
       bindE (media_startstop_update_waitreason prnid d) (\<lambda>d.
       bindE (printer_look_for_work prnid d) (\<lambda>d. Inr (new_retval IPP_OK 0, d))))
     else if s = PRNSTATUS_HALTING then Inr (new_retval IPP_NOT_POSSIBLE 0, d)
     else if s = PRNSTATUS_STOPPING then
       bindE (printer_new_status prnid PRNSTATUS_PRINTING d) (\<lambda>d.
       bindE (media_startstop_update_waitreason prnid d) (\<lambda>d. Inr (new_retval IPP_OK 0, d)))
     else Inr (new_retval IPP_INTERNAL_ERROR 0, error ''printer is in undefined state'' d))"

definition ipp_resume_printer :: "string \<Rightarrow> daemon \<Rightarrow> (PPRD_CALL_RETVAL \<times> daemon) res" where
  "ipp_resume_printer command_args =
     with_dest_args command_args
       (\<lambda>gindex d. bindE (set_group_held gindex False d) (\<lambda>d.
          bindE (group_look_for_work gindex d) (\<lambda>d. Inr (new_retval IPP_OK 0, d))))
       ipp_resume_this"

text \<open>The source looks the whole of \<^verbatim>\<open>command_args\<close> up, the word \<^verbatim>\<open>group\<close> or \<^verbatim>\<open>printer\<close> included.\<close>

definition ipp_purge_jobs :: "string \<Rightarrow> daemon \<Rightarrow> (PPRD_CALL_RETVAL \<times> daemon) res" where
  "ipp_purge_jobs command_args d =
     (if lmatchp command_args ''group'' \<noteq> None then
        bindE (destid_by_group command_args d) (\<lambda>destid.
          if destid = -1 then Inr (new_retval IPP_NOT_FOUND 0, d)
          else ipp_cancel_job_core destid WILDCARD_JOBID d)
      else if lmatchp command_args ''printer'' \<noteq> None then
        (let destid = destid_by_printer command_args d in
         if destid = -1 then Inr (new_retval IPP_NOT_FOUND 0, d)
         else ipp_cancel_job_core destid WILDCARD_JOBID d)
      else Inr (new_retval IPP_INTERNAL_ERROR 0, d))"

text \<open>The branch for a printer looks the name up among the groups.\<close>

definition cups_accept_or_reject_jobs :: "string \<Rightarrow> bool \<Rightarrow> daemon \<Rightarrow> (PPRD_CALL_RETVAL \<times> daemon) res" where
  "cups_accept_or_reject_jobs command_args accepting d =
     (case lmatchp command_args ''group'' of
        Some p \<Rightarrow>
          bindE (destid_by_group p d) (\<lambda>destid.
            if destid = -1 then Inr (new_retval IPP_NOT_FOUND 0, d)
            else
              bindE (destid_to_gindex destid) (\<lambda>gindex.
              bindE (set_group_accepting gindex accepting d) (\<lambda>d. Inr (new_retval IPP_OK 0, d))))
      | None \<Rightarrow>
          (case lmatchp command_args ''printer'' of
             Some p \<Rightarrow>
               bindE (destid_by_group p d) (\<lambda>destid.
                 if destid = -1 then Inr (new_retval IPP_NOT_FOUND 0, d)
                 else bindE (set_printer_accepting destid accepting d) (\<lambda>d. Inr (new_retval IPP_OK 0, d)))
           | None \<Rightarrow> Inr (new_retval IPP_BAD_REQUEST 0, d)))"

subsection \<open>Moving a job\<close>

text \<open>
  The log line names the old destination, so it is written before the destination id is changed; the id
  is assigned also when it does not change.
\<close>

definition cups_move_this :: "nat \<Rightarrow> int \<Rightarrow> int \<Rightarrow> daemon \<Rightarrow> daemon res" where
  "cups_move_this x new_destid rank2 d =
     bindE (get_job x d) (\<lambda>q.
     bindE (destid_to_name (q_destid q) d) (\<lambda>oldname.
     bindE (destid_to_name new_destid d) (\<lambda>newname.
     bindE (if q_destid q \<noteq> new_destid then
              with_jobid oldname (q_id q) (q_subid q) (\<lambda>j d.
              bindE (state_update (''MOV '' @ j @ '' '' @ newname @ '' '' @ print_d rank2) d) (\<lambda>d.
                rename_job_files oldname newname q d)) d
            else Inr d) (\<lambda>d.
     bindE (log_move oldname newname q d) (\<lambda>d.
     bindE (set_job x (q\<lparr>q_destid := new_destid\<rparr>) d) (\<lambda>d.
       reset_moved x d))))))"

text \<open>
  The first job with the id is moved. The return for a job that is being printed leaves the tables
  locked.
\<close>

definition cups_move_to :: "int \<Rightarrow> int \<Rightarrow> daemon \<Rightarrow> (PPRD_CALL_RETVAL \<times> daemon) res" where
  "cups_move_to jid new_destid d =
     (let d = lock d; x = find_index (\<lambda>q. q_id q = jid) (queue d);
          rank2 = int (length (filter (\<lambda>q. q_destid q = new_destid) (take x (queue d)))) in
      if \<not> x < length (queue d) then Inr (new_retval IPP_NOT_FOUND 0, unlock d)
      else if q_status (queue d ! x) \<ge> 0 then Inr (new_retval IPP_NOT_POSSIBLE 0, d)
      else bindE (cups_move_this x new_destid rank2 d) (\<lambda>d. Inr (new_retval IPP_OK 0, unlock d)))"

definition skip_number :: "string \<Rightarrow> string" where
  "skip_number p = (let p = drop (strspn p ''0123456789'') p in drop (strspn p '' '') p)"

definition cups_move_job :: "string \<Rightarrow> daemon \<Rightarrow> (PPRD_CALL_RETVAL \<times> daemon) res" where
  "cups_move_job command_args d =
     (let p = skip_number command_args in
      case lmatchp p ''group'' of
        Some name \<Rightarrow>
          bindE (destid_by_group name d) (\<lambda>destid.
            if destid = -1 then Inr (new_retval IPP_NOT_FOUND 0, d)
            else cups_move_to (c_atoi command_args) destid d)
      | None \<Rightarrow>
          (case lmatchp p ''printer'' of
             Some name \<Rightarrow>
               (let destid = destid_by_printer name d in
                if destid = -1 then Inr (new_retval IPP_NOT_FOUND 0, d)
                else cups_move_to (c_atoi command_args) destid d)
           | None \<Rightarrow> Inr (new_retval IPP_INTERNAL_ERROR 0, d)))"

subsection \<open>The dispatcher\<close>

definition ipp_operation :: "int \<Rightarrow> string \<Rightarrow> daemon \<Rightarrow> (PPRD_CALL_RETVAL \<times> daemon) res" where
  "ipp_operation operation_id p =
     (if operation_id = IPP_CANCEL_JOB then ipp_cancel_job p
      else if operation_id = IPP_HOLD_JOB then ipp_hold_job p
      else if operation_id = IPP_RELEASE_JOB then ipp_release_job p
      else if operation_id = IPP_PAUSE_PRINTER then ipp_pause_printer p
      else if operation_id = IPP_RESUME_PRINTER then ipp_resume_printer p
      else if operation_id = IPP_PURGE_JOBS then ipp_purge_jobs p
      else if operation_id = CUPS_ACCEPT_JOBS then cups_accept_or_reject_jobs p True
      else if operation_id = CUPS_REJECT_JOBS then cups_accept_or_reject_jobs p False
      else if operation_id = CUPS_MOVE_JOB then cups_move_job p
      else (\<lambda>d. Inr (new_retval IPP_OPERATION_NOT_SUPPORTED 0, error ''unsupported operation'' d)))"

definition ipp_dispatch :: "string \<Rightarrow> daemon \<Rightarrow> (PPRD_CALL_RETVAL \<times> daemon) res" where
  "ipp_dispatch command d =
     (case lmatchsp command ''IPP'' of
        None \<Rightarrow> Inr (new_retval IPP_INTERNAL_ERROR 0, error ''ipp_dispatch(): command missing'' d)
      | Some p \<Rightarrow> ipp_operation (c_atoi p) (skip_number p) d)"

end
