(* ===== verification/Pprd.thy ===== *)
theory Pprd
  imports Ipp
begin

text \<open>
  The main program (\<^verbatim>\<open>pprd/pprd.c\<close>): child processes that have ended, the timer tick, and the main loop
  as a step relation. One step is one pass of the loop: a command from the FIFO or the socket, a timer tick, a batch
  of ended children, or a change made by other processes to the files the daemon works with.
\<close>

section \<open>Definitions\<close>

definition responder_child_hook :: "int \<Rightarrow> wstat \<Rightarrow> bool" where
  "responder_child_hook pid wstat = False"

definition report_weird :: "int \<Rightarrow> wstat \<Rightarrow> daemon \<Rightarrow> daemon" where
  "report_weird pid wstat d =
     (case wstat of
        Signaled sig dumped stopsig \<Rightarrow>
          error (''Process '' @ print_d pid @ '' was killed by signal '' @ print_d sig @
                 (if dumped then '', (core dumped)'' else [])) d
      | Exited _ \<Rightarrow> d
      | _ \<Rightarrow> error (''Process '' @ print_d pid @ '' met a mysterious end'') d)"

definition reap_one :: "int \<Rightarrow> wstat \<Rightarrow> daemon \<Rightarrow> daemon res" where
  "reap_one pid wstat d =
     bindE (pprdrv_child_hook pid wstat d) (\<lambda>(claimed, d).
       if claimed then Inr d
       else
         bindE (question_child_hook pid wstat (report_weird pid wstat d)) (\<lambda>(claimed, d).
           if claimed \<or> responder_child_hook pid wstat then Inr d else Inr d))"

text \<open>The results of the calls to \<^verbatim>\<open>waitpid()\<close>; the loop ends with the first that is not positive.\<close>

fun reapchild :: "(int \<times> wstat) list \<Rightarrow> daemon \<Rightarrow> daemon res" where
  "reapchild [] d = Inr d"
| "reapchild ((pid, wstat) # rest) d =
     (if pid > 0 then bindE (reap_one pid wstat d) (reapchild rest) else Inr d)"

text \<open>
  One block of bytes from the Unix-domain socket; the reply has the two codes of the result. As a C
  string the command ends at its first NUL.
\<close>

definition c_string :: "string \<Rightarrow> string" where
  "c_string s = takeWhile (\<lambda>c. c \<noteq> CHR 0x00) s"

definition socket_result :: "string \<Rightarrow> daemon \<Rightarrow> (PPRD_CALL_RETVAL \<times> daemon) res" where
  "socket_result block d =
     (if block = [] \<or> last block \<noteq> CHR 0x0A
      then Inr (new_retval IPP_BAD_REQUEST 0, error ''ignoring malformed command from Unix-domain socket'' d)
      else
        let command = c_string (butlast block) in
        if command \<noteq> [] \<and> hd command = CHR ''I'' then ipp_dispatch command d
        else Inr (new_retval IPP_OPERATION_NOT_SUPPORTED 0,
                  error (''unrecognized command received on Unix-domain socket: '' @ command) d))"

definition do_socket_command :: "string \<Rightarrow> daemon \<Rightarrow> daemon res" where
  "do_socket_command block d =
     bindE (socket_result block d) (\<lambda>(result, d).
       Inr (emit (SocketReply (print_d (status_code result) @ '' '' @ print_d (extra_code result) @ [CHR 0x0A])) d))"

definition tick :: "daemon \<Rightarrow> daemon res" where
  "tick d = bindE (printer_tick d) question_tick"

inductive step :: "daemon \<Rightarrow> daemon \<Rightarrow> bool" where
  new_job: "queue_new_job command d = Inr d' \<Longrightarrow> step d d'"
| reload_job: "queue_reload_job command d = Inr d' \<Longrightarrow> step d d'"
| remind: "step d (ppad_remind d)"
| ppop: "ppop_dispatch command d = Inr d' \<Longrightarrow> step d d'"
| socket: "do_socket_command block d = Inr d' \<Longrightarrow> step d d'"
| timer: "tick d = Inr d' \<Longrightarrow> step d d'"
| children: "reapchild ended d = Inr d' \<Longrightarrow> step d d'"
| others: "step d (d\<lparr>fs := files, file_ctime := ctimes, proc_exists := procs, struct_text := txt\<rparr>)"

inductive_cases stepE: "step d d'"

text \<open>A run of the daemon.\<close>

inductive steps :: "daemon \<Rightarrow> daemon \<Rightarrow> bool" where
  start: "steps d d"
| more: "steps d d' \<Longrightarrow> step d' d'' \<Longrightarrow> steps d d''"

end
