(* ===== verification/Wp.thy ===== *)
theory Wp
  imports Media
begin

text \<open>
  Proof rules for computations in the error monad. \<open>okR I m P\<close> says that \<open>m\<close>, when it returns, returns a
  value with property \<open>P\<close>, and when it throws, leaves a state with property \<open>I\<close>; the collection \<open>wp\<close> holds
  the rules with which \<open>auto\<close> walks through an operation's definition.
\<close>

named_theorems wp \<open>proof rules for okR\<close>
named_theorems reads \<open>computations that do not throw\<close>

section \<open>Definitions\<close>

text \<open>
  Weakest precondition that also follows exceptions: a computation that throws must leave a state
  in which the invariant holds, since \<open>queue_accept_queuefile\<close> may catch the exception and go on.
\<close>

definition okR :: "(daemon \<Rightarrow> bool) \<Rightarrow> 'a res \<Rightarrow> ('a \<Rightarrow> bool) \<Rightarrow> bool" where
  "okR I m P = (case m of Inr a \<Rightarrow> P a | Inl (Throw _ d) \<Rightarrow> I d | Inl _ \<Rightarrow> True)"

text \<open>Computations that only read the state never throw, but for the two that format or scan text.\<close>

definition no_throw :: "'a res \<Rightarrow> bool" where
  "no_throw m \<longleftrightarrow> (\<forall>msg d. m \<noteq> Inl (Throw msg d))"

definition upd_nth :: "int \<Rightarrow> ('a \<Rightarrow> 'a) \<Rightarrow> 'a list \<Rightarrow> 'a list" where
  "upd_nth i f xs = xs[nat i := f (xs ! nat i)]"

section \<open>Lemmas\<close>

lemma okR_simps [simp]:
  "okR I (Inr a) P \<longleftrightarrow> P a" "okR I (Inl (Fatal m)) P" "okR I (Inl (UB m)) P"
  "okR I (Inl (Throw m d)) P \<longleftrightarrow> I d"
  by (simp_all add: okR_def)

lemma okR_bindE [simp]: "okR I (bindE m k) P \<longleftrightarrow> okR I m (\<lambda>a. okR I (k a) P)"
  by (cases m) (simp_all add: okR_def split: abort.split)

lemma okR_if [simp]: "okR I (if b then m else k) P \<longleftrightarrow> (if b then okR I m P else okR I k P)"
  by simp

lemma okR_onR: "okR I m P \<Longrightarrow> onR m P"
  by (simp add: okR_def onR_def split: sum.splits)

lemma okR_weaken: "okR I m Q \<Longrightarrow> (\<And>a. Q a \<Longrightarrow> P a) \<Longrightarrow> okR I m P"
  by (auto simp: okR_def split: sum.splits abort.splits)

lemma okR_weaken2: "okR I m (\<lambda>(x, d). Q d) \<Longrightarrow> (\<And>x d. Q d \<Longrightarrow> P (x, d)) \<Longrightarrow> okR I m P"
  by (erule okR_weaken) auto

lemma okR_weaken3: "okR I m (\<lambda>(x, y, d). Q d) \<Longrightarrow> (\<And>x y d. Q d \<Longrightarrow> P (x, y, d)) \<Longrightarrow> okR I m P"
  by (erule okR_weaken) auto

lemma okR_conj: "okR I m P \<Longrightarrow> onR m Q \<Longrightarrow> okR I m (\<lambda>a. P a \<and> Q a)"
  by (auto simp: okR_def onR_def split: sum.splits)

lemma okR_foldE:
  assumes "\<And>x s. P s \<Longrightarrow> okR I (f x s) P" and "P s"
  shows "okR I (foldE f xs s) P"
  using assms(2)
proof (induction xs arbitrary: s)
  case (Cons x xs)
  then show ?case using assms(1) [of s x] by (auto elim!: okR_weaken)
qed simp

lemma no_throw_simps [simp]:
  "no_throw (Inr a)" "no_throw (Inl (Fatal m))" "no_throw (Inl (UB m))"
  by (simp_all add: no_throw_def)

lemma no_throw_bindE: "no_throw m \<Longrightarrow> (\<And>a. no_throw (k a)) \<Longrightarrow> no_throw (bindE m k)"
  by (cases m) (auto simp: no_throw_def)

lemma no_throw_if: "no_throw m \<Longrightarrow> no_throw k \<Longrightarrow> no_throw (if b then m else k)"
  by simp


lemmas [reads] = no_throw_bindE no_throw_if no_throw_simps

lemma no_throw_basic [reads]:
  "no_throw (get_printer i d)" "no_throw (get_job x d)" "no_throw (get_group i d)"
  "no_throw (destid_to_gindex i)" "no_throw (destid_by_gindex i)"
  by (simp_all add: get_printer_def get_job_def get_group_def destid_to_gindex_def destid_by_gindex_def Let_def)

lemma no_throw_destid [reads]:
  "no_throw (destid_to_name i d)" "no_throw (destid_get_member_offset i j d)" "no_throw (destid_by_group n d)"
  "no_throw (destid_accepting i d)"
  unfolding destid_to_name_def destid_get_member_offset_def destid_by_group_def destid_accepting_def Let_def
  by (intro reads)+

lemma no_throw_dest2 [reads]:
  "no_throw (destid_printer_bit i j d)" "no_throw (destid_by_name n d)" "no_throw (destid_by_name_reversed n d)"
  "no_throw (job_for_printer i q d)" "no_throw (hasmedia i q d)"
  unfolding destid_printer_bit_def destid_by_name_def destid_by_name_reversed_def job_for_printer_def hasmedia_def
    Let_def
  by (intro reads)+

lemma no_throw_loops [reads]:
  "no_throw (stopt_loop n ps m d)" "no_throw (notnow_loop n ps q d)"
  by (induction ps arbitrary: n m q) (auto intro!: reads)

lemma no_throw_media [reads]:
  "no_throw (stoptmask i d)" "no_throw (wait_status q n d)"
  unfolding stoptmask_def wait_status_def Let_def by (intro reads)+

lemma okR_read: "no_throw m \<Longrightarrow> (\<And>a. m = Inr a \<Longrightarrow> P a) \<Longrightarrow> okR I m P"
  by (auto simp: okR_def no_throw_def split: sum.split abort.split)

lemmas read_wp [wp] =
  okR_read [OF no_throw_basic(1)]
  okR_read [OF no_throw_basic(2)]
  okR_read [OF no_throw_basic(3)]
  okR_read [OF no_throw_destid(1)]
  okR_read [OF no_throw_basic(4)]
  okR_read [OF no_throw_destid(2)]
  okR_read [OF no_throw_dest2(1)]
  okR_read [OF no_throw_dest2(2)]
  okR_read [OF no_throw_dest2(3)]
  okR_read [OF no_throw_basic(5)]
  okR_read [OF no_throw_media(1)]
  okR_read [OF no_throw_dest2(5)]
  okR_read [OF no_throw_media(2)]
  okR_read [OF no_throw_loops(2)]
  okR_read [OF no_throw_destid(3)]
  okR_read [OF no_throw_destid(4)]
  okR_read [OF no_throw_dest2(4)]

lemma map_upd_nth_same: "(\<And>x. f (g x) = f x) \<Longrightarrow> map f (upd_nth i g xs) = map f xs"
  by (cases "nat i < length xs") (auto simp: upd_nth_def nth_list_update intro!: nth_equalityI)

lemma map_upd_nth_cong: "(\<And>x. f (g x) = f (h x)) \<Longrightarrow> map f (upd_nth i g xs) = map f (upd_nth i h xs)"
  by (cases "nat i < length xs") (auto simp: upd_nth_def nth_list_update intro!: nth_equalityI)

lemma get_printer_cong: "printers d' = printers d \<Longrightarrow> get_printer i d' = get_printer i d"
  by (simp add: get_printer_def)

lemma get_printer_quiet [simp]:
  "get_printer i (lock d) = get_printer i d" "get_printer i (unlock d) = get_printer i d"
  "get_printer i (emit e d) = get_printer i d" "get_printer i (error m d) = get_printer i d"
  "get_printer i (d\<lparr>queue := q\<rparr>) = get_printer i d" "get_printer i (d\<lparr>fork_calls := n\<rparr>) = get_printer i d"
  "get_printer i (d\<lparr>time_calls := n\<rparr>) = get_printer i d"
  "get_printer i (d\<lparr>starving_printers := k\<rparr>) = get_printer i d"
  "get_printer i (d\<lparr>active_printers := k\<rparr>) = get_printer i d"
  "get_printer i (d\<lparr>hungry_x := k\<rparr>) = get_printer i d"
  by (rule get_printer_cong, simp)+

lemma get_printer_iff: "get_printer i d = Inr p \<longleftrightarrow> 0 \<le> i \<and> i < int (length (printers d)) \<and> p = printers d ! nat i"
  by (auto simp: get_printer_def)

lemma upd_printer_iff:
  "upd_printer i f d = Inr d' \<longleftrightarrow>
     0 \<le> i \<and> i < int (length (printers d)) \<and> d' = d\<lparr>printers := upd_nth i f (printers d)\<rparr>"
  by (auto simp: upd_printer_def upd_nth_def)

lemma upd_group_iff:
  "upd_group i f d = Inr d' \<longleftrightarrow>
     0 \<le> i \<and> i < int (length (groups d)) \<and> d' = d\<lparr>groups := upd_nth i f (groups d)\<rparr>"
  by (auto simp: upd_group_def upd_nth_def)

end
