(* ===== verification/Starting.thy ===== *)
theory Starting
  imports Wp
begin

text \<open>
  What starting a driver does, followed through the calls: a change of a printer's status, a change of a
  job's status, the launch of the driver, and the two searches that lead to a launch (a printer that
  looks for a job, a job that looks for a printer).
\<close>

section \<open>Definitions\<close>

text \<open>What identifies a job.\<close>

definition job_key :: "QEntry \<Rightarrow> int \<times> int \<times> int" where
  "job_key q = (q_destid q, q_id q, q_subid q)"

text \<open>The printer may start the job: the job waits, the printer is idle, the job's group is not held, and
  neither bitmap of the job excludes the printer.\<close>

definition ready :: "int \<Rightarrow> nat \<Rightarrow> daemon \<Rightarrow> bool" where
  "ready prnid x d \<longleftrightarrow> x < length (queue d) \<and> 0 \<le> prnid \<and> prnid < int (length (printers d))
     \<and> q_status (queue d ! x) = STATUS_WAITING \<and> ps_status (p_spool_state (printers d ! nat prnid)) = PRNSTATUS_IDLE
     \<and> returns (destid_printer_bit (q_destid (queue d ! x)) prnid d) (\<lambda>b.
          uint (q_notnow (queue d ! x)) AND b = 0 \<and> uint (q_never (queue d ! x)) AND b = 0)
     \<and> (destid_is_group (q_destid (queue d ! x)) d \<longrightarrow>
          returns (bindE (destid_to_gindex (q_destid (queue d ! x))) (\<lambda>gi. get_group gi d)) (\<lambda>g. \<not> gs_held (g_spool_state g)))"

text \<open>The printer would take the job, also by its destination.\<close>

definition suits :: "int \<Rightarrow> nat \<Rightarrow> daemon \<Rightarrow> bool" where
  "suits i x d \<longleftrightarrow> returns (job_for_printer i (queue d ! x) d) (\<lambda>b. b) \<and> ready i x d"

text \<open>How a driver has been started on printer \<open>i\<close> for the job at \<open>x\<close>.\<close>

definition driver_started :: "int \<Rightarrow> nat \<Rightarrow> daemon \<Rightarrow> daemon \<Rightarrow> bool" where
  "driver_started i x d d' \<longleftrightarrow>
     (let job = queue d ! x; p = printers d ! nat i; pid = fork_result d (fork_calls d) in
      pid \<noteq> -1 \<and> active_printers d \<noteq> MAX_ACTIVE \<and> active_printers d' = active_printers d + 1
      \<and> queue d' = (queue d)[x := job\<lparr>q_status := i\<rparr>]
      \<and> (\<exists>now. printers d' = (printers d)[nat i := (set_printer_job pid job p)\<lparr>
            p_spool_state := set_status PRNSTATUS_PRINTING now (p_spool_state p)\<rparr>])
      \<and> (\<forall>dest. destid_to_name (q_destid job) d = Inr dest \<longrightarrow>
            ExecPprdrv (p_name p) (take 127 (dest @ ''-'' @ print_d (q_id job) @ ''.'' @ print_d (q_subid job)))
              (take 9 (print_d (q_pass job))) \<in> set (outs d')))"

text \<open>The printer has been put among the starving ones instead.\<close>

definition starved :: "int \<Rightarrow> daemon \<Rightarrow> daemon \<Rightarrow> bool" where
  "starved i d d' \<longleftrightarrow> queue d' = queue d \<and> active_printers d' = active_printers d
     \<and> starving_printers d' = starving_printers d + 1
     \<and> (\<exists>now. printers d' = (printers d)[nat i := (printers d ! nat i)\<lparr>
          p_spool_state := set_status PRNSTATUS_STARVED now (p_spool_state (printers d ! nat i))\<rparr>])"

text \<open>The members of a group, tried one after the other until one takes the job.\<close>

fun try_each :: "int list \<Rightarrow> nat \<Rightarrow> daemon \<Rightarrow> daemon res" where
  "try_each [] x d = Inr d"
| "try_each (m # ms) x d =
     bindE (printer_start m x d) (\<lambda>(r, d). if r = 0 then Inr d else try_each ms x d)"

section \<open>Lemmas\<close>

subsection \<open>Printer status\<close>

lemma pst_update_quiet:
  assumes "pst_update i p d = Inr d'"
  shows "core d' = core d \<and> fs d' = fs d"
  using assms
  by (auto simp: pst_update_def pst_job_line_def with_jobid_def state_update_def Let_def emit_def core_def split: if_splits)

lemma printer_new_status_eq:
  assumes "0 \<le> i" "i < int (length (printers d))" "p = printers d ! nat i" "ps_status (p_spool_state p) \<noteq> PRNSTATUS_DELETED"
    and "p1 = p\<lparr>p_spool_state := set_status s (clock d (time_calls d)) (p_spool_state p)\<rparr>"
  shows "printer_new_status i s d =
    bindE (printer_spool_state_save (p_spool_state p1) (p_name p)
             ((lock d)\<lparr>time_calls := Suc (time_calls d), printers := (printers d)[nat i := p1]\<rparr>)) (\<lambda>e.
    bindE (if s = PRNSTATUS_STOPT \<and> p_ppop_pid p \<noteq> 0
           then upd_printer i (\<lambda>p. p\<lparr>p_ppop_pid := 0\<rparr>) (emit (KillSIGUSR1 (p_ppop_pid p)) e) else Inr e) (\<lambda>e.
    bindE (pst_update i p1 e) (\<lambda>e. Inr (unlock e))))"
  using assms
  by (simp add: printer_new_status_def Let_def with_time_def upd_spool_def upd_printer_def get_printer_def lock_def cong: if_cong)

lemma printer_new_status_range: "printer_new_status i s d = Inr d' \<Longrightarrow> 0 \<le> i \<and> i < int (length (printers d))"
  by (auto simp: printer_new_status_def Let_def get_printer_def split: if_splits)

lemma printer_new_status_full:
  assumes "printer_new_status i s d = Inr d'" "p = printers d ! nat i"
  shows "if ps_status (p_spool_state p) = PRNSTATUS_DELETED then core d' = core d \<and> fs d' = fs d
    else \<exists>p' now. p' = p\<lparr>p_spool_state := set_status s now (p_spool_state p),
             p_ppop_pid := (if s = PRNSTATUS_STOPT then 0 else p_ppop_pid p)\<rparr>
      \<and> core d' = core (d\<lparr>printers := (printers d)[nat i := p']\<rparr>)
      \<and> ((\<forall>v \<in> set (printer_state_values (p_spool_state p')). \<bar>v\<bar> < 2 ^ 31) \<longrightarrow>
           printer_spool_state_load (p_name p) d' = Inr (0, p_spool_state p'))"
proof (cases "ps_status (p_spool_state p) = PRNSTATUS_DELETED")
  case True
  then show ?thesis using assms
    by (auto simp: printer_new_status_def Let_def get_printer_def lock_def unlock_def error_def emit_def core_def split: if_splits)
next
  case False
  define p1 where "p1 = p\<lparr>p_spool_state := set_status s (clock d (time_calls d)) (p_spool_state p)\<rparr>"
  define p2 where "p2 = p1\<lparr>p_ppop_pid := (if s = PRNSTATUS_STOPT then 0 else p_ppop_pid p)\<rparr>"
  let ?d = "(lock d)\<lparr>time_calls := Suc (time_calls d), printers := (printers d)[nat i := p1]\<rparr>"
  have i: "0 \<le> i" "i < int (length (printers d))" using printer_new_status_range [OF assms(1)] by auto
  obtain e e1 e2 where e: "printer_spool_state_save (p_spool_state p1) (p_name p) ?d = Inr e"
      "(if s = PRNSTATUS_STOPT \<and> p_ppop_pid p \<noteq> 0
           then upd_printer i (\<lambda>p. p\<lparr>p_ppop_pid := 0\<rparr>) (emit (KillSIGUSR1 (p_ppop_pid p)) e) else Inr e) = Inr e1"
      "pst_update i p1 e1 = Inr e2" "d' = unlock e2"
    using assms(1) printer_new_status_eq [OF i assms(2) False p1_def] by auto
  have e_core: "core e = core (d\<lparr>printers := (printers d)[nat i := p1]\<rparr>)"
    using printer_saved_text [OF e(1)] by (auto simp: core_def lock_def write_file_def)
  have e1: "core e1 = core (d\<lparr>printers := (printers d)[nat i := p2]\<rparr>) \<and> fs e1 = fs e \<and> dirs e1 = dirs e"
  proof (cases "s = PRNSTATUS_STOPT \<and> p_ppop_pid p \<noteq> 0")
    case True
    have pe: "printers e = (printers d)[nat i := p1]" using core_fields(3) [OF e_core] by simp
    then have "e1 = (emit (KillSIGUSR1 (p_ppop_pid p)) e)\<lparr>printers := (printers d)[nat i := p2]\<rparr>"
      using True e(2) i by (auto simp: upd_printer_def p2_def split: if_splits)
    then show ?thesis using e_core by (simp add: core_printers emit_def)
  next
    case no: False
    then have "p2 = p1" by (cases "s = PRNSTATUS_STOPT") (auto simp: p1_def p2_def)
    then show ?thesis using no e(2) e_core by auto
  qed
  have fin: "core d' = core e1" "fs d' = fs e" "dirs d' = dirs e"
    using pst_update_quiet [OF e(3)] e1 e(4) core_fields(12) [of e2 e1] by (auto simp: unlock_def)
  have "p_spool_state p2 = p_spool_state p1" by (simp add: p2_def)
  then have "printer_spool_state_load (p_name p) d' = Inr (0, p_spool_state p2)"
    if "\<forall>v \<in> set (printer_state_values (p_spool_state p2)). \<bar>v\<bar> < 2 ^ 31"
    using printer_load_cong [OF printer_load_saved [OF e(1)] fin(2,3)] that by simp
  moreover have "p2 = p\<lparr>p_spool_state := set_status s (clock d (time_calls d)) (p_spool_state p),
             p_ppop_pid := (if s = PRNSTATUS_STOPT then 0 else p_ppop_pid p)\<rparr>" by (simp add: p1_def p2_def)
  ultimately show ?thesis using False fin(1) e1 by auto
qed

lemma pst_update_outs:
  assumes "pst_update i p d = Inr d'" "r \<in> set (outs d)"
  shows "r \<in> set (outs d')"
proof -
  have su: "r \<in> set (outs e')" if "state_update l e = Inr e'" "r \<in> set (outs e)" for l e e'
    using that by (auto simp: state_update_def emit_def split: if_splits)
  have jl: "r \<in> set (outs d')" if "pst_job_line i v p t d = Inr d'" for v t
    using that assms(2) by (auto simp: pst_job_line_def with_jobid_def dest!: su)
  show ?thesis
    using assms(1) unfolding pst_update_def Let_def
    using assms(2) by (auto split: if_splits intro: jl su [OF _ assms(2)])
qed

lemma new_status_outs:
  assumes "printer_new_status i s d = Inr d'" "r \<in> set (outs d)"
  shows "r \<in> set (outs d')"
proof (cases "ps_status (p_spool_state (printers d ! nat i)) = PRNSTATUS_DELETED")
  case True
  then show ?thesis using assms
    by (auto simp: printer_new_status_def Let_def get_printer_def lock_def unlock_def error_def emit_def split: if_splits)
next
  case False
  have i: "0 \<le> i" "i < int (length (printers d))" using printer_new_status_range [OF assms(1)] by auto
  define p1 where "p1 = (printers d ! nat i)\<lparr>p_spool_state :=
    set_status s (clock d (time_calls d)) (p_spool_state (printers d ! nat i))\<rparr>"
  obtain e e1 e2 where e: "printer_spool_state_save (p_spool_state p1) (p_name (printers d ! nat i))
             ((lock d)\<lparr>time_calls := Suc (time_calls d), printers := (printers d)[nat i := p1]\<rparr>) = Inr e"
      "(if s = PRNSTATUS_STOPT \<and> p_ppop_pid (printers d ! nat i) \<noteq> 0
           then upd_printer i (\<lambda>p. p\<lparr>p_ppop_pid := 0\<rparr>) (emit (KillSIGUSR1 (p_ppop_pid (printers d ! nat i))) e) else Inr e) = Inr e1"
      "pst_update i p1 e1 = Inr e2" "d' = unlock e2"
    using assms(1) printer_new_status_eq [OF i refl False p1_def] by auto
  have "outs e = outs d" using printer_saved_text [OF e(1)] by (auto simp: lock_def write_file_def)
  then have "r \<in> set (outs e1)" using e(2) assms(2) by (auto simp: upd_printer_iff emit_def split: if_splits)
  then show ?thesis using pst_update_outs [OF e(3)] e(4) by (simp add: unlock_def)
qed

lemma printer_new_status_effect:
  assumes "printer_new_status i s d = Inr d'" "ps_status (p_spool_state (printers d ! nat i)) \<noteq> PRNSTATUS_DELETED"
  obtains now where "core d' = core (d\<lparr>printers := (printers d)[nat i := (printers d ! nat i)\<lparr>
      p_spool_state := set_status s now (p_spool_state (printers d ! nat i)),
      p_ppop_pid := (if s = PRNSTATUS_STOPT then 0 else p_ppop_pid (printers d ! nat i))\<rparr>]\<rparr>)"
  using printer_new_status_full [OF assms(1) refl] assms(2) by (auto split: if_splits)

subsection \<open>Job status\<close>

lemma queue_write_quiet:
  assumes "queue_write_status_and_flags job d = Inr d'"
  shows "core d' = core d \<and> (\<forall>r \<in> set (outs d). r \<in> set (outs d'))"
  using assms
  by (auto simp: queue_write_status_and_flags_def Let_def error_def emit_def write_file_def split: option.splits if_splits)

lemma queue_p_job_new_status_effect:
  assumes "queue_p_job_new_status job s d = Inr (job', d')"
  shows "job' = job\<lparr>q_status := s\<rparr> \<and> core d' = core d \<and> (\<forall>r \<in> set (outs d). r \<in> set (outs d'))"
proof -
  obtain e where e: "queue_write_status_and_flags (job\<lparr>q_status := s\<rparr>) d = Inr e"
    using assms by (auto simp: queue_p_job_new_status_def Let_def)
  show ?thesis
    using assms e queue_write_quiet [OF e]
    by (auto simp: queue_p_job_new_status_def Let_def with_jobid_def state_update_def emit_def split: option.splits if_splits)
qed

lemma job_new_status_at_effect:
  assumes "job_new_status_at x s d = Inr d'"
  shows "x < length (queue d) \<and> core d' = core (d\<lparr>queue := (queue d)[x := (queue d ! x)\<lparr>q_status := s\<rparr>]\<rparr>)
    \<and> (\<forall>r \<in> set (outs d). r \<in> set (outs d'))"
proof -
  obtain j e where x: "x < length (queue d)" and e: "queue_p_job_new_status (queue d ! x) s d = Inr (j, e)"
    "set_job x j e = Inr d'"
    using assms by (auto simp: job_new_status_at_def get_job_def split: if_splits)
  have c: "core e = core d" "\<forall>r \<in> set (outs d). r \<in> set (outs e)" "j = (queue d ! x)\<lparr>q_status := s\<rparr>"
    using queue_p_job_new_status_effect [OF e(1)] by simp_all
  have d': "d' = e\<lparr>queue := (queue d)[x := j]\<rparr>"
    using e(2) core_fields(1) [OF c(1)] by (simp add: set_job_def split: if_splits)
  show ?thesis unfolding d' using x c by (simp add: core_queue)
qed

lemma queue_job_new_status_effect:
  assumes "queue_job_new_status i j k s d = Inr (x, d')"
  shows "x = find_index (is_job i j k) (queue d) \<and> x < length (queue d)
    \<and> core d' = core (d\<lparr>queue := (queue d)[x := (queue d ! x)\<lparr>q_status := s\<rparr>]\<rparr>) \<and> (\<forall>r \<in> set (outs d). r \<in> set (outs d'))"
proof -
  obtain e where "job_new_status_at x s (lock d) = Inr e" "d' = unlock e" "x = find_index (is_job i j k) (queue d)"
    using assms by (auto simp: queue_job_new_status_def Let_def split: if_splits)
  with job_new_status_at_effect [OF this(1)] show ?thesis
    by (simp add: core_queue) (simp add: lock_def unlock_def)
qed

lemma find_job_at:
  assumes "distinct (map job_key (queue d))" "x < length (queue d)"
  shows "find_index (is_job (q_destid (queue d ! x)) (q_id (queue d ! x)) (q_subid (queue d ! x))) (queue d) = x"
proof (rule find_index_unique [OF assms(2)])
  show "\<not> is_job (q_destid (queue d ! x)) (q_id (queue d ! x)) (q_subid (queue d ! x)) (queue d ! j)" if "j < x" for j
  proof -
    have "map job_key (queue d) ! j \<noteq> map job_key (queue d) ! x"
      using nth_eq_iff_index_eq [OF assms(1), of j x] assms(2) that by simp
    then show ?thesis using assms(2) that by (simp add: job_key_def is_job_def)
  qed
qed (simp add: is_job_def)

subsection \<open>Launching\<close>

lemma pprdrv_started_effect:
  assumes "pprdrv_started prnid job pid d = Inr (r, d')" 
    and "ps_status (p_spool_state (printers d ! nat prnid)) \<noteq> PRNSTATUS_DELETED"
    and "y = find_index (is_job (q_destid job) (q_id job) (q_subid job)) (queue d)"
  shows "r = 0 \<and> y < length (queue d) \<and> queue d' = (queue d)[y := (queue d ! y)\<lparr>q_status := prnid\<rparr>]
    \<and> active_printers d' = active_printers d + 1
    \<and> (\<exists>now. printers d' = (printers d)[nat prnid := (set_printer_job pid job (printers d ! nat prnid))\<lparr>
          p_spool_state := set_status PRNSTATUS_PRINTING now (p_spool_state (printers d ! nat prnid))\<rparr>])
    \<and> (\<forall>r \<in> set (outs d). r \<in> set (outs d'))"
proof -
  let ?p = "set_printer_job pid job (printers d ! nat prnid)"
  let ?d1 = "d\<lparr>active_printers := active_printers d + 1, printers := (printers d)[nat prnid := ?p]\<rparr>"
  obtain e1 e2 x e3 where i: "0 \<le> prnid" "prnid < int (length (printers d))"
    and e: "printer_new_status prnid PRNSTATUS_PRINTING ?d1 = Inr e1"
      "queue_job_new_status (q_destid job) (q_id job) (q_subid job) prnid e1 = Inr (x, e2)"
      "(if destid_is_group (q_destid job) e2 then
               bindE (destid_to_gindex (q_destid job)) (\<lambda>gi.
               bindE (destid_get_member_offset (q_destid job) prnid e2) (\<lambda>off.
                 upd_group gi (\<lambda>g. g\<lparr>g_last := off\<rparr>) e2))
             else Inr e2) = Inr d'" "r = 0"
    using assms(1) by (auto simp: pprdrv_started_def Let_def upd_printer_iff upd_nth_def)
  have p: "ps_status (p_spool_state (printers ?d1 ! nat prnid)) \<noteq> PRNSTATUS_DELETED"
    using assms(2) i by (simp add: set_printer_job_def nat_less_iff)
  obtain now where c1: "core e1 = core (?d1\<lparr>printers := (printers ?d1)[nat prnid := (printers ?d1 ! nat prnid)\<lparr>
      p_spool_state := set_status PRNSTATUS_PRINTING now (p_spool_state (printers ?d1 ! nat prnid)),
      p_ppop_pid := (if PRNSTATUS_PRINTING = PRNSTATUS_STOPT then 0 else p_ppop_pid (printers ?d1 ! nat prnid))\<rparr>]\<rparr>)"
    using printer_new_status_effect [OF e(1) p] by blast
  have q1: "queue e1 = queue d" "active_printers e1 = active_printers d + 1" using core_fields(1,5) [OF c1] by simp_all
  have x: "x = y" "y < length (queue d)" "core e2 = core (e1\<lparr>queue := (queue d)[y := (queue d ! y)\<lparr>q_status := prnid\<rparr>]\<rparr>)"
    using queue_job_new_status_effect [OF e(2)] q1 assms(3) by auto
  have d': "queue d' = queue e2" "active_printers d' = active_printers e2" "printers d' = printers e2" "outs d' = outs e2"
    using e(3) by (auto simp: upd_group_def split: if_splits)
  show ?thesis
    using x(2) e(4) d' core_fields(1,3,5) [OF x(3)] core_fields(3) [OF c1] q1 i
      new_status_outs [OF e(1)] queue_job_new_status_effect [OF e(2)]
    by (auto simp: set_printer_job_def nat_less_iff)
qed

lemma printer_starve_effect:
  assumes "printer_starve i d = Inr (r, d')" "ps_status (p_spool_state (printers d ! nat i)) \<noteq> PRNSTATUS_DELETED"
  shows "r = -1 \<and> queue d' = queue d \<and> active_printers d' = active_printers d
    \<and> starving_printers d' = starving_printers d + 1
    \<and> (\<exists>now. printers d' = (printers d)[nat i := (printers d ! nat i)\<lparr>
          p_spool_state := set_status PRNSTATUS_STARVED now (p_spool_state (printers d ! nat i))\<rparr>])"
proof -
  obtain e where e: "printer_new_status i PRNSTATUS_STARVED d = Inr e" "r = -1" "d' = e\<lparr>starving_printers := starving_printers e + 1\<rparr>"
    using assms(1) by (auto simp: printer_starve_def)
  obtain now where c: "core e = core (d\<lparr>printers := (printers d)[nat i := (printers d ! nat i)\<lparr>
      p_spool_state := set_status PRNSTATUS_STARVED now (p_spool_state (printers d ! nat i)),
      p_ppop_pid := (if PRNSTATUS_STARVED = PRNSTATUS_STOPT then 0 else p_ppop_pid (printers d ! nat i))\<rparr>]\<rparr>)"
    using printer_new_status_effect [OF e(1) assms(2)] by blast
  show ?thesis using e(2,3) core_fields(1,3,5,6) [OF c] by auto
qed

lemma pprdrv_start_effect:
  assumes "pprdrv_start i x d = Inr (r, d')"
    and "find_index (is_job (q_destid (queue d ! x)) (q_id (queue d ! x)) (q_subid (queue d ! x))) (queue d) = x"
  shows "(r = 0 \<and> driver_started i x d d') \<or> (r = -1 \<and> starved i d d')"
proof -
  let ?job = "queue d ! x" and ?pid = "fork_result d (fork_calls d)"
  have ix: "x < length (queue d)" "0 \<le> i" "i < int (length (printers d))"
    "ps_status (p_spool_state (printers d ! nat i)) = PRNSTATUS_IDLE"
    using assms(1) by (auto simp: pprdrv_start_def get_job_def get_printer_def split: if_splits)
  show ?thesis
  proof (cases "active_printers d = MAX_ACTIVE \<or> ps_previous_status (p_spool_state (printers d ! nat i)) \<noteq> PRNSTATUS_STARVED
               \<and> active_printers d + starving_printers d \<ge> MAX_ACTIVE")
    case True
    then have "printer_starve i d = Inr (r, d')"
      using assms(1) ix by (auto simp: pprdrv_start_def get_job_def get_printer_def split: if_splits)
    then show ?thesis using printer_starve_effect ix(4) unfolding starved_def by fastforce
  next
    case no: False
    let ?e = "d\<lparr>fork_calls := Suc (fork_calls d)\<rparr>"
    have r: "(if ?pid = -1 then printer_starve i (error ''pprdrv_start(): Couldn't fork'' ?e)
        else pprdrv_started i ?job ?pid (exec_pprdrv i ?job ?e)) = Inr (r, d')"
      using assms(1) ix no by (auto simp: pprdrv_start_def get_job_def get_printer_def with_fork_def split: if_splits)
    show ?thesis
    proof (cases "?pid = -1")
      case True
      then have "printer_starve i (error ''pprdrv_start(): Couldn't fork'' ?e) = Inr (r, d')" using r by simp
      from printer_starve_effect [OF this] ix(4) show ?thesis by (simp add: starved_def error_def emit_def)
    next
      case False
      let ?f = "exec_pprdrv i ?job ?e"
      have f: "queue ?f = queue d" "printers ?f = printers d" "active_printers ?f = active_printers d"
        by (auto simp: exec_pprdrv_def emit_def split: sum.splits)
      have n: "destid_to_name j ?e = destid_to_name j d" for j by (simp add: destid_to_name_def destid_is_group_def cong: if_cong)
      have "destid_to_name i d = Inr (p_name (printers d ! nat i))"
        using ix by (simp add: destid_to_name_def destid_is_group_def)
      then have ex: "ExecPprdrv (p_name (printers d ! nat i)) (take 127 (dest @ ''-'' @ print_d (q_id ?job) @ ''.'' @ print_d (q_subid ?job)))
              (take 9 (print_d (q_pass ?job))) \<in> set (outs ?f)" if "destid_to_name (q_destid ?job) d = Inr dest" for dest
        using that by (simp add: exec_pprdrv_def n emit_def)
      have "pprdrv_started i ?job ?pid ?f = Inr (r, d')" using False r by simp
      from pprdrv_started_effect [OF this _ refl] ix(4) f assms(2) ex no False
      show ?thesis by (auto simp: driver_started_def Let_def)
    qed
  qed
qed

lemma printer_start_cases:
  assumes "printer_start i x d = Inr (r, d')"
  shows "if ready i x d then pprdrv_start i x d = Inr (r, d') else d' = d
    \<and> r = (if ps_status (p_spool_state (printers d ! nat i)) = PRNSTATUS_IDLE then -2 else -1)"
proof -
  let ?job = "queue d ! x"
  let ?held = "if destid_is_group (q_destid ?job) d then
      bindE (destid_to_gindex (q_destid ?job)) (\<lambda>gi. bindE (get_group gi d) (\<lambda>g. Inr (gs_held (g_spool_state g))))
    else Inr False"
  have x: "x < length (queue d)" "q_status ?job = STATUS_WAITING" "0 \<le> i" "i < int (length (printers d))"
    using assms by (auto simp: printer_start_def get_job_def get_printer_def split: if_splits)
  show ?thesis
  proof (cases "ps_status (p_spool_state (printers d ! nat i)) = PRNSTATUS_IDLE")
    case False
    then have "r = -1 \<and> d' = d" "\<not> ready i x d"
      using assms x by (auto simp: printer_start_def get_job_def get_printer_def ready_def split: if_splits)
    then show ?thesis using False by simp
  next
    case idle: True
    obtain held where held: "?held = Inr held"
      and rest: "(if held then Inr (-2, d) else bindE (destid_printer_bit (q_destid ?job) i d) (\<lambda>bitmask.
                 if uint (q_notnow ?job) AND bitmask \<noteq> 0 then Inr (-2, d)
                 else if uint (q_never ?job) AND bitmask \<noteq> 0 then Inr (-2, d)
                 else bindE (pprdrv_start i x d) (\<lambda>(retval, d).
                     if retval \<noteq> 0 \<and> retval \<noteq> -1 then Inl (Fatal ''printer_start(): assertion_failed'')
                     else Inr (retval, d)))) = Inr (r, d')"
      using assms x idle by (simp add: printer_start_def get_job_def get_printer_def split: if_splits) (elim bindE_InrE, simp)+
    have group: "\<not> held \<longleftrightarrow> (destid_is_group (q_destid ?job) d \<longrightarrow>
        returns (bindE (destid_to_gindex (q_destid ?job)) (\<lambda>gi. get_group gi d)) (\<lambda>g. \<not> gs_held (g_spool_state g)))"
      using held by (auto simp: returns_iff bindE_eq_Inr split: if_splits)
    show ?thesis
    proof (cases held)
      case True
      then show ?thesis using rest group idle by (simp add: ready_def)
    next
      case False
      then obtain b where b: "destid_printer_bit (q_destid ?job) i d = Inr b" using rest by auto
      show ?thesis
      proof (cases "uint (q_notnow ?job) AND b = 0 \<and> uint (q_never ?job) AND b = 0")
        case True
        then have "ready i x d" using x idle group False b by (simp add: ready_def returns_iff)
        moreover have "pprdrv_start i x d = Inr (r, d')" using True rest False b by (auto split: if_splits)
        ultimately show ?thesis by simp
      next
        case no: False
        then have "\<not> ready i x d" using b by (auto simp: ready_def returns_iff)
        moreover have "r = -2 \<and> d' = d" using no rest False b by (auto split: if_splits)
        ultimately show ?thesis using idle by simp
      qed
    qed
  qed
qed

subsection \<open>Searching\<close>

lemma look_loop_first:
  assumes "look_loop i xs d = Inr d'" "distinct (map job_key (queue d))"
    "ps_status (p_spool_state (printers d ! nat i)) = PRNSTATUS_IDLE"
  shows "((\<forall>x \<in> set xs. \<not> suits i x d) \<and> d' = d)
    \<or> (\<exists>ys x zs. xs = ys @ x # zs \<and> (\<forall>y \<in> set ys. \<not> suits i y d) \<and> suits i x d
         \<and> (driver_started i x d d' \<or> starved i d d'))"
  using assms(1)
proof (induction xs)
  case Nil
  then show ?case by simp
next
  case (Cons x xs)
  obtain b where x: "x < length (queue d)" and b: "job_for_printer i (queue d ! x) d = Inr b"
    and rest: "(if b then bindE (printer_start i x d) (\<lambda>(r, d). if r \<noteq> -2 then Inr d else look_loop i xs d)
      else look_loop i xs d) = Inr d'"
    using Cons.prems by (auto simp: get_job_def split: if_splits)
  have skip: ?case if no: "\<not> suits i x d" and go: "look_loop i xs d = Inr d'"
  proof (cases "(\<forall>x \<in> set xs. \<not> suits i x d) \<and> d' = d")
    case False
    then obtain ys y zs where "xs = ys @ y # zs" "\<forall>y \<in> set ys. \<not> suits i y d" "suits i y d"
      "driver_started i y d d' \<or> starved i d d'"
      using Cons.IH go by blast
    then have "x # xs = (x # ys) @ y # zs" "\<forall>y \<in> set (x # ys). \<not> suits i y d" using no by auto
    then show ?thesis using \<open>suits i y d\<close> \<open>driver_started i y d d' \<or> starved i d d'\<close> by blast
  qed (use no in auto)
  show ?case
  proof (cases b)
    case False
    then have "\<not> suits i x d" using b by (simp add: suits_def returns_iff)
    then show ?thesis using skip rest False by simp
  next
    case True
    then obtain r e where r: "printer_start i x d = Inr (r, e)" using rest by auto
    show ?thesis
    proof (cases "ready i x d")
      case yes: True
      then have "driver_started i x d e \<or> starved i d e" "r \<noteq> -2"
        using printer_start_cases [OF r] pprdrv_start_effect [OF _ find_job_at [OF assms(2) x], of i r e] by auto
      moreover have "suits i x d" using yes b True by (simp add: suits_def returns_def)
      moreover have "d' = e" using rest True r \<open>r \<noteq> -2\<close> by simp
      ultimately have "x # xs = [] @ x # xs \<and> (\<forall>y \<in> set []. \<not> suits i y d) \<and> suits i x d
        \<and> (driver_started i x d d' \<or> starved i d d')" by simp
      then show ?thesis by blast
    next
      case False
      then have "\<not> suits i x d" "look_loop i xs d = Inr d'"
        using printer_start_cases [OF r] assms(3) rest True r by (auto simp: suits_def)
      then show ?thesis by (rule skip)
    qed
  qed
qed

lemma lock_reads [simp]:
  "destid_to_name j (lock d) = destid_to_name j d" "destid_is_group j (lock d) = destid_is_group j d"
  "get_group j (lock d) = get_group j d"
  "destid_get_member_offset j i (lock d) = destid_get_member_offset j i d"
  "destid_printer_bit j i (lock d) = destid_printer_bit j i d" "job_for_printer i q (lock d) = job_for_printer i q d"
  "ready i x (lock d) = ready i x d" "suits i x (lock d) = suits i x d"
  by (simp_all add: destid_to_name_def destid_is_group_def get_group_def destid_get_member_offset_def destid_printer_bit_def
      job_for_printer_def ready_def suits_def cong: if_cong)

lemma lock_starts:
  "driver_started i x (lock d) e \<Longrightarrow> driver_started i x d (unlock e)" "starved i (lock d) e \<Longrightarrow> starved i d (unlock e)"
  by (simp_all add: driver_started_def starved_def Let_def) (simp_all add: lock_def unlock_def)

lemma try_members_each:
  "try_members n ms y x d = try_each (map (\<lambda>k. ms ! nat ((y + 1 + int k) mod int (length ms))) [0..<n]) x d"
proof (induction n arbitrary: y d)
  case (Suc n)
  let ?l = "int (length ms)"
  have *: "((y + 1) mod ?l + 1 + int k) mod ?l = (y + 1 + int (Suc k)) mod ?l" for k
    using mod_add_left_eq [of "y + 1" ?l "1 + int k"] by (simp add: ac_simps)
  have "map (\<lambda>k. ms ! nat ((y + 1 + int k) mod ?l)) [0..<Suc n]
    = ms ! nat ((y + 1) mod ?l) # map (\<lambda>k. ms ! nat (((y + 1) mod ?l + 1 + int k) mod ?l)) [0..<n]"
    unfolding * by (simp add: map_upt_Suc del: upt_Suc)
  then show ?case by (simp add: Let_def Suc.IH del: upt_Suc cong: if_cong)
qed simp

lemma rotate_members:
  assumes "-1 \<le> y"
  shows "map (\<lambda>k. ms ! nat ((y + 1 + int k) mod int (length ms))) [0..<length ms] = rotate (nat (y + 1)) ms"
proof (rule nth_equalityI)
  fix k assume "k < length (map (\<lambda>k. ms ! nat ((y + 1 + int k) mod int (length ms))) [0..<length ms])"
  then have k: "k < length ms" by simp
  have "nat ((y + 1 + int k) mod int (length ms)) = (nat (y + 1) + k) mod length ms"
    using assms by (simp add: nat_mod_distrib nat_add_distrib)
  then show "map (\<lambda>k. ms ! nat ((y + 1 + int k) mod int (length ms))) [0..<length ms] ! k = rotate (nat (y + 1)) ms ! k"
    using k by (simp add: nth_rotate)
qed simp

section \<open>Properties\<close>

text \<open>
  C18. A status change is complete and durable: it changes the status, the previous status and the time of
  change of this printer and nothing else of the daemon (but that a stop releases the waiting ppop), and
  the printer's state file then holds its state, to be read at the next start. A deleted printer does
  not change.
\<close>

theorem new_status_durable:
  assumes "printer_new_status i s d = Inr d'" "p = printers d ! nat i"
  shows "if ps_status (p_spool_state p) = PRNSTATUS_DELETED then core d' = core d \<and> fs d' = fs d
    else \<exists>p' now. p' = p\<lparr>p_spool_state := (p_spool_state p)\<lparr>ps_previous_status := ps_status (p_spool_state p), ps_status := s,
               ps_printer_state_change_time := now\<rparr>,
             p_ppop_pid := (if s = PRNSTATUS_STOPT then 0 else p_ppop_pid p)\<rparr>
      \<and> core d' = core (d\<lparr>printers := (printers d)[nat i := p']\<rparr>)
      \<and> ((\<forall>v \<in> set (printer_state_values (p_spool_state p')). \<bar>v\<bar> < 2 ^ 31) \<longrightarrow>
           printer_spool_state_load (p_name p) d' = Inr (0, p_spool_state p'))"
  by (rule printer_new_status_full [OF assms, unfolded set_status_def])

theorem new_status_durable_witness:
  "\<exists>d' p. printer_new_status 0 PRNSTATUS_STOPT example_busy = Inr d' \<and> printers d' ! 0 = p
     \<and> ps_status (p_spool_state p) = PRNSTATUS_STOPT \<and> printer_spool_state_load ''laser'' d' = Inr (0, p_spool_state p)"
proof -
  let ?p = "printers example_busy ! nat 0"
  have r: "returns (printer_new_status 0 PRNSTATUS_STOPT example_busy) (\<lambda>d'.
      \<forall>v \<in> set (printer_state_values (p_spool_state (printers d' ! 0))). \<bar>v\<bar> < 2 ^ 31)"
    and n: "\<not> ps_status (p_spool_state ?p) = PRNSTATUS_DELETED"
    by code_simp+
  obtain d' where d': "printer_new_status 0 PRNSTATUS_STOPT example_busy = Inr d'"
    "\<forall>v \<in> set (printer_state_values (p_spool_state (printers d' ! 0))). \<bar>v\<bar> < 2 ^ 31" using r by (elim returnsE)
  obtain p' now where p: "p' = ?p\<lparr>p_spool_state := (p_spool_state ?p)\<lparr>ps_previous_status := ps_status (p_spool_state ?p), ps_status := PRNSTATUS_STOPT,
               ps_printer_state_change_time := now\<rparr>,
      p_ppop_pid := (if PRNSTATUS_STOPT = PRNSTATUS_STOPT then 0 else p_ppop_pid ?p)\<rparr>"
    and c: "core d' = core (example_busy\<lparr>printers := (printers example_busy)[nat 0 := p']\<rparr>)"
    and l: "(\<forall>v \<in> set (printer_state_values (p_spool_state p')). \<bar>v\<bar> < 2 ^ 31) \<longrightarrow>
      printer_spool_state_load (p_name ?p) d' = Inr (0, p_spool_state p')"
    using new_status_durable [OF d'(1) refl, unfolded if_not_P [OF n]] by blast
  have "printers d' ! 0 = p'" using core_fields(3) [OF c] by simp
  then show ?thesis using d' l p by auto
qed

text \<open>
  C6. Starting a job on a printer: a driver is started only when the job waits, the printer is idle and
  neither the group nor the job's bitmaps exclude it, and then the printer's slot, the job's status and
  the count of active printers say so. When there are too many drivers, or \<^verbatim>\<open>fork()\<close> fails, the printer
  starves and the queue is unchanged. Otherwise nothing at all changes.
\<close>

theorem start_exact:
  assumes "printer_start i x d = Inr (r, d')"
    and "find_index (is_job (q_destid (queue d ! x)) (q_id (queue d ! x)) (q_subid (queue d ! x))) (queue d) = x"
  shows "(r = 0 \<and> ready i x d \<and> driver_started i x d d') \<or> (r = -1 \<and> ready i x d \<and> starved i d d')
    \<or> (r \<in> {-1, -2} \<and> \<not> ready i x d \<and> d' = d)"
  using printer_start_cases [OF assms(1)] pprdrv_start_effect [OF _ assms(2)] by (auto split: if_splits)

theorem start_exact_witness:
  "\<exists>d'. printer_start 1 1 (lock example_busy) = Inr (0, d') \<and> q_status (queue d' ! 1) = 1
     \<and> active_printers d' = 1"
proof -
  have "returns (printer_start 1 1 (lock example_busy)) (\<lambda>(r, _). r = 0)" "active_printers (lock example_busy) = 0"
    by code_simp+
  then obtain d' where d': "printer_start 1 1 (lock example_busy) = Inr (0, d')" by (auto simp: returns_iff)
  have "driver_started 1 1 (lock example_busy) d'"
    using start_exact [OF d'] by (auto simp: is_job_def example_job_def)
  then show ?thesis using d' \<open>active_printers (lock example_busy) = 0\<close> by (auto simp: driver_started_def Let_def)
qed

text \<open>
  C7. A printer that looks for work takes the first job of the queue that it may print, and none but the
  first; when there is none the daemon's state does not change.
\<close>

theorem look_for_work_first:
  assumes "printer_look_for_work i d = Inr d'" "distinct (map job_key (queue d))"
  shows "((\<forall>x < length (queue d). \<not> suits i x d) \<and> core d' = core d)
    \<or> (\<exists>x < length (queue d). suits i x d \<and> (\<forall>y < x. \<not> suits i y d) \<and> (driver_started i x d d' \<or> starved i d d'))"
proof -
  obtain e where e: "look_loop i [0..<length (queue d)] (lock d) = Inr e" "d' = unlock e"
    "ps_status (p_spool_state (printers (lock d) ! nat i)) = PRNSTATUS_IDLE"
    using assms(1) by (auto simp: printer_look_for_work_def Let_def get_printer_def split: if_splits)
  have "distinct (map job_key (queue (lock d)))" using assms(2) by simp
  from look_loop_first [OF e(1) this e(3)] consider
      "\<forall>x < length (queue d). \<not> suits i x d" "e = lock d"
    | ys x zs where "[0..<length (queue d)] = ys @ x # zs" "\<forall>y \<in> set ys. \<not> suits i y d" "suits i x d"
      "driver_started i x (lock d) e \<or> starved i (lock d) e"
    by auto
  then show ?thesis
  proof cases
    case 1
    then show ?thesis using e(2) by simp
  next
    case (2 ys x zs)
    have l: "length ys < length (queue d)" using arg_cong [OF 2(1), of length] by simp
    then have "x = length ys" using arg_cong [OF 2(1), of "\<lambda>l. l ! length ys"] by simp
    then have "ys = [0..<x]" "x < length (queue d)" using l arg_cong [OF 2(1), of "take (length ys)"] by simp_all
    then show ?thesis
      using 2 e(2) lock_starts(1) [of i x d e] lock_starts(2) [of i d e] by (intro disjI2 exI [of _ x]) auto
  qed
qed

theorem look_for_work_first_witness:
  "\<exists>d'. printer_look_for_work 1 example_busy = Inr d' \<and> \<not> suits 1 0 example_busy
     \<and> (driver_started 1 1 example_busy d' \<or> starved 1 example_busy d')"
proof -
  have "returns (printer_look_for_work 1 example_busy) (\<lambda>_. True)" and no: "\<not> suits 1 0 example_busy"
    and yes: "suits 1 1 example_busy"
    by code_simp+
  then obtain d' where d': "printer_look_for_work 1 example_busy = Inr d'" by (auto simp: returns_iff)
  have "distinct (map job_key (queue example_busy))" by (simp add: job_key_def example_job_def)
  from look_for_work_first [OF d' this] yes no show ?thesis using d' by (auto simp: less_Suc_eq)
qed

text \<open>
  C32. A job for a group is offered to every member once, in order, starting after the member used last
  when the group rotates and with the first member otherwise, until one takes it.
\<close>

theorem members_in_turn:
  assumes "x < length (queue d)" "q_status (queue d ! x) = STATUS_WAITING" "destid_is_group (q_destid (queue d ! x)) d"
    and "destid_to_gindex (q_destid (queue d ! x)) = Inr gi" "get_group gi d = Inr g" "-1 \<le> g_last g"
  shows "printer_try_start_suitable_4_this_job x d =
    bindE (try_each (if g_rotate g then rotate (nat (g_last g + 1)) (g_printers g) else g_printers g) x (lock d))
      (\<lambda>d. Inr (unlock d))"
proof -
  have "(if g_rotate g then rotate (nat (g_last g + 1)) (g_printers g) else g_printers g)
     = rotate (nat ((if g_rotate g then g_last g else -1) + 1)) (g_printers g)" by simp
  then show ?thesis
    using assms rotate_members [of "if g_rotate g then g_last g else -1" "g_printers g"]
    by (simp add: printer_try_start_suitable_4_this_job_def get_job_def try_members_each)
qed

theorem members_in_turn_witness:
  "printer_try_start_suitable_4_this_job 1 example_busy =
    bindE (try_each [0, 1] 1 (lock example_busy)) (\<lambda>d. Inr (unlock d))"
proof -
  have "returns (destid_to_gindex (q_destid (queue example_busy ! 1))) (\<lambda>gi. gi = 0)"
    "destid_is_group (q_destid (queue example_busy ! 1)) example_busy" "q_status (queue example_busy ! 1) = STATUS_WAITING"
    by code_simp+
  moreover have "get_group 0 example_busy = Inr (groups example_busy ! 0)" by (simp add: get_group_def)
  ultimately show ?thesis
    using members_in_turn [of 1 example_busy 0 "groups example_busy ! 0"]
    by (simp add: returns_iff example_busy_def zero_group_def)
qed

end
