(* ===== verification/Slots.thy ===== *)
theory Slots
  imports Pprd Starting
begin

text \<open>
  What every operation of the daemon keeps of the printers' slots. The locales state it in three
  layers: \<open>slot_frame\<close> for the operations that change no slot, \<open>slot_start\<close> for those that may start a
  driver on an idle printer, \<open>slot_invariant\<close> for all of them. An invariant has to be checked on a few
  elementary transitions only; that every command, every tick and every ended child keeps it is proved
  once. The locales are instantiated with the invariant of the printers (\<open>slots_ok\<close>), with the
  destinations, and with the slot of a printer whose driver has ended.
\<close>

section \<open>Definitions\<close>

definition busy :: "int \<Rightarrow> bool" where
  "busy s \<longleftrightarrow> s \<in> {PRNSTATUS_PRINTING, PRNSTATUS_CANCELING, PRNSTATUS_SEIZING, PRNSTATUS_STOPPING,
                  PRNSTATUS_HALTING}"

definition pstat :: "Printer \<Rightarrow> int" where
  "pstat p = ps_status (p_spool_state p)"

text \<open>What a printer's slot shows: its name, the driver's process id, the status.\<close>

definition pslot :: "Printer \<Rightarrow> string \<times> int \<times> int" where
  "pslot p = (p_name p, p_job_pid p, pstat p)"

definition gslot :: "Group \<Rightarrow> string \<times> int list \<times> bool" where
  "gslot g = (g_name g, g_printers g, g_deleted g)"

definition slots :: "daemon \<Rightarrow> (string \<times> int \<times> int) list \<times> (string \<times> int list \<times> bool) list \<times> int \<times> (nat \<Rightarrow> int)" where
  "slots d = (map pslot (printers d), map gslot (groups d), active_printers d, fork_result d)"

definition set_pstat :: "int \<Rightarrow> Printer \<Rightarrow> Printer" where
  "set_pstat s p = p\<lparr>p_spool_state := (p_spool_state p)\<lparr>ps_status := s\<rparr>\<rparr>"

text \<open>The slot of printer \<open>i\<close> is \<open>v\<close>, unless \<open>v\<close> is that of an idle printer.\<close>

definition slot_kept :: "int \<Rightarrow> (string \<times> int \<times> int) \<Rightarrow> daemon \<Rightarrow> bool" where
  "slot_kept i v d \<longleftrightarrow>
     (\<forall>n. fork_result d n = -1 \<or> fork_result d n > 0)
     \<and> (snd (snd v) \<noteq> PRNSTATUS_IDLE \<longrightarrow> 0 \<le> i \<longrightarrow> nat i < length (printers d) \<longrightarrow> pslot (printers d ! nat i) = v)"

text \<open>The drivers that run, as the printers' slots have them.\<close>

definition running :: "daemon \<Rightarrow> nat" where
  "running d = length (filter (\<lambda>p. p_job_pid p > 0) (printers d))"

definition slots_ok :: "daemon \<Rightarrow> bool" where
  "slots_ok d \<longleftrightarrow>
     (\<forall>n. fork_result d n = -1 \<or> fork_result d n > 0)
     \<and> (\<forall>p \<in> set (printers d). p_job_pid p \<ge> 0
          \<and> (p_job_pid p > 0 \<longrightarrow> busy (pstat p) \<or> pstat p = PRNSTATUS_DELETED))
     \<and> active_printers d = int (running d) \<and> active_printers d \<le> MAX_ACTIVE"

text \<open>The names, members and deletion marks of the destinations.\<close>

definition destinations :: "daemon \<Rightarrow> (string \<times> bool) list \<times> (string \<times> int list \<times> bool) list" where
  "destinations d = (map (\<lambda>p. (p_name p, pstat p = PRNSTATUS_DELETED)) (printers d), map gslot (groups d))"

section \<open>What operations keep\<close>

lemma slots_core: "core d' = core d \<Longrightarrow> slots d' = slots d"
  by (simp add: slots_def core_fields [of d' d])

lemma slots_printers [simp]:
  "(\<And>p. pslot (f p) = pslot p) \<Longrightarrow> slots (d\<lparr>printers := upd_nth i f (printers d)\<rparr>) = slots d"
  by (simp add: slots_def map_upd_nth_same)

lemma slots_groups [simp]:
  "(\<And>g. gslot (f g) = gslot g) \<Longrightarrow> slots (d\<lparr>groups := upd_nth i f (groups d)\<rparr>) = slots d"
  by (simp add: slots_def map_upd_nth_same)

lemma busy_simps [simp]:
  "busy PRNSTATUS_PRINTING" "busy PRNSTATUS_CANCELING" "busy PRNSTATUS_SEIZING" "busy PRNSTATUS_STOPPING"
  "busy PRNSTATUS_HALTING" "\<not> busy PRNSTATUS_IDLE" "\<not> busy PRNSTATUS_FAULT" "\<not> busy PRNSTATUS_ENGAGED"
  "\<not> busy PRNSTATUS_STARVED" "\<not> busy PRNSTATUS_STOPT" "\<not> busy PRNSTATUS_DELETED"
  by (simp_all add: busy_def)

locale slot_frame =
  fixes I :: "daemon \<Rightarrow> bool"
  assumes same: "I d \<Longrightarrow> slots d' = slots d \<Longrightarrow> I d'"
begin

lemma same_core: "I d \<Longrightarrow> core d' = core d \<Longrightarrow> I d'"
  by (erule same) (rule slots_core)

lemma same_iff: "slots d' = slots d \<Longrightarrow> I d' \<longleftrightarrow> I d"
  by (auto elim: same)

lemma quiet [simp]:
  "I (lock d) \<longleftrightarrow> I d" "I (unlock d) \<longleftrightarrow> I d" "I (emit e d) \<longleftrightarrow> I d" "I (error m d) \<longleftrightarrow> I d"
  "I (unlink f d) \<longleftrightarrow> I d" "I (write_file f c d) \<longleftrightarrow> I d" "I (rename f g d) \<longleftrightarrow> I d"
  "I (d\<lparr>jobid_storage := n\<rparr>) \<longleftrightarrow> I d" "I (d\<lparr>time_calls := n\<rparr>) \<longleftrightarrow> I d" "I (d\<lparr>fork_calls := n\<rparr>) \<longleftrightarrow> I d"
  by (rule same_iff, rule slots_core, simp)+

lemma quiet_slots [simp]:
  "I (d\<lparr>queue := q\<rparr>) \<longleftrightarrow> I d" "I (d\<lparr>queue_size := i\<rparr>) \<longleftrightarrow> I d" "I (d\<lparr>media_table := m\<rparr>) \<longleftrightarrow> I d"
  "I (d\<lparr>starving_printers := i\<rparr>) \<longleftrightarrow> I d" "I (d\<lparr>hungry_x := i\<rparr>) \<longleftrightarrow> I d"
  "I (d\<lparr>hungry_countdown := i\<rparr>) \<longleftrightarrow> I d"
  "I (d\<lparr>active_question := a\<rparr>) \<longleftrightarrow> I d" "I (d\<lparr>active_questions := i\<rparr>) \<longleftrightarrow> I d"
  "I (d\<lparr>launches_this_tick := i\<rparr>) \<longleftrightarrow> I d" "I (d\<lparr>outstanding_questions := i\<rparr>) \<longleftrightarrow> I d"
  "I (d\<lparr>reply_pid := i\<rparr>) \<longleftrightarrow> I d" "I (d\<lparr>reply_open := b\<rparr>) \<longleftrightarrow> I d"
  by (rule same_iff, simp add: slots_def)+

lemma foldE_I: "I d \<Longrightarrow> (\<And>x d. I d \<Longrightarrow> okR I (f x d) I) \<Longrightarrow> okR I (foldE f xs d) I"
  by (rule okR_foldE)

lemmas [wp] = okR_weaken [OF foldE_I]

lemma path_of_wp [wp]: "I d \<Longrightarrow> (\<And>fn. path_of p a d = Inr fn \<Longrightarrow> P fn) \<Longrightarrow> okR I (path_of p a d) P"
  by (auto simp: path_of_def lift_gu_def split: sum.split gu_err.split)

lemma lift_gu_wp [wp]: "I d \<Longrightarrow> (\<And>a. lift_gu d r = Inr a \<Longrightarrow> P a) \<Longrightarrow> okR I (lift_gu d r) P"
  by (auto simp: lift_gu_def split: sum.split gu_err.split)

lemma state_update_I: "I d \<Longrightarrow> okR I (state_update l d) I"
  by (auto simp: state_update_def)

lemmas [wp] = okR_weaken [OF state_update_I]

lemma with_jobid_wp [wp]: "I d \<Longrightarrow> (\<And>j d'. I d' \<Longrightarrow> okR I (k j d') P) \<Longrightarrow> okR I (with_jobid nm i s k d) P"
  by (simp add: with_jobid_def)

lemma with_time_wp [wp]: "I d \<Longrightarrow> (\<And>j d'. I d' \<Longrightarrow> okR I (k j d') P) \<Longrightarrow> okR I (with_time k d) P"
  by (simp add: with_time_def)

lemma with_fork_wp [wp]: "I d \<Longrightarrow> (\<And>j d'. I d' \<Longrightarrow> okR I (k j d') P) \<Longrightarrow> okR I (with_fork k d) P"
  by (simp add: with_fork_def)

lemma set_job_I: "I d \<Longrightarrow> okR I (set_job x q d) I"
  by (auto simp: set_job_def)

lemmas [wp] = okR_weaken [OF set_job_I]

lemma upd_printer_I: "I d \<Longrightarrow> (\<And>p. pslot (f p) = pslot p) \<Longrightarrow> okR I (upd_printer i f d) I"
  by (auto simp: upd_printer_def simp flip: upd_nth_def elim!: same)

lemma upd_group_I: "I d \<Longrightarrow> (\<And>g. gslot (f g) = gslot g) \<Longrightarrow> okR I (upd_group i f d) I"
  by (auto simp: upd_group_def simp flip: upd_nth_def elim!: same)

lemmas [wp] = okR_weaken [OF upd_printer_I] okR_weaken [OF upd_group_I]

lemma spool_state_save_I:
  "I d \<Longrightarrow> okR I (printer_spool_state_save ps n d) I" "I d \<Longrightarrow> okR I (group_spool_state_save gs n d) I"
  unfolding printer_spool_state_save_def group_spool_state_save_def by (auto intro!: wp)

lemmas [wp] = spool_state_save_I [THEN okR_weaken]

lemma queue_write_status_and_flags_I: "I d \<Longrightarrow> okR I (queue_write_status_and_flags job d) I"
  unfolding queue_write_status_and_flags_def
  by (auto simp: Let_def intro!: wp split: option.split)

lemmas [wp] = okR_weaken [OF queue_write_status_and_flags_I]

lemma queue_p_job_new_status_I: "I d \<Longrightarrow> okR I (queue_p_job_new_status job s d) (\<lambda>(j, d). I d)"
  unfolding queue_p_job_new_status_def
  by (auto simp: Let_def intro!: wp split: option.split)

lemmas [wp] = okR_weaken2 [OF queue_p_job_new_status_I]

lemma job_new_status_at_I: "I d \<Longrightarrow> okR I (job_new_status_at x s d) I"
  unfolding job_new_status_at_def by (auto intro!: wp)

lemmas [wp] = okR_weaken [OF job_new_status_at_I]

lemma queue_job_new_status_I: "I d \<Longrightarrow> okR I (queue_job_new_status i j k s d) (\<lambda>(x, d). I d)"
  unfolding queue_job_new_status_def by (auto simp: Let_def intro!: wp)

lemmas [wp] = okR_weaken2 [OF queue_job_new_status_I]

lemma delete_job_files_I: "I d \<Longrightarrow> okR I (delete_job_files n i j d) I"
  unfolding delete_job_files_def by (auto simp: delete_job_file_def intro!: wp)

lemmas [wp] = okR_weaken [OF delete_job_files_I]

lemma job_count_adjust_I: "I d \<Longrightarrow> okR I (job_count_adjust i n b d) I"
  unfolding job_count_adjust_def
  by (auto simp: add_printer_jobs_def add_group_jobs_def pslot_def pstat_def gslot_def intro!: wp)

lemmas [wp] = okR_weaken [OF job_count_adjust_I]

lemma queue_dequeue_job_I: "I d \<Longrightarrow> okR I (queue_dequeue_job i j k d) I"
  unfolding queue_dequeue_job_def by (auto simp: Let_def intro!: wp)

lemmas [wp] = okR_weaken [OF queue_dequeue_job_I]


text \<open>Messages.\<close>

lemma respond_I: "I d \<Longrightarrow> okR I (respond i j k p r d) I"
  unfolding respond_def respond2_def by (auto intro!: wp split: option.split)

lemma respond2_I: "I d \<Longrightarrow> okR I (respond2 n j k p m r d) I"
  unfolding respond2_def by (auto intro!: wp split: option.split)

lemma send_mail_I [simp]: "I (send_mail f s al d) \<longleftrightarrow> I d"
  by (simp add: send_mail_def with_fork_def)

lemma alerts_I:
  "I d \<Longrightarrow> okR I (alert_printer_failed n al k d) I" "I d \<Longrightarrow> okR I (alert_printer_working n al k d) I"
  "I d \<Longrightarrow> okR I (alert_d i b m d) I"
  by (auto simp: alert_printer_failed_def alert_printer_working_def alert_d_def Let_def with_method_def
      intro!: wp split: option.split)

lemma ppad_remind_I [simp]: "I (ppad_remind d) \<longleftrightarrow> I d"
  by (simp add: ppad_remind_def with_fork_def)

lemmas [wp] = respond_I [THEN okR_weaken] respond2_I [THEN okR_weaken] alerts_I [THEN okR_weaken]

text \<open>Printer status.\<close>

lemma pst_update_I: "I d \<Longrightarrow> okR I (pst_update i p d) I"
  unfolding pst_update_def pst_job_line_def Let_def by (auto intro!: wp)

lemmas [wp] = pst_update_I [THEN okR_weaken]

lemma set_status_I:
  assumes "I (d\<lparr>printers := upd_nth i (set_pstat s) (printers d)\<rparr>)" and "core d' = core d"
  shows "okR I (upd_spool i (set_status s now) d') I"
proof -
  have "slots (d'\<lparr>printers := upd_nth i f (printers d')\<rparr>)
      = slots (d\<lparr>printers := upd_nth i (set_pstat s) (printers d)\<rparr>)"
    if "\<And>p. pslot (f p) = pslot (set_pstat s p)" for f
    using that core_fields [OF assms(2)] by (auto simp: slots_def intro: map_upd_nth_cong)
  then show ?thesis
    unfolding upd_spool_def upd_printer_def using assms(1)
    by (auto simp: set_pstat_def set_status_def pslot_def pstat_def simp flip: upd_nth_def elim!: same)
qed

text \<open>The new status may be what makes the invariant true again.\<close>

lemma printer_new_status_restores:
  assumes "I (d\<lparr>printers := upd_nth i (set_pstat s) (printers d)\<rparr>)"
    and "get_printer i d = Inr p" "pstat p \<noteq> PRNSTATUS_DELETED"
  shows "okR I (printer_new_status i s d) I"
proof -
  have "okR I (upd_spool i (set_status s now) ((lock d)\<lparr>time_calls := n\<rparr>)) I" for now n
    using assms(1) by (rule set_status_I) simp
  note upd = okR_weaken [OF this]
  show ?thesis
    unfolding printer_new_status_def Let_def
    using assms by (auto simp: with_time_def pstat_def pslot_def intro!: upd wp)
qed

lemma upd_spool_I: "I d \<Longrightarrow> (\<And>s. ps_status (f s) = ps_status s) \<Longrightarrow> okR I (upd_spool i f d) I"
  unfolding upd_spool_def by (auto simp: pslot_def pstat_def intro!: wp)

lemma upd_spool_wp [wp]:
  assumes "I d" "\<And>s. ps_status (f s) = ps_status s"
    and "\<And>d'. I d' \<Longrightarrow> \<forall>p q. get_printer i d = Inr p \<longrightarrow> get_printer i d' = Inr q \<longrightarrow> pslot q = pslot p \<Longrightarrow> P d'"
  shows "okR I (upd_spool i f d) P"
proof (rule okR_weaken)
  show "okR I (upd_spool i f d)
     (\<lambda>d'. I d' \<and> (\<forall>p q. get_printer i d = Inr p \<longrightarrow> get_printer i d' = Inr q \<longrightarrow> pslot q = pslot p))"
    by (intro okR_conj upd_spool_I assms(1,2))
      (use assms(2) in \<open>auto simp: upd_spool_def upd_printer_def get_printer_iff pslot_def pstat_def\<close>)
qed (use assms(3) in blast)


text \<open>Media.\<close>

lemma media_set_job_wait_reason_I: "I d \<Longrightarrow> okR I (media_set_job_wait_reason j m b d) (\<lambda>(j, d). I d)"
  unfolding media_set_job_wait_reason_def by (auto intro!: wp)

lemmas [wp] = media_set_job_wait_reason_I [THEN okR_weaken2]

lemma media_set_notnow_for_job_I: "I d \<Longrightarrow> okR I (media_set_notnow_for_job j b d) (\<lambda>(j, d). I d)"
  unfolding media_set_notnow_for_job_def by (auto intro!: wp)

lemmas [wp] = media_set_notnow_for_job_I [THEN okR_weaken2]

lemma set_notnow_at_I: "I d \<Longrightarrow> okR I (set_notnow_at x d) I"
  unfolding set_notnow_at_def by (auto intro!: wp)

lemma media_startstop_I: "I d \<Longrightarrow> okR I (media_startstop_update_waitreason i d) I"
  unfolding media_startstop_update_waitreason_def media_startstop_update_waitreason2_def waitreason_group_def
    waitreason_at_def
  by (auto intro!: wp)

lemma media_update_notnow_I: "I d \<Longrightarrow> okR I (media_update_notnow i d) I"
  unfolding media_update_notnow_def media_update_notnow2_def notnow_group_def notnow_at_def Let_def
  by (auto intro!: wp)

lemma get_media_id_I: "I d \<Longrightarrow> okR I (get_media_id n d) (\<lambda>(m, d). I d)"
  unfolding get_media_id_def Let_def by auto

lemma media_mounted_save_I: "I d \<Longrightarrow> okR I (media_mounted_save i d) I"
  unfolding media_mounted_save_def by (auto intro!: wp)

lemmas [wp] = set_notnow_at_I [THEN okR_weaken] media_startstop_I [THEN okR_weaken]
  media_update_notnow_I [THEN okR_weaken] get_media_id_I [THEN okR_weaken2]
  media_mounted_save_I [THEN okR_weaken]

text \<open>Questions.\<close>

lemma upd_slot_I [simp]: "I (upd_slot x f d) \<longleftrightarrow> I d"
  by (simp add: upd_slot_def)

lemma question_launch_I: "I d \<Longrightarrow> okR I (question_launch x d) (\<lambda>(r, d). I d)"
  unfolding question_launch_def Let_def by (auto intro!: wp)

lemmas [wp] = question_launch_I [THEN okR_weaken2]

lemma question_loop_I: "I d \<Longrightarrow> okR I (question_loop t xs x c d) (\<lambda>(x, c, d). I d)"
  by (induction xs arbitrary: x c d) (auto intro!: wp)

lemmas [wp] = question_loop_I [THEN okR_weaken3]

lemma question_look_for_work_I: "I d \<Longrightarrow> okR I (question_look_for_work d) I"
  unfolding question_look_for_work_def Let_def by (auto intro!: wp)

lemmas [wp] = question_look_for_work_I [THEN okR_weaken]

lemma question_job_I: "I d \<Longrightarrow> okR I (question_job x d) I"
  unfolding question_job_def Let_def by (auto intro!: wp)

lemma question_child_hook_I: "I d \<Longrightarrow> okR I (question_child_hook pid w d) (\<lambda>(r, d). I d)"
  unfolding question_child_hook_def Let_def by (auto intro!: wp)

lemmas [wp] = question_job_I [THEN okR_weaken] question_child_hook_I [THEN okR_weaken2]

lemma question_tick_I: "I d \<Longrightarrow> okR I (question_tick d) I"
  unfolding question_tick_def by (auto intro!: wp)

lemma question_on_off_I: "I d \<Longrightarrow> okR I (question_on_off x b d) I"
  unfolding question_on_off_def Let_def by (auto intro!: wp)

lemmas [wp] = question_tick_I [THEN okR_weaken] question_on_off_I [THEN okR_weaken]


text \<open>The end of a driver, up to the settling of the job.\<close>

lemma exit_code_I: "I d \<Longrightarrow> okR I (exit_code i w d) (\<lambda>(e, d). I d)"
  unfolding exit_code_def by (auto intro!: wp split: wstat.split)

lemma respond_job_I: "I d \<Longrightarrow> okR I (respond_job i r d) I"
  unfolding respond_job_def by (auto intro!: wp)

lemmas [wp] = respond_job_I [THEN okR_weaken]

lemma working_again_I: "I d \<Longrightarrow> okR I (working_again i d) I"
  unfolding working_again_def by (auto intro!: wp)

lemmas [wp] = working_again_I [THEN okR_weaken]

lemma first_switch_I:
  "I d \<Longrightarrow> okR I (first_switch i w e d) (\<lambda>(e, js, ps, d). I d \<and> ps \<noteq> PRNSTATUS_DELETED)"
  unfolding first_switch_def exit_printed_def exit_joberr_def exit_incapable_def exit_engaged_def
    exit_starved_def exit_signal_def Let_def
  by (auto simp: pslot_def pstat_def intro!: wp split: wstat.split)

lemma second_switch_I:
  "I d \<Longrightarrow> ps \<noteq> PRNSTATUS_DELETED \<Longrightarrow> okR I (second_switch i e ps d) (\<lambda>(ps, d). I d \<and> ps \<noteq> PRNSTATUS_DELETED)"
  unfolding second_switch_def fault_retry_def Let_def by (auto intro!: wp)

lemma fault_alert_I: "I d \<Longrightarrow> okR I (fault_alert i s d) I"
  unfolding fault_alert_def by (auto intro!: wp)

end

locale slot_start = slot_frame +
  assumes forks: "I d \<Longrightarrow> fork_result d n = -1 \<or> fork_result d n > 0"
    and starved: "I d \<Longrightarrow> get_printer i d = Inr p \<Longrightarrow> pstat p = PRNSTATUS_IDLE
      \<Longrightarrow> I (d\<lparr>printers := upd_nth i (set_pstat PRNSTATUS_STARVED) (printers d)\<rparr>)"
    and started: "I d \<Longrightarrow> get_printer i d = Inr p \<Longrightarrow> pstat p = PRNSTATUS_IDLE
      \<Longrightarrow> active_printers d \<noteq> MAX_ACTIVE \<Longrightarrow> pid > 0
      \<Longrightarrow> I (d\<lparr>active_printers := active_printers d + 1,
               printers := upd_nth i (\<lambda>p. set_pstat PRNSTATUS_PRINTING (p\<lparr>p_job_pid := pid\<rparr>)) (printers d)\<rparr>)"
begin

text \<open>Starting a driver.\<close>

lemma printer_starve_I:
  assumes "I d" "get_printer i d = Inr p" "ps_status (p_spool_state p) = PRNSTATUS_IDLE"
  shows "okR I (printer_starve i d) (\<lambda>(r, d). I d)"
  unfolding printer_starve_def
  using assms starved [OF assms(1,2)]
  by (auto simp: pstat_def intro!: printer_new_status_restores [OF _ assms(2), THEN okR_weaken])

lemma pprdrv_started_I:
  assumes "I d" "get_printer i d = Inr p" "ps_status (p_spool_state p) = PRNSTATUS_IDLE"
    "active_printers d \<noteq> MAX_ACTIVE" "pid > 0"
  shows "okR I (pprdrv_started i job pid d) (\<lambda>(r, d). I d)"
proof -
  let ?d = "d\<lparr>active_printers := active_printers d + 1,
              printers := upd_nth i (set_printer_job pid job) (printers d)\<rparr>"
  have I: "I (?d\<lparr>printers := upd_nth i (set_pstat PRNSTATUS_PRINTING) (printers ?d)\<rparr>)"
    using started [OF assms(1,2) _ assms(4,5)] assms(3) get_printer_iff [THEN iffD1, OF assms(2)]
    by (auto simp: pstat_def upd_nth_def slots_def pslot_def set_pstat_def set_printer_job_def map_update elim!: same)
  have p: "get_printer i ?d = Inr (set_printer_job pid job p)"
    using assms(2) by (auto simp: get_printer_iff upd_nth_def)
  have "pstat (set_printer_job pid job p) \<noteq> PRNSTATUS_DELETED"
    using assms(3) by (simp add: pstat_def set_printer_job_def)
  note new = okR_weaken [OF printer_new_status_restores [OF I p this]]
  have u: "upd_printer i (set_printer_job pid job) (d\<lparr>active_printers := active_printers d + 1\<rparr>) = Inr ?d"
    using assms(2) by (simp add: upd_printer_iff get_printer_iff)
  show ?thesis
    unfolding pprdrv_started_def Let_def by (auto simp: u gslot_def intro!: new wp)
qed

lemmas [wp] = printer_starve_I [THEN okR_weaken2] pprdrv_started_I [THEN okR_weaken2]

lemma exec_pprdrv_I [simp]: "I (exec_pprdrv i job d) \<longleftrightarrow> I d"
  by (simp add: exec_pprdrv_def split: sum.split)

lemma exec_pprdrv_fields [simp]:
  "get_printer i (exec_pprdrv j job d) = get_printer i d"
  "active_printers (exec_pprdrv j job d) = active_printers d"
  by (simp_all add: exec_pprdrv_def emit_def get_printer_def split: sum.split)

lemma pprdrv_start_I: "I d \<Longrightarrow> okR I (pprdrv_start i x d) (\<lambda>(r, d). I d)"
  unfolding pprdrv_start_def using forks [of d]
  by (auto simp: with_fork_def intro!: wp)

lemmas [wp] = pprdrv_start_I [THEN okR_weaken2]

lemma printer_start_I: "I d \<Longrightarrow> okR I (printer_start i x d) (\<lambda>(r, d). I d)"
  unfolding printer_start_def by (auto intro!: wp)

lemmas [wp] = printer_start_I [THEN okR_weaken2]

lemma look_loop_I: "I d \<Longrightarrow> okR I (look_loop i xs d) I"
  by (induction xs arbitrary: d) (auto intro!: wp)

lemmas [wp] = look_loop_I [THEN okR_weaken]

lemma printer_look_for_work_I: "I d \<Longrightarrow> okR I (printer_look_for_work i d) I"
  unfolding printer_look_for_work_def by (auto simp: Let_def intro!: wp)

lemmas [wp] = printer_look_for_work_I [THEN okR_weaken]

lemma look_if_idle_I: "I d \<Longrightarrow> okR I (look_if_idle i d) I"
  unfolding look_if_idle_def by (auto intro!: wp)

lemmas [wp] = look_if_idle_I [THEN okR_weaken]

lemma group_look_for_work_I: "I d \<Longrightarrow> okR I (group_look_for_work i d) I"
  unfolding group_look_for_work_def by (auto intro!: wp)

lemmas [wp] = group_look_for_work_I [THEN okR_weaken]

lemma try_members_I: "I d \<Longrightarrow> okR I (try_members n ms y x d) I"
  by (induction n arbitrary: y d) (auto simp: Let_def intro!: wp)

lemmas [wp] = try_members_I [THEN okR_weaken]

lemma try_start_I: "I d \<Longrightarrow> okR I (printer_try_start_suitable_4_this_job x d) I"
  unfolding printer_try_start_suitable_4_this_job_def by (auto simp: Let_def intro!: wp)

lemmas [wp] = try_start_I [THEN okR_weaken]



lemma settle_job_I: "I d \<Longrightarrow> okR I (settle_job i e js d) I"
  unfolding settle_job_def Let_def by (auto simp: pslot_def pstat_def intro!: wp)

end

locale slot_invariant = slot_start +
  assumes resting: "I d \<Longrightarrow> get_printer i d = Inr p \<Longrightarrow> \<not> busy (pstat p) \<Longrightarrow> pstat p \<noteq> PRNSTATUS_DELETED
      \<Longrightarrow> p_job_pid p = 0"
    and new_status: "I d \<Longrightarrow> get_printer i d = Inr p \<Longrightarrow> pstat p \<noteq> PRNSTATUS_DELETED
      \<Longrightarrow> busy s \<or> p_job_pid p = 0 \<Longrightarrow> s \<noteq> PRNSTATUS_DELETED
      \<Longrightarrow> I (d\<lparr>printers := upd_nth i (set_pstat s) (printers d)\<rparr>)"
    and exited: "I d \<Longrightarrow> get_printer i d = Inr p \<Longrightarrow> p_job_pid p > 0
      \<Longrightarrow> I (d\<lparr>printers := upd_nth i (\<lambda>p. p\<lparr>p_job_pid := 0\<rparr>) (printers d),
               active_printers := active_printers d - 1\<rparr>)"
begin

lemma resting_pid:
  "I d \<Longrightarrow> get_printer i d = Inr p \<Longrightarrow> ps_status (p_spool_state p) = s \<Longrightarrow> \<not> busy s \<Longrightarrow> s \<noteq> PRNSTATUS_DELETED
   \<Longrightarrow> p_job_pid p = 0"
  using resting by (auto simp: pstat_def)

lemma printer_new_status_I:
  assumes "I d" "s \<noteq> PRNSTATUS_DELETED"
    and "\<And>p. get_printer i d = Inr p \<Longrightarrow> pstat p \<noteq> PRNSTATUS_DELETED \<Longrightarrow> busy s \<or> p_job_pid p = 0"
  shows "okR I (printer_new_status i s d) I"
proof (cases "get_printer i d")
  case (Inr p)
  show ?thesis
  proof (cases "pstat p = PRNSTATUS_DELETED")
    case True
    then show ?thesis using assms(1) Inr by (simp add: printer_new_status_def pstat_def)
  next
    case False
    show ?thesis
      using new_status [OF assms(1) Inr False assms(3) [OF Inr False] assms(2)] Inr False
      by (rule printer_new_status_restores)
  qed
next
  case (Inl a)
  then show ?thesis
    using no_throw_basic(1) [of i d] by (cases a) (auto simp: printer_new_status_def Let_def no_throw_def)
qed

lemmas [wp] = printer_new_status_I [THEN okR_weaken]

lemma tick_printer_I: "I d \<Longrightarrow> okR I (tick_printer x d) I"
  unfolding tick_printer_def Let_def by (auto simp: pslot_def resting_pid intro!: wp)

lemmas [wp] = tick_printer_I [THEN okR_weaken]

lemma hungry_loop_I: "I d \<Longrightarrow> okR I (hungry_loop n d) I"
  using resting_pid
  by (induction n arbitrary: d) (auto simp: Let_def intro!: wp)

lemmas [wp] = hungry_loop_I [THEN okR_weaken]

lemma printer_tick_I: "I d \<Longrightarrow> okR I (printer_tick d) I"
  unfolding printer_tick_def Let_def by (auto intro!: wp)

lemmas [wp] = printer_tick_I [THEN okR_weaken]


text \<open>Commands.\<close>

lemma reply_I [simp]: "I (reply l d) \<longleftrightarrow> I d" "I (reply_code c d) \<longleftrightarrow> I d" "I (refuse c m d) \<longleftrightarrow> I d"
  "I (refuse_job c b a n i j d) \<longleftrightarrow> I d"
  by (simp_all add: reply_def reply_code_def refuse_def refuse_job_def with_jobid_def)

lemma get_printer_reply [simp]: "get_printer i (reply_code c d) = get_printer i d"
  by (simp add: reply_code_def reply_def)

lemma with_args_wp [wp]:
  "I d \<Longrightarrow> (\<And>vs. okR I (k vs d) P) \<Longrightarrow> (\<And>d'. I d' \<Longrightarrow> P d') \<Longrightarrow> okR I (with_args c f w g m k d) P"
  unfolding with_args_def by (auto intro!: wp)

lemma with_destid_wp [wp]:
  "I d \<Longrightarrow> (\<And>i. okR I (k i d) P) \<Longrightarrow> (\<And>d'. I d' \<Longrightarrow> P d') \<Longrightarrow> okR I (with_destid n m k d) P"
  unfolding with_destid_def by (auto intro!: wp)

lemma ppop_list_I: "I d \<Longrightarrow> okR I (ppop_list c d) I"
  unfolding ppop_list_def ppop_list_cmd_def list_job_def list_line_def Let_def
  by (auto intro!: wp split: list.split sval.split option.split)

lemma ppop_status_I: "I d \<Longrightarrow> okR I (ppop_status c d) I"
  unfolding ppop_status_def ppop_status_cmd_def status_if_not_deleted_def ppop_status_do_printer_def
    status_line_def Let_def
  by (auto intro!: wp split: list.split sval.split option.split)

lemma pprdrv_kill_I: "I d \<Longrightarrow> okR I (pprdrv_kill i d) I"
  unfolding pprdrv_kill_def by (auto intro!: wp)

lemmas [wp] = pprdrv_kill_I [THEN okR_weaken]

lemma ppop_start_printer_I: "I d \<Longrightarrow> okR I (ppop_start_printer n i d) I"
  unfolding ppop_start_printer_def Let_def
  by (auto simp: pslot_def pstat_def resting_pid intro!: wp)

lemma ppop_stop_printer_I: "I d \<Longrightarrow> okR I (ppop_stop_printer n i h d) (\<lambda>(b, d). I d)"
  unfolding ppop_stop_printer_def Let_def
  by (auto simp: resting_pid intro!: wp)

lemma reply_delayed_I: "I d \<Longrightarrow> okR I (reply_delayed n i b d) I"
  unfolding reply_delayed_def by (auto simp: pslot_def pstat_def intro!: wp)

lemmas [wp] = ppop_start_printer_I [THEN okR_weaken] ppop_stop_printer_I [THEN okR_weaken2]
  reply_delayed_I [THEN okR_weaken]

lemma ppop_start_stop_I: "I d \<Longrightarrow> okR I (ppop_start_stop_wstop_halt c a d) I"
  unfolding ppop_start_stop_wstop_halt_def ppop_start_stop_cmd_def
  by (auto intro!: wp split: list.split sval.split)

lemma hold_job_I: "I d \<Longrightarrow> okR I (hold_job n i j x d) I"
  unfolding hold_job_def Let_def by (auto simp: pslot_def pstat_def intro!: wp)

lemma release_job_I: "I d \<Longrightarrow> okR I (release_job n i j x d) I"
  unfolding release_job_def Let_def by (auto intro!: wp)

lemmas [wp] = hold_job_I [THEN okR_weaken] release_job_I [THEN okR_weaken]

lemma ppop_hold_release_I: "I d \<Longrightarrow> okR I (ppop_hold_release c a d) I"
  unfolding ppop_hold_release_def ppop_hold_release_cmd_def Let_def
  by (auto intro!: wp split: list.split sval.split)

lemma cancel_job_I: "I d \<Longrightarrow> okR I (cancel_job who b x d) (\<lambda>(r, d). I d)"
  unfolding cancel_job_def cancel_printing_def cancel_seizing_def Let_def
  by (auto simp: pslot_def pstat_def intro!: wp)

lemmas [wp] = cancel_job_I [THEN okR_weaken2]

lemma cancel_loop_I: "I d \<Longrightarrow> okR I (cancel_loop n sel who b x c d) (\<lambda>(c, d). I d)"
proof (induction n arbitrary: x c d)
  case 0
  then show ?case by (subst cancel_loop.simps) auto
next
  case (Suc n)
  then show ?case by (subst cancel_loop.simps) (auto intro!: wp)
qed

lemmas [wp] = cancel_loop_I [THEN okR_weaken2]

lemma ppop_cancel_purge_I: "I d \<Longrightarrow> okR I (ppop_cancel_purge c d) I"
  unfolding ppop_cancel_purge_def ppop_cancel_purge_cmd_def Let_def
  by (auto intro!: wp split: list.split sval.split)

lemma rename_job_files_I: "I d \<Longrightarrow> okR I (rename_job_files o' n q d) I"
  unfolding rename_job_files_def rename_data_file_def by (auto intro!: wp)

lemma log_move_I: "I d \<Longrightarrow> okR I (log_move o' n q d) I"
  unfolding log_move_def by (auto intro!: wp)

lemma reset_moved_I: "I d \<Longrightarrow> okR I (reset_moved x d) I"
  unfolding reset_moved_def by (auto intro!: wp)

lemmas [wp] = rename_job_files_I [THEN okR_weaken] log_move_I [THEN okR_weaken] reset_moved_I [THEN okR_weaken]

lemma move_job_I: "I d \<Longrightarrow> okR I (move_job o' n i x r d) (\<lambda>(r, d). I d)"
  unfolding move_job_def by (auto intro!: wp)

lemmas [wp] = move_job_I [THEN okR_weaken2]

lemma ppop_move_I: "I d \<Longrightarrow> okR I (ppop_move c d) I"
proof -
  have "okR I (foldE (move_step a b i j k l) xs (0, 0, 0, d)) (\<lambda>(r, m, p, d). I d)" if "I d" for a b i j k l xs d
    by (rule okR_foldE) (use that in \<open>auto simp: move_step_def intro!: wp\<close>)
  then have fold [wp]: "I d \<Longrightarrow> (\<And>r m p d'. I d' \<Longrightarrow> P (r, m, p, d')) \<Longrightarrow>
      okR I (foldE (move_step a b i j k l) xs (0, 0, 0, d)) P" for a b i j k l xs d P
    by (rule okR_weaken) auto
  assume "I d"
  then show ?thesis
    unfolding ppop_move_def ppop_move_cmd_def Let_def
    by (auto simp: move_report_def Let_def intro!: fold wp split: list.split sval.split)
qed

lemma ppop_rush_I: "I d \<Longrightarrow> okR I (ppop_rush c d) I"
  unfolding ppop_rush_def ppop_rush_cmd_def Let_def by (auto intro!: wp split: list.split sval.split)

lemma ppop_modify_question_I: "I d \<Longrightarrow> okR I (ppop_modify_question c d) I"
  unfolding ppop_modify_question_def ppop_modify_question_cmd_def Let_def
  by (auto intro!: wp split: list.split sval.split)

lemma fold_reply_I [simp]: "I (fold reply ls d) \<longleftrightarrow> I d"
  by (induction ls arbitrary: d) auto

lemma list_media_I: "I d \<Longrightarrow> okR I (list_media i d) I"
  unfolding list_media_def media_of_printer_def by (auto intro!: wp)

lemmas [wp] = list_media_I [THEN okR_weaken]

lemma ppop_media_I: "I d \<Longrightarrow> okR I (ppop_media c d) I"
  unfolding ppop_media_def ppop_media_cmd_def by (auto intro!: wp split: list.split sval.split)

lemma ppop_mount_cmd_I: "I d \<Longrightarrow> okR I (ppop_mount_cmd p b m d) I"
  unfolding ppop_mount_cmd_def Let_def by (auto simp: pslot_def pstat_def intro!: wp)

lemmas [wp] = ppop_mount_cmd_I [THEN okR_weaken]

lemma ppop_mount_I: "I d \<Longrightarrow> okR I (ppop_mount c d) I"
  unfolding ppop_mount_def by (auto intro!: wp split: list.split sval.split)

lemma ppop_accept_reject_I: "I d \<Longrightarrow> okR I (ppop_accept_reject c a d) I"
  unfolding ppop_accept_reject_def ppop_accept_reject_cmd_def set_group_accepting_def set_printer_accepting_def
  by (auto simp: gslot_def intro!: wp split: list.split sval.split)

lemma fold_show_group_I [simp]: "I (fold ppop_dest_show_group gs d) \<longleftrightarrow> I d"
  by (induction gs arbitrary: d) (auto simp: ppop_dest_show_group_def)

lemma fold_show_printer_I [simp]: "I (fold ppop_dest_show_printer ps d) \<longleftrightarrow> I d"
  by (induction ps arbitrary: d) (auto simp: ppop_dest_show_printer_def)

lemma ppop_dest_I: "I d \<Longrightarrow> okR I (ppop_dest c d) I"
  unfolding ppop_dest_def ppop_dest_cmd_def Let_def
  by (auto simp: ppop_dest_show_group_def ppop_dest_show_printer_def intro!: wp split: list.split sval.split)

lemmas ppop_I = ppop_list_I ppop_status_I ppop_start_stop_I ppop_hold_release_I ppop_cancel_purge_I
  ppop_media_I ppop_mount_I ppop_accept_reject_I ppop_dest_I ppop_move_I ppop_rush_I ppop_modify_question_I

lemma ppop_command_I: "I d \<Longrightarrow> okR I (ppop_command c c' d) I"
  unfolding ppop_command_def by (auto intro!: ppop_I split: list.split)

lemmas [wp] = ppop_command_I [THEN okR_weaken]

lemma ppop_dispatch_I: "I d \<Longrightarrow> okR I (ppop_dispatch c d) I"
  unfolding ppop_dispatch_def Let_def by (auto intro!: wp)


text \<open>Requests from the socket.\<close>

lemma ipp_cancel_job_core_I: "I d \<Longrightarrow> okR I (ipp_cancel_job_core i j d) (\<lambda>(r, d). I d)"
  unfolding ipp_cancel_job_core_def Let_def by (auto intro!: wp)

lemma ipp_hold_this_I: "I d \<Longrightarrow> okR I (ipp_hold_this x d) (\<lambda>(r, d). I d)"
  unfolding ipp_hold_this_def Let_def by (auto simp: pslot_def pstat_def intro!: wp)

lemma ipp_release_this_I: "I d \<Longrightarrow> okR I (ipp_release_this x d) (\<lambda>(r, d). I d)"
  unfolding ipp_release_this_def Let_def by (auto intro!: wp)

lemma ipp_pause_this_I: "I d \<Longrightarrow> okR I (ipp_pause_this i d) (\<lambda>(r, d). I d)"
  unfolding ipp_pause_this_def Let_def by (auto simp: resting_pid intro!: wp)

lemma ipp_resume_this_I: "I d \<Longrightarrow> okR I (ipp_resume_this i d) (\<lambda>(r, d). I d)"
  unfolding ipp_resume_this_def Let_def by (auto simp: resting_pid intro!: wp)

lemma cups_move_this_I: "I d \<Longrightarrow> okR I (cups_move_this x i r d) I"
  unfolding cups_move_this_def by (auto intro!: wp)

lemmas [wp] = ipp_cancel_job_core_I [THEN okR_weaken2] ipp_hold_this_I [THEN okR_weaken2]
  ipp_release_this_I [THEN okR_weaken2] ipp_pause_this_I [THEN okR_weaken2]
  ipp_resume_this_I [THEN okR_weaken2] cups_move_this_I [THEN okR_weaken]

lemma cups_move_to_I: "I d \<Longrightarrow> okR I (cups_move_to j i d) (\<lambda>(r, d). I d)"
  unfolding cups_move_to_def Let_def by (auto intro!: wp)

lemmas [wp] = cups_move_to_I [THEN okR_weaken2]

lemma with_dest_args_wp [wp]:
  "I d \<Longrightarrow> (\<And>i. okR I (f i d) P) \<Longrightarrow> (\<And>i. okR I (g i d) P) \<Longrightarrow> (\<And>r. P (r, d)) \<Longrightarrow>
   okR I (with_dest_args args f g d) P"
  unfolding with_dest_args_def Let_def by (auto intro!: wp split: option.split)

lemma ipp_jobs_I:
  "I d \<Longrightarrow> okR I (ipp_cancel_job c d) (\<lambda>(r, d). I d)" "I d \<Longrightarrow> okR I (ipp_hold_job c d) (\<lambda>(r, d). I d)"
  "I d \<Longrightarrow> okR I (ipp_release_job c d) (\<lambda>(r, d). I d)" "I d \<Longrightarrow> okR I (ipp_purge_jobs c d) (\<lambda>(r, d). I d)"
  "I d \<Longrightarrow> okR I (cups_move_job c d) (\<lambda>(r, d). I d)"
  unfolding ipp_cancel_job_def ipp_hold_job_def ipp_release_job_def ipp_purge_jobs_def cups_move_job_def Let_def
  by (auto intro!: wp split: option.split)

lemma ipp_printers_I:
  "I d \<Longrightarrow> okR I (ipp_pause_printer c d) (\<lambda>(r, d). I d)" "I d \<Longrightarrow> okR I (ipp_resume_printer c d) (\<lambda>(r, d). I d)"
  "I d \<Longrightarrow> okR I (cups_accept_or_reject_jobs c a d) (\<lambda>(r, d). I d)"
  unfolding ipp_pause_printer_def ipp_resume_printer_def cups_accept_or_reject_jobs_def set_group_held_def
    set_group_accepting_def set_printer_accepting_def
  by (auto simp: gslot_def intro!: wp split: option.split)

lemma ipp_dispatch_I: "I d \<Longrightarrow> okR I (ipp_dispatch c d) (\<lambda>(r, d). I d)"
  unfolding ipp_dispatch_def ipp_operation_def by (auto intro!: ipp_jobs_I ipp_printers_I split: option.split)

lemmas [wp] = ipp_dispatch_I [THEN okR_weaken2]

lemma do_socket_command_I: "I d \<Longrightarrow> okR I (do_socket_command b d) I"
  unfolding do_socket_command_def socket_result_def Let_def by (auto intro!: wp)

text \<open>Receiving a job.\<close>

lemma read_line_I:
  "I d \<Longrightarrow> okR I (read_line l (q, b, ms, d)) (\<lambda>(q, b, ms, d). I d)"
  unfolding read_line_def Let_def by (auto intro!: wp split: list.split sval.split bool.split)

lemma read_queue_file_I: "I d \<Longrightarrow> okR I (read_queue_file f i j k d) (\<lambda>(q, d). I d)"
proof -
  have "okR I (foldE read_line ls (q, b, ms, d)) (\<lambda>(q, b, ms, d). I d)" if "I d" for ls q b ms d
    by (rule okR_foldE) (use that in \<open>auto intro!: read_line_I\<close>)
  then have fold: "I d \<Longrightarrow> (\<And>q b ms d'. I d' \<Longrightarrow> P (q, b, ms, d')) \<Longrightarrow>
      okR I (foldE read_line ls (q, b, ms, d)) P" for ls q b ms d P
    by (rule okR_weaken) auto
  assume "I d"
  then show ?thesis
    unfolding read_queue_file_def by (auto intro!: fold wp split: option.split)
qed

lemmas [wp] = read_queue_file_I [THEN okR_weaken2]

lemma insert_job_I: "I d \<Longrightarrow> okR I (insert_job q n b d) (\<lambda>(x, d). I d)"
  unfolding insert_job_def grow_queue_def Let_def by (auto intro!: wp)

lemma replace_job_I: "I d \<Longrightarrow> okR I (replace_job q d) (\<lambda>(x, d). I d)"
  unfolding replace_job_def Let_def by (auto intro!: wp)

lemmas [wp] = insert_job_I [THEN okR_weaken2] replace_job_I [THEN okR_weaken2]

lemma accept_body_I: "I d \<Longrightarrow> okR I (accept_body f n i j b r d) I"
  unfolding accept_body_def by (auto intro!: wp)

lemma queue_accept_queuefile_I: "I d \<Longrightarrow> okR I (queue_accept_queuefile f b r d) I"
proof -
  assume I: "I d"
  have "okR I (case m of Inl (Throw msg d) \<Rightarrow> (case (j, k) of (Some j, Some k) \<Rightarrow> delete_job_files n j k (error (h msg) d)
      | _ \<Rightarrow> Inl (UB u)) | r \<Rightarrow> r) I" if "okR I m I" for m j k n h u
    using that by (auto simp: okR_def [of I m] split: sum.split abort.split option.split intro!: wp)
  moreover have "okR I (if ok then accept_body f n i j b r d else Inl (Throw m d)) I" for ok n i j m
    using accept_body_I [OF I] I by simp
  ultimately show ?thesis
    unfolding queue_accept_queuefile_def using I by (auto intro!: wp)
qed

lemmas [wp] = queue_accept_queuefile_I [THEN okR_weaken]

lemma queue_new_job_I: "I d \<Longrightarrow> okR I (queue_new_job c d) I"
  unfolding queue_new_job_def by (auto intro!: wp split: option.split)

lemma queue_reload_job_I: "I d \<Longrightarrow> okR I (queue_reload_job c d) I"
  unfolding queue_reload_job_def by (auto intro!: wp split: option.split)

end

section \<open>The end of a driver\<close>

text \<open>
  While the job of printer \<open>i\<close> is settled, the printer still has its old status, so it is not started
  again: its slot does not change.
\<close>

interpretation exiting: slot_start "slot_kept i v" for i v
proof
  fix d d' assume "slot_kept i v d" and s: "slots d' = slots d"
  moreover from s have "map pslot (printers d') = map pslot (printers d)" "fork_result d' = fork_result d"
    by (simp_all add: slots_def)
  moreover from this(1) have "length (printers d') = length (printers d)" by (metis length_map)
  ultimately show "slot_kept i v d'" unfolding slot_kept_def by (metis nth_map)
qed (auto simp: slot_kept_def get_printer_iff upd_nth_def nth_list_update pslot_def)

lemma onR_bindI: "onR m Q \<Longrightarrow> (\<And>a. Q a \<Longrightarrow> onR (k a) P) \<Longrightarrow> onR (bindE m k) P"
  by (auto elim!: onR_mono)

context slot_invariant
begin

text \<open>Both invariants hold until the printer's status is settled.\<close>

definition settling :: "int \<Rightarrow> (string \<times> int \<times> int) \<Rightarrow> daemon \<Rightarrow> bool" where
  "settling i v d \<longleftrightarrow> I d \<and> slot_kept i v d"

lemma settlingD: "settling i v d \<Longrightarrow> I d" "settling i v d \<Longrightarrow> slot_kept i v d"
  by (simp_all add: settling_def)

lemma onR_both:
  "onR m P \<Longrightarrow> onR m Q \<Longrightarrow> (\<And>a. P a \<Longrightarrow> Q a \<Longrightarrow> R a) \<Longrightarrow> onR m R"
  by (auto simp: onR_def split: sum.splits)

lemma settling_exit_code:
  "settling i v d \<Longrightarrow> onR (exit_code j w d) (\<lambda>(e, d). settling i v d)"
  by (rule onR_both [OF okR_onR [OF exit_code_I] okR_onR [OF exiting.exit_code_I]])
    (auto simp: settling_def)

lemma settling_first_switch:
  "settling i v d \<Longrightarrow> onR (first_switch j w e d) (\<lambda>(e, js, ps, d). settling i v d \<and> ps \<noteq> PRNSTATUS_DELETED)"
  by (rule onR_both [OF okR_onR [OF first_switch_I] okR_onR [OF exiting.first_switch_I]])
    (auto simp: settling_def)

lemma settling_second_switch:
  "settling i v d \<Longrightarrow> ps \<noteq> PRNSTATUS_DELETED \<Longrightarrow>
   onR (second_switch j e ps d) (\<lambda>(ps, d). settling i v d \<and> ps \<noteq> PRNSTATUS_DELETED)"
  by (rule onR_both [OF okR_onR [OF second_switch_I] okR_onR [OF exiting.second_switch_I]])
    (auto simp: settling_def)

lemma settling_fault_alert:
  "settling i v d \<Longrightarrow> onR (fault_alert j s d) (settling i v)"
  by (rule onR_both [OF okR_onR [OF fault_alert_I] okR_onR [OF exiting.fault_alert_I]])
    (auto simp: settling_def)

lemma settling_settle_job:
  "settling i v d \<Longrightarrow> onR (settle_job j e js d) (settling i v)"
  by (rule onR_both [OF okR_onR [OF settle_job_I] okR_onR [OF exiting.settle_job_I]])
    (auto simp: settling_def)

lemma settle_printer_I:
  assumes "settling i (n, 0, t) d" "t \<noteq> PRNSTATUS_IDLE" "s \<noteq> PRNSTATUS_DELETED"
  shows "onR (settle_printer i s d) I"
proof -
  have I: "I d" and kept: "slot_kept i (n, 0, t) d" using assms(1) by (simp_all add: settling_def)
  have "p_job_pid p = 0" if "get_printer i d = Inr p" for p
    using kept that assms(2) by (auto simp: slot_kept_def get_printer_iff pslot_def)
  then have new: "okR I (printer_new_status i s' d) I" if "s' \<noteq> PRNSTATUS_DELETED" for s'
    using I that by (intro printer_new_status_I) auto
  show ?thesis
    unfolding settle_printer_def Let_def using I assms(3)
    by (intro onR_bindI [OF onR_I [where P = "\<lambda>_. True"]] onR_bindI [OF okR_onR [OF new]]
        okR_onR [OF look_if_idle_I]) auto
qed

lemma pprdrv_exited_I:
  assumes "I d" "get_printer i d = Inr p" "p_job_pid p > 0"
  shows "onR (pprdrv_exited i w d) I"
proof -
  let ?d = "d\<lparr>printers := upd_nth i (\<lambda>p. p\<lparr>p_job_pid := 0\<rparr>) (printers d),
              active_printers := active_printers d - 1\<rparr>"
  have t: "pstat p \<noteq> PRNSTATUS_IDLE"
    using resting [OF assms(1,2)] assms(3) by auto
  have "slot_kept i (p_name p, 0, pstat p) ?d"
    using assms(1,2) forks by (auto simp: slot_kept_def get_printer_iff upd_nth_def pslot_def pstat_def)
  then have S: "settling i (p_name p, 0, pstat p) ?d"
    using exited [OF assms] by (simp add: settling_def)
  have u: "upd_printer i (\<lambda>p. p\<lparr>p_job_pid := 0\<rparr>) d = Inr (d\<lparr>printers := upd_nth i (\<lambda>p. p\<lparr>p_job_pid := 0\<rparr>) (printers d)\<rparr>)"
    using assms(2) by (simp add: upd_printer_iff get_printer_iff)
  show ?thesis
    unfolding pprdrv_exited_def u Let_def
    using S
    by (auto intro!: settling_exit_code [THEN onR_mono] settling_first_switch [THEN onR_mono]
        settling_second_switch [THEN onR_mono] settling_fault_alert [THEN onR_mono]
        settling_settle_job [THEN onR_mono] settle_printer_I [OF _ t])
qed

lemma pprdrv_child_hook_I:
  assumes "I d" "pid > 0"
  shows "onR (pprdrv_child_hook pid w d) (\<lambda>(b, d). I d)"
proof -
  let ?x = "find_index (\<lambda>p. p_job_pid p = pid) (printers d)"
  have "onR (pprdrv_exited (int ?x) w d) I" if "?x < length (printers d)"
    using find_index_nth [OF that] that assms
    by (intro pprdrv_exited_I) (auto simp: get_printer_iff)
  then show ?thesis using assms(1) by (auto simp: pprdrv_child_hook_def Let_def elim!: onR_mono)
qed

lemma reap_one_I:
  assumes "I d" "pid > 0"
  shows "onR (reap_one pid w d) I"
proof -
  have "I (report_weird pid w d')" if "I d'" for d'
    using that by (simp add: report_weird_def split: wstat.split)
  then show ?thesis
    unfolding reap_one_def
    by (intro onR_bindI [OF pprdrv_child_hook_I [OF assms]])
      (auto intro!: okR_onR [OF question_child_hook_I, THEN onR_mono])
qed

lemma reapchild_I: "I d \<Longrightarrow> onR (reapchild cs d) I"
proof (induction cs d rule: reapchild.induct)
  case (2 pid w rest d)
  then show ?case
    using reap_one_I [of d pid w] by (auto elim!: onR_mono)
qed simp

lemma tick_I: "I d \<Longrightarrow> onR (tick d) I"
  unfolding tick_def by (intro okR_onR [where I = I]) (auto intro!: printer_tick_I [THEN okR_weaken] question_tick_I)

lemma step_I: "step d d' \<Longrightarrow> I d \<Longrightarrow> I d'"
proof (induction rule: step.induct)
  case (others d f c p t)
  then show ?case by (rule same) (simp add: slots_def)
qed (auto dest: onR_D [OF okR_onR [OF queue_new_job_I]] onR_D [OF okR_onR [OF queue_reload_job_I]]
    onR_D [OF okR_onR [OF ppop_dispatch_I]] onR_D [OF okR_onR [OF do_socket_command_I]] onR_D [OF tick_I] onR_D [OF reapchild_I])

lemma steps_I: "steps d d' \<Longrightarrow> I d \<Longrightarrow> I d'"
  by (induction rule: steps.induct) (auto intro: step_I)

end

section \<open>The invariant of the printers\<close>

lemma length_filter_upd:
  "k < length xs \<Longrightarrow>
   length (filter P (xs[k := y])) + of_bool (P (xs ! k)) = length (filter P xs) + of_bool (P y)"
proof (induction xs arbitrary: k)
  case (Cons x xs)
  then show ?case by (cases k) auto
qed simp

lemma slots_ok_fork: "slots_ok d \<Longrightarrow> fork_result d n = -1 \<or> fork_result d n > 0"
  by (simp add: slots_ok_def)

lemma slots_ok_same: "slots_ok d \<Longrightarrow> slots d' = slots d \<Longrightarrow> slots_ok d'"
proof -
  assume ok: "slots_ok d" and s: "slots d' = slots d"
  define N where "N xs = length (filter (\<lambda>(n, pid, st). pid > (0::int)) xs)" for xs :: "(string \<times> int \<times> int) list"
  define A where "A xs = (\<forall>(n, pid, st) \<in> set xs. pid \<ge> (0::int) \<and> (pid > 0 \<longrightarrow> busy st \<or> st = PRNSTATUS_DELETED))"
    for xs :: "(string \<times> int \<times> int) list"
  have alt: "slots_ok e \<longleftrightarrow> (\<forall>n. fork_result e n = -1 \<or> fork_result e n > 0) \<and> A (map pslot (printers e))
      \<and> active_printers e = int (N (map pslot (printers e))) \<and> active_printers e \<le> MAX_ACTIVE" for e
    by (auto simp: slots_ok_def running_def A_def N_def pslot_def filter_map comp_def)
  show ?thesis using ok s unfolding alt by (simp add: slots_def)
qed

lemma slots_ok_update:
  assumes "slots_ok d" "get_printer i d = Inr p"
    and "p_job_pid (f p) \<ge> 0" "p_job_pid (f p) > 0 \<longrightarrow> busy (pstat (f p)) \<or> pstat (f p) = PRNSTATUS_DELETED"
    and "a = active_printers d + of_bool (p_job_pid (f p) > 0) - of_bool (p_job_pid p > 0)" "a \<le> MAX_ACTIVE"
  shows "slots_ok (d\<lparr>printers := upd_nth i f (printers d), active_printers := a\<rparr>)"
proof -
  have i: "nat i < length (printers d)" and p: "p = printers d ! nat i" using assms(2) by (auto simp: get_printer_iff)
  have "set (upd_nth i f (printers d)) \<subseteq> insert (f p) (set (printers d))"
    unfolding upd_nth_def p by (rule set_update_subset_insert)
  moreover have "int (length (filter (\<lambda>p. p_job_pid p > 0) (upd_nth i f (printers d)))) = a"
    using length_filter_upd [OF i, of "\<lambda>p. p_job_pid p > 0" "f p"] assms(1,5) p
    by (auto simp: slots_ok_def running_def upd_nth_def)
  ultimately show ?thesis using assms by (auto simp: slots_ok_def running_def)
qed

lemma slots_ok_printer:
  assumes "slots_ok d" "get_printer i d = Inr p"
  shows "p_job_pid p \<ge> 0" "p_job_pid p > 0 \<Longrightarrow> busy (pstat p) \<or> pstat p = PRNSTATUS_DELETED"
    "active_printers d \<le> MAX_ACTIVE"
  using assms by (auto simp: slots_ok_def get_printer_iff)

lemma slots_ok_new_status:
  assumes "slots_ok d" "get_printer i d = Inr p" "busy s \<or> p_job_pid p = 0"
  shows "slots_ok (d\<lparr>printers := upd_nth i (set_pstat s) (printers d)\<rparr>)"
  using slots_ok_update [OF assms(1,2), of "set_pstat s" "active_printers d"] slots_ok_printer [OF assms(1,2)] assms(3)
  by (auto simp: set_pstat_def pstat_def)

interpretation printers_inv: slot_invariant slots_ok
proof
  show "slots_ok d \<Longrightarrow> slots d' = slots d \<Longrightarrow> slots_ok d'" for d d' by (rule slots_ok_same)
  show "slots_ok d \<Longrightarrow> fork_result d n = -1 \<or> fork_result d n > 0" for d n by (rule slots_ok_fork)
next
  fix d i p assume ok: "slots_ok d" and p: "get_printer i d = Inr p"
  note q = slots_ok_printer [OF ok p]
  show resting: "p_job_pid p = 0" if "\<not> busy (pstat p)" "pstat p \<noteq> PRNSTATUS_DELETED"
    using q(1,2) that by force
  show "slots_ok (d\<lparr>printers := upd_nth i (set_pstat PRNSTATUS_STARVED) (printers d)\<rparr>)" if "pstat p = PRNSTATUS_IDLE"
    using ok p resting that by (intro slots_ok_new_status) auto
  show "slots_ok (d\<lparr>printers := upd_nth i (set_pstat s) (printers d)\<rparr>)" if "busy s \<or> p_job_pid p = 0" for s
    using ok p that by (rule slots_ok_new_status)
  show "slots_ok (d\<lparr>printers := upd_nth i (\<lambda>p. p\<lparr>p_job_pid := 0\<rparr>) (printers d),
      active_printers := active_printers d - 1\<rparr>)" if "p_job_pid p > 0"
    using q that by (intro slots_ok_update [OF ok p]) auto
  show "slots_ok (d\<lparr>active_printers := active_printers d + 1,
      printers := upd_nth i (\<lambda>p. set_pstat PRNSTATUS_PRINTING (p\<lparr>p_job_pid := pid\<rparr>)) (printers d)\<rparr>)"
    if "pstat p = PRNSTATUS_IDLE" "active_printers d \<noteq> MAX_ACTIVE" "pid > 0" for pid
  proof -
    have "p_job_pid p = 0" using resting that(1) by simp
    then show ?thesis
      using slots_ok_update [OF ok p, of "\<lambda>p. set_pstat PRNSTATUS_PRINTING (p\<lparr>p_job_pid := pid\<rparr>)" "active_printers d + 1"] q that
      by (auto simp: set_pstat_def pstat_def slots_def elim!: slots_ok_same)
  qed
qed

text \<open>
  With the slots in order, the destinations do not change either: names, members of groups and
  deletion marks stay as the configuration has set them.
\<close>

lemma destinations_slots: "slots d' = slots d \<Longrightarrow> destinations d' = destinations d"
proof -
  have "destinations e = (map (\<lambda>(n, pid, st). (n, st = PRNSTATUS_DELETED)) (fst (slots e)), fst (snd (slots e)))" for e
    by (simp add: destinations_def slots_def pslot_def comp_def)
  then show "slots d' = slots d \<Longrightarrow> destinations d' = destinations d" by metis
qed

lemma destinations_upd:
  assumes "get_printer i d = Inr p" "p_name (f p) = p_name p"
    "pstat (f p) = PRNSTATUS_DELETED \<longleftrightarrow> pstat p = PRNSTATUS_DELETED"
  shows "destinations (d\<lparr>printers := upd_nth i f (printers d)\<rparr>) = destinations d"
proof -
  have "map (\<lambda>p. (p_name p, pstat p = PRNSTATUS_DELETED)) (upd_nth i f (printers d))
      = map (\<lambda>p. (p_name p, pstat p = PRNSTATUS_DELETED)) (printers d)"
    using assms by (intro nth_equalityI) (auto simp: upd_nth_def nth_list_update get_printer_iff split: if_splits)
  then show ?thesis by (simp add: destinations_def)
qed

lemma destinations_active [simp]:
  "destinations (d\<lparr>active_printers := a\<rparr>) = destinations d"
  "destinations (d\<lparr>active_printers := a, printers := ps\<rparr>) = destinations (d\<lparr>printers := ps\<rparr>)"
  "destinations (d\<lparr>printers := ps, active_printers := a\<rparr>) = destinations (d\<lparr>printers := ps\<rparr>)"
  by (simp_all add: destinations_def)

interpretation destinations_inv: slot_invariant "\<lambda>d. slots_ok d \<and> destinations d = D" for D
proof
  show "slots_ok d' \<and> destinations d' = D" if "slots_ok d \<and> destinations d = D" "slots d' = slots d" for d d'
    using that printers_inv.same [of d d'] destinations_slots [of d' d] by simp
qed (auto simp: destinations_upd set_pstat_def pstat_def
    dest: printers_inv.forks printers_inv.starved printers_inv.started printers_inv.resting
      printers_inv.new_status printers_inv.exited)

lemma lookup_destinations:
  assumes "destinations d' = destinations d"
  shows "destid_by_name name d' = destid_by_name name d"
proof -
  have p: "map (\<lambda>p. (p_name p, pstat p = PRNSTATUS_DELETED)) (printers d') = map (\<lambda>p. (p_name p, pstat p = PRNSTATUS_DELETED)) (printers d)"
    and g: "map gslot (groups d') = map gslot (groups d)" using assms by (auto simp: destinations_def)
  have pi: "find_index (printer_matches name) (printers e) = find_index (\<lambda>(n, del). \<not> del \<and> n = name)
      (map (\<lambda>p. (p_name p, pstat p = PRNSTATUS_DELETED)) (printers e))" for e
    by (simp add: find_index_map printer_matches_def [abs_def] pstat_def)
  have gi: "find_index (group_matches name) (groups e) = find_index (\<lambda>(n, ms, del). \<not> del \<and> n = name) (map gslot (groups e))" for e
    by (simp add: find_index_map group_matches_def [abs_def] gslot_def)
  have "length (printers d') = length (printers d)" "length (groups d') = length (groups d)"
    using arg_cong [OF p, of length] arg_cong [OF g, of length] by simp_all
  then have "destid_by_printer name d' = destid_by_printer name d" "destid_by_group name d' = destid_by_group name d"
    using pi [of d'] pi [of d] gi [of d'] gi [of d] p g by (simp_all add: destid_by_printer_def destid_by_group_def)
  then show ?thesis by (simp add: destid_by_name_def cong: if_cong)
qed

end
