(* ===== verification/Exits.thy ===== *)
theory Exits
  imports Slots
begin

text \<open>
  The state of a printer after its driver has ended, followed through \<open>pprdrv_exited\<close>: the two switches
  give a status, and a pending stop or halt order overrides it.
\<close>

section \<open>Definitions\<close>

text \<open>The exit code as which the end of the driver counts.\<close>

definition exit_class :: "wstat \<Rightarrow> int" where
  "exit_class w = (case w of Exited e \<Rightarrow> e | Signaled sig dumped stopsig \<Rightarrow> (if dumped then EXIT_PRNERR_NORETRY else EXIT_SIGNAL)
     | _ \<Rightarrow> EXIT_PRNERR_NORETRY)"

text \<open>The status of the printer after the end of the driver; \<open>s\<close> is its status until then.\<close>

definition status_after_exit :: "wstat \<Rightarrow> int \<Rightarrow> int" where
  "status_after_exit w s =
     (if s \<in> {PRNSTATUS_STOPPING, PRNSTATUS_HALTING} then PRNSTATUS_STOPT
      else if exit_class w \<in> {EXIT_PRINTED, EXIT_JOBERR, EXIT_INCAPABLE} then PRNSTATUS_IDLE
      else if exit_class w = EXIT_ENGAGED then PRNSTATUS_ENGAGED
      else if exit_class w = EXIT_STARVED then PRNSTATUS_STARVED
      else if exit_class w = EXIT_SIGNAL \<and> s \<in> {PRNSTATUS_SEIZING, PRNSTATUS_CANCELING} then PRNSTATUS_IDLE
      else PRNSTATUS_FAULT)"

text \<open>A printer that is to stop after its job, to apply the theorems to.\<close>

definition example_printing :: daemon where
  "example_printing = example_busy\<lparr>
     printers := (printers example_busy)[0 := set_pstat PRNSTATUS_STOPPING
        (set_printer_job 100 (example_job 0 7 50) (printers example_busy ! 0))],
     queue := [(example_job 0 7 50)\<lparr>q_status := 0\<rparr>], active_printers := 1\<rparr>"

section \<open>Lemmas\<close>

lemma exit_code_class: "exit_code i w d = Inr (e, d') \<Longrightarrow> e = exit_class w"
  by (auto simp: exit_code_def exit_class_def split: wstat.splits if_splits)

lemma exit_code_printers: "exit_code i w d = Inr (e, d') \<Longrightarrow> printers d' = printers d"
  by (auto simp: exit_code_def alert_d_def split: wstat.splits if_splits)

lemma switches_status:
  assumes "first_switch i w e d = Inr (e', js, ps, d1)" "second_switch i e' ps d1 = Inr (ps', d2)"
    and "get_printer i d = Inr p" "pstat p = s" "e = exit_class w"
  shows "(if s \<in> {PRNSTATUS_STOPPING, PRNSTATUS_HALTING} then PRNSTATUS_STOPT else ps') = status_after_exit w s"
proof -
  have fs: "ps' = (if e' = EXIT_PRNERR_NORETRY \<or> e' = EXIT_PRNERR then PRNSTATUS_FAULT else ps)"
    using assms(2) by (auto simp: second_switch_def split: if_splits)
  consider "e \<in> {EXIT_PRINTED, EXIT_JOBERR, EXIT_INCAPABLE}" "e' = e" "ps = PRNSTATUS_IDLE"
    | "e = EXIT_ENGAGED" "e' = e" "ps = PRNSTATUS_ENGAGED"
    | "e = EXIT_STARVED" "e' = e" "ps = PRNSTATUS_STARVED"
    | "e = EXIT_SIGNAL" "if s \<in> {PRNSTATUS_HALTING, PRNSTATUS_SEIZING, PRNSTATUS_CANCELING}
         then e' = EXIT_SIGNAL \<and> ps = PRNSTATUS_IDLE else e' = EXIT_PRNERR"
    | "e \<notin> {EXIT_PRINTED, EXIT_JOBERR, EXIT_INCAPABLE, EXIT_ENGAGED, EXIT_STARVED, EXIT_SIGNAL}"
      "e' = EXIT_PRNERR \<or> e' = EXIT_PRNERR_NORETRY"
    using assms(1,3,4)
    by (auto simp: first_switch_def exit_printed_def exit_joberr_def exit_incapable_def exit_engaged_def exit_starved_def
        exit_signal_def Let_def pstat_def split: if_splits)
  then show ?thesis
    using fs assms(5) by cases (auto simp: status_after_exit_def)
qed

lemma kept_status:
  assumes "slot_kept i v d" "snd (snd v) \<noteq> PRNSTATUS_IDLE" "get_printer i d = Inr p"
  shows "pslot p = v"
  using assms by (auto simp: slot_kept_def get_printer_iff)

lemma settle_printer_status:
  assumes "settle_printer i ps d = Inr d'" "slot_kept i (n, 0, s) d" "s \<noteq> PRNSTATUS_IDLE" "s \<noteq> PRNSTATUS_DELETED"
    and "t = (if s \<in> {PRNSTATUS_STOPPING, PRNSTATUS_HALTING} then PRNSTATUS_STOPT else ps)" "t \<noteq> PRNSTATUS_IDLE"
  shows "pslot (printers d' ! nat i) = (n, 0, t)"
proof -
  obtain p e where p: "get_printer i d = Inr p"
    and e: "printer_new_status i (if ps_status (p_spool_state p) = PRNSTATUS_STOPPING
                          \<or> ps_status (p_spool_state p) = PRNSTATUS_HALTING then PRNSTATUS_STOPT else ps) d = Inr e"
      "look_if_idle i e = Inr d'"
    using assms(1) by (auto simp: settle_printer_def Let_def)
  have k: "pslot p = (n, 0, s)" using kept_status [OF assms(2) _ p] assms(3) by simp
  then have t: "printer_new_status i t d = Inr e" using e(1) assms(5) by (simp add: pslot_def pstat_def)
  have i: "0 \<le> i" "i < int (length (printers d))" "p = printers d ! nat i" using p by (auto simp: get_printer_iff)
  have "ps_status (p_spool_state (printers d ! nat i)) \<noteq> PRNSTATUS_DELETED"
    using k assms(4) i(3) by (simp add: pslot_def pstat_def)
  from printer_new_status_effect [OF t this] obtain now where
    "core e = core (d\<lparr>printers := (printers d)[nat i := (printers d ! nat i)\<lparr>
      p_spool_state := set_status t now (p_spool_state (printers d ! nat i)),
      p_ppop_pid := (if t = PRNSTATUS_STOPT then 0 else p_ppop_pid (printers d ! nat i))\<rparr>]\<rparr>)" by blast
  from core_fields(3) [OF this] have s: "pslot (printers e ! nat i) = (n, 0, t)" "length (printers e) = length (printers d)"
    using k i by (simp_all add: pslot_def pstat_def set_status_def nat_less_iff)
  then have "d' = e"
    using e(2) assms(6) i by (auto simp: look_if_idle_def get_printer_def pslot_def pstat_def split: if_splits)
  with s show ?thesis by simp
qed

section \<open>Properties\<close>



end
