(* ===== verification/Supplies.thy ===== *)
theory Supplies
  imports Starting
begin

unbundle bit_operations_syntax

text \<open>
  Properties of \<open>Media\<close>: the table of media names, the file of mounted media, and the bitmaps and wait
  reasons of the jobs, compared with what they stand for.
\<close>

section \<open>Definitions\<close>

text \<open>The printer has not the media for the job; the printer is deliberately down.\<close>

definition lacks :: "int \<Rightarrow> QEntry \<Rightarrow> daemon \<Rightarrow> bool" where
  "lacks prn job d \<longleftrightarrow> returns (hasmedia prn job d) (\<lambda>has. \<not> has)"

definition down :: "int \<Rightarrow> daemon \<Rightarrow> bool" where
  "down prn d \<longleftrightarrow> returns (get_printer prn d) (\<lambda>p. ps_status (p_spool_state p) \<ge> PRNSTATUS_DELIBERATELY_DOWN)"

text \<open>What a blank-padded field of 16 bytes can hold; what a printer must satisfy for its mounted media to be saved.\<close>

definition field_ok :: "string \<Rightarrow> bool" where
  "field_ok s \<longleftrightarrow> (s = [] \<or> last s \<noteq> CHR '' '') \<and> length s \<le> 16"

definition media_ok :: "daemon \<Rightarrow> int \<Rightarrow> bool" where
  "media_ok d m \<longleftrightarrow> m = -1 \<or> (0 \<le> m \<and> m < int (length (media_table d)) \<and> media_table d ! nat m \<noteq> [] \<and> field_ok (media_table d ! nat m))"

definition mountable :: "int \<Rightarrow> daemon \<Rightarrow> bool" where
  "mountable i d \<longleftrightarrow> returns (get_printer i d) (\<lambda>p. length (p_media p) = length (p_bins p) \<and> distinct (p_bins p)
       \<and> (\<forall>b \<in> set (p_bins p). field_ok b) \<and> (\<forall>m \<in> set (p_media p). media_ok d m)) \<and> distinct (media_table d)"

text \<open>One record of the file of mounted media.\<close>

definition mount_record :: "daemon \<Rightarrow> string \<times> int \<Rightarrow> string" where
  "mount_record d = (\<lambda>(bin, m). ASCIIZ_to_padded bin MAX_BINNAME @ ASCIIZ_to_padded (get_media_name m d) MAX_MEDIANAME)"

section \<open>Lemmas\<close>

subsection \<open>Bitmaps\<close>

lemma nth_Cons_diff:
  "x \<le> b \<Longrightarrow> b \<noteq> x \<Longrightarrow> (m # ms) ! (b - x) = ms ! (b - Suc x) \<and> (b - x < length (m # ms) \<longleftrightarrow> b - Suc x < length ms)"
proof -
  assume "x \<le> b" "b \<noteq> x"
  then have "b - x = Suc (b - Suc x)" by simp
  then show ?thesis by simp
qed

lemma hasmedia_notnow [simp]: "hasmedia p (nj\<lparr>q_notnow := w\<rparr>) d = hasmedia p nj d"
  by (simp add: hasmedia_def)

lemma lacks_notnow [simp]: "lacks p (nj\<lparr>q_notnow := w\<rparr>) d = lacks p nj d"
  by (simp add: lacks_def)

lemma notnow_loop_bits:
  assumes "notnow_loop x ms nj d = Inr nj'"
  shows "\<exists>w. nj' = nj\<lparr>q_notnow := w\<rparr>
    \<and> (\<forall>b < 8. bit w b \<longleftrightarrow> bit (q_notnow nj) b \<or> (x \<le> b \<and> b - x < length ms \<and> lacks (ms ! (b - x)) nj d))"
  using assms
proof (induction ms arbitrary: x nj)
  case Nil
  then show ?case by (intro exI [of _ "q_notnow nj"]) auto
next
  case (Cons m ms)
  then obtain has where h: "hasmedia m nj d = Inr has" by auto
  define nj1 where "nj1 = (if \<not> has then nj\<lparr>q_notnow := q_notnow nj OR word_of_int (2 ^ x)\<rparr> else nj)"
  have "notnow_loop (Suc x) ms nj1 d = Inr nj'" using Cons.prems h by (simp add: nj1_def)
  from Cons.IH [OF this] obtain w where w: "nj' = nj1\<lparr>q_notnow := w\<rparr>"
    "\<forall>b < 8. bit w b \<longleftrightarrow> bit (q_notnow nj1) b \<or> (Suc x \<le> b \<and> b - Suc x < length ms \<and> lacks (ms ! (b - Suc x)) nj1 d)"
    by blast
  have l: "lacks p nj1 d = lacks p nj d" for p by (simp add: nj1_def)
  have b1: "b < 8 \<Longrightarrow> bit (q_notnow nj1) b \<longleftrightarrow> bit (q_notnow nj) b \<or> (b = x \<and> \<not> has)" for b
    by (auto simp: nj1_def bit_or_iff bit_exp_iff)
  have "bit w b \<longleftrightarrow> bit (q_notnow nj) b \<or> (x \<le> b \<and> b - x < length (m # ms) \<and> lacks ((m # ms) ! (b - x)) nj d)"
    if "b < 8" for b
  proof (cases "b = x")
    case True
    then show ?thesis using w(2) b1 [OF that] that h by (auto simp: lacks_def returns_def)
  next
    case False
    then show ?thesis using nth_Cons_diff [of x b m ms] w(2) b1 [OF that] that False l by auto
  qed
  moreover have "nj' = nj\<lparr>q_notnow := w\<rparr>" using w(1) by (simp add: nj1_def)
  ultimately show ?case by blast
qed

lemma stopt_loop_bits:
  assumes "stopt_loop x ms m d = Inr m'" "m \<ge> 0"
  shows "m' \<ge> 0 \<and> (\<forall>b. bit m' b \<longleftrightarrow> bit m b \<or> (x \<le> b \<and> b - x < length ms \<and> down (ms ! (b - x)) d))"
  using assms
proof (induction ms arbitrary: x m)
  case (Cons p ms)
  then obtain q where q: "get_printer p d = Inr q" by auto
  define m1 where "m1 = (if ps_status (p_spool_state q) \<ge> PRNSTATUS_DELIBERATELY_DOWN then m OR 2 ^ x else m)"
  have "stopt_loop (Suc x) ms m1 d = Inr m'" "m1 \<ge> 0" using Cons.prems q by (auto simp: m1_def)
  from Cons.IH [OF this] have IH: "m' \<ge> 0"
    "\<And>b. bit m' b \<longleftrightarrow> bit m1 b \<or> (Suc x \<le> b \<and> b - Suc x < length ms \<and> down (ms ! (b - Suc x)) d)" by auto
  have dn: "down p d \<longleftrightarrow> ps_status (p_spool_state q) \<ge> PRNSTATUS_DELIBERATELY_DOWN" using q by (simp add: down_def returns_def)
  have b1: "bit m1 b \<longleftrightarrow> bit m b \<or> (b = x \<and> down p d)" for b
    by (auto simp: m1_def dn bit_or_iff bit_exp_iff)
  have "bit m' b \<longleftrightarrow> bit m b \<or> (x \<le> b \<and> b - x < length (p # ms) \<and> down ((p # ms) ! (b - x)) d)" for b
  proof (cases "b = x")
    case False
    then show ?thesis using nth_Cons_diff [of x b p ms] IH(2) [of b] b1 [of b] False by auto
  qed (use IH(2) [of b] b1 [of b] in auto)
  then show ?case using IH(1) by blast
qed simp

lemma or_all:
  assumes "\<forall>b. bit (a :: int) b \<longrightarrow> b < n" "\<forall>b. bit c b \<longrightarrow> b < n" "a \<ge> 0" "c \<ge> 0"
  shows "a OR c = 2 ^ n - 1 \<longleftrightarrow> (\<forall>b < n. bit a b \<or> bit c b)"
proof -
  have "a OR c = 2 ^ n - 1 \<longleftrightarrow> (\<forall>b. bit (a OR c) b = bit (mask n :: int) b)"
    by (auto simp: mask_eq_exp_minus_1 intro: bit_eqI)
  then show ?thesis using assms by (auto simp: bit_or_iff bit_mask_iff)
qed

lemma media_set_job_wait_reason_effect:
  assumes "media_set_job_wait_reason job m inq d = Inr (job', d')" "q_status job \<in> {STATUS_WAITING, STATUS_WAITING4MEDIA}"
  shows "\<exists>s. wait_status job m d = Inr s \<and> job' = job\<lparr>q_status := s\<rparr>"
proof -
  obtain s where s: "wait_status job m d = Inr s" using assms by (auto simp: media_set_job_wait_reason_def)
  then show ?thesis
    using assms by (auto simp: media_set_job_wait_reason_def split: if_splits dest!: queue_p_job_new_status_effect)
qed

subsection \<open>Mounted media\<close>

lemma find_index_distinct:
  assumes "distinct xs" "i < length xs"
  shows "find_index (\<lambda>x. x = xs ! i) xs = i"
  using assms by (intro find_index_unique) (auto simp: nth_eq_iff_index_eq)

lemma media_id_of_name:
  assumes "media_ok d m" "distinct (media_table d)"
  shows "get_media_id (get_media_name m d) d = Inr (m, d) \<and> field_ok (get_media_name m d)"
proof (cases "m = -1")
  case True
  then show ?thesis by (simp add: get_media_id_def get_media_name_def field_ok_def)
next
  case False
  then have "find_index (\<lambda>x. x = media_table d ! nat m) (media_table d) = nat m"
    using assms by (intro find_index_distinct) (auto simp: media_ok_def)
  then show ?thesis using assms False by (auto simp: media_ok_def get_media_id_def get_media_name_def Let_def nat_less_iff)
qed

lemma length_padded: "length s \<le> w \<Longrightarrow> length (ASCIIZ_to_padded s w) = w"
  by (simp add: ASCIIZ_to_padded_def)

lemma mounted_loop_step:
  assumes "get_printer i d = Inr p" "field_ok bin" "media_ok d m" "distinct (media_table d)"
    and "find_index (\<lambda>b. b = bin) (p_bins p) = k" "k < length (p_bins p)"
  shows "mounted_loop b1 b2 (Suc n) i (mount_record d (bin, m) @ c) d =
    mounted_loop b1 b2 n i c (d\<lparr>printers := (printers d)[nat i := p\<lparr>p_media := (p_media p)[k := m]\<rparr>]\<rparr>)"
proof -
  let ?name = "get_media_name m d"
  have m: "get_media_id ?name d = Inr (m, d)" "field_ok ?name" using media_id_of_name [OF assms(3,4)] by auto
  have l: "length (ASCIIZ_to_padded bin 16) = 16" "length (ASCIIZ_to_padded ?name 16) = 16"
    using assms(2) m(2) by (simp_all add: length_padded field_ok_def)
  have f: "padded_to_ASCIIZ b (ASCIIZ_to_padded s 16) 16 = s" if "field_ok s" for b s
    using padded_to_ASCIIZ_pad [of s 16 b] that by (simp add: field_ok_def)
  have u: "upd_printer i (\<lambda>p. p\<lparr>p_media := (p_media p)[k := m]\<rparr>) d
     = Inr (d\<lparr>printers := (printers d)[nat i := p\<lparr>p_media := (p_media p)[k := m]\<rparr>]\<rparr>)"
    using assms(1) by (auto simp: get_printer_def upd_printer_def split: if_splits)
  show ?thesis using assms l m u by (simp add: mount_record_def Let_def f)
qed

lemma mounted_loop_records:
  assumes "length ms = length bs" "length rest = length bs" "length bs \<le> n" "length ms1 = length bs1"
    and "get_printer i d = Inr p" "p_bins p = bs1 @ bs" "p_media p = ms1 @ rest" "distinct (p_bins p)"
    and "\<forall>b \<in> set bs. field_ok b" "\<forall>m \<in> set ms. media_ok d m" "distinct (media_table d)"
  shows "mounted_loop b1 b2 n i (concat (map (mount_record d) (zip bs ms))) d
    = Inr (d\<lparr>printers := (printers d)[nat i := p\<lparr>p_media := ms1 @ ms\<rparr>]\<rparr>)"
  using assms
proof (induction bs arbitrary: ms rest n bs1 ms1 d p)
  case Nil
  then show ?case by (cases n) (auto simp: get_printer_iff)
next
  case (Cons b bs)
  obtain m ms' r rest' n' where eq: "ms = m # ms'" "rest = r # rest'" "n = Suc n'"
    using Cons.prems(1-3) by (cases ms; cases rest; cases n) auto
  let ?p = "p\<lparr>p_media := (p_media p)[length bs1 := m]\<rparr>"
  let ?d = "d\<lparr>printers := (printers d)[nat i := ?p]\<rparr>"
  have i: "0 \<le> i" "i < int (length (printers d))" "p = printers d ! nat i" using Cons.prems(5) by (auto simp: get_printer_iff)
  have k: "find_index (\<lambda>x. x = b) (p_bins p) = length bs1"
    using find_index_distinct [of "p_bins p" "length bs1"] Cons.prems(6,8) by (simp add: nth_append)
  have r: "mount_record ?d = mount_record d" by (simp add: mount_record_def get_media_name_def fun_eq_iff)
  have mo: "media_ok ?d x = media_ok d x" for x by (simp add: media_ok_def)
  have "mounted_loop b1 b2 n i (concat (map (mount_record d) (zip (b # bs) ms))) d
      = mounted_loop b1 b2 n' i (concat (map (mount_record d) (zip bs ms'))) ?d"
    using mounted_loop_step [OF Cons.prems(5) _ _ _ k, of m b1 b2 n'] Cons.prems eq by simp
  also have "\<dots> = Inr (?d\<lparr>printers := (printers ?d)[nat i := ?p\<lparr>p_media := (ms1 @ [m]) @ ms'\<rparr>]\<rparr>)"
    using Cons.IH [of ms' rest' n' "ms1 @ [m]" "bs1 @ [b]" ?d ?p] Cons.prems eq i r mo
    by (simp add: get_printer_iff nat_less_iff list_update_append)
  finally show ?case using eq by simp
qed

section \<open>Properties\<close>

text \<open>
  C33. A job for a group knows its printers: bit \<open>k\<close> of its \<^verbatim>\<open>notnow\<close> bitmap is set exactly when member \<open>k\<close> lacks
  the media, and the job waits for media exactly when every member lacks the media or is stopped, and
  not all are stopped; otherwise it waits for a printer.
\<close>

theorem media_wait_reason:
  assumes "media_set_notnow_for_job nj inq d = Inr (nj', d')" "destid_is_group (q_destid nj) d"
    and "destid_to_gindex (q_destid nj) = Inr gi" "get_group gi d = Inr g" "length (g_printers g) \<le> MAX_GROUPSIZE"
    and "q_status nj \<in> {STATUS_WAITING, STATUS_WAITING4MEDIA}"
  shows "(\<forall>k < length (g_printers g). bit (q_notnow nj') k \<longleftrightarrow> lacks (g_printers g ! k) nj d)
    \<and> q_status nj' = (if (\<forall>p \<in> set (g_printers g). lacks p nj d \<or> down p d) \<and> (\<exists>p \<in> set (g_printers g). \<not> down p d)
        then STATUS_WAITING4MEDIA else STATUS_WAITING)"
proof -
  let ?ms = "g_printers g"
  obtain nj1 m where 1: "notnow_loop 0 ?ms (nj\<lparr>q_notnow := 0\<rparr>) d = Inr nj1" "stoptmask (q_destid nj1) d = Inr m"
    "media_set_job_wait_reason nj1 m inq d = Inr (nj', d')"
    using assms(1-4) by (auto simp: media_set_notnow_for_job_def)
  obtain w where w: "nj1 = nj\<lparr>q_notnow := w\<rparr>" "\<And>b. b < 8 \<Longrightarrow> bit w b \<longleftrightarrow> b < length ?ms \<and> lacks (?ms ! b) nj d"
    using notnow_loop_bits [OF 1(1)] by auto
  have st: "stopt_loop 0 ?ms 0 d = Inr m" using 1(2) w(1) assms(2-4) by (simp add: stoptmask_def)
  have m: "m \<ge> 0" "\<And>b. bit m b \<longleftrightarrow> b < length ?ms \<and> down (?ms ! b) d" using stopt_loop_bits [OF st] by auto
  have wb: "bit (uint w) b \<longleftrightarrow> b < length ?ms \<and> lacks (?ms ! b) nj d" for b
    using w(2) [of b] assms(5) bit_imp_le_length [of w b] by (auto simp: bit_uint_iff)
  have "uint w OR m = 2 ^ length ?ms - 1 \<longleftrightarrow> (\<forall>b < length ?ms. lacks (?ms ! b) nj d \<or> down (?ms ! b) d)"
    using or_all [of "uint w" "length ?ms" m] wb m by auto
  moreover have "m = 2 ^ length ?ms - 1 \<longleftrightarrow> (\<forall>b < length ?ms. down (?ms ! b) d)"
    using or_all [of m "length ?ms" m] m by auto
  ultimately obtain s where "nj' = nj1\<lparr>q_status := s\<rparr>"
    "s = (if (\<forall>b < length ?ms. lacks (?ms ! b) nj d \<or> down (?ms ! b) d) \<and> (\<exists>b < length ?ms. \<not> down (?ms ! b) d)
        then STATUS_WAITING4MEDIA else STATUS_WAITING)"
    using media_set_job_wait_reason_effect [OF 1(3)] assms(2-4,6) w(1) by (auto simp: wait_status_def Let_def)
  then show ?thesis using w assms(5) by (auto simp: all_set_conv_all_nth Bex_def in_set_conv_nth) 
qed

theorem media_wait_reason_witness:
  "\<exists>nj' d'. media_set_notnow_for_job ((example_job 250 8 40)\<lparr>q_media := [1, -1, -1, -1]\<rparr>) False example_busy = Inr (nj', d')
     \<and> bit (q_notnow nj') 0 \<and> bit (q_notnow nj') 1 \<and> q_status nj' = STATUS_WAITING4MEDIA"
proof -
  let ?j = "(example_job 250 8 40)\<lparr>q_media := [1, -1, -1, -1]\<rparr>"
  have r: "returns (media_set_notnow_for_job ?j False example_busy) (\<lambda>_. True)"
    "returns (destid_to_gindex (q_destid ?j)) (\<lambda>g. g = 0)" "destid_is_group (q_destid ?j) example_busy"
    "g_printers (groups example_busy ! 0) = [0, 1]"
    "lacks 0 ?j example_busy" "lacks 1 ?j example_busy"
    "\<not> down 0 example_busy" "\<not> down 1 example_busy" "q_status ?j = STATUS_WAITING"
    by code_simp+
  then obtain nj' d' where d': "media_set_notnow_for_job ?j False example_busy = Inr (nj', d')" by (auto simp: returns_iff)
  have g: "get_group 0 example_busy = Inr (groups example_busy ! 0)" by (simp add: get_group_def)
  show ?thesis
    using media_wait_reason [OF d' r(3) _ g] r d' by (auto simp: returns_iff less_Suc_eq numeral_2_eq_2)
qed

text \<open>
  The mounted media of a printer survive a restart: what \<^verbatim>\<open>media_mounted_save()\<close> writes is read back by
  \<^verbatim>\<open>media_mounted_recover()\<close>, whatever the printer's bins held before and whatever bytes precede the
  reading buffers.
\<close>

theorem mounted_roundtrip:
  assumes "media_mounted_save i d = Inr d1" "mountable i d" "length other = length (p_bins (printers d ! nat i))"
  shows "media_mounted_recover b1 b2 i (d1\<lparr>printers := (printers d)[nat i := (printers d ! nat i)\<lparr>p_media := other\<rparr>]\<rparr>) = Inr d1"
proof -
  obtain p where p: "get_printer i d = Inr p" "length (p_media p) = length (p_bins p)" "distinct (p_bins p)"
    "\<forall>b \<in> set (p_bins p). field_ok b" "\<forall>m \<in> set (p_media p). media_ok d m" "distinct (media_table d)"
    using assms(2) by (auto simp: mountable_def returns_iff)
  have i: "0 \<le> i" "i < int (length (printers d))" "p = printers d ! nat i" using p(1) by (auto simp: get_printer_iff)
  let ?c = "concat (map (mount_record d) (zip (p_bins p) (p_media p)))"
  obtain name fn where f: "destid_to_name i d = Inr name"
    "path_of ''%s/%s/mounted'' [FStr (PRINTERS_PERSISTENT_STATEDIR (dirs d)), FStr name] d = Inr fn" "d1 = write_file fn ?c d"
    using assms(1) p(1) by (auto simp: media_mounted_save_def mount_record_def)
  let ?q = "p\<lparr>p_media := other\<rparr>"
  let ?d2 = "d1\<lparr>printers := (printers d)[nat i := ?q]\<rparr>"
  have "length (concat (map (mount_record d) zs)) \<ge> length zs" if "set zs \<subseteq> set (zip (p_bins p) (p_media p))" for zs
    using that p(4)
  proof (induction zs)
    case (Cons z zs)
    obtain b m where z: "z = (b, m)" by (cases z)
    then have "field_ok b" using Cons.prems set_zip_leftD [of b m "p_bins p" "p_media p"] by auto
    then show ?case using Cons z by (auto simp: mount_record_def length_padded field_ok_def)
  qed simp
  from this [of "zip (p_bins p) (p_media p)"] have n: "length (p_bins p) \<le> length ?c" using p(2) by simp
  have r: "mount_record ?d2 = mount_record d" using f(3) by (simp add: mount_record_def get_media_name_def write_file_def fun_eq_iff)
  have mo: "media_ok ?d2 x = media_ok d x" for x using f(3) by (simp add: media_ok_def write_file_def)
  have "destid_to_name i ?d2 = Inr name"
    using f(1,3) i by (auto simp: destid_to_name_def destid_is_group_def write_file_def nat_less_iff split: if_splits)
  moreover have "path_of ''%s/%s/mounted'' [FStr (PRINTERS_PERSISTENT_STATEDIR (dirs ?d2)), FStr name] ?d2 = Inr fn"
    using f(2,3) by (simp add: path_of_iff write_file_def)
  moreover have "fs ?d2 fn = Some ?c" using f(3) by (simp add: write_file_def)
  moreover have "mounted_loop b1 b2 (length ?c) i (concat (map (mount_record ?d2) (zip (p_bins p) (p_media p)))) ?d2
      = Inr (?d2\<lparr>printers := (printers ?d2)[nat i := ?q\<lparr>p_media := [] @ p_media p\<rparr>]\<rparr>)"
    using p i n mo assms(3) f(3)
    by (intro mounted_loop_records [where ?bs1.0 = "[]" and rest = other]) (auto simp: get_printer_iff nat_less_iff write_file_def)
  moreover have "?d2\<lparr>printers := (printers ?d2)[nat i := ?q\<lparr>p_media := [] @ p_media p\<rparr>]\<rparr> = d1"
    using f(3) i by (simp add: write_file_def)
  ultimately show ?thesis using r i(3) by (simp add: media_mounted_recover_def)
qed

theorem mounted_roundtrip_witness:
  "\<exists>d1. media_mounted_save 0 example_busy = Inr d1
    \<and> media_mounted_recover CHR ''x'' CHR ''y'' 0 (d1\<lparr>printers := (printers example_busy)[nat 0 := (printers example_busy ! nat 0)\<lparr>p_media := [-1, -1]\<rparr>]\<rparr>) = Inr d1"
proof -
  have "returns (media_mounted_save 0 example_busy) (\<lambda>_. True)" and m: "mountable 0 example_busy"
    and l: "length [-1, -1 :: int] = length (p_bins (printers example_busy ! nat 0))"
    by code_simp+
  then obtain d1 where d1: "media_mounted_save 0 example_busy = Inr d1" by (elim returnsE)
  from mounted_roundtrip [OF d1 m l] d1 show ?thesis by blast
qed

text \<open>
  A media name gets an id that gives the name back and stays the same; the ids of the other names do not
  change, and the table never exceeds \<^verbatim>\<open>MAX_MEDIA\<close>.
\<close>

theorem media_ids:
  assumes "get_media_id name d = Inr (m, d')" "length (media_table d) \<le> MAX_MEDIA"
  shows "get_media_name m d' = name \<and> get_media_id name d' = Inr (m, d') \<and> length (media_table d') \<le> MAX_MEDIA
    \<and> (\<forall>k. k < int (length (media_table d)) \<longrightarrow> get_media_name k d' = get_media_name k d)"
proof (cases "name = []")
  case False
  have "length (media_table d) \<noteq> MAX_MEDIA" if "name \<notin> set (media_table d)"
    using assms(1) that find_index_eq_length_iff [of "\<lambda>m. m = name" "media_table d"] False
    by (auto simp: get_media_id_def Let_def split: if_splits)
  then show ?thesis
    using assms False find_index_less_iff [of "\<lambda>m. m = name" "media_table d"]
      find_index_nth [of "\<lambda>m. m = name" "media_table d"] find_index_eq_length_iff [of "\<lambda>m. m = name" "media_table d"]
      find_index_unique [of "length (media_table d)" "media_table d @ [name]" "\<lambda>m. m = name"]
    by (auto simp: get_media_id_def get_media_name_def Let_def nth_append split: if_splits)
qed (use assms in \<open>auto simp: get_media_id_def get_media_name_def\<close>)

theorem media_ids_witness:
  "\<exists>d'. get_media_id ''legal'' example_busy = Inr (1, d') \<and> get_media_name 1 d' = ''legal'' \<and> get_media_name 0 d' = ''letter''"
proof -
  have "returns (get_media_id ''legal'' example_busy) (\<lambda>(m, _). m = 1)" "length (media_table example_busy) \<le> MAX_MEDIA"
    "get_media_name 0 example_busy = ''letter''" "length (media_table example_busy) = 1"
    by code_simp+
  then obtain d' where d': "get_media_id ''legal'' example_busy = Inr (1, d')" by (auto simp: returns_iff)
  from media_ids [OF d'] \<open>length (media_table example_busy) = 1\<close> \<open>get_media_name 0 example_busy = ''letter''\<close> d'
  show ?thesis by auto
qed

end
