(* ===== verification/Timing.thy ===== *)
theory Timing
  imports Exits Supplies
begin

text \<open>
  Properties that concern repetition and limits: the pauses between retries after faults, that a retry
  comes, the mails to the operator, and the limits on questions.
\<close>

section \<open>Definitions\<close>

text \<open>The questioners started so far; the limits that a scan for questions keeps.\<close>

definition asked :: "daemon \<Rightarrow> int" where
  "asked d = int (length (filter (\<lambda>e. \<exists>j. e = ExecQuestion j) (outs d)))"

definition questions_ok :: "int \<Rightarrow> daemon \<Rightarrow> bool" where
  "questions_ok a d \<longleftrightarrow> active_questions d \<le> MAX_ACTIVE_QUESTIONS \<and> launches_this_tick d \<le> MAX_LAUNCHES_PER_TICK
     \<and> asked d \<le> a + launches_this_tick d"

text \<open>A printer that waits for its next retry; its countdown; a number of ticks.\<close>

definition waiting_retry :: "PRINTER_SPOOL_STATE \<Rightarrow> bool" where
  "waiting_retry ps \<longleftrightarrow> (ps_status ps = PRNSTATUS_FAULT \<and> ps_next_error_retry ps \<noteq> 0) \<or> ps_status ps = PRNSTATUS_ENGAGED"

definition set_countdown :: "nat \<Rightarrow> int \<Rightarrow> daemon \<Rightarrow> daemon" where
  "set_countdown x c d = d\<lparr>printers := (printers d)[x := (printers d ! x)\<lparr>p_spool_state :=
     (p_spool_state (printers d ! x))\<lparr>ps_countdown := c\<rparr>\<rparr>]\<rparr>"

fun ticks :: "nat \<Rightarrow> nat \<Rightarrow> daemon \<Rightarrow> daemon res" where
  "ticks 0 x d = Inr d"
| "ticks (Suc n) x d = bindE (tick_printer x d) (ticks n x)"

section \<open>Lemmas\<close>

lemma fault_retry_pow:
  assumes "ps_next_error_retry ps = 0"
  shows "ps_next_error_retry ((fault_retry ^^ k) ps) = int k"
  using assms by (induction k) (simp_all add: fault_retry_def Let_def)

lemma c_rem_0: "f > 0 \<Longrightarrow> n \<ge> 0 \<Longrightarrow> c_rem n f = 0 \<longleftrightarrow> f dvd n"
  by (cases "n = 0") (auto simp: c_rem_def dvd_eq_mod_eq_0)

lemma question_launch_count:
  assumes "question_launch x d = Inr (r, d')"
  shows "\<exists>k \<in> {0, 1}. active_questions d' = active_questions d + k
    \<and> launches_this_tick d' = launches_this_tick d + k \<and> asked d' = asked d + k"
  using assms
  by (auto simp: question_launch_def Let_def with_fork_def upd_slot_def error_def emit_def set_job_def asked_def split: if_splits)

lemma question_loop_ok:
  assumes "question_loop t xs n c d = Inr (n', c', d')" "questions_ok a d"
  shows "questions_ok a d'"
  using assms
proof (induction xs arbitrary: n c d)
  case (Cons i xs)
  show ?case
  proof (cases "c < outstanding_questions d \<and> active_questions d < MAX_ACTIVE_QUESTIONS
            \<and> launches_this_tick d < MAX_LAUNCHES_PER_TICK")
    case True
    have launched: "questions_ok a e" if "question_launch i d = Inr (r, e)" for r e
      using question_launch_count [OF that] True Cons.prems(2) by (auto simp: questions_ok_def)
    show ?thesis using Cons.prems(1) True
      by (auto split: if_splits intro: Cons.IH [OF _ launched] Cons.IH [OF _ Cons.prems(2)])
  qed (use Cons.prems in auto)
qed simp

lemma tick_printer_waits:
  assumes "x < length (printers d)" "ps = p_spool_state (printers d ! x)" "waiting_retry ps"
  shows "tick_printer x d = (if ps_countdown ps \<le> TICK_INTERVAL
    then bindE (printer_new_status (int x) PRNSTATUS_IDLE (set_countdown x (ps_countdown ps - TICK_INTERVAL) d)) (printer_look_for_work (int x))
    else Inr (set_countdown x (ps_countdown ps - TICK_INTERVAL) d))"
  using assms by (simp add: tick_printer_def get_printer_def upd_spool_def upd_printer_def set_countdown_def waiting_retry_def Let_def)

section \<open>Properties\<close>

text \<open>
  C37. A printer in fault or engaged is not forgotten: with \<open>c\<close> seconds to go it is made idle and looks for work
  at exactly the tick at which the countdown has run out, and not before.
\<close>

theorem retry_comes:
  assumes "x < length (printers d)" "waiting_retry (p_spool_state (printers d ! x))"
    and "int n * TICK_INTERVAL < ps_countdown (p_spool_state (printers d ! x))"
    and "ps_countdown (p_spool_state (printers d ! x)) \<le> int (Suc n) * TICK_INTERVAL"
  shows "\<exists>c. ticks (Suc n) x d =
    bindE (printer_new_status (int x) PRNSTATUS_IDLE (set_countdown x c d)) (printer_look_for_work (int x))"
  using assms
proof (induction n arbitrary: d)
  case 0
  moreover have "ticks 0 x = Inr" by (rule ext) simp
  ultimately show ?case using tick_printer_waits [of x d] by auto
next
  case (Suc n)
  let ?c = "ps_countdown (p_spool_state (printers d ! x))"
  let ?e = "set_countdown x (?c - TICK_INTERVAL) d"
  have t: "tick_printer x d = Inr ?e" using tick_printer_waits [of x d] Suc.prems by simp
  have s: "set_countdown x c ?e = set_countdown x c d" for c using Suc.prems(1) by (simp add: set_countdown_def)
  have "\<exists>c. ticks (Suc n) x ?e = bindE (printer_new_status (int x) PRNSTATUS_IDLE (set_countdown x c ?e)) (printer_look_for_work (int x))"
    using Suc.prems by (intro Suc.IH) (auto simp: set_countdown_def waiting_retry_def)
  then show ?case by (simp add: t s del: ticks.simps(2)) (simp add: t)
qed

theorem retry_comes_witness:
  "\<exists>c. ticks 2 0 (set_countdown 0 8 (example_busy\<lparr>printers := map (set_pstat PRNSTATUS_ENGAGED) (printers example_busy)\<rparr>)) =
    bindE (printer_new_status 0 PRNSTATUS_IDLE
      (set_countdown 0 c (set_countdown 0 8 (example_busy\<lparr>printers := map (set_pstat PRNSTATUS_ENGAGED) (printers example_busy)\<rparr>))))
      (printer_look_for_work 0)"
proof -
  let ?d = "set_countdown 0 8 (example_busy\<lparr>printers := map (set_pstat PRNSTATUS_ENGAGED) (printers example_busy)\<rparr>)"
  have "0 < length (printers ?d)" "waiting_retry (p_spool_state (printers ?d ! 0))"
    "ps_countdown (p_spool_state (printers ?d ! 0)) = 8" by code_simp+
  then show ?thesis using retry_comes [of 0 ?d 1] by (simp add: numeral_2_eq_2)
qed

text \<open>
  The pause after the k-th fault in a row is 30 seconds times k, at most ten minutes, and never less
  than 30 seconds.
\<close>

theorem fault_backoff:
  assumes "ps_next_error_retry ps = 0" "0 < k"
  shows "ps_next_error_retry ((fault_retry ^^ k) ps) = int k
    \<and> ps_countdown ((fault_retry ^^ k) ps) = min (30 * int k) 600
    \<and> 30 \<le> ps_countdown ((fault_retry ^^ k) ps)"
proof -
  obtain j where j: "k = Suc j" using assms(2) by (cases k) auto
  show ?thesis
    using fault_retry_pow [OF assms(1), of k] fault_retry_pow [OF assms(1), of j] j by (simp add: fault_retry_def Let_def)
qed

theorem fault_backoff_witness:
  "ps_countdown ((fault_retry ^^ 3) default_printer_state) = 90 \<and> ps_countdown ((fault_retry ^^ 25) default_printer_state) = 600"
  using fault_backoff [of default_printer_state 3] fault_backoff [of default_printer_state 25]
  by (simp add: default_printer_state_def)

text \<open>
  In one tick at most three questions are asked, and never more than ten questioners run.
\<close>

theorem question_limits:
  assumes "question_tick d = Inr d'" "active_questions d \<le> MAX_ACTIVE_QUESTIONS"
  shows "active_questions d' \<le> MAX_ACTIVE_QUESTIONS \<and> launches_this_tick d' \<le> MAX_LAUNCHES_PER_TICK
    \<and> asked d' \<le> asked d + MAX_LAUNCHES_PER_TICK"
proof -
  have q: "questions_ok (asked d) (d\<lparr>launches_this_tick := 0\<rparr>)" using assms(2) by (simp add: questions_ok_def asked_def)
  have same: "questions_ok a (e\<lparr>outstanding_questions := c\<rparr>) = questions_ok a e"
    "questions_ok a (unlock e) = questions_ok a e" "questions_ok a (lock e) = questions_ok a e"
    "questions_ok a (e\<lparr>time_calls := k\<rparr>) = questions_ok a e" for a e c k
    by (simp_all add: questions_ok_def asked_def lock_def unlock_def)
  have "questions_ok (asked d) d'"
    using assms(1) q
    by (auto simp: question_tick_def question_look_for_work_def with_time_def Let_def same split: if_splits
        dest!: question_loop_ok [where a = "asked d"])
  then show ?thesis by (auto simp: questions_ok_def)
qed

theorem question_limits_witness:
  "\<exists>d'. question_tick (example_busy\<lparr>outstanding_questions := 1\<rparr>) = Inr d' \<and> active_questions d' \<le> 10 \<and> launches_this_tick d' \<le> 3"
proof -
  have "returns (question_tick (example_busy\<lparr>outstanding_questions := 1\<rparr>)) (\<lambda>_. True)"
    and a: "active_questions (example_busy\<lparr>outstanding_questions := 1\<rparr>) \<le> MAX_ACTIVE_QUESTIONS" by code_simp+
  then obtain d' where d': "question_tick (example_busy\<lparr>outstanding_questions := 1\<rparr>) = Inr d'" by (elim returnsE)
  from question_limits [OF d' a] d' show ?thesis by blast
qed

text \<open>
  Mail about faults goes out as the printer's alert interval says: every n-th fault when it is n, only
  at the n-th when it is -n, and never when it is 0.
\<close>

theorem alerts_sent:
  assumes "al_method al = Some m" "m \<noteq> ''none''" "0 < n" "fork_result d (fork_calls d) \<noteq> -1"
  shows "returns (alert_printer_failed prn al n d) (\<lambda>d'.
     (\<exists>s. SendMail (case al_address al of None \<Rightarrow> [] | Some a \<Rightarrow> a) s \<in> set (drop (length (outs d)) (outs d')))
     \<longleftrightarrow> (al_interval al > 0 \<and> al_interval al dvd n) \<or> (al_interval al < 0 \<and> n = - al_interval al))"
  using assms c_rem_0 [of "al_interval al" n]
  by (auto simp: alert_printer_failed_def returns_def Let_def with_method_def alert_due_def send_mail_def with_fork_def emit_def)

theorem alerts_sent_witness:
  "returns (alert_printer_failed ''laser'' (p_alert (example_printer ''laser'')) 6 example_daemon) (\<lambda>d'.
     \<exists>s. SendMail ''op'' s \<in> set (drop (length (outs example_daemon)) (outs d')))"
  using alerts_sent [of "p_alert (example_printer ''laser'')" "''mail''" 6 example_daemon "''laser''"]
  by (auto simp: example_printer_def example_daemon_def returns_iff)

end
