(* ===== verification/Orders.thy ===== *)
theory Orders
  imports Timing
begin

text \<open>
  Properties of the operator's commands: stopping a printer, canceling and rushing jobs; and two places
  where a command does not do what it should.
\<close>

section \<open>Definitions\<close>

text \<open>The status of a printer after a stop (1) or halt (2) order.\<close>

definition status_after_stop :: "int \<Rightarrow> int \<Rightarrow> int" where
  "status_after_stop how s =
     (if s \<in> {PRNSTATUS_FAULT, PRNSTATUS_IDLE, PRNSTATUS_ENGAGED, PRNSTATUS_STARVED} then PRNSTATUS_STOPT
      else if s \<in> {PRNSTATUS_CANCELING, PRNSTATUS_SEIZING} then PRNSTATUS_HALTING
      else if s \<in> {PRNSTATUS_PRINTING, PRNSTATUS_STOPPING} then (if how = 2 then PRNSTATUS_HALTING else PRNSTATUS_STOPPING)
      else s)"

text \<open>A job that a cancel order removes at once; the others are being printed and are only marked.\<close>

definition removable :: "QEntry \<Rightarrow> bool" where
  "removable q \<longleftrightarrow> q_status q < 0 \<and> q_status q \<noteq> STATUS_CANCEL \<and> q_status q \<noteq> STATUS_SEIZING"

section \<open>Lemmas\<close>

interpretation same_slots: slot_frame "\<lambda>d. slots d = S" for S
  by unfold_locales simp

subsection \<open>Printers\<close>

lemma slots_pslots: "slots d' = slots d \<Longrightarrow> map pslot (printers d') = map pslot (printers d)"
  by (simp add: slots_def)

lemma reply_slots [simp]: "slots (reply l d) = slots d" "slots (reply_code c d) = slots d" "slots (refuse c m d) = slots d"
  by (simp_all add: reply_def reply_code_def refuse_def emit_def slots_def)

lemma new_status_pslots:
  assumes "printer_new_status i s d = Inr d'" "pstat (printers d ! nat i) \<noteq> PRNSTATUS_DELETED"
  shows "map pslot (printers d') = (map pslot (printers d))[nat i := (p_name (printers d ! nat i), p_job_pid (printers d ! nat i), s)]"
proof -
  have n: "ps_status (p_spool_state (printers d ! nat i)) \<noteq> PRNSTATUS_DELETED" using assms(2) by (simp add: pstat_def)
  show ?thesis
    by (rule printer_new_status_effect [OF assms(1) n], drule core_fields(3))
      (simp add: pslot_def pstat_def set_status_def map_update)
qed

lemma startstop_pslots:
  assumes "media_startstop_update_waitreason i d = Inr d'"
  shows "map pslot (printers d') = map pslot (printers d)"
  using onR_D [OF okR_onR [OF same_slots.media_startstop_I] assms] by (auto dest: slots_pslots)

lemma kill_printers: "pprdrv_kill i d = Inr d' \<Longrightarrow> printers d' = printers d"
  by (auto simp: pprdrv_kill_def)

subsection \<open>Frames of the queue\<close>

lemma printer_new_status_queue: "printer_new_status i s d = Inr d' \<Longrightarrow> queue d' = queue d"
  using printer_new_status_full [of i s d d' "printers d ! nat i"] core_fields(1) [of d' d]
  by (auto split: if_splits dest: core_fields(1))

lemma respond_core: "respond i j k p r d = Inr d' \<Longrightarrow> core d' = core d"
  by (auto simp: respond_def respond2_def with_fork_def error_def emit_def split: option.splits if_splits)

lemma job_new_status_at_queue:
  "job_new_status_at x s d = Inr d' \<Longrightarrow> queue d' = (queue d)[x := (queue d ! x)\<lparr>q_status := s\<rparr>]"
  using job_new_status_at_effect [of x s d d'] by (auto dest: core_fields(1))

lemma upd_printer_queue: "upd_printer i f d = Inr d' \<Longrightarrow> queue d' = queue d"
  by (auto simp: upd_printer_iff)

lemma pprdrv_kill_queue: "pprdrv_kill i d = Inr d' \<Longrightarrow> queue d' = queue d"
  by (auto simp: pprdrv_kill_def)

lemmas queue_frames = printer_new_status_queue job_new_status_at_queue upd_printer_queue pprdrv_kill_queue

subsection \<open>Canceling\<close>

lemma cancel_marks:
  "cancel_printing x i d = Inr d' \<Longrightarrow> queue d' \<in> {queue d, (queue d)[x := (queue d ! x)\<lparr>q_status := STATUS_CANCEL\<rparr>]}"
  "cancel_seizing who x q d = Inr d' \<Longrightarrow> queue d' \<in> {queue d, (queue d)[x := (queue d ! x)\<lparr>q_status := STATUS_CANCEL\<rparr>]}"
  by (auto simp: cancel_printing_def cancel_seizing_def Let_def split: if_splits dest!: queue_frames)

lemma cancel_job_effect:
  assumes "cancel_job who inform x d = Inr (rm, d')"
  shows "x < length (queue d) \<and> (if removable (queue d ! x)
    then rm \<and> (let q = queue d ! x; y = find_index (is_job (q_destid q) (q_id q) (q_subid q)) (queue d) in
         y < length (queue d) \<and> queue d' = remove_nth y (queue d))
    else \<not> rm \<and> queue d' \<in> {queue d, (queue d)[x := (queue d ! x)\<lparr>q_status := STATUS_CANCEL\<rparr>]})"
proof -
  let ?q = "queue d ! x"
  have x: "x < length (queue d)" using assms by (auto simp: cancel_job_def get_job_def split: if_splits)
  show ?thesis
  proof (cases "removable ?q")
    case True
    obtain e where e: "core e = core d" "queue_dequeue_job (q_destid ?q) (q_id ?q) (q_subid ?q) e = Inr d'" "rm"
      using assms True x
      by (auto simp: cancel_job_def get_job_def removable_def Let_def split: if_splits dest!: respond_core)
    have "find_index (is_job (q_destid ?q) (q_id ?q) (q_subid ?q)) (queue d) < length (queue d)"
      using x by (auto simp: find_index_less_iff is_job_def intro!: bexI [of _ ?q])
    then show ?thesis
      using True x e(3) queue_dequeue_job_queue [OF e(2) refl] core_fields(1) [OF e(1)] by (simp add: Let_def)
  next
    case False
    then show ?thesis
      using assms False x
      by (auto simp: cancel_job_def get_job_def removable_def Let_def split: if_splits dest!: cancel_marks)
  qed
qed

lemma cancel_loop_fuel:
  "length (queue d) - x \<le> n \<Longrightarrow> cancel_loop n sel who inform x c d = cancel_loop (length (queue d) - x) sel who inform x c d"
proof (induction "length (queue d) - x" arbitrary: n x c d)
  case 0
  then show ?case by (subst (1 2) cancel_loop.simps) simp
next
  case (Suc k)
  then obtain m where m: "n = Suc m" "k \<le> m" by (cases n) auto
  have x: "x < length (queue d)" using Suc.hyps(2) by simp
  have k: "k = length (queue d) - Suc x" using Suc.hyps(2) by simp
  have skip: "cancel_loop m sel who inform (Suc x) c d = cancel_loop k sel who inform (Suc x) c d"
    using Suc.hyps(1) [OF k, of m] m(2) k by simp
  have go: "cancel_loop m sel who inform (if rm then x else Suc x) (c + 1) e = cancel_loop k sel who inform (if rm then x else Suc x) (c + 1) e"
    if "cancel_job who inform x d = Inr (rm, e)" for rm e
  proof -
    have "k = length (queue e) - (if rm then x else Suc x)"
      using cancel_job_effect [OF that] Suc.hyps(2) by (auto simp: Let_def remove_nth_def split: if_splits)
    from Suc.hyps(1) [OF this, of m] this m(2) show ?thesis by metis
  qed
  show ?case
    unfolding Suc.hyps(2) [symmetric] m(1)
    by (subst (1 2) cancel_loop.simps, cases "cancel_job who inform x d") (auto simp: x skip go)
qed

lemma drop_remove_nth:
  assumes "x < length q"
  shows "take x (remove_nth x q) = take x q" "drop x (remove_nth x q) = drop (Suc x) q"
  using assms by (simp_all add: remove_nth_def)

lemma map_remove_nth: "map f (remove_nth x q) = remove_nth x (map f q)"
  by (simp add: remove_nth_def take_map drop_map)

lemma distinct_remove_nth: "distinct xs \<Longrightarrow> distinct (remove_nth x xs)"
proof -
  assume "distinct xs"
  then have "distinct (take x xs @ drop x xs)" by simp
  moreover have "set (drop (Suc x) xs) \<subseteq> set (drop x xs)" by (rule set_drop_subset_set_drop) simp
  moreover have "distinct (drop (Suc x) xs)" using \<open>distinct xs\<close> by simp
  ultimately show ?thesis unfolding remove_nth_def distinct_append by blast
qed

lemma cancel_loop_exact:
  assumes "cancel_loop n sel who inform x c d = Inr (c', d')" "distinct (map job_key (queue d))"
  shows "map job_key (queue d') = map job_key (take x (queue d)) @ map job_key (filter (\<lambda>q. \<not> (sel q \<and> removable q)) (drop x (queue d)))
    \<and> c' = c + int (length (filter sel (drop x (queue d))))"
  using assms
proof (induction n arbitrary: x c d)
  case 0
  then show ?case by (subst (asm) cancel_loop.simps) (auto split: if_splits)
next
  case (Suc n)
  show ?case
  proof (cases "x < length (queue d)")
    case False
    then show ?thesis using Suc.prems(1) by (subst (asm) cancel_loop.simps) auto
  next
    case x: True
    let ?q = "queue d ! x"
    have dr: "drop x (queue d) = ?q # drop (Suc x) (queue d)" using Cons_nth_drop_Suc [OF x] by simp
    have tk: "take (Suc x) (queue d) = take x (queue d) @ [?q]" using x by (simp add: take_Suc_conv_app_nth)
    show ?thesis
    proof (cases "sel ?q")
      case False
      then have "cancel_loop n sel who inform (Suc x) c d = Inr (c', d')"
        using Suc.prems(1) x by (subst (asm) cancel_loop.simps) auto
      from Suc.IH [OF this Suc.prems(2)] False dr tk show ?thesis by simp
    next
      case sel: True
      obtain rm e where e: "cancel_job who inform x d = Inr (rm, e)" "cancel_loop n sel who inform (if rm then x else Suc x) (c + 1) e = Inr (c', d')"
        using Suc.prems(1) x sel by (subst (asm) cancel_loop.simps) auto
      show ?thesis
      proof (cases "removable ?q")
        case True
        then have q: "rm" "queue e = remove_nth x (queue d)"
          using cancel_job_effect [OF e(1)] find_job_at [OF Suc.prems(2) x] by (auto simp: Let_def)
        have "distinct (map job_key (queue e))"
          using distinct_remove_nth [OF Suc.prems(2), of x] by (simp add: q(2) map_remove_nth)
        from Suc.IH [OF e(2) this] q sel True dr x show ?thesis by (simp add: drop_remove_nth)
      next
        case False
        then have q: "\<not> rm" "queue e \<in> {queue d, (queue d)[x := ?q\<lparr>q_status := STATUS_CANCEL\<rparr>]}"
          using cancel_job_effect [OF e(1)] by auto
        have k: "map job_key (queue e) = map job_key (queue d)" "drop (Suc x) (queue e) = drop (Suc x) (queue d)"
          using q(2) x by (auto simp: map_update job_key_def list_update_same_conv)
        then have "map job_key (take (Suc x) (queue e)) = map job_key (take (Suc x) (queue d))" by (metis take_map)
        with Suc.IH [OF e(2)] k q(1) sel False dr tk Suc.prems(2) show ?thesis by simp
      qed
    qed
  qed
qed

subsection \<open>Rushing\<close>

lemma slide_up_spec:
  "x < length q \<Longrightarrow> slide_up x q = q ! 0 # take x q @ drop (Suc x) q"
proof (induction x arbitrary: q)
  case 0
  then show ?case by (cases q) auto
next
  case (Suc x)
  let ?q = "q[Suc x := q ! x]"
  have "slide_up (Suc x) q = ?q ! 0 # take x ?q @ drop (Suc x) ?q" using Suc by simp
  also have "?q ! 0 = q ! 0" by simp
  also have "take x ?q = take x q" by simp
  also have "drop (Suc x) ?q = q ! x # drop (Suc (Suc x)) q"
    using Suc.prems by (simp add: drop_update_swap Cons_nth_drop_Suc [symmetric])
  also have "take x q @ q ! x # drop (Suc (Suc x)) q = take (Suc x) q @ drop (Suc (Suc x)) q"
    using Suc.prems by (simp add: take_Suc_conv_app_nth)
  finally show ?case .
qed

lemma slide_down_spec:
  "x + n < length q \<Longrightarrow> slide_down n x q = take x q @ take n (drop (Suc x) q) @ drop (x + n) q"
proof (induction n arbitrary: x q)
  case 0
  then show ?case by simp
next
  case (Suc n)
  let ?q = "q[x := q ! Suc x]"
  have "slide_down (Suc n) x q = take (Suc x) ?q @ take n (drop (Suc (Suc x)) ?q) @ drop (Suc x + n) ?q"
    using Suc by simp
  also have "take (Suc x) ?q = take x q @ [q ! Suc x]" using Suc.prems by (simp add: take_Suc_conv_app_nth)
  also have "drop (Suc (Suc x)) ?q = drop (Suc (Suc x)) q" by simp
  also have "drop (Suc x + n) ?q = drop (Suc x + n) q" by simp
  also have "(take x q @ [q ! Suc x]) @ take n (drop (Suc (Suc x)) q) @ drop (Suc x + n) q
    = take x q @ take (Suc n) (drop (Suc x) q) @ drop (x + Suc n) q"
    using Suc.prems Cons_nth_drop_Suc [of "Suc x" q] by (metis (no_types, lifting) add_Suc add_Suc_right append.assoc append_Cons append_Nil le_add1 le_less_trans less_Suc_eq_le Suc_leI take_Suc_Cons not_less_eq)
  finally show ?case .
qed

section \<open>Properties\<close>

text \<open>
  C17. A cancel or purge order removes exactly the selected jobs that are not being printed; the order of the
  rest does not change.
\<close>

theorem cancel_exact:
  assumes "ppop_cancel_purge_cmd destname jid subid inform d = Inr d'" "distinct (map job_key (queue d))"
    and "destid_by_name destname d = Inr destid" "destid \<noteq> -1 \<or> destname \<in> {''all'', ''any''}"
  shows "map job_key (queue d') = map job_key (filter (\<lambda>q. \<not> (job_in_set destid jid subid q \<and> removable q)) (queue d))"
proof -
  obtain c e where e: "cancel_loop (length (queue d)) (job_in_set destid jid subid) ''ppop_cancel_purge'' inform 0 0 (lock d) = Inr (c, e)"
    "queue d' = queue e"
    using assms by (auto simp: ppop_cancel_purge_cmd_def Let_def refuse_job_def with_jobid_def refuse_def reply_code_def reply_def emit_def
        unlock_def)
  show ?thesis using cancel_loop_exact [OF e(1)] assms(2) e(2) by simp
qed

theorem cancel_exact_witness:
  "\<exists>d'. ppop_cancel_purge_cmd ''pool'' (-1) (-1) True example_busy = Inr d' \<and> map job_key (queue d') = [(0, 7, 0)]"
proof -
  have "returns (ppop_cancel_purge_cmd ''pool'' (-1) (-1) True example_busy) (\<lambda>_. True)"
    and "returns (destid_by_name ''pool'' example_busy) (\<lambda>i. i = 250)" by code_simp+
  then obtain d' where d': "ppop_cancel_purge_cmd ''pool'' (-1) (-1) True example_busy = Inr d'"
    "destid_by_name ''pool'' example_busy = Inr 250" by (auto simp: returns_iff)
  have "distinct (map job_key (queue example_busy))" by (simp add: job_key_def example_job_def)
  from cancel_exact [OF d'(1) this d'(2)] d' show ?thesis
    by (simp add: job_in_set_def removable_def example_job_def job_key_def)
qed

text \<open>
  The scan of a cancel order ends: every round advances or shortens the queue, so that as many rounds as
  there are jobs are enough.
\<close>

theorem cancel_rounds_enough:
  "cancel_loop (length (queue d) + k) sel who inform 0 c d = cancel_loop (length (queue d)) sel who inform 0 c d"
  using cancel_loop_fuel [of d 0 "length (queue d) + k" sel who inform c] by simp

text \<open>
  C35. A stop or halt order has exactly this effect on the printers: the one concerned is stopped at once when
  it has no driver, otherwise it goes to stopping or halting and keeps its driver until that ends; a
  halt overrides a stop and a stop does not weaken a halt. The caller is told to wait exactly when the
  printer will stop later.
\<close>

theorem stop_orders:
  assumes "ppop_stop_printer prnname i how d = Inr (delayed, d')" "how \<in> {1, 2}" "s = pstat (printers d ! nat i)"
  shows "map pslot (printers d') = (map pslot (printers d))[nat i :=
       (p_name (printers d ! nat i), p_job_pid (printers d ! nat i), status_after_stop how s)]
    \<and> (delayed \<longleftrightarrow> s \<in> {PRNSTATUS_PRINTING, PRNSTATUS_CANCELING, PRNSTATUS_SEIZING} \<or> (s = PRNSTATUS_STOPPING \<and> how = 2))"
proof -
  let ?p = "printers d ! nat i"
  have i: "0 \<le> i" "i < int (length (printers d))" using assms(1) by (auto simp: ppop_stop_printer_def get_printer_iff)
  have refl': "(map pslot (printers d))[nat i := (p_name ?p, p_job_pid ?p, s)] = map pslot (printers d)"
    using i assms(3) by (simp add: list_update_same_conv pslot_def nat_less_iff)
  have q: "printers (reply_code c d) = printers d" "printers (refuse c m d) = printers d" for c m
    by (simp_all add: reply_code_def refuse_def reply_def)
  have g: "get_printer i d = Inr ?p" using i by (simp add: get_printer_def)
  have new: "map pslot (printers e') = (map pslot (printers d))[nat i := (p_name ?p, p_job_pid ?p, t)]"
    if "printer_new_status i t e = Inr f" "printers e = printers d" "media_startstop_update_waitreason i f' = Inr e'"
      "printers f' = printers f" "s \<noteq> PRNSTATUS_DELETED" for t e f f' e'
    using new_status_pslots [OF that(1)] startstop_pslots [OF that(3)] that(2,4,5) assms(3) by simp
  let ?next = "\<lambda>t e. bindE (printer_new_status i t e) (\<lambda>d. bindE (media_startstop_update_waitreason i d) (\<lambda>d. Inr (t \<noteq> PRNSTATUS_STOPT, d)))"
  consider "s \<in> {PRNSTATUS_FAULT, PRNSTATUS_IDLE, PRNSTATUS_ENGAGED, PRNSTATUS_STARVED}"
    | "s \<in> {PRNSTATUS_CANCELING, PRNSTATUS_SEIZING}"
    | "s = PRNSTATUS_PRINTING \<or> s = PRNSTATUS_STOPPING \<and> how = 2" "how = 2" 
    | "s = PRNSTATUS_PRINTING" "how = 1" 
    | "s = PRNSTATUS_STOPPING \<and> how = 1 \<or> s \<notin> {PRNSTATUS_FAULT, PRNSTATUS_IDLE, PRNSTATUS_ENGAGED, PRNSTATUS_STARVED, PRNSTATUS_CANCELING,
        PRNSTATUS_SEIZING, PRNSTATUS_PRINTING, PRNSTATUS_STOPPING}"
    using assms(2) by fastforce
  then show ?thesis
  proof cases
    case 1
    then have "?next PRNSTATUS_STOPT (reply_code EXIT_OK d) = Inr (delayed, d')"
      using assms(1,3) g by (auto simp: ppop_stop_printer_def Let_def pstat_def)
    then show ?thesis using 1 new [OF _ q(1)] by (fastforce simp: status_after_stop_def)
  next
    case 2
    then have "?next PRNSTATUS_HALTING d = Inr (delayed, d')"
      using assms(1,3) g by (auto simp: ppop_stop_printer_def Let_def pstat_def)
    then show ?thesis using 2 new by (fastforce simp: status_after_stop_def)
  next
    case 3
    then obtain e f where "printer_new_status i PRNSTATUS_HALTING d = Inr e" "pprdrv_kill i e = Inr f"
      "media_startstop_update_waitreason i f = Inr d'" "delayed"
      using assms(1,3) g by (auto simp: ppop_stop_printer_def Let_def pstat_def)
    then show ?thesis using 3 new [OF _ refl _ kill_printers] by (auto simp: status_after_stop_def)
  next
    case 4
    then have "?next PRNSTATUS_STOPPING d = Inr (delayed, d')"
      using assms(1,3) g by (auto simp: ppop_stop_printer_def Let_def pstat_def)
    then show ?thesis using 4 new by (fastforce simp: status_after_stop_def)
  next
    case 5
    then have "printers d' = printers d" "\<not> delayed"
      using assms(1,3) g q by (auto simp: ppop_stop_printer_def Let_def pstat_def split: if_splits)
    then show ?thesis using 5 refl' by (auto simp: status_after_stop_def)
  qed
qed

theorem stop_orders_witness:
  "\<exists>d'. ppop_stop_printer ''laser'' 0 2 example_printing = Inr (True, d')
    \<and> pslot (printers d' ! 0) = (''laser'', 100, PRNSTATUS_HALTING)"
proof -
  have "returns (ppop_stop_printer ''laser'' 0 2 example_printing) (\<lambda>(b, _). b)"
    and p: "pslot (printers example_printing ! nat 0) = (''laser'', 100, PRNSTATUS_STOPPING)" "length (printers example_printing) = 2"
    by code_simp+
  then obtain d' where d': "ppop_stop_printer ''laser'' 0 2 example_printing = Inr (True, d')" by (auto simp: returns_iff)
  have e: "map pslot (printers d') = (map pslot (printers example_printing))[0 := (''laser'', 100, PRNSTATUS_HALTING)]"
    using stop_orders [OF d' _ refl] p(1) by (simp add: pslot_def status_after_stop_def)
  have "length (printers d') = 2" using arg_cong [OF e, of length] p(2) by simp
  then have "pslot (printers d' ! 0) = map pslot (printers d') ! 0" by simp
  then show ?thesis using d' e p(2) by simp
qed

text \<open>
  C36. Rushing a job moves it, and only it, to the front of the queue with priority 101, or to the end with
  priority 1.
\<close>

theorem rush_exact:
  assumes "x < length q"
  shows "rush_queue x newpos q =
    (if newpos = 0 then (q ! x)\<lparr>q_priority := 101\<rparr> # remove_nth x q
     else remove_nth x q @ [(q ! x)\<lparr>q_priority := 1\<rparr>])"
proof -
  have d: "slide_down (length q - 1 - x) x q = remove_nth x q @ [last q]"
    using assms slide_down_spec [of x "length q - 1 - x" q] by (cases q rule: rev_cases) (auto simp: remove_nth_def)
  have u: "slide_up x q = q ! 0 # remove_nth x q" using slide_up_spec [OF assms] by (simp add: remove_nth_def)
  have l: "length (remove_nth x q) = length q - 1" using assms by (simp add: remove_nth_def)
  show ?thesis unfolding rush_queue_def u d using l by (simp add: list_update_append)
qed

theorem rush_exact_witness:
  "rush_queue 1 0 [example_job 0 7 50, example_job 0 8 40] = [example_job 0 8 101, example_job 0 7 50]"
  using rush_exact [of 1 "[example_job 0 7 50, example_job 0 8 40]" 0] by (simp add: remove_nth_def example_job_def)

text \<open>
  Holding a job for which a cancel order is outstanding indexes \<^verbatim>\<open>printers[]\<close> with the job's status, a
  negative number: the behaviour is undefined.
\<close>

theorem hold_canceled_job_undefined:
  assumes "x < length (queue d)" "q_status (queue d ! x) = STATUS_CANCEL"
  shows "hold_job destname jid subid x d = Inl (UB ''printers[] index out of range'')"
  using assms
  by (simp add: hold_job_def get_job_def Let_def refuse_job_def with_jobid_def printer_new_status_def get_printer_def)

theorem hold_canceled_job_undefined_witness:
  "hold_job ''laser'' 7 0 0 (example_busy\<lparr>queue := [(example_job 0 7 50)\<lparr>q_status := STATUS_CANCEL\<rparr>]\<rparr>)
   = Inl (UB ''printers[] index out of range'')"
  using hold_canceled_job_undefined [of 0 "example_busy\<lparr>queue := [(example_job 0 7 50)\<lparr>q_status := STATUS_CANCEL\<rparr>]\<rparr>"]
  by simp

text \<open>
  Moving a job to another destination leaves the job counters of both destinations as they were, so
  that they no longer agree with the queue.
\<close>

theorem move_forgets_counters:
  "counts_ok example_busy \<and> returns (ppop_move_cmd ''laser'' 7 0 ''plotter'' example_busy) (\<lambda>d. \<not> counts_ok d)"
  by code_simp

end
