(* ===== verification/Load.thy ===== *)
theory Load
  imports Pprd
begin

text \<open>
  Loading and reloading of the configuration (\<^verbatim>\<open>pprd/pprd_load.c\<close>): printers, groups and the queue at
  start-up, a single printer or group when \<^verbatim>\<open>ppad\<close> reports a change. The commands of the FIFO and the
  start-up sequence of \<^verbatim>\<open>pprd/pprd.c\<close>, which call these functions, follow.

  A directory is the list of its entries in the order \<^verbatim>\<open>readdir()\<close> returns them, and is an argument; the
  directories of \<^verbatim>\<open>mkdir()\<close> exist in the model.
\<close>

section \<open>Definitions\<close>

text \<open>
  What the source does not determine: the contents of a slot of \<^verbatim>\<open>printers[]\<close> that has never been assigned
  (the array comes from \<^verbatim>\<open>malloc()\<close>), the two bytes \<open>media_mounted_recover\<close> may read in front of its buffers,
  and the value of \<^verbatim>\<open>(int)(x * 100.0 + 0.5)\<close> for a number the scanner has read, which depends on the
  machine's floating point arithmetic.
\<close>

record machine =
  raw_printer :: "nat \<Rightarrow> Printer"
  before_bin :: char
  before_media :: char
  cents :: "sval \<Rightarrow> int"

text \<open>The null pointer as a name: no C string contains a NUL, so no name is equal to it.\<close>

definition null_name :: string where
  "null_name = [CHR 0x00]"

subsection \<open>One printer\<close>

definition reset_printer :: "string \<Rightarrow> Printer \<Rightarrow> Printer" where
  "reset_printer prnname p =
     p\<lparr>p_name := prnname, p_alert := \<lparr>al_interval = 0, al_method = None, al_address = None\<rparr>,
       p_charge_per_duplex := 0, p_charge_per_simplex := 0, p_bins := [], p_media := [],
       p_AutoSelect_exists := False, p_ppop_pid := 0, p_cancel_job := False, p_hold_job := False\<rparr>"

definition alert_line :: "string \<Rightarrow> int \<Rightarrow> daemon \<Rightarrow> daemon res" where
  "alert_line line prnid d =
     bindE (lift_gu d (gu_sscanf line ''Alert: %d %S %S'' [])) (\<lambda>(n, vs).
       upd_printer prnid (\<lambda>p. p\<lparr>p_alert :=
         (case vs of
            [SInt i] \<Rightarrow> \<lparr>al_interval = i, al_method = None, al_address = None\<rparr>
          | [SInt i, SStr m] \<Rightarrow> \<lparr>al_interval = i, al_method = Some m, al_address = None\<rparr>
          | [SInt i, SStr m, SStr a] \<Rightarrow> \<lparr>al_interval = i, al_method = Some m, al_address = Some a\<rparr>
          | _ \<Rightarrow> (p_alert p)\<lparr>al_method := None, al_address := None\<rparr>)\<rparr>) d)"

definition add_bin :: "string \<Rightarrow> Printer \<Rightarrow> Printer" where
  "add_bin bin p =
     p\<lparr>p_bins := p_bins p @ [bin], p_media := p_media p @ [-1],
       p_AutoSelect_exists := (p_AutoSelect_exists p \<or> bin = ''AutoSelect'')\<rparr>"

definition bin_line :: "string \<Rightarrow> int \<Rightarrow> daemon \<Rightarrow> daemon res" where
  "bin_line line prnid d =
     bindE (get_printer prnid d) (\<lambda>p.
       if length (p_bins p) < MAX_BINS then
         bindE (lift_gu d (gu_sscanf line ''Bin: %S'' [])) (\<lambda>(n, vs).
           case (n = 1, vs) of
             (True, [SStr bin]) \<Rightarrow> upd_printer prnid (add_bin bin) d
           | _ \<Rightarrow> Inr d)
       else Inr (error (''Printer \"'' @ p_name p @ ''\" has too many bins.'') d))"

definition set_charge :: "int \<Rightarrow> int \<Rightarrow> Printer \<Rightarrow> Printer" where
  "set_charge duplex simplex p =
     p\<lparr>p_charge_per_duplex := duplex, p_charge_per_simplex := simplex,
       p_spool_state := (p_spool_state p)\<lparr>ps_protected := True\<rparr>\<rparr>"

definition charge_line :: "machine \<Rightarrow> string \<Rightarrow> int \<Rightarrow> daemon \<Rightarrow> daemon res" where
  "charge_line m line prnid d =
     bindE (lift_gu d (gu_sscanf line ''Charge: %f %f'' [])) (\<lambda>(count, vs).
       case vs of
         [x1] \<Rightarrow> upd_printer prnid (set_charge (cents m x1) (cents m x1)) d
       | [x1, x2] \<Rightarrow> upd_printer prnid (set_charge (cents m x1) (cents m x2)) d
       | _ \<Rightarrow> Inr d)"

definition printer_conf_line :: "machine \<Rightarrow> int \<Rightarrow> string \<Rightarrow> daemon \<Rightarrow> daemon res" where
  "printer_conf_line m prnid line d =
     (if line \<noteq> [] \<and> (hd line = CHR '';'' \<or> hd line = CHR ''#'') then Inr d
      else if lmatch line ''Alert:'' then alert_line line prnid d
      else if lmatch line ''Bin:'' then bin_line line prnid d
      else charge_line m line prnid d)"

text \<open>The printer was printing when the daemon was killed.\<close>

definition restart_status :: "int \<Rightarrow> daemon \<Rightarrow> daemon res" where
  "restart_status prnid d =
     bindE (get_printer prnid d) (\<lambda>p.
     let s = ps_status (p_spool_state p) in
     if s = PRNSTATUS_PRINTING \<or> s = PRNSTATUS_CANCELING \<or> s = PRNSTATUS_SEIZING
     then printer_new_status prnid PRNSTATUS_IDLE d
     else if s = PRNSTATUS_HALTING then printer_new_status prnid PRNSTATUS_STOPT d
     else Inr d)"

definition load_printer_state :: "int \<Rightarrow> string \<Rightarrow> daemon \<Rightarrow> daemon res" where
  "load_printer_state prnid prnname d =
     bindE (printer_spool_state_load prnname d) (\<lambda>(r, ps).
     let d = (if r = -1 then error (''saved printer spool state of \"'' @ prnname @ ''\" was invalid'') d else d) in
     with_time (\<lambda>now d.
       upd_spool prnid (\<lambda>_. ps\<lparr>ps_job_count := 0, ps_printer_state_change_time := now, ps_protected := False\<rparr>) d) d)"

definition load_printer :: "machine \<Rightarrow> int \<Rightarrow> string \<Rightarrow> daemon \<Rightarrow> daemon res" where
  "load_printer m prnid prnname d =
     bindE (path_of ''%s/%s'' [FStr (PRCONF (dirs d)), FStr prnname] d) (\<lambda>fname.
       case fs d fname of
         None \<Rightarrow> Inl (Fatal ''load_printer(): can't open printer config file'')
       | Some c \<Rightarrow>
           bindE (upd_printer prnid (reset_printer prnname) d) (\<lambda>d.
           bindE (load_printer_state prnid prnname d) (\<lambda>d.
           bindE (restart_status prnid d) (\<lambda>d.
           bindE (foldE (printer_conf_line m prnid) (file_lines c) d) (\<lambda>d.
           bindE (path_of ''%s/%s'' [FStr (PRINTERS_PERSISTENT_STATEDIR (dirs d)), FStr prnname] d) (\<lambda>_.
           bindE (path_of ''%s/%s'' [FStr (PRINTERS_PURGABLE_STATEDIR (dirs d)), FStr prnname] d) (\<lambda>_.
             Inr d)))))))"

text \<open>The three calls that follow each other in \<open>load_printers\<close> and \<open>new_printer_config\<close>.\<close>

definition load_and_mount :: "machine \<Rightarrow> int \<Rightarrow> string \<Rightarrow> daemon \<Rightarrow> daemon res" where
  "load_and_mount m prnid prnname d =
     bindE (load_printer m prnid prnname d) (\<lambda>d.
     bindE (media_mounted_recover (before_bin m) (before_media m) prnid d) (\<lambda>d.
       media_mounted_save prnid d))"

subsection \<open>All printers\<close>

definition skip_entry :: "string \<Rightarrow> bool" where
  "skip_entry d_name \<longleftrightarrow> d_name \<noteq> [] \<and> (hd d_name = CHR ''.'' \<or> last d_name = CHR ''~'')"

definition new_slot :: "machine \<Rightarrow> daemon \<Rightarrow> daemon" where
  "new_slot m d = d\<lparr>printers := printers d @ [raw_printer m (length (printers d))]\<rparr>"

fun load_printer_entries :: "machine \<Rightarrow> string list \<Rightarrow> daemon \<Rightarrow> daemon res" where
  "load_printer_entries m [] d = Inr d"
| "load_printer_entries m (d_name # rest) d =
     (if skip_entry d_name then load_printer_entries m rest d
      else if int (length (printers d)) = MAX_PRINTERS
      then Inr (error ''load_printers(): too many printers'' d)
      else bindE (load_and_mount m (int (length (printers d))) d_name (new_slot m d))
             (load_printer_entries m rest))"

definition load_printers :: "machine \<Rightarrow> string list \<Rightarrow> daemon \<Rightarrow> daemon res" where
  "load_printers m entries d = load_printer_entries m entries (d\<lparr>printers := []\<rparr>)"

subsection \<open>A changed printer\<close>

text \<open>One entry of the queue after the configuration of printer \<open>prnid\<close> has changed.\<close>

definition clear_never :: "int \<Rightarrow> nat \<Rightarrow> daemon \<Rightarrow> daemon res" where
  "clear_never prnid x d =
     bindE (get_job x d) (\<lambda>q.
     bindE (if q_destid q = prnid then Inr 1 else destid_printer_bit (q_destid q) prnid d) (\<lambda>prnbit.
       if prnbit \<noteq> 0 then
         bindE (set_job x (q\<lparr>q_never := q_never q AND word_of_int (255 XOR prnbit)\<rparr>) d) (\<lambda>d.
           if q_status q = STATUS_STRANDED then job_new_status_at x STATUS_WAITING d else Inr d)
       else Inr d))"

definition restore_printer :: "int \<Rightarrow> int \<Rightarrow> Printer \<Rightarrow> Printer" where
  "restore_printer saved_status saved_ppop_pid p =
     p\<lparr>p_spool_state := (p_spool_state p)\<lparr>ps_status := saved_status\<rparr>, p_ppop_pid := saved_ppop_pid\<rparr>"

text \<open>A printer that was there before keeps its status.\<close>

definition reload_printer :: "machine \<Rightarrow> int \<Rightarrow> string \<Rightarrow> daemon \<Rightarrow> daemon res" where
  "reload_printer m prnid prnname d =
     bindE (get_printer prnid d) (\<lambda>old.
     bindE (load_and_mount m prnid prnname d) (\<lambda>d.
     bindE (upd_printer prnid (restore_printer (ps_status (p_spool_state old)) (p_ppop_pid old)) d) (\<lambda>d.
     bindE (foldE (clear_never prnid) [0..<length (queue d)] d) (\<lambda>d.
     bindE (media_update_notnow prnid d) (\<lambda>d.
       look_if_idle prnid d)))))"

definition mark_printer_deleted :: "Printer \<Rightarrow> Printer" where
  "mark_printer_deleted p =
     p\<lparr>p_name := null_name, p_spool_state := (p_spool_state p)\<lparr>ps_status := PRNSTATUS_DELETED\<rparr>\<rparr>"

text \<open>
  The slot: that of the printer with this name, else the first slot of a deleted printer, else a new
  one.
\<close>

definition printer_slot :: "string \<Rightarrow> daemon \<Rightarrow> nat" where
  "printer_slot printer d =
     (let x = find_index (printer_matches printer) (printers d);
          deleted = find_index (\<lambda>p. ps_status (p_spool_state p) = PRNSTATUS_DELETED) (printers d) in
      if x < length (printers d) then x else deleted)"

definition new_printer_config :: "machine \<Rightarrow> string \<Rightarrow> daemon \<Rightarrow> daemon res" where
  "new_printer_config m printer d =
     (let d = lock d;
          is_new = (find_index (printer_matches printer) (printers d) = length (printers d));
          prnid = printer_slot printer d in
      if int prnid = MAX_PRINTERS
      then Inr (unlock (error ''new_printer_config(): too many printers'' d))
      else
        let d = (if prnid = length (printers d) then new_slot m d else d) in
        bindE (path_of ''%s/%s'' [FStr (PRCONF (dirs d)), FStr printer] d) (\<lambda>fname.
        bindE (if fs d fname = None then
                 (if is_new
                  then Inr (error (''attempt to delete printer \"'' @ printer @ ''\" which never existed'') d)
                  else bindE (state_update (''PRNDELETE '' @ printer) d) (\<lambda>d.
                         upd_printer (int prnid) mark_printer_deleted d))
               else
                 bindE (state_update (''PRNRELOAD '' @ printer) d) (\<lambda>d.
                   if is_new then load_and_mount m (int prnid) printer d
                   else reload_printer m (int prnid) printer d)) (\<lambda>d.
          Inr (unlock d))))"

subsection \<open>Groups\<close>

definition reset_group :: "string \<Rightarrow> GROUP_SPOOL_STATE \<Rightarrow> int \<Rightarrow> Group \<Rightarrow> Group" where
  "reset_group grpname gs now g =
     g\<lparr>g_name := grpname, g_last := -1, g_deleted := False, g_rotate := True, g_printers := [],
       g_spool_state := gs\<lparr>gs_job_count := 0, gs_printer_state_change_time := now, gs_protected := False\<rparr>\<rparr>"

definition add_member :: "int \<Rightarrow> bool \<Rightarrow> Group \<Rightarrow> Group" where
  "add_member prnid protected g =
     g\<lparr>g_printers := g_printers g @ [prnid],
       g_spool_state := (g_spool_state g)\<lparr>gs_protected := (gs_protected (g_spool_state g) \<or> protected)\<rparr>\<rparr>"

definition member_line :: "int \<Rightarrow> string \<Rightarrow> daemon \<Rightarrow> daemon res" where
  "member_line gindex extract d =
     bindE (get_group gindex d) (\<lambda>g.
     let prnid = destid_by_printer extract d in
     if length (g_printers g) \<ge> MAX_GROUPSIZE
     then Inr (error (''group \"'' @ g_name g @ ''\" exceeds '' @ print_d (int MAX_GROUPSIZE) @ '' member limit'') d)
     else if prnid = -1
     then Inr (error (''group \"'' @ g_name g @ ''\":  member \"'' @ extract @ ''\" does not exist'') d)
     else bindE (get_printer prnid d) (\<lambda>p.
            upd_group gindex (add_member prnid (ps_protected (p_spool_state p))) d))"

definition group_conf_line :: "int \<Rightarrow> string \<Rightarrow> daemon \<Rightarrow> daemon res" where
  "group_conf_line gindex line d =
     bindE (lift_gu d (gu_sscanf line ''Printer: %S'' [])) (\<lambda>(n, vs).
       case (n = 1, vs) of
         (True, [SStr extract]) \<Rightarrow> member_line gindex extract d
       | _ \<Rightarrow>
           (case lmatchp line ''Rotate:'' of
              Some extract \<Rightarrow>
                (case gu_torf_setBOOL extract of
                   None \<Rightarrow> Inl (Fatal ''Invalid Rotate option'')
                 | Some b \<Rightarrow> upd_group gindex (\<lambda>g. g\<lparr>g_rotate := b\<rparr>) d)
            | None \<Rightarrow> Inr d))"

definition load_group :: "int \<Rightarrow> string \<Rightarrow> daemon \<Rightarrow> daemon res" where
  "load_group gindex grpname d =
     bindE (path_of ''%s/%s'' [FStr (GRCONF (dirs d)), FStr grpname] d) (\<lambda>conf_fname.
       case fs d conf_fname of
         None \<Rightarrow> Inl (Fatal ''load_group(): can't open group config file'')
       | Some c \<Rightarrow>
           bindE (group_spool_state_load grpname d) (\<lambda>(r, gs).
           let d = (if r = -1 then error (''saved group spool state of \"'' @ grpname @ ''\" was invalid'') d else d) in
           bindE (with_time (\<lambda>now d. upd_group gindex (reset_group grpname gs now) d) d) (\<lambda>d.
           bindE (foldE (group_conf_line gindex) (file_lines c) d) (\<lambda>d.
           bindE (path_of ''%s/%s'' [FStr (GROUPS_PERSISTENT_STATEDIR (dirs d)), FStr grpname] d) (\<lambda>_.
             Inr d)))))"

fun load_group_entries :: "string list \<Rightarrow> daemon \<Rightarrow> daemon res" where
  "load_group_entries [] d = Inr d"
| "load_group_entries (d_name # rest) d =
     (if skip_entry d_name then load_group_entries rest d
      else if int (length (groups d)) = MAX_GROUPS
      then Inr (error ''load_groups(): too many groups'' d)
      else bindE (load_group (int (length (groups d))) d_name (d\<lparr>groups := groups d @ [zero_group]\<rparr>))
             (load_group_entries rest))"

definition load_groups :: "string list \<Rightarrow> daemon \<Rightarrow> daemon res" where
  "load_groups entries d = load_group_entries entries (d\<lparr>groups := []\<rparr>)"

subsection \<open>A changed group\<close>

definition refresh_group_job :: "int \<Rightarrow> nat \<Rightarrow> daemon \<Rightarrow> daemon res" where
  "refresh_group_job destid x d =
     bindE (get_job x d) (\<lambda>q.
       if q_destid q = destid then
         bindE (set_notnow_at x d) (\<lambda>d.
         bindE (get_job x d) (\<lambda>q. set_job x (q\<lparr>q_never := 0\<rparr>) d))
       else Inr d)"

text \<open>
  The loop over the queue uses the variable that held the group's index, so the call that should look
  for work for this group gets the number of jobs in the queue instead.
\<close>

definition reload_group :: "int \<Rightarrow> string \<Rightarrow> daemon \<Rightarrow> daemon res" where
  "reload_group gindex grpname d =
     bindE (load_group gindex grpname d) (\<lambda>d.
     bindE (destid_by_gindex gindex) (\<lambda>destid.
     bindE (foldE (refresh_group_job destid) [0..<length (queue d)] d) (\<lambda>d.
       group_look_for_work (int (length (queue d))) d)))"

text \<open>
  When there is no room the count of groups has already been incremented, so that every later search
  reads past the end of the array: the model ends there.
\<close>

definition new_group_config :: "string \<Rightarrow> daemon \<Rightarrow> daemon res" where
  "new_group_config grpname d =
     (let d = lock d;
          x = find_index (group_matches grpname) (groups d);
          is_new = (x = length (groups d));
          gindex = (if is_new then find_index g_deleted (groups d) else x) in
      if int gindex = MAX_GROUPS then Inl (UB ''group_count exceeds the size of groups[]'')
      else
        let d = (if gindex = length (groups d) then d\<lparr>groups := groups d @ [zero_group]\<rparr> else d) in
        bindE (path_of ''%s/%s'' [FStr (GRCONF (dirs d)), FStr grpname] d) (\<lambda>fname.
        bindE (if fs d fname = None then
                 (if is_new
                  then Inr (error (''attempt to delete group \"'' @ grpname @ ''\" which never existed'') d)
                  else bindE (state_update (''GRPDELETE '' @ grpname) d) (\<lambda>d.
                         upd_group (int gindex) (\<lambda>g. g\<lparr>g_name := null_name, g_deleted := True\<rparr>) d))
               else bindE (state_update (''GRPRELOAD '' @ grpname) d) (reload_group (int gindex) grpname)) (\<lambda>d.
          Inr (unlock d))))"

subsection \<open>The queue\<close>

definition inherit_job :: "string \<Rightarrow> daemon \<Rightarrow> daemon res" where
  "inherit_job d_name d =
     (if d_name \<noteq> [] \<and> hd d_name = CHR ''.'' then Inr d else queue_accept_queuefile d_name False False d)"

definition save_printer_state :: "nat \<Rightarrow> daemon \<Rightarrow> daemon res" where
  "save_printer_state x d =
     bindE (get_printer (int x) d) (\<lambda>p. printer_spool_state_save (p_spool_state p) (p_name p) d)"

definition save_group_state :: "nat \<Rightarrow> daemon \<Rightarrow> daemon res" where
  "save_group_state x d =
     bindE (get_group (int x) d) (\<lambda>g. group_spool_state_save (g_spool_state g) (g_name g) d)"

definition initialize_queue :: "string list \<Rightarrow> daemon \<Rightarrow> daemon res" where
  "initialize_queue entries d =
     bindE (foldE inherit_job entries (d\<lparr>queue := [], queue_size := QUEUE_SIZE_INITIAL\<rparr>)) (\<lambda>d.
     bindE (foldE save_printer_state [0..<length (printers d)] d) (\<lambda>d.
     bindE (foldE save_group_state [0..<length (groups d)] d) (\<lambda>d.
       foldE (\<lambda>x. look_if_idle (int x)) [0..<length (printers d)] d)))"

subsection \<open>The main program\<close>

text \<open>
  The part of \<open>real_main\<close> before the main loop that concerns the daemon's tables.
\<close>

definition startup ::
  "machine \<Rightarrow> string list \<Rightarrow> string list \<Rightarrow> string list \<Rightarrow> daemon \<Rightarrow> daemon res" where
  "startup m prconf grconf queuedir d =
     bindE (state_update ''STARTUP'' d) (\<lambda>d.
     bindE (load_printers m prconf (question_init d)) (\<lambda>d.
     bindE (load_groups grconf d) (\<lambda>d.
       initialize_queue queuedir d)))"

text \<open>
  One command of the FIFO. The name of a printer or group begins at the fourth character.
\<close>

definition fifo_command :: "machine \<Rightarrow> string \<Rightarrow> daemon \<Rightarrow> daemon res" where
  "fifo_command m ptr d =
     (case ptr of
        [] \<Rightarrow> ppop_dispatch ptr d
      | c # _ \<Rightarrow>
          if c = CHR ''j'' then queue_new_job ptr d
          else if c = CHR ''J'' then queue_reload_job ptr d
          else if c = CHR ''n'' then Inr (ppad_remind d)
          else if c = CHR ''N'' then
            (if length ptr < 3 then Inl (UB ''do_fifo_command(): name read past the end of the command'')
             else if ptr ! 1 = CHR ''P'' then new_printer_config m (drop 3 ptr) d
             else new_group_config (drop 3 ptr) d)
          else ppop_dispatch ptr d)"

text \<open>Every round takes a token off the buffer, so one more round than there are characters is enough.\<close>

fun fifo_loop :: "nat \<Rightarrow> machine \<Rightarrow> string option \<Rightarrow> daemon \<Rightarrow> daemon res" where
  "fifo_loop fuel m next d =
     (case gu_strsep next [CHR 0x0A] of
        (None, _) \<Rightarrow> Inr d
      | (Some ptr, next) \<Rightarrow>
          (case fuel of
             0 \<Rightarrow> Inl (UB ''fifo_loop: out of fuel'')
           | Suc n \<Rightarrow> bindE (fifo_command m ptr d) (fifo_loop n m next)))"

declare fifo_loop.simps [simp del]

definition do_fifo_command :: "machine \<Rightarrow> string \<Rightarrow> daemon \<Rightarrow> daemon res" where
  "do_fifo_command m block d =
     (if block = [] \<or> last block \<noteq> CHR 0x0A
      then Inr (error ''ignoring malformed command(s) from pipe'' d)
      else let buffer = c_string (butlast block) in fifo_loop (Suc (length buffer)) m (Some buffer) d)"

end
