(* ===== verification/Loading.thy ===== *)
theory Loading
  imports Orders Load
begin

text \<open>
  What reading a printer's configuration does. The lines of the file are a fold of a pure function
  over the printer's structure; \<open>load_printer\<close> changes nothing but that structure.
\<close>

section \<open>Definitions\<close>

text \<open>The effect of one line of the configuration file.\<close>

definition conf_alert :: "string \<Rightarrow> ALERT \<Rightarrow> ALERT" where
  "conf_alert line al =
     (case gu_sscanf line ''Alert: %d %S %S'' [] of
        Inr (_, [SInt i]) \<Rightarrow> \<lparr>al_interval = i, al_method = None, al_address = None\<rparr>
      | Inr (_, [SInt i, SStr k]) \<Rightarrow> \<lparr>al_interval = i, al_method = Some k, al_address = None\<rparr>
      | Inr (_, [SInt i, SStr k, SStr a]) \<Rightarrow> \<lparr>al_interval = i, al_method = Some k, al_address = Some a\<rparr>
      | _ \<Rightarrow> al\<lparr>al_method := None, al_address := None\<rparr>)"

definition conf_bin :: "string \<Rightarrow> string option" where
  "conf_bin line =
     (if lmatch line ''Bin:'' then
        (case gu_sscanf line ''Bin: %S'' [] of
           Inr (n, [SStr bin]) \<Rightarrow> if n = 1 then Some bin else None
         | _ \<Rightarrow> None)
      else None)"

definition conf_charge :: "string \<Rightarrow> (sval \<times> sval) option" where
  "conf_charge line =
     (case gu_sscanf line ''Charge: %f %f'' [] of
        Inr (_, [x1]) \<Rightarrow> Some (x1, x1)
      | Inr (_, [x1, x2]) \<Rightarrow> Some (x1, x2)
      | _ \<Rightarrow> None)"

definition conf_line :: "machine \<Rightarrow> string \<Rightarrow> Printer \<Rightarrow> Printer" where
  "conf_line m line p =
     (if line \<noteq> [] \<and> (hd line = CHR '';'' \<or> hd line = CHR ''#'') then p
      else if lmatch line ''Alert:'' then p\<lparr>p_alert := conf_alert line (p_alert p)\<rparr>
      else if lmatch line ''Bin:'' then
        (case conf_bin line of
           Some bin \<Rightarrow> if length (p_bins p) < MAX_BINS then add_bin bin p else p
         | None \<Rightarrow> p)
      else
        (case conf_charge line of
           Some (x1, x2) \<Rightarrow> set_charge (cents m x1) (cents m x2) p
         | None \<Rightarrow> p))"

text \<open>Whether a line sets a charge.\<close>

definition conf_charges :: "string \<Rightarrow> bool" where
  "conf_charges line \<longleftrightarrow>
     \<not> (line \<noteq> [] \<and> (hd line = CHR '';'' \<or> hd line = CHR ''#'')) \<and> \<not> lmatch line ''Alert:'' \<and> \<not> lmatch line ''Bin:''
     \<and> conf_charge line \<noteq> None"

text \<open>The status of a printer after the daemon has been started again.\<close>

definition status_after_restart :: "int \<Rightarrow> int" where
  "status_after_restart s =
     (if s \<in> {PRNSTATUS_PRINTING, PRNSTATUS_CANCELING, PRNSTATUS_SEIZING} then PRNSTATUS_IDLE
      else if s = PRNSTATUS_HALTING then PRNSTATUS_STOPT else s)"

text \<open>Nothing is mounted yet in the bins of the printer.\<close>

definition bins_ok :: "Printer \<Rightarrow> bool" where
  "bins_ok p \<longleftrightarrow> length (p_bins p) \<le> MAX_BINS \<and> p_media p = replicate (length (p_bins p)) (-1)
     \<and> (p_AutoSelect_exists p \<longleftrightarrow> ''AutoSelect'' \<in> set (p_bins p))"

text \<open>Only printer \<open>i\<close> has changed, from \<open>p\<close> to \<open>p'\<close>.\<close>

definition only_printer :: "int \<Rightarrow> Printer \<Rightarrow> Printer \<Rightarrow> daemon \<Rightarrow> daemon \<Rightarrow> bool" where
  "only_printer i p p' d d' \<longleftrightarrow> 0 \<le> i \<and> i < int (length (printers d)) \<and> p = printers d ! nat i
     \<and> core d' = core (d\<lparr>printers := (printers d)[nat i := p']\<rparr>)"

text \<open>An installation that is not running yet.\<close>

definition example_machine :: machine where
  "example_machine =
     \<lparr>raw_printer = (\<lambda>_. example_printer ''?''), before_bin = CHR ''x'', before_media = CHR ''x'', cents = (\<lambda>_. 5)\<rparr>"

definition example_stopped :: daemon where
  "example_stopped = example_daemon\<lparr>printers := [], groups := [],
     fs := [''/pc/laser'' \<mapsto> ''Alert: 3 mail op'' @ [CHR 0x0A] @ ''Bin: Upper'' @ [CHR 0x0A] @ ''Bin: Lower'',
            ''/pc/plotter'' \<mapsto> ''Bin: AutoSelect'' @ [CHR 0x0A] @ ''Charge: 0.05'',
            ''/gc/pool'' \<mapsto> ''Printer: laser'' @ [CHR 0x0A] @ ''Printer: ghost'' @ [CHR 0x0A] @ ''Printer: plotter'',
            ''/p/laser/mounted'' \<mapsto> ''Upper           letter          '',
            ''/p/plotter/spool_state'' \<mapsto> ''1 1 8 0 0 0 0 0 0'' @ [CHR 0x0A],
            ''/q/pool-8.0'' \<mapsto> ''PPRD: 28 00000008 01 0000'' @ [CHR 0x0A] @ ''Media: letter'']\<rparr>"

section \<open>Lemmas\<close>

lemma only_printer_trans:
  assumes "only_printer i p p' d d1" "only_printer i p1 p2 d1 d2"
  shows "p1 = p' \<and> only_printer i p p2 d d2"
proof -
  have c: "core d1 = core (d\<lparr>printers := (printers d)[nat i := p']\<rparr>)" using assms(1) by (simp add: only_printer_def)
  have p: "printers d1 = (printers d)[nat i := p']" using core_fields(3) [OF c] by simp
  have "core d2 = (core d1)\<lparr>printers := (printers d)[nat i := p2]\<rparr>"
    using assms(2) p by (simp add: only_printer_def core_printers)
  also have "\<dots> = core (d\<lparr>printers := (printers d)[nat i := p2]\<rparr>)" by (simp add: c core_printers)
  finally show ?thesis using assms p by (auto simp: only_printer_def nat_less_iff)
qed

lemma only_printer_refl: "get_printer i d = Inr p \<Longrightarrow> core d' = core d \<Longrightarrow> only_printer i p p d d'"
  by (auto simp: only_printer_def get_printer_iff nat_less_iff)

lemma only_printer_upd: "upd_printer i f d = Inr d' \<Longrightarrow> only_printer i (printers d ! nat i) (f (printers d ! nat i)) d d'"
  by (auto simp: only_printer_def upd_printer_def split: if_splits)

lemma only_printer_get: "only_printer i p p' d d' \<Longrightarrow> get_printer i d' = Inr p'"
  using core_fields(3) [of d' "d\<lparr>printers := (printers d)[nat i := p']\<rparr>"]
  by (auto simp: only_printer_def get_printer_def nat_less_iff)

lemma lift_gu_iff: "lift_gu d r = Inr a \<longleftrightarrow> r = Inr a"
  by (auto simp: lift_gu_def split: sum.splits gu_err.splits)

subsection \<open>The lines of the file\<close>

lemma alert_line_effect:
  assumes "alert_line line i d = Inr d'" "lmatch line ''Alert:''" "hd line = CHR ''A''" "get_printer i d = Inr p"
  shows "only_printer i p (conf_line m line p) d d'"
proof -
  obtain n vs where s: "gu_sscanf line ''Alert: %d %S %S'' [] = Inr (n, vs)" using assms(1) by (auto simp: alert_line_def lift_gu_iff)
  have p: "p = printers d ! nat i" using assms(4) by (simp add: get_printer_iff)
  have "conf_line m line p = p\<lparr>p_alert :=
         (case vs of
            [SInt i] \<Rightarrow> \<lparr>al_interval = i, al_method = None, al_address = None\<rparr>
          | [SInt i, SStr m] \<Rightarrow> \<lparr>al_interval = i, al_method = Some m, al_address = None\<rparr>
          | [SInt i, SStr m, SStr a] \<Rightarrow> \<lparr>al_interval = i, al_method = Some m, al_address = Some a\<rparr>
          | _ \<Rightarrow> (p_alert p)\<lparr>al_method := None, al_address := None\<rparr>)\<rparr>"
    using assms(2,3) s by (simp add: conf_line_def conf_alert_def)
  then show ?thesis using assms(1) s p unfolding alert_line_def lift_gu_def
    by (auto dest!: only_printer_upd)
qed

lemma bin_line_effect:
  assumes "bin_line line i d = Inr d'" "lmatch line ''Bin:''" "hd line = CHR ''B''" "\<not> lmatch line ''Alert:''" "get_printer i d = Inr p"
  shows "only_printer i p (conf_line m line p) d d'"
proof -
  have p: "p = printers d ! nat i" using assms(5) by (simp add: get_printer_iff)
  have r: "only_printer i p p d d" "only_printer i p p d (error msg d)" for msg using assms(5) by (simp_all add: only_printer_refl)
  show ?thesis
  proof (cases "length (p_bins p) < MAX_BINS")
    case True
    then obtain n vs where s: "gu_sscanf line ''Bin: %S'' [] = Inr (n, vs)" 
      using assms(1,5) by (auto simp: bin_line_def lift_gu_iff)
    have "(case (n = 1, vs) of (True, [SStr bin]) \<Rightarrow> upd_printer i (add_bin bin) d | _ \<Rightarrow> Inr d) = Inr d'"
      using assms(1,5) True s by (simp add: bin_line_def lift_gu_def)
    then show ?thesis using True s assms(2-4) r p
      by (auto simp: conf_line_def conf_bin_def split: bool.splits list.splits sval.splits dest!: only_printer_upd)
  next
    case False
    then have "d' = error (''Printer \"'' @ p_name p @ ''\" has too many bins.'') d" using assms(1,5) by (simp add: bin_line_def)
    then show ?thesis using False r assms(2-4) by (simp add: conf_line_def split: option.split)
  qed
qed

lemma charge_line_effect:
  assumes "charge_line m line i d = Inr d'" "\<not> lmatch line ''Bin:''" "\<not> lmatch line ''Alert:''"
    "\<not> (line \<noteq> [] \<and> (hd line = CHR '';'' \<or> hd line = CHR ''#''))" "get_printer i d = Inr p"
  shows "only_printer i p (conf_line m line p) d d'"
proof -
  have p: "p = printers d ! nat i" using assms(5) by (simp add: get_printer_iff)
  have r: "only_printer i p p d d" using assms(5) by (simp add: only_printer_refl)
  obtain n vs where s: "gu_sscanf line ''Charge: %f %f'' [] = Inr (n, vs)" using assms(1) by (auto simp: charge_line_def lift_gu_iff)
  have "conf_line m line p = (case vs of [x1] \<Rightarrow> set_charge (cents m x1) (cents m x1) p
         | [x1, x2] \<Rightarrow> set_charge (cents m x1) (cents m x2) p | _ \<Rightarrow> p)"
    unfolding conf_line_def if_not_P [OF assms(4)] conf_charge_def using assms(2,3) s by (simp split: list.split)
  then show ?thesis using assms(1) s r p
    by (auto simp: charge_line_def lift_gu_def split: list.splits dest!: only_printer_upd)
qed

lemma lmatch_hd: "lmatch line (c # cs) \<Longrightarrow> line \<noteq> [] \<and> hd line = c"
  by (cases line) (auto simp: lmatch_def)

lemma conf_line_effect:
  assumes "printer_conf_line m i line d = Inr d'" "get_printer i d = Inr p"
  shows "only_printer i p (conf_line m line p) d d'"
proof -
  consider (c) "line \<noteq> [] \<and> (hd line = CHR '';'' \<or> hd line = CHR ''#'')" | (a) "lmatch line ''Alert:''"
    | (b) "lmatch line ''Bin:''" "\<not> lmatch line ''Alert:''"
    | (o) "\<not> lmatch line ''Bin:''" "\<not> lmatch line ''Alert:''" "\<not> (line \<noteq> [] \<and> (hd line = CHR '';'' \<or> hd line = CHR ''#''))" by blast
  then show ?thesis
  proof cases
    case c
    then have "d' = d" "conf_line m line p = p" using assms(1) by (simp_all add: printer_conf_line_def conf_line_def)
    then show ?thesis using only_printer_refl [OF assms(2), of d] by simp
  next
    case a
    with lmatch_hd [OF a] show ?thesis using assms by (intro alert_line_effect) (auto simp: printer_conf_line_def)
  next
    case b
    with lmatch_hd [OF b(1)] show ?thesis using assms by (intro bin_line_effect) (auto simp: printer_conf_line_def)
  next
    case o
    then show ?thesis using assms(1) by (intro charge_line_effect assms(2)) (auto simp: printer_conf_line_def split: if_splits)
  qed
qed

lemma conf_lines_effect:
  assumes "foldE (printer_conf_line m i) ls d = Inr d'" "get_printer i d = Inr p"
  shows "only_printer i p (fold (conf_line m) ls p) d d'"
  using assms
proof (induction ls arbitrary: d p)
  case Nil
  then show ?case by (simp add: only_printer_refl)
next
  case (Cons l ls)
  then obtain d1 where d1: "printer_conf_line m i l d = Inr d1" "foldE (printer_conf_line m i) ls d1 = Inr d'" by auto
  have o: "only_printer i p (conf_line m l p) d d1" using conf_line_effect [OF d1(1) Cons.prems(2)] .
  then have "get_printer i d1 = Inr (conf_line m l p)"
    using core_fields(3) [of d1 "d\<lparr>printers := (printers d)[nat i := conf_line m l p]\<rparr>"]
    by (auto simp: only_printer_def get_printer_def nat_less_iff)
  from only_printer_trans [OF o Cons.IH [OF d1(2) this]] show ?case by simp
qed

lemma conf_line_bins:
  "(p_bins (conf_line m l p), p_media (conf_line m l p), p_AutoSelect_exists (conf_line m l p)) =
     (case conf_bin l of
        None \<Rightarrow> (p_bins p, p_media p, p_AutoSelect_exists p)
      | Some b \<Rightarrow> if length (p_bins p) < MAX_BINS
          then (p_bins p @ [b], p_media p @ [-1], p_AutoSelect_exists p \<or> b = ''AutoSelect'')
          else (p_bins p, p_media p, p_AutoSelect_exists p))"
proof (cases "lmatch l ''Bin:''")
  case True
  then have "hd l = CHR ''B''" "\<not> lmatch l ''Alert:''" using lmatch_hd [OF True] lmatch_hd [of l "CHR ''A''" "''lert:''"] by auto
  with True show ?thesis by (auto simp: conf_line_def add_bin_def split: option.splits)
next
  case False
  then show ?thesis by (auto simp: conf_line_def conf_bin_def set_charge_def split: option.splits)
qed

lemma conf_line_rest:
  "p_name (conf_line m l p) = p_name p" "p_job_pid (conf_line m l p) = p_job_pid p" "p_ppop_pid (conf_line m l p) = p_ppop_pid p"
  "p_spool_state (conf_line m l p) = (p_spool_state p)\<lparr>ps_protected := (ps_protected (p_spool_state p) \<or> conf_charges l)\<rparr>"
  by (auto simp: conf_line_def conf_charges_def set_charge_def add_bin_def split: option.splits)

lemma conf_line_bins_ok: "bins_ok p \<Longrightarrow> bins_ok (conf_line m l p)"
  using conf_line_bins [of m l p]
  by (auto simp: bins_ok_def replicate_append_same split: option.splits if_splits)

lemma conf_lines_result:
  assumes "bins_ok p"
  shows "bins_ok (fold (conf_line m) ls p)
    \<and> p_bins (fold (conf_line m) ls p) = take MAX_BINS (p_bins p @ List.map_filter conf_bin ls)
    \<and> p_name (fold (conf_line m) ls p) = p_name p \<and> p_job_pid (fold (conf_line m) ls p) = p_job_pid p
    \<and> p_ppop_pid (fold (conf_line m) ls p) = p_ppop_pid p
    \<and> p_spool_state (fold (conf_line m) ls p)
      = (p_spool_state p)\<lparr>ps_protected := (ps_protected (p_spool_state p) \<or> (\<exists>l \<in> set ls. conf_charges l))\<rparr>"
  using assms
proof (induction ls arbitrary: p)
  case Nil
  then show ?case by (simp add: bins_ok_def List.map_filter_simps)
next
  case (Cons l ls)
  have k: "length (p_bins p) \<le> MAX_BINS" using Cons.prems by (simp add: bins_ok_def)
  have "take MAX_BINS (p_bins (conf_line m l p) @ List.map_filter conf_bin ls) = take MAX_BINS (p_bins p @ List.map_filter conf_bin (l # ls))"
    using k conf_line_bins [of m l p] by (auto simp: List.map_filter_simps take_Cons' split: option.splits if_splits)
  with Cons.IH [OF conf_line_bins_ok [OF Cons.prems, of m l]] show ?case by (auto simp: conf_line_rest)
qed

subsection \<open>The saved state\<close>

lemma restart_status_effect:
  assumes "restart_status i d = Inr d'" "get_printer i d = Inr p" "p_ppop_pid p = 0"
  shows "\<exists>prev now. only_printer i p (p\<lparr>p_spool_state := (p_spool_state p)\<lparr>ps_previous_status := prev,
    ps_status := status_after_restart (pstat p), ps_printer_state_change_time := now\<rparr>\<rparr>) d d'"
proof -
  have p: "p = printers d ! nat i" "0 \<le> i" "i < int (length (printers d))" using assms(2) by (auto simp: get_printer_iff)
  show ?thesis
  proof (cases "pstat p \<in> {PRNSTATUS_PRINTING, PRNSTATUS_CANCELING, PRNSTATUS_SEIZING, PRNSTATUS_HALTING}")
    case True
    then have n: "printer_new_status i (status_after_restart (pstat p)) d = Inr d'"
      using assms by (auto simp: restart_status_def status_after_restart_def pstat_def)
    have "ps_status (p_spool_state (printers d ! nat i)) \<noteq> PRNSTATUS_DELETED" using True p by (auto simp: pstat_def)
    then obtain now where "core d' = core (d\<lparr>printers := (printers d)[nat i := p\<lparr>p_spool_state := set_status (status_after_restart (pstat p)) now (p_spool_state p),
             p_ppop_pid := (if status_after_restart (pstat p) = PRNSTATUS_STOPT then 0 else p_ppop_pid p)\<rparr>]\<rparr>)"
      using printer_new_status_full [OF n p(1)] p by auto
    moreover have "(if b then 0 else p_ppop_pid p) = p_ppop_pid p" for b using assms(3) by simp
    ultimately show ?thesis using p by (auto simp: only_printer_def set_status_def)
  next
    case False
    then have "d' = d" "status_after_restart (pstat p) = pstat p"
      using assms by (auto simp: restart_status_def status_after_restart_def pstat_def Let_def)
    moreover have "p\<lparr>p_spool_state := (p_spool_state p)\<lparr>ps_previous_status := ps_previous_status (p_spool_state p),
        ps_status := pstat p, ps_printer_state_change_time := ps_printer_state_change_time (p_spool_state p)\<rparr>\<rparr> = p"
      by (simp add: pstat_def)
    ultimately show ?thesis using only_printer_refl [OF assms(2), of d] by metis
  qed
qed

lemma only_printer_fs: "upd_printer i f d = Inr d' \<Longrightarrow> fs d' = fs d \<and> dirs d' = dirs d"
  by (auto simp: upd_printer_iff)

lemma spool_state_load_frame:
  assumes "printer_spool_state_load n d' = Inr (r, ps)" "fs d' = fs d" "dirs d' = dirs d"
  shows "printer_spool_state_load n d = Inr (r, ps)"
proof -
  obtain fn where "path_of ''%s/%s/spool_state'' [FStr (PRINTERS_PERSISTENT_STATEDIR (dirs d)), FStr n] d' = Inr fn"
    using assms(1,3) by (auto simp: printer_spool_state_load_def)
  moreover from this have "path_of ''%s/%s/spool_state'' [FStr (PRINTERS_PERSISTENT_STATEDIR (dirs d)), FStr n] d = Inr fn"
    by (simp only: path_of_iff)
  ultimately show ?thesis
    using assms by (auto simp: printer_spool_state_load_def lift_gu_def split: option.splits if_splits sum.splits gu_err.splits)
qed

lemma load_printer_state_effect:
  assumes "load_printer_state i n d = Inr d'" "get_printer i d = Inr p"
  shows "\<exists>r ps now. printer_spool_state_load n d = Inr (r, ps)
    \<and> only_printer i p (p\<lparr>p_spool_state := ps\<lparr>ps_job_count := 0, ps_printer_state_change_time := now, ps_protected := False\<rparr>\<rparr>) d d'"
proof -
  have p: "p = printers d ! nat i" "0 \<le> i" "i < int (length (printers d))" using assms(2) by (auto simp: get_printer_iff)
  obtain r ps where s: "printer_spool_state_load n d = Inr (r, ps)" using assms(1) by (auto simp: load_printer_state_def)
  define d1 where "d1 = (if r = -1 then error (''saved printer spool state of \"'' @ n @ ''\" was invalid'') d else d)"
  have "upd_spool i (\<lambda>_. ps\<lparr>ps_job_count := 0, ps_printer_state_change_time := clock d1 (time_calls d1), ps_protected := False\<rparr>)
      (d1\<lparr>time_calls := Suc (time_calls d1)\<rparr>) = Inr d'"
    using assms(1) s by (simp add: load_printer_state_def with_time_def d1_def Let_def)
  then have "only_printer i p (p\<lparr>p_spool_state := ps\<lparr>ps_job_count := 0, ps_printer_state_change_time := clock d1 (time_calls d1), ps_protected := False\<rparr>\<rparr>) d d'"
    using p by (auto simp: upd_spool_def only_printer_def upd_printer_iff d1_def upd_nth_def core_printers)
  with s show ?thesis by blast
qed

lemma load_printer_effect:
  assumes "load_printer m i name d = Inr d'"
  shows "\<exists>p fn c r ps prev now. get_printer i d = Inr p
    \<and> path_of ''%s/%s'' [FStr (PRCONF (dirs d)), FStr name] d = Inr fn \<and> fs d fn = Some c
    \<and> printer_spool_state_load name d = Inr (r, ps)
    \<and> only_printer i p (fold (conf_line m) (file_lines c) ((reset_printer name p)\<lparr>p_spool_state :=
         ps\<lparr>ps_job_count := 0, ps_protected := False, ps_previous_status := prev,
            ps_status := status_after_restart (ps_status ps), ps_printer_state_change_time := now\<rparr>\<rparr>)) d d'"
proof -
  obtain fn c d1 d2 d3 where f: "path_of ''%s/%s'' [FStr (PRCONF (dirs d)), FStr name] d = Inr fn" "fs d fn = Some c"
    and d: "upd_printer i (reset_printer name) d = Inr d1" "load_printer_state i name d1 = Inr d2" "restart_status i d2 = Inr d3"
      "foldE (printer_conf_line m i) (file_lines c) d3 = Inr d'"
    using assms by (auto simp: load_printer_def split: option.splits)
  let ?p = "printers d ! nat i"
  have p: "get_printer i d = Inr ?p" using d(1) by (auto simp: get_printer_iff upd_printer_iff)
  note o1 = only_printer_upd [OF d(1)]
  obtain r ps now where s: "printer_spool_state_load name d1 = Inr (r, ps)"
    and o2: "only_printer i (reset_printer name ?p) ((reset_printer name ?p)\<lparr>p_spool_state :=
      ps\<lparr>ps_job_count := 0, ps_printer_state_change_time := now, ps_protected := False\<rparr>\<rparr>) d1 d2"
    using load_printer_state_effect [OF d(2) only_printer_get [OF o1]] by blast
  let ?p2 = "(reset_printer name ?p)\<lparr>p_spool_state :=
      ps\<lparr>ps_job_count := 0, ps_printer_state_change_time := now, ps_protected := False\<rparr>\<rparr>"
  let ?p3 = "\<lambda>prev now'. (reset_printer name ?p)\<lparr>p_spool_state := ps\<lparr>ps_job_count := 0, ps_protected := False, ps_previous_status := prev,
            ps_status := status_after_restart (ps_status ps), ps_printer_state_change_time := now'\<rparr>\<rparr>"
  have z: "p_ppop_pid ?p2 = 0" "pstat ?p2 = ps_status ps" by (simp_all add: reset_printer_def pstat_def)
  obtain prev now' where o3: "only_printer i ?p2 (?p3 prev now') d2 d3"
    using restart_status_effect [OF d(3) only_printer_get [OF o2] z(1), unfolded z(2)] by auto
  note o4 = conf_lines_effect [OF d(4) only_printer_get [OF o3]]
  have "only_printer i ?p (fold (conf_line m) (file_lines c) (?p3 prev now')) d d'"
    using only_printer_trans [OF o1 o2] only_printer_trans [OF _ o3] only_printer_trans [OF _ o4] by blast
  with p f spool_state_load_frame [OF s] only_printer_fs [OF d(1)] show ?thesis by blast
qed

lemma load_printer_result:
  assumes "load_printer m i name d = Inr d'"
  shows "\<exists>p p' fn c r ps. get_printer i d = Inr p
    \<and> path_of ''%s/%s'' [FStr (PRCONF (dirs d)), FStr name] d = Inr fn \<and> fs d fn = Some c
    \<and> printer_spool_state_load name d = Inr (r, ps) \<and> only_printer i p p' d d'
    \<and> pslot p' = (name, p_job_pid p, status_after_restart (ps_status ps)) \<and> p_ppop_pid p' = 0
    \<and> ps_accepting (p_spool_state p') = ps_accepting ps \<and> ps_job_count (p_spool_state p') = 0
    \<and> (ps_protected (p_spool_state p') \<longleftrightarrow> (\<exists>l \<in> set (file_lines c). conf_charges l))
    \<and> p_bins p' = take MAX_BINS (List.map_filter conf_bin (file_lines c)) \<and> bins_ok p'"
proof -
  obtain p fn c r ps prev now where e: "get_printer i d = Inr p"
    "path_of ''%s/%s'' [FStr (PRCONF (dirs d)), FStr name] d = Inr fn" "fs d fn = Some c"
    "printer_spool_state_load name d = Inr (r, ps)"
    "only_printer i p (fold (conf_line m) (file_lines c) ((reset_printer name p)\<lparr>p_spool_state :=
         ps\<lparr>ps_job_count := 0, ps_protected := False, ps_previous_status := prev,
            ps_status := status_after_restart (ps_status ps), ps_printer_state_change_time := now\<rparr>\<rparr>)) d d'"
    using load_printer_effect [OF assms] by blast
  let ?q = "(reset_printer name p)\<lparr>p_spool_state :=
         ps\<lparr>ps_job_count := 0, ps_protected := False, ps_previous_status := prev,
            ps_status := status_after_restart (ps_status ps), ps_printer_state_change_time := now\<rparr>\<rparr>"
  have b: "bins_ok ?q" by (simp add: bins_ok_def reset_printer_def)
  note r = conf_lines_result [OF b, of m "file_lines c"]
  show ?thesis
    by (rule exI [of _ p], rule exI [of _ "fold (conf_line m) (file_lines c) ?q"], rule exI [of _ fn], rule exI [of _ c],
        rule exI [of _ r], rule exI [of _ ps]) (use e r in \<open>auto simp: reset_printer_def pslot_def pstat_def\<close>)
qed

section \<open>Properties\<close>

text \<open>
  C31. Loading a printer sets it up from its two files and touches nothing else: the bins are the first ten
  of the \<^verbatim>\<open>Bin:\<close> lines, nothing mounted, the printer is protected exactly when there is a \<^verbatim>\<open>Charge:\<close> line, and
  the status is the saved one, but that a printer that was printing, canceling or seizing is idle and
  one that was halting is stopped. The driver's process id is left as it was.
\<close>

theorem load_exact:
  assumes "load_printer m i name d = Inr d'" "p = printers d ! nat i" "printer_spool_state_load name d = Inr (r, ps)"
    and "path_of ''%s/%s'' [FStr (PRCONF (dirs d)), FStr name] d = Inr fn" "fs d fn = Some c"
  shows "\<exists>p'. core d' = core (d\<lparr>printers := (printers d)[nat i := p']\<rparr>)
    \<and> p_name p' = name \<and> p_job_pid p' = p_job_pid p
    \<and> ps_status (p_spool_state p') =
        (if ps_status ps \<in> {PRNSTATUS_PRINTING, PRNSTATUS_CANCELING, PRNSTATUS_SEIZING} then PRNSTATUS_IDLE
         else if ps_status ps = PRNSTATUS_HALTING then PRNSTATUS_STOPT else ps_status ps)
    \<and> ps_accepting (p_spool_state p') = ps_accepting ps \<and> ps_job_count (p_spool_state p') = 0
    \<and> (ps_protected (p_spool_state p') \<longleftrightarrow> (\<exists>l \<in> set (file_lines c). conf_charges l))
    \<and> p_bins p' = take MAX_BINS (List.map_filter conf_bin (file_lines c))
    \<and> p_media p' = replicate (length (p_bins p')) (-1)
    \<and> (p_AutoSelect_exists p' \<longleftrightarrow> ''AutoSelect'' \<in> set (p_bins p'))"
  using load_printer_result [OF assms(1)] assms(2-5)
  by (auto simp: only_printer_def pslot_def pstat_def bins_ok_def status_after_restart_def)

theorem load_exact_witness:
  "\<exists>d' p'. load_printer example_machine 0 ''plotter'' (new_slot example_machine example_stopped) = Inr d'
     \<and> printers d' = [p'] \<and> p_bins p' = [''AutoSelect''] \<and> p_AutoSelect_exists p'
     \<and> ps_protected (p_spool_state p') \<and> ps_status (p_spool_state p') = PRNSTATUS_STOPPING"
proof -
  let ?d = "new_slot example_machine example_stopped"
  let ?c = "''Bin: AutoSelect'' @ [CHR 0x0A] @ ''Charge: 0.05''"
  have e: "returns (load_printer example_machine 0 ''plotter'' ?d) (\<lambda>_. True)"
    "returns (printer_spool_state_load ''plotter'' ?d) (\<lambda>(r, ps). ps_status ps = PRNSTATUS_STOPPING)"
    "returns (path_of ''%s/%s'' [FStr (PRCONF (dirs ?d)), FStr ''plotter''] ?d) (\<lambda>fn. fs ?d fn = Some ?c)"
    "List.map_filter conf_bin (file_lines ?c) = [''AutoSelect'']" "\<exists>l \<in> set (file_lines ?c). conf_charges l"
    "length (printers ?d) = 1"
    by code_simp+
  obtain d' where d': "load_printer example_machine 0 ''plotter'' ?d = Inr d'" using e(1) by (elim returnsE)
  obtain r ps where ps: "printer_spool_state_load ''plotter'' ?d = Inr (r, ps)" "ps_status ps = PRNSTATUS_STOPPING" using e(2) by (auto simp: returns_iff)
  obtain fn where fn: "path_of ''%s/%s'' [FStr (PRCONF (dirs ?d)), FStr ''plotter''] ?d = Inr fn" "fs ?d fn = Some ?c" using e(3) by (auto simp: returns_iff)
  obtain p' where p': "core d' = core (?d\<lparr>printers := (printers ?d)[nat 0 := p']\<rparr>)"
    "ps_status (p_spool_state p') = PRNSTATUS_STOPPING" "ps_protected (p_spool_state p')" "p_bins p' = [''AutoSelect'']" "p_AutoSelect_exists p'"
    using load_exact [OF d' refl ps(1) fn] ps(2) e(4,5) by auto
  have "printers d' = [p']" using core_fields(3) [OF p'(1)] e(6) by (cases "printers ?d") auto
  then show ?thesis using d' p' by blast
qed

end
