(* ===== verification/Startup.thy ===== *)
theory Startup
  imports Loading
begin

text \<open>
  The daemon's tables at start-up and when the configuration changes: the invariant of the printers'
  slots and the bounds of the tables are established by \<open>startup\<close> and kept by \<open>new_printer_config\<close>. Two
  faults of the source are shown on small installations.
\<close>

section \<open>Definitions\<close>

text \<open>No driver runs, and none is counted.\<close>

definition calm :: "daemon \<Rightarrow> bool" where
  "calm d \<longleftrightarrow> (\<forall>n. fork_result d n = -1 \<or> fork_result d n > 0) \<and> active_printers d = 0
     \<and> (\<forall>p \<in> set (printers d). p_job_pid p = 0)"

text \<open>The tables are within their arrays, and groups have printers for members.\<close>

definition members_ok :: "daemon \<Rightarrow> Group \<Rightarrow> bool" where
  "members_ok d g \<longleftrightarrow> length (g_printers g) \<le> MAX_GROUPSIZE
     \<and> (\<forall>m \<in> set (g_printers g). 0 \<le> m \<and> m < int (length (printers d)))"

definition tables_ok :: "daemon \<Rightarrow> bool" where
  "tables_ok d \<longleftrightarrow> int (length (printers d)) \<le> MAX_PRINTERS \<and> int (length (groups d)) \<le> MAX_GROUPS
     \<and> (\<forall>g \<in> set (groups d). members_ok d g)"

definition loading :: "daemon \<Rightarrow> bool" where
  "loading d \<longleftrightarrow> calm d \<and> tables_ok d"

text \<open>The number of rounds a buffer can need.\<close>

definition rounds :: "string option \<Rightarrow> nat" where
  "rounds next = (case next of None \<Rightarrow> 0 | Some s \<Rightarrow> Suc (length s))"

text \<open>A start of the daemon, and a group with a job that waits.\<close>

definition example_startup :: "daemon res" where
  "example_startup = startup example_machine [''.'', ''laser'', ''laser~'', ''plotter''] [''pool''] [''.'', ''pool-8.0''] example_stopped"

definition example_regroup :: daemon where
  "example_regroup = example_busy\<lparr>queue := [example_job MAX_PRINTERS 8 40],
     fs := (fs example_busy)(''/gc/pool'' \<mapsto> ''Printer: laser'' @ [CHR 0x0A] @ ''Printer: plotter'')\<rparr>"

section \<open>Lemmas\<close>

subsection \<open>What the operations keep\<close>

context slot_frame
begin

lemma mounted_loop_I: "I d \<Longrightarrow> okR I (mounted_loop b1 b2 n i c d) I"
proof (induction n arbitrary: c d)
  case (Suc n)
  then show ?case by (auto simp: Let_def pslot_def pstat_def intro!: wp)
qed simp

lemmas [wp] = mounted_loop_I [THEN okR_weaken]

lemma media_mounted_recover_I: "I d \<Longrightarrow> okR I (media_mounted_recover b1 b2 i d) I"
  unfolding media_mounted_recover_def by (auto intro!: wp split: option.split)

lemma clear_never_I: "I d \<Longrightarrow> okR I (clear_never i x d) I"
  unfolding clear_never_def by (auto intro!: wp)

lemma refresh_group_job_I: "I d \<Longrightarrow> okR I (refresh_group_job i x d) I"
  unfolding refresh_group_job_def by (auto intro!: wp)

lemma save_states_I: "I d \<Longrightarrow> okR I (save_printer_state x d) I" "I d \<Longrightarrow> okR I (save_group_state x d) I"
  unfolding save_printer_state_def save_group_state_def by (auto intro!: wp)

lemmas [wp] = media_mounted_recover_I [THEN okR_weaken] clear_never_I [THEN okR_weaken] refresh_group_job_I [THEN okR_weaken]
  save_states_I [THEN okR_weaken]

end

context slot_invariant
begin

lemma initialize_queue_I: "I d \<Longrightarrow> okR I (initialize_queue es d) I"
proof -
  have [wp]: "I d \<Longrightarrow> (\<And>d'. I d' \<Longrightarrow> P d') \<Longrightarrow> okR I (inherit_job n d) P" for n d P
    unfolding inherit_job_def by (auto intro!: wp)
  assume "I d"
  then show ?thesis unfolding initialize_queue_def by (auto intro!: wp)
qed

lemma after_reload_I:
  "I d \<Longrightarrow> okR I (bindE (foldE (clear_never i) xs d) (\<lambda>d. bindE (media_update_notnow i d) (look_if_idle i))) I"
  by (auto intro!: wp)

lemma after_group_reload_I:
  "I d \<Longrightarrow> okR I (bindE (foldE (refresh_group_job i) xs d) (\<lambda>d. group_look_for_work (int (length (queue d))) d)) I"
  by (auto intro!: wp)

end

lemma load_and_mount_slots:
  assumes "load_and_mount m i name d = Inr d'"
  shows "\<exists>p st. get_printer i d = Inr p \<and> slots d' = slots (d\<lparr>printers := (printers d)[nat i := set_pstat st (p\<lparr>p_name := name\<rparr>)]\<rparr>)"
proof -
  obtain d1 d2 where d: "load_printer m i name d = Inr d1" "media_mounted_recover (before_bin m) (before_media m) i d1 = Inr d2"
    "media_mounted_save i d2 = Inr d'" using assms by (auto simp: load_and_mount_def)
  obtain p p' st where p: "get_printer i d = Inr p" "only_printer i p p' d d1" "pslot p' = (name, p_job_pid p, st)"
    using load_printer_result [OF d(1)] by blast
  have "slots d1 = slots (d\<lparr>printers := (printers d)[nat i := p']\<rparr>)" using p(2) by (intro slots_core) (simp add: only_printer_def)
  also have "\<dots> = slots (d\<lparr>printers := (printers d)[nat i := set_pstat st (p\<lparr>p_name := name\<rparr>)]\<rparr>)"
    using p(3) by (simp add: slots_def map_update) (simp add: pslot_def set_pstat_def pstat_def)
  finally have "slots d1 = slots (d\<lparr>printers := (printers d)[nat i := set_pstat st (p\<lparr>p_name := name\<rparr>)]\<rparr>)" .
  moreover have "slots d' = slots d2" "slots d2 = slots d1"
    using onR_D [OF okR_onR [OF same_slots.media_mounted_save_I] d(3), of "slots d2"]
      onR_D [OF okR_onR [OF same_slots.media_mounted_recover_I] d(2), of "slots d1"] by auto
  ultimately show ?thesis using p(1) by auto
qed

lemma calm_slots: "slots d' = slots d \<Longrightarrow> calm d' = calm d"
proof -
  define A where "A xs = (\<forall>(n, pid, st) \<in> set xs. pid = (0::int))" for xs :: "(string \<times> int \<times> int) list"
  have "calm e \<longleftrightarrow> (\<forall>n. fork_result e n = -1 \<or> fork_result e n > 0) \<and> active_printers e = 0 \<and> A (map pslot (printers e))" for e
    by (auto simp: calm_def pslot_def A_def)
  then show "slots d' = slots d \<Longrightarrow> calm d' = calm d" by (simp add: slots_def)
qed

lemma tables_destinations: "destinations d' = destinations d \<Longrightarrow> tables_ok d' = tables_ok d"
proof -
  define A where "A n xs = (\<forall>(nm, ms, del) \<in> set xs. length ms \<le> MAX_GROUPSIZE \<and> (\<forall>m \<in> set ms. 0 \<le> m \<and> m < int n))"
    for n :: nat and xs :: "(string \<times> int list \<times> bool) list"
  assume e: "destinations d' = destinations d"
  have g: "map gslot (groups d') = map gslot (groups d)" and l: "length (printers d') = length (printers d)"
    using e by (auto simp: destinations_def dest: map_eq_imp_length_eq)
  have "(\<forall>g \<in> set (groups e). members_ok e g) = A (length (printers e)) (map gslot (groups e))" for e
    by (auto simp: members_ok_def gslot_def A_def)
  then show ?thesis using l g map_eq_imp_length_eq [OF g] by (simp add: tables_ok_def)
qed

lemma calm_slots_ok: "calm d \<Longrightarrow> slots_ok d"
proof -
  assume c: "calm d"
  have "filter (\<lambda>p. p_job_pid p > 0) (printers d) = []" using c by (auto simp: calm_def filter_empty_conv)
  with c show ?thesis by (auto simp: calm_def slots_ok_def running_def)
qed

lemma slots_length: "slots d' = slots d \<Longrightarrow> length (printers d') = length (printers d) \<and> map gslot (groups d') = map gslot (groups d)"
  by (auto simp: slots_def dest: map_eq_imp_length_eq)

subsection \<open>Start-up\<close>

lemma load_printer_entries_calm:
  assumes "load_printer_entries m es d = Inr d'" "calm d" "int (length (printers d)) \<le> MAX_PRINTERS"
    "\<forall>n. p_job_pid (raw_printer m n) = 0"
  shows "calm d' \<and> int (length (printers d')) \<le> MAX_PRINTERS"
  using assms
proof (induction es arbitrary: d)
  case (Cons e es)
  show ?case
  proof (cases "skip_entry e \<or> int (length (printers d)) = MAX_PRINTERS")
    case True
    then show ?thesis using Cons by (auto simp: calm_def error_def emit_def split: if_splits)
  next
    case False
    then obtain d1 where d1: "load_and_mount m (int (length (printers d))) e (new_slot m d) = Inr d1" "load_printer_entries m es d1 = Inr d'"
      using Cons.prems(1) by auto
    obtain p st where p: "get_printer (int (length (printers d))) (new_slot m d) = Inr p"
      "slots d1 = slots ((new_slot m d)\<lparr>printers := (printers (new_slot m d))[nat (int (length (printers d))) := set_pstat st (p\<lparr>p_name := e\<rparr>)]\<rparr>)"
      using load_and_mount_slots [OF d1(1)] by blast
    have raw: "p = raw_printer m (length (printers d))" using p(1) by (simp add: get_printer_iff new_slot_def nth_append)
    have "calm ((new_slot m d)\<lparr>printers := (printers (new_slot m d))[nat (int (length (printers d))) := set_pstat st (p\<lparr>p_name := e\<rparr>)]\<rparr>)"
      using Cons.prems(2,4) raw by (auto simp: calm_def new_slot_def set_pstat_def list_update_append)
    then have "calm d1" using calm_slots [OF p(2)] by simp
    moreover have "int (length (printers d1)) \<le> MAX_PRINTERS"
      using slots_length [OF p(2)] False Cons.prems(3) by (simp add: new_slot_def)
    ultimately show ?thesis using Cons.IH [OF d1(2) _ _ Cons.prems(4)] by blast
  qed
qed simp

lemma loading_quiet [simp]:
  "loading (error msg d) = loading d" "loading (d\<lparr>time_calls := n\<rparr>) = loading d"
  by (simp_all add: loading_def calm_def tables_ok_def members_ok_def error_def emit_def)

lemma loading_group:
  assumes "upd_group i f d = Inr d'" "loading d" "\<And>g. 0 \<le> i \<Longrightarrow> i < int (length (groups d)) \<Longrightarrow> members_ok d g \<Longrightarrow> g = groups d ! nat i \<Longrightarrow> members_ok d (f g)"
  shows "loading d'"
proof -
  have i: "nat i < length (groups d)" and d': "d' = d\<lparr>groups := (groups d)[nat i := f (groups d ! nat i)]\<rparr>"
    using assms(1) by (auto simp: upd_group_def split: if_splits)
  have "groups d ! nat i \<in> set (groups d)" using i by simp
  then have "members_ok d (f (groups d ! nat i))"
    using assms(1,2) by (intro assms(3)) (auto simp: loading_def tables_ok_def upd_group_def split: if_splits)
  then show ?thesis using assms(2) i
    by (auto simp: d' loading_def calm_def tables_ok_def members_ok_def dest!: set_mp [OF set_update_subset_insert])
qed

lemma destid_by_printer_range: "destid_by_printer n d = i \<Longrightarrow> i \<noteq> -1 \<Longrightarrow> 0 \<le> i \<and> i < int (length (printers d))"
  by (auto simp: destid_by_printer_def Let_def split: if_splits)

lemma group_conf_line_loading:
  assumes "group_conf_line i l d = Inr d'" "loading d"
  shows "loading d'"
proof -
  have m: "loading d'" if e: "member_line i x d = Inr d'" for x
  proof -
    have n: "0 \<le> destid_by_printer x d \<and> destid_by_printer x d < int (length (printers d))" if "destid_by_printer x d \<noteq> -1"
      using destid_by_printer_range [OF refl that] .
    show ?thesis
      using e assms(2) n unfolding member_line_def
      by (auto simp: Let_def get_group_def members_ok_def add_member_def split: if_splits elim!: loading_group)
  qed
  have r: "loading d'" if "upd_group i (\<lambda>g. g\<lparr>g_rotate := b\<rparr>) d = Inr d'" for b
    by (rule loading_group [OF that assms(2)]) (simp add: members_ok_def)
  show ?thesis
    using assms m r unfolding group_conf_line_def
    by (auto split: bool.splits list.splits sval.splits option.splits)
qed

lemma group_conf_lines_loading: "foldE (group_conf_line i) ls d = Inr d' \<Longrightarrow> loading d \<Longrightarrow> loading d'"
  by (induction ls arbitrary: d) (auto dest: group_conf_line_loading)

lemma load_group_loading:
  assumes "load_group i n d = Inr d'" "loading d"
  shows "loading d'"
proof -
  obtain c gs e now d1 where d: "upd_group i (reset_group n gs now) e = Inr d1" "loading e" "foldE (group_conf_line i) (file_lines c) d1 = Inr d'"
    using assms by (auto simp: load_group_def with_time_def Let_def split: option.splits if_splits)
  have "loading d1" by (rule loading_group [OF d(1,2)]) (simp add: members_ok_def reset_group_def)
  with group_conf_lines_loading [OF d(3)] show ?thesis by blast
qed

lemma load_group_entries_loading:
  "load_group_entries es d = Inr d' \<Longrightarrow> loading d \<Longrightarrow> loading d'"
proof (induction es arbitrary: d)
  case (Cons e es)
  have "loading (d\<lparr>groups := groups d @ [zero_group]\<rparr>)" if "int (length (groups d)) \<noteq> MAX_GROUPS"
    using Cons.prems(2) that by (auto simp: loading_def calm_def tables_ok_def members_ok_def zero_group_def)
  with Cons show ?case by (auto split: if_splits dest: load_group_loading)
qed simp

lemma startup_loaded:
  assumes "startup m pc gc qd d0 = Inr d" "\<forall>n. fork_result d0 n = -1 \<or> fork_result d0 n > 0" "active_printers d0 = 0"
    "\<forall>n. p_job_pid (raw_printer m n) = 0"
  shows "slots_ok d \<and> tables_ok d"
proof -
  obtain e d1 d2 where d: "state_update ''STARTUP'' d0 = Inr e" "load_printers m pc (question_init e) = Inr d1"
    "load_groups gc d1 = Inr d2" "initialize_queue qd d2 = Inr d" using assms(1) by (auto simp: startup_def)
  have "calm ((question_init e)\<lparr>printers := []\<rparr>)"
    using d(1) assms(2,3) by (auto simp: calm_def state_update_def emit_def question_init_def split: if_splits)
  then have c: "calm d1" "int (length (printers d1)) \<le> MAX_PRINTERS"
    using load_printer_entries_calm [OF d(2) [unfolded load_printers_def] _ _ assms(4)] by simp_all
  then have "loading (d1\<lparr>groups := []\<rparr>)" by (simp add: loading_def calm_def tables_ok_def)
  then have l: "loading d2" using load_group_entries_loading [OF d(3) [unfolded load_groups_def]] by blast
  have s: "slots_ok d2" using l calm_slots_ok by (simp add: loading_def)
  have "slots_ok d \<and> destinations d = destinations d2"
    using onR_D [OF okR_onR [OF destinations_inv.initialize_queue_I] d(4), of "destinations d2"] s by simp
  then show ?thesis using l tables_destinations [of d d2] by (simp add: loading_def)
qed

subsection \<open>A changed printer\<close>

lemma slots_ok_more:
  assumes "slots_ok d" "p_job_pid p = 0"
  shows "slots_ok (d\<lparr>printers := printers d @ [p]\<rparr>)"
  using assms by (auto simp: slots_ok_def running_def)

text \<open>A slot may be given any name and status while it has no driver.\<close>

lemma slots_ok_rename:
  assumes "slots_ok d" "get_printer i d = Inr p" "p_job_pid p = 0"
  shows "slots_ok (d\<lparr>printers := (printers d)[nat i := set_pstat st (p\<lparr>p_name := n\<rparr>)]\<rparr>)"
proof -
  have "slots_ok (d\<lparr>printers := upd_nth i (\<lambda>_. set_pstat st (p\<lparr>p_name := n\<rparr>)) (printers d), active_printers := active_printers d\<rparr>)"
    using assms slots_ok_printer [OF assms(1,2)] by (intro slots_ok_update [OF assms(1,2)]) (auto simp: set_pstat_def)
  then show ?thesis by (simp add: upd_nth_def)
qed

lemma reload_printer_slots_ok:
  assumes "reload_printer m i n d = Inr d'" "slots_ok d" "get_printer i d = Inr p" "p_name p = n"
  shows "slots_ok d'"
proof -
  obtain d1 d2 where d: "load_and_mount m i n d = Inr d1"
    "upd_printer i (restore_printer (pstat p) (p_ppop_pid p)) d1 = Inr d2"
    "bindE (foldE (clear_never i) [0..<length (queue d2)] d2) (\<lambda>d. bindE (media_update_notnow i d) (look_if_idle i)) = Inr d'"
    using assms(1,3) by (auto simp: reload_printer_def pstat_def)
  obtain st where s: "slots d1 = slots (d\<lparr>printers := (printers d)[nat i := set_pstat st (p\<lparr>p_name := n\<rparr>)]\<rparr>)"
    using load_and_mount_slots [OF d(1)] assms(3) by auto
  have i: "0 \<le> i" "nat i < length (printers d)" "p = printers d ! nat i" using assms(3) by (auto simp: get_printer_iff)
  have l: "length (printers d1) = length (printers d)" using slots_length [OF s] by simp
  have m: "map pslot (printers d1) = (map pslot (printers d))[nat i := (n, p_job_pid p, st)]"
    using s by (simp add: slots_def map_update) (simp add: pslot_def set_pstat_def pstat_def)
  have "pslot (printers d1 ! nat i) = (n, p_job_pid p, st)" using arg_cong [OF m, of "\<lambda>xs. xs ! nat i"] i(2) l by simp
  then have r: "pslot (restore_printer (pstat p) (p_ppop_pid p) (printers d1 ! nat i)) = pslot p"
    using assms(4) by (simp add: pslot_def restore_printer_def pstat_def)
  have "map pslot (printers d2) = (map pslot (printers d1))[nat i := pslot p]"
    using d(2) r by (auto simp: upd_printer_iff upd_nth_def map_update)
  also have "\<dots> = map pslot (printers d)" using m i by (simp add: list_update_same_conv)
  finally have "slots d2 = slots d" using s d(2) by (auto simp: slots_def upd_printer_iff)
  then have "slots_ok d2" using slots_ok_same [OF assms(2)] by blast
  then show ?thesis using onR_D [OF okR_onR [OF printers_inv.after_reload_I] d(3)] by blast
qed

lemma slots_ok_quiet [simp]: "slots_ok (lock d) = slots_ok d" "slots_ok (unlock d) = slots_ok d" "slots_ok (error msg d) = slots_ok d"
  by (rule printers_inv.quiet)+

lemma slots_ok_deleted:
  assumes "slots_ok d" "get_printer i d = Inr p"
  shows "slots_ok (d\<lparr>printers := upd_nth i mark_printer_deleted (printers d)\<rparr>)"
  using slots_ok_update [OF assms, of mark_printer_deleted "active_printers d"] slots_ok_printer [OF assms]
  by (simp add: mark_printer_deleted_def pstat_def)

lemma printer_slot_cases:
  assumes "printer_slot n d = x" "x < length (printers d)"
  shows "printer_matches n (printers d ! x) \<or> find_index (printer_matches n) (printers d) = length (printers d) \<and> pstat (printers d ! x) = PRNSTATUS_DELETED"
  using assms find_index_nth [of "printer_matches n" "printers d"]
    find_index_nth [of "\<lambda>p. ps_status (p_spool_state p) = PRNSTATUS_DELETED" "printers d"]
  by (auto simp: printer_slot_def Let_def pstat_def split: if_splits intro: le_neq_implies_less)

lemma new_printer_config_slots_ok:
  assumes "new_printer_config m n d = Inr d'" "slots_ok d"
    and "\<forall>k. p_job_pid (raw_printer m k) = 0" "\<forall>p \<in> set (printers d). pstat p = PRNSTATUS_DELETED \<longrightarrow> p_job_pid p = 0"
  shows "slots_ok d'"
proof -
  let ?x = "printer_slot n d"
  let ?new = "find_index (printer_matches n) (printers d) = length (printers d)"
  let ?e = "if ?x = length (printers d) then new_slot m (lock d) else lock d"
  have pl: "printer_slot n (lock d) = ?x" by (simp add: printer_slot_def)
  have e: "slots_ok ?e" using assms(2,3) slots_ok_more [of "lock d"] by (simp add: new_slot_def)
  have xle: "?x \<le> length (printers d)" by (simp add: printer_slot_def Let_def)
  then have g: "get_printer (int ?x) ?e = Inr (printers ?e ! ?x)" by (auto simp: get_printer_def new_slot_def)
  have pid: "p_job_pid (printers ?e ! ?x) = 0" if ?new
  proof (cases "?x = length (printers d)")
    case False
    with xle have x: "?x < length (printers d)" by simp
    then have "printers d ! ?x \<in> set (printers d)" by simp
    moreover have "pstat (printers d ! ?x) = PRNSTATUS_DELETED"
      using printer_slot_cases [OF refl x] that x find_index_eq_length_iff [of "printer_matches n" "printers d"] by auto
    ultimately show ?thesis using assms(4) False by simp
  qed (use assms(3) in \<open>simp add: new_slot_def nth_append\<close>)
  have nm: "p_name (printers ?e ! ?x) = n" if "\<not> ?new"
  proof -
    have "find_index (printer_matches n) (printers d) < length (printers d)"
      using that find_index_le [of "printer_matches n" "printers d"] by linarith
    with find_index_nth [OF this] show ?thesis by (simp add: printer_slot_def Let_def printer_matches_def)
  qed
  have st: "slots_ok e2" if "state_update l ?e = Inr e2" for l e2
    using that e onR_D [OF okR_onR [OF printers_inv.state_update_I]] by blast
  have gs: "get_printer i e2 = get_printer i ?e" if "state_update l ?e = Inr e2" for l e2 i
    using that by (auto simp: state_update_def split: if_splits)
  have ps: "printers e2 = printers ?e" if "state_update l ?e = Inr e2" for l e2
    using that by (auto simp: state_update_def split: if_splits)
  have "slots_ok e3" if h: "load_and_mount m (int ?x) n e2 = Inr e3" "state_update l ?e = Inr e2" "?new" for l e2 e3
  proof -
    obtain p st' where "get_printer (int ?x) e2 = Inr p"
      "slots e3 = slots (e2\<lparr>printers := (printers e2)[nat (int ?x) := set_pstat st' (p\<lparr>p_name := n\<rparr>)]\<rparr>)"
      using load_and_mount_slots [OF h(1)] by blast
    moreover from this have "p_job_pid p = 0" using gs [OF h(2), of "int ?x"] g pid h(3) by simp
    ultimately show ?thesis using slots_ok_rename [OF st [OF h(2)]] slots_ok_same by blast
  qed
  moreover have "slots_ok e3" if "reload_printer m (int ?x) n e2 = Inr e3" "state_update l ?e = Inr e2" "\<not> ?new" for l e2 e3
    using reload_printer_slots_ok [OF that(1) st [OF that(2)]] gs [OF that(2), of "int ?x"] g nm that(3) by simp
  moreover have "slots_ok e3" if "upd_printer (int ?x) mark_printer_deleted e2 = Inr e3" "state_update l ?e = Inr e2" for l e2 e3
    using that slots_ok_deleted [OF st [OF that(2)], of "int ?x"] gs [OF that(2), of "int ?x"] g by (auto simp: upd_printer_iff)
  ultimately show ?thesis
    using assms(1,2) e unfolding new_printer_config_def Let_def pl
    by (auto split: if_splits)
qed

subsection \<open>The commands of the FIFO\<close>

lemma strsep_shrinks:
  assumes "gu_strsep (Some s) delim = (Some ptr, Some rest)"
  shows "length rest < length s"
  using assms by (auto simp: Let_def split: if_splits)

lemma fifo_loop_fuel:
  assumes "rounds next \<le> n"
  shows "fifo_loop n m next d = fifo_loop (rounds next) m next d"
  using assms
proof (induction "rounds next" arbitrary: n "next" d rule: less_induct)
  case less
  show ?case
  proof (cases "next")
    case None
    then show ?thesis by (subst (1 2) fifo_loop.simps) simp
  next
    case (Some s)
    then obtain k where k: "n = Suc k" "length s \<le> k" using less.prems by (cases n) (auto simp: rounds_def)
    obtain ptr rest where p: "gu_strsep (Some s) [CHR 0x0A] = (Some ptr, rest)"
      by (cases "strcspn s [CHR 0x0A] < length s") (auto simp: Let_def)
    have r: "rounds rest \<le> length s" using strsep_shrinks [of s _ ptr] p by (cases rest) (auto simp: rounds_def Suc_le_eq simp del: gu_strsep.simps)
    then have l: "rounds rest < rounds next" using Some by (simp add: rounds_def)
    have "fifo_loop k m rest = fifo_loop (length s) m rest"
      by (rule ext) (use less.hyps [OF l, of k] less.hyps [OF l, of "length s"] r k(2) in simp)
    then show ?thesis
      unfolding k(1) Some rounds_def option.case by (subst (1 2) fifo_loop.simps) (simp add: p del: gu_strsep.simps)
  qed
qed

section \<open>Properties\<close>




text \<open>
  Reloading a group does not look for work for its members: after the command the group's job still
  waits and its printers are idle, although the search for this group starts the job at once.
\<close>

theorem group_reload_looks_elsewhere:
  "returns (new_group_config ''pool'' example_regroup) (\<lambda>d.
     map q_status (queue d) = [STATUS_WAITING] \<and> list_all (\<lambda>p. pstat p = PRNSTATUS_IDLE) (printers d)
     \<and> returns (group_look_for_work 0 (lock d)) (\<lambda>d. map q_status (queue d) = [0]))"
  by code_simp

end
