(* ===== verification/Ipp_Orders.thy ===== *)
theory Ipp_Orders
  imports Orders
begin

text \<open>Properties of the requests from the socket.\<close>

section \<open>Lemmas\<close>

lemma printer_lookup_fails: "\<forall>p \<in> set (printers d). p_name p \<noteq> n \<Longrightarrow> destid_by_printer n d = -1"
  by (auto simp: destid_by_printer_def Let_def find_index_less_iff printer_matches_def)

lemma group_lookup_fails: "\<forall>g \<in> set (groups d). g_name g \<noteq> n \<Longrightarrow> destid_by_group n d = Inr (-1)"
  by (auto simp: destid_by_group_def Let_def find_index_less_iff group_matches_def)

section \<open>Properties\<close>

text \<open>
  An IPP cancel request has the effect of a ppop cancel order on all destinations: it removes exactly
  the jobs with that id that are not being printed, whatever their destination and subid, keeps the order
  of the others, and reports success exactly when there was such a job.
\<close>

theorem ipp_cancel_exact:
  assumes "ipp_cancel_job args d = Inr (r, d')" "distinct (map job_key (queue d))"
    and "sel = (\<lambda>q. c_atoi args = WILDCARD_JOBID \<or> q_id q = c_atoi args)"
  shows "map job_key (queue d') = map job_key (filter (\<lambda>q. \<not> (sel q \<and> removable q)) (queue d))
    \<and> status_code r = (if \<exists>q \<in> set (queue d). sel q then IPP_OK else IPP_NOT_FOUND)"
proof -
  have s: "job_in_set QUEUEID_WILDCARD (c_atoi args) WILDCARD_SUBID = sel" by (auto simp: job_in_set_def assms(3))
  obtain c e where e: "cancel_loop (length (queue d)) sel ''ipp_cancel_job_core'' True 0 0 (lock d) = Inr (c, e)"
    "r = new_retval (if c = 0 then IPP_NOT_FOUND else IPP_OK) 0" "queue d' = queue e"
    using assms(1) unfolding s [symmetric] by (auto simp: ipp_cancel_job_def ipp_cancel_job_core_def Let_def)
  have "c = int (length (filter sel (queue d)))" "map job_key (queue e) = map job_key (filter (\<lambda>q. \<not> (sel q \<and> removable q)) (queue d))"
    using cancel_loop_exact [OF e(1)] assms(2) by auto
  then show ?thesis using e(2,3) by (auto simp: new_retval_def filter_empty_conv)
qed

theorem ipp_cancel_exact_witness:
  "\<exists>r d'. ipp_cancel_job ''8'' example_busy = Inr (r, d') \<and> map job_key (queue d') = [(0, 7, 0)] \<and> status_code r = IPP_OK"
proof -
  have "returns (ipp_cancel_job ''8'' example_busy) (\<lambda>_. True)" and a: "c_atoi ''8'' = 8" by code_simp+
  then obtain r d' where d': "ipp_cancel_job ''8'' example_busy = Inr (r, d')" by (auto simp: returns_iff)
  have "distinct (map job_key (queue example_busy))" by (simp add: job_key_def example_job_def)
  from ipp_cancel_exact [OF d' this refl] d' a show ?thesis
    by (simp add: removable_def example_job_def job_key_def)
qed

text \<open>
  An IPP purge request never purges anything: the lookup gets the whole argument text, which contains a
  space, instead of the name, so that it fails for every destination and the state does not change.
\<close>

theorem ipp_purge_fails:
  assumes "CHR '' '' \<in> set args" "\<forall>p \<in> set (printers d). CHR '' '' \<notin> set (p_name p)" "\<forall>g \<in> set (groups d). CHR '' '' \<notin> set (g_name g)"
  shows "\<exists>r. ipp_purge_jobs args d = Inr (r, d) \<and> status_code r \<in> {IPP_NOT_FOUND, IPP_INTERNAL_ERROR}"
proof -
  have "destid_by_group args d = Inr (-1)" "destid_by_printer args d = -1"
    using assms by (intro group_lookup_fails printer_lookup_fails; blast)+
  then show ?thesis by (simp add: ipp_purge_jobs_def new_retval_def)
qed

theorem ipp_purge_fails_witness:
  "\<exists>r. ipp_purge_jobs ''printer laser'' example_busy = Inr (r, example_busy) \<and> status_code r \<in> {IPP_NOT_FOUND, IPP_INTERNAL_ERROR}"
  by (rule ipp_purge_fails) (auto simp: example_busy_def example_printer_def)

end
