(* ===== verification/Automaton.thy ===== *)
theory Automaton
  imports Orders
begin

text \<open>
  The abstract specification of a printer's slot, and that the daemon implements it: every operation
  moves every slot along the transitions of \<open>slot_move\<close>.
\<close>

section \<open>Definitions\<close>

text \<open>
  A driver starts on an idle printer, and ends. While it runs the status changes only between those of
  a busy printer; a printer without a driver may change to any status. A deleted printer does not change
  its status.
\<close>

inductive slot_move :: "string \<times> int \<times> int \<Rightarrow> string \<times> int \<times> int \<Rightarrow> bool" where
  start: "pid > 0 \<Longrightarrow> slot_move (n, 0, PRNSTATUS_IDLE) (n, pid, PRNSTATUS_PRINTING)"
| finish: "pid > 0 \<Longrightarrow> slot_move (n, pid, s) (n, 0, s)"
| order: "s \<noteq> PRNSTATUS_DELETED \<Longrightarrow> busy s' \<Longrightarrow> slot_move (n, pid, s) (n, pid, s')"
| settle: "s \<noteq> PRNSTATUS_DELETED \<Longrightarrow> s' \<noteq> PRNSTATUS_DELETED \<Longrightarrow> slot_move (n, 0, s) (n, 0, s')"

definition moved_from :: "(string \<times> int \<times> int) list \<Rightarrow> daemon \<Rightarrow> bool" where
  "moved_from S d \<longleftrightarrow> list_all2 slot_move\<^sup>*\<^sup>* S (map pslot (printers d))"

section \<open>Lemmas\<close>

lemma moved_from_upd:
  assumes "moved_from S d" "get_printer i d = Inr p" "slot_move (pslot p) (pslot (f p))"
  shows "moved_from S (d\<lparr>printers := upd_nth i f (printers d)\<rparr>)"
proof -
  have p: "nat i < length (printers d)" "p = printers d ! nat i" using assms(2) by (auto simp: get_printer_iff)
  have a: "list_all2 slot_move\<^sup>*\<^sup>* S (map pslot (printers d))" using assms(1) by (simp add: moved_from_def)
  then have "slot_move\<^sup>*\<^sup>* (S ! nat i) (pslot p)" using p list_all2_nthD2 [OF a, of "nat i"] by simp
  then have "slot_move\<^sup>*\<^sup>* (S ! nat i) (pslot (f p))" using assms(3) by (rule rtranclp.rtrancl_into_rtrancl)
  with a p list_all2_lengthD [OF a] show ?thesis
    by (auto simp: moved_from_def upd_nth_def map_update list_all2_conv_all_nth nth_list_update)
qed

lemma moved_from_active [simp]:
  "moved_from S (d\<lparr>active_printers := a\<rparr>) = moved_from S d"
  "moved_from S (d\<lparr>active_printers := a, printers := ps\<rparr>) = moved_from S (d\<lparr>printers := ps\<rparr>)"
  "moved_from S (d\<lparr>printers := ps, active_printers := a\<rparr>) = moved_from S (d\<lparr>printers := ps\<rparr>)"
  by (simp_all add: moved_from_def)

interpretation automaton: slot_invariant "\<lambda>d. slots_ok d \<and> moved_from S d" for S
proof
  fix d i p
  assume I: "slots_ok d \<and> moved_from S d" and g: "get_printer i d = Inr p"
  show "p_job_pid p = 0" if "\<not> busy (pstat p)" "pstat p \<noteq> PRNSTATUS_DELETED"
    using printers_inv.resting [OF _ g that] I by blast
  show "slots_ok (d\<lparr>printers := upd_nth i (set_pstat PRNSTATUS_STARVED) (printers d)\<rparr>)
      \<and> moved_from S (d\<lparr>printers := upd_nth i (set_pstat PRNSTATUS_STARVED) (printers d)\<rparr>)" if s: "pstat p = PRNSTATUS_IDLE"
  proof -
    have "p_job_pid p = 0" using printers_inv.resting [OF _ g] I s by auto
    then have "slot_move (pslot p) (pslot (set_pstat PRNSTATUS_STARVED p))"
      using s by (auto simp: pslot_def set_pstat_def pstat_def intro: slot_move.settle)
    then show ?thesis using I printers_inv.starved [OF _ g s] moved_from_upd [OF _ g] by blast
  qed
  show "slots_ok (d\<lparr>active_printers := active_printers d + 1,
      printers := upd_nth i (\<lambda>p. set_pstat PRNSTATUS_PRINTING (p\<lparr>p_job_pid := pid\<rparr>)) (printers d)\<rparr>)
      \<and> moved_from S (d\<lparr>active_printers := active_printers d + 1,
      printers := upd_nth i (\<lambda>p. set_pstat PRNSTATUS_PRINTING (p\<lparr>p_job_pid := pid\<rparr>)) (printers d)\<rparr>)"
    if s: "pstat p = PRNSTATUS_IDLE" "active_printers d \<noteq> MAX_ACTIVE" "pid > 0" for pid
  proof -
    have "p_job_pid p = 0" using printers_inv.resting [OF _ g] I s by auto
    then have "slot_move (pslot p) (pslot (set_pstat PRNSTATUS_PRINTING (p\<lparr>p_job_pid := pid\<rparr>)))"
      using s slot_move.start [OF s(3), of "p_name p"] by (simp add: pslot_def set_pstat_def pstat_def)
    then show ?thesis
      using I printers_inv.started [OF _ g s] moved_from_upd [OF _ g, of S "\<lambda>p. set_pstat PRNSTATUS_PRINTING (p\<lparr>p_job_pid := pid\<rparr>)"] by simp
  qed
  show "slots_ok (d\<lparr>printers := upd_nth i (set_pstat s) (printers d)\<rparr>) \<and> moved_from S (d\<lparr>printers := upd_nth i (set_pstat s) (printers d)\<rparr>)"
    if s: "pstat p \<noteq> PRNSTATUS_DELETED" "busy s \<or> p_job_pid p = 0" "s \<noteq> PRNSTATUS_DELETED" for s
  proof -
    have "slot_move (pslot p) (pslot (set_pstat s p))"
      using s by (auto simp: pslot_def set_pstat_def pstat_def intro: slot_move.order slot_move.settle)
    then show ?thesis using I printers_inv.new_status [OF _ g s] moved_from_upd [OF _ g] by blast
  qed
  show "slots_ok (d\<lparr>printers := upd_nth i (\<lambda>p. p\<lparr>p_job_pid := 0\<rparr>) (printers d), active_printers := active_printers d - 1\<rparr>)
     \<and> moved_from S (d\<lparr>printers := upd_nth i (\<lambda>p. p\<lparr>p_job_pid := 0\<rparr>) (printers d), active_printers := active_printers d - 1\<rparr>)"
    if s: "p_job_pid p > 0"
  proof -
    have "slot_move (pslot p) (pslot (p\<lparr>p_job_pid := 0\<rparr>))"
      using slot_move.finish [OF s] by (simp add: pslot_def pstat_def)
    then show ?thesis
      using I printers_inv.exited [OF _ g s] moved_from_upd [OF _ g, of S "\<lambda>p. p\<lparr>p_job_pid := 0\<rparr>"] by simp
  qed
next
  show "slots_ok d' \<and> moved_from S d'" if "slots_ok d \<and> moved_from S d" "slots d' = slots d" for d d'
    using that slots_ok_same [of d d'] slots_pslots [of d' d] by (simp add: moved_from_def)
  show "fork_result d n = -1 \<or> fork_result d n > 0" if "slots_ok d \<and> moved_from S d" for d n
    using that slots_ok_fork by blast
qed

lemma slot_move_deleted:
  assumes "slot_move\<^sup>*\<^sup>* a b" "snd (snd a) = PRNSTATUS_DELETED"
  shows "snd (snd b) = PRNSTATUS_DELETED"
  using assms by (induction rule: rtranclp_induct) (auto elim: slot_move.cases)

end
