(* ===== verification/Pagemask.thy ===== *)
theory Pagemask
  imports Libgu
begin

unbundle bit_operations_syntax

text \<open>
  Page lists (\<^verbatim>\<open>libppr/pagemask.c\<close>): the user's list of pages to print becomes a mask of six pages to a
  printable byte, which travels in the queue file from \<^verbatim>\<open>ppr\<close> to \<^verbatim>\<open>pprdrv\<close>.
\<close>

section \<open>Definitions\<close>

text \<open>Division and remainder of C, which truncate towards zero; the divisor is not 0.\<close>

definition c_div :: "int \<Rightarrow> int \<Rightarrow> int" where
  "c_div a b = (if (a < 0) = (b < 0) then \<bar>a\<bar> div \<bar>b\<bar> else - (\<bar>a\<bar> div \<bar>b\<bar>))"

definition c_mod :: "int \<Rightarrow> int \<Rightarrow> int" where
  "c_mod a b = a - c_div a b * b"

text \<open>The members of \<^verbatim>\<open>struct QEntryFile\<close> that matter here; the NUL at the end of the mask is left out.\<close>

record page_job =
  attr_pages :: int
  pl_mask :: "int list option"
  pl_count :: int

text \<open>
  Setting the bit of one page. For page 0 the source shifts by a negative amount.
\<close>

definition set_page :: "int \<Rightarrow> int list \<Rightarrow> gu_err + int list" where
  "set_page page msk =
     (let offset = page - 1 in
      if offset < 0 then Inl (GuUB ''shift by a negative amount'')
      else if \<not> nat (offset div 6) < length msk then Inl (GuUB ''page_list.mask[] index out of range'')
      else Inr (msk[nat (offset div 6) := msk ! nat (offset div 6) OR 2 ^ nat (offset mod 6)]))"

text \<open>The two loops that run \<^verbatim>\<open>page\<close> up to a last page; the result has the new value of \<^verbatim>\<open>page\<close>.\<close>

definition run_pages :: "int \<Rightarrow> int \<Rightarrow> int list \<Rightarrow> gu_err + int \<times> int list" where
  "run_pages page upto_page msk =
     bindE (foldE set_page [page..upto_page] msk) (\<lambda>msk. Inr (max page (upto_page + 1), msk))"

text \<open>The state of the parser: what is left of the text, \<^verbatim>\<open>range\<close>, \<^verbatim>\<open>page\<close>, and the mask.\<close>

type_synonym mask_state = "string \<times> bool \<times> int \<times> int list"

definition mask_number :: "int \<Rightarrow> mask_state \<Rightarrow> gu_err + mask_state" where
  "mask_number pages s =
     (case s of (p, ranged, page, msk) \<Rightarrow>
        let ds = takeWhile gu_ascii_isdigit p; v = c_atoi p in
        if v \<ge> 2 ^ 31 then Inl (GuUB ''atoi(): value out of range'')
        else
          bindE (run_pages (if ranged then page else v) (min v pages) msk) (\<lambda>(page, msk).
            Inr (drop (length ds) p, False, if ranged then 1 else page, msk)))"

text \<open>The inner loop, which ends after a comma or at the end; \<open>False\<close> is an invalid character.\<close>

fun mask_inner :: "nat \<Rightarrow> int \<Rightarrow> mask_state \<Rightarrow> gu_err + bool \<times> mask_state" where
  "mask_inner fuel pages (p, ranged, page, msk) =
     (if p = [] then Inr (True, p, ranged, page, msk)
      else case fuel of
        0 \<Rightarrow> Inl (GuUB ''mask_inner: out of fuel'')
      | Suc n \<Rightarrow>
          if gu_ascii_isspace (hd p) then mask_inner n pages (tl p, ranged, page, msk)
          else if gu_ascii_isdigit (hd p)
          then bindE (mask_number pages (p, ranged, page, msk)) (mask_inner n pages)
          else if hd p = CHR '','' then Inr (True, tl p, ranged, page, msk)
          else if hd p = CHR ''-'' then mask_inner n pages (tl p, True, page, msk)
          else Inr (False, p, ranged, page, msk))"

declare mask_inner.simps [simp del]

text \<open>The outer loop, which closes an open range at each comma and at the end.\<close>

fun mask_outer :: "nat \<Rightarrow> int \<Rightarrow> mask_state \<Rightarrow> gu_err + bool \<times> int list" where
  "mask_outer fuel pages (p, ranged, page, msk) =
     (if p = [] then Inr (True, msk)
      else case fuel of
        0 \<Rightarrow> Inl (GuUB ''mask_outer: out of fuel'')
      | Suc n \<Rightarrow>
          bindE (mask_inner (length p) pages (p, ranged, page, msk)) (\<lambda>(valid, p, ranged, page, msk).
            if \<not> valid then Inr (False, msk)
            else if ranged then
              bindE (run_pages page pages msk) (\<lambda>(page, msk). mask_outer n pages (p, False, page, msk))
            else mask_outer n pages (p, False, page, msk)))"

declare mask_outer.simps [simp del]

definition count_bits :: "int \<Rightarrow> int" where
  "count_bits byte = int (length (filter (\<lambda>y. byte AND 2 ^ y \<noteq> 0) [0..<6]))"

definition mask_bytes :: "int \<Rightarrow> int" where
  "mask_bytes pages = c_div (pages + 5) 6"

text \<open>
  After an invalid character the job keeps the mask made so far, without the addition of 33, and its old count.
\<close>

definition pagemask_encode :: "string \<Rightarrow> 'a page_job_scheme \<Rightarrow> gu_err + int \<times> 'a page_job_scheme" where
  "pagemask_encode pages job =
     (let bytes = mask_bytes (attr_pages job) in
      if attr_pages job + 5 \<ge> 2 ^ 31 then Inl (GuUB ''attr.pages + 5: signed overflow'')
      else if bytes + 1 < 0 then Inl (GuUB ''allocation of a negative size'')
      else
        bindE (mask_outer (length pages) (attr_pages job) (pages, False, 1, replicate (nat bytes) 0)) (\<lambda>(valid, msk).
          if \<not> valid then Inr (-1, job\<lparr>pl_mask := Some msk\<rparr>)
          else Inr (0, job\<lparr>pl_count := sum_list (map count_bits msk), pl_mask := Some (map (\<lambda>b. b + 33) msk)\<rparr>)))"

definition pagemask_get_bit :: "'a page_job_scheme \<Rightarrow> int \<Rightarrow> int" where
  "pagemask_get_bit job page =
     (case pl_mask job of
        None \<Rightarrow> 1
      | Some msk \<Rightarrow>
          if page \<le> 0 \<or> page > attr_pages job then 1
          else let offset = page - 1 in
               if (msk ! nat (offset div 6) - 33) AND 2 ^ nat (offset mod 6) \<noteq> 0 then 1 else 0)"

definition pagemask_count :: "'a page_job_scheme \<Rightarrow> int" where
  "pagemask_count job = (if pl_mask job \<noteq> None then pl_count job else attr_pages job)"

definition pagemask_print :: "'a page_job_scheme \<Rightarrow> string" where
  "pagemask_print job =
     (if pl_mask job \<noteq> None
      then concat (map (\<lambda>x. if pagemask_get_bit job x \<noteq> 0 then print_d x @ '' '' else []) [1..attr_pages job])
      else [])"

subsection \<open>Reference definitions\<close>

text \<open>
  A page list as the manual describes it, pages and ranges separated by commas or spaces, and open ranges
  besides. Each item comes with the separator that follows it when it is not the last.
\<close>

datatype page_item = Page nat | Range nat nat | From nat

fun item_text :: "page_item \<Rightarrow> string" where
  "item_text (Page a) = print_d (int a)"
| "item_text (Range a b) = print_d (int a) @ ''-'' @ print_d (int b)"
| "item_text (From a) = print_d (int a) @ ''-''"

fun items_text :: "(page_item \<times> char) list \<Rightarrow> string" where
  "items_text [] = []"
| "items_text [(i, c)] = item_text i"
| "items_text ((i, c) # j # is) = item_text i @ c # items_text (j # is)"

fun item_pages :: "page_item \<Rightarrow> int set" where
  "item_pages (Page a) = {int a}"
| "item_pages (Range a b) = insert (int a) {int a..int b}"
| "item_pages (From a) = {int a..}"

fun item_ok :: "page_item \<Rightarrow> bool" where
  "item_ok (Page a) \<longleftrightarrow> 0 < a \<and> a < 2 ^ 31"
| "item_ok (Range a b) \<longleftrightarrow> 0 < a \<and> a < 2 ^ 31 \<and> b < 2 ^ 31"
| "item_ok (From a) \<longleftrightarrow> 0 < a \<and> a < 2 ^ 31"

text \<open>An open range has to be followed by a comma.\<close>

definition separated :: "page_item \<times> char \<Rightarrow> bool" where
  "separated ic \<longleftrightarrow> snd ic = CHR '','' \<or> (snd ic = CHR '' '' \<and> (\<forall>a. fst ic \<noteq> From a))"

text \<open>The pages whose bits are set.\<close>

definition mask_pages :: "int list \<Rightarrow> int set" where
  "mask_pages msk = {p. 0 < p \<and> nat ((p - 1) div 6) < length msk \<and> bit (msk ! nat ((p - 1) div 6)) (nat ((p - 1) mod 6))}"

text \<open>The part of a set of pages that lies in the document, and the values of a byte of the mask before the addition of 33.\<close>

definition shown :: "int \<Rightarrow> int set \<Rightarrow> int set" where
  "shown pages A = A \<inter> {1..pages}"

definition six_bits :: "int list \<Rightarrow> bool" where
  "six_bits msk \<longleftrightarrow> (\<forall>b \<in> set msk. 0 \<le> b \<and> b < 64)"

text \<open>What the outer loop does after the inner one.\<close>

definition outer_next :: "nat \<Rightarrow> int \<Rightarrow> bool \<times> mask_state \<Rightarrow> gu_err + bool \<times> int list" where
  "outer_next n pages r =
     (case r of (valid, p, ranged, page, msk) \<Rightarrow>
        if \<not> valid then Inr (False, msk)
        else if ranged then
          bindE (run_pages page pages msk) (\<lambda>(page, msk). mask_outer n pages (p, False, page, msk))
        else mask_outer n pages (p, False, page, msk))"

section \<open>Lemmas\<close>

lemma c_div_nonneg [simp]: "0 \<le> a \<Longrightarrow> 0 < b \<Longrightarrow> c_div a b = a div b"
  by (simp add: c_div_def)

lemma c_mod_nonneg [simp]: "0 \<le> a \<Longrightarrow> 0 < b \<Longrightarrow> c_mod a b = a mod b"
  by (simp add: c_mod_def minus_div_mult_eq_mod)

lemma set_page_ok:
  assumes "0 < page" "page \<le> 6 * int (length msk)"
  shows "\<exists>msk'. set_page page msk = Inr msk' \<and> length msk' = length msk \<and> mask_pages msk' = insert page (mask_pages msk)"
proof -
  let ?i = "nat ((page - 1) div 6)"
  let ?msk = "msk[?i := msk ! ?i OR 2 ^ nat ((page - 1) mod 6)]"
  have i: "?i < length msk" using assms by (simp add: nat_less_iff)
  have "p = page" if "0 < p" "nat ((p - 1) div 6) = ?i" "nat ((p - 1) mod 6) = nat ((page - 1) mod 6)" for p
  proof -
    have "(p - 1) div 6 = (page - 1) div 6" "(p - 1) mod 6 = (page - 1) mod 6"
      using that assms(1) by (simp_all add: eq_nat_nat_iff pos_imp_zdiv_nonneg_iff)
    then have "p - 1 = page - 1" by (metis mult_div_mod_eq)
    then show ?thesis by simp
  qed
  then have "mask_pages ?msk = insert page (mask_pages msk)"
    using assms(1) i by (auto simp: mask_pages_def nth_list_update bit_or_iff bit_2_iff bit_exp_iff)
  then show ?thesis using assms(1) i by (simp add: set_page_def Let_def)
qed

lemma set_pages_ok:
  assumes "\<forall>p \<in> set ps. 0 < p \<and> p \<le> 6 * int (length msk)"
  shows "\<exists>msk'. foldE set_page ps msk = Inr msk' \<and> length msk' = length msk \<and> mask_pages msk' = set ps \<union> mask_pages msk"
  using assms
proof (induction ps arbitrary: msk)
  case (Cons p ps)
  obtain m1 where m1: "set_page p msk = Inr m1" "length m1 = length msk" "mask_pages m1 = insert p (mask_pages msk)"
    using set_page_ok [of p msk] Cons.prems by auto
  with Cons.IH [of m1] Cons.prems show ?case by auto
qed simp

lemma run_pages_ok:
  assumes "0 < page" "u \<le> 6 * int (length msk)"
  shows "\<exists>msk'. run_pages page u msk = Inr (max page (u + 1), msk') \<and> length msk' = length msk
    \<and> mask_pages msk' = {page..u} \<union> mask_pages msk"
  using set_pages_ok [of "[page..u]" msk] assms by (auto simp: run_pages_def)

text \<open>Fuel as long as the text is enough.\<close>

lemma mask_inner_fuel:
  "length (fst s) \<le> n \<Longrightarrow> mask_inner n pages s = mask_inner (length (fst s)) pages s"
proof (induction n arbitrary: s rule: less_induct)
  case (less n)
  obtain p ranged page msk where s: "s = (p, ranged, page, msk)" by (cases s) auto
  show ?case
  proof (cases p)
    case Nil
    then show ?thesis by (simp add: s mask_inner.simps)
  next
    case (Cons c cs)
    then obtain m where m: "n = Suc m" using less.prems s by (cases n) auto
    have eq: "mask_inner m pages t = mask_inner (length cs) pages t" if "length (fst t) \<le> length cs" for t
    proof -
      have "length cs \<le> m" using less.prems s Cons m by simp
      then have "mask_inner m pages t = mask_inner (length (fst t)) pages t" using less.IH [of m t] m that by simp
      moreover have "mask_inner (length cs) pages t = mask_inner (length (fst t)) pages t"
        using less.IH [of "length cs" t] less.prems s Cons m that by simp
      ultimately show ?thesis by simp
    qed
    have "length (fst t) \<le> length cs" if "mask_number pages (p, ranged, page, msk) = Inr t" "gu_ascii_isdigit c" for t
      using that Cons by (auto simp: mask_number_def Let_def split: if_splits)
    with eq show ?thesis
      unfolding s Cons m by (subst (1 2) mask_inner.simps) (auto simp: bindE_def split: sum.split)
  qed
qed

lemma atoi_print:
  assumes "ends_number gu_ascii_isdigit rest"
  shows "c_atoi (print_d (int a) @ rest) = int a" "takeWhile gu_ascii_isdigit (print_d (int a) @ rest) = print_d (int a)"
proof -
  have d: "print_d (int a) = print_nat 10 a" by (simp add: print_d_def)
  show t: "takeWhile gu_ascii_isdigit (print_d (int a) @ rest) = print_d (int a)"
    using takeWhile_ends [OF all_digits assms, of a] by (simp add: d)
  have h: "hd (print_nat 10 a @ rest) = hd (print_nat 10 a)" by simp
  have "gu_ascii_isdigit (hd (print_nat 10 a))" by (rule hd_print_nat_digit)
  then have n: "\<not> gu_ascii_isspace (hd (print_nat 10 a @ rest))" "hd (print_nat 10 a @ rest) \<noteq> CHR ''-''" "hd (print_nat 10 a @ rest) \<noteq> CHR ''+''"
    unfolding h by (auto simp: gu_ascii_isspace_def gu_ascii_isdigit_def)
  have "dropWhile gu_ascii_isspace (print_nat 10 a @ rest) = print_nat 10 a @ rest"
    using n(1) by (cases "print_nat 10 a @ rest") auto
  then show "c_atoi (print_d (int a) @ rest) = int a"
    using n t scan_number_print [of a] by (simp add: c_atoi_def Let_def d scan_number_def)
qed

lemma mask_number_ok:
  assumes "ends_number gu_ascii_isdigit rest" "a < 2 ^ 31" "0 < page" "ranged \<or> 0 < a" "pages \<le> 6 * int (length msk)"
  shows "\<exists>page' msk'. mask_number pages (print_d (int a) @ rest, ranged, page, msk) = Inr (rest, False, page', msk')
    \<and> length msk' = length msk \<and> 0 < page' \<and> (\<not> ranged \<longrightarrow> page' = int a + 1 \<or> page' > pages \<and> page' = int a)
    \<and> mask_pages msk' = shown pages {if ranged then page else int a..int a} \<union> mask_pages msk"
proof -
  have v: "\<not> int a \<ge> 2 ^ 31" using assms(2) by simp
  let ?from = "if ranged then page else int a"
  have f: "0 < ?from" using assms(3,4) by auto
  have u: "min (int a) pages \<le> 6 * int (length msk)" using assms(5) by simp
  obtain m where m: "run_pages ?from (min (int a) pages) msk = Inr (max ?from (min (int a) pages + 1), m)" "length m = length msk"
    "mask_pages m = {?from..min (int a) pages} \<union> mask_pages msk"
    using run_pages_ok [OF f u] by blast
  have s: "{?from..min (int a) pages} = shown pages {?from..int a}" using f by (auto simp: shown_def)
  show ?thesis
    using m v atoi_print [OF assms(1), of a] f unfolding s
    by (auto simp: mask_number_def Let_def)
qed

text \<open>One step of the inner loop, whatever the fuel.\<close>

lemma mask_inner_step:
  assumes "p \<noteq> []" "length p \<le> n"
  shows "mask_inner n pages (p, ranged, page, msk) =
     (if gu_ascii_isspace (hd p) then mask_inner n pages (tl p, ranged, page, msk)
      else if gu_ascii_isdigit (hd p) then bindE (mask_number pages (p, ranged, page, msk)) (mask_inner n pages)
      else if hd p = CHR '','' then Inr (True, tl p, ranged, page, msk)
      else if hd p = CHR ''-'' then mask_inner n pages (tl p, True, page, msk) else Inr (False, p, ranged, page, msk))"
proof -
  obtain m where m: "n = Suc m" using assms by (cases n) auto
  have eq: "mask_inner m pages t = mask_inner n pages t" if "length (fst t) < length p" for t
    using mask_inner_fuel [of t m pages] mask_inner_fuel [of t n pages] that assms(2) m by simp
  have "length (fst t) < length p" if "mask_number pages (p, ranged, page, msk) = Inr t" "gu_ascii_isdigit (hd p)" for t
    using that assms(1) by (cases p) (auto simp: mask_number_def Let_def split: if_splits)
  with eq assms(1) show ?thesis
    unfolding m by (subst mask_inner.simps) (auto simp: bindE_def split: sum.split)
qed

lemma mask_inner_number:
  assumes "ends_number gu_ascii_isdigit rest" "a < 2 ^ 31" "0 < page" "ranged \<or> 0 < a" "pages \<le> 6 * int (length msk)"
    "length (print_d (int a) @ rest) \<le> n"
  shows "\<exists>page' msk'. mask_inner n pages (print_d (int a) @ rest, ranged, page, msk) = mask_inner n pages (rest, False, page', msk')
    \<and> length msk' = length msk \<and> 0 < page' \<and> (\<not> ranged \<longrightarrow> page' = int a + 1 \<or> page' > pages \<and> page' = int a)
    \<and> mask_pages msk' = shown pages {if ranged then page else int a..int a} \<union> mask_pages msk"
proof -
  obtain page' msk' where *: "mask_number pages (print_d (int a) @ rest, ranged, page, msk) = Inr (rest, False, page', msk')"
    "length msk' = length msk" "0 < page'" "\<not> ranged \<longrightarrow> page' = int a + 1 \<or> page' > pages \<and> page' = int a"
    "mask_pages msk' = shown pages {if ranged then page else int a..int a} \<union> mask_pages msk"
    using mask_number_ok [OF assms(1-5)] by blast
  have h: "gu_ascii_isdigit (hd (print_d (int a) @ rest))" "\<not> gu_ascii_isspace (hd (print_d (int a) @ rest))"
    using hd_print_nat_digit [of a] hd_print_d_not_space [of "int a"] by (simp_all add: print_d_def)
  have "mask_inner n pages (print_d (int a) @ rest, ranged, page, msk) = mask_inner n pages (rest, False, page', msk')"
    using assms(6) h *(1) by (subst mask_inner_step) auto
  with * show ?thesis by blast
qed

lemma mask_inner_hyphen:
  "length (CHR ''-'' # rest) \<le> n \<Longrightarrow> mask_inner n pages (CHR ''-'' # rest, ranged, page, msk) = mask_inner n pages (rest, True, page, msk)"
  by (subst mask_inner_step) (auto simp: gu_ascii_isspace_def)

text \<open>After an item: a range is open exactly when the item is an open range, which is then still to be run.\<close>

lemma mask_inner_item:
  assumes "item_ok it" "ends_number gu_ascii_isdigit rest" "0 < page" "pages \<le> 6 * int (length msk)" "length (item_text it @ rest) \<le> n"
  shows "\<exists>page' msk'. mask_inner n pages (item_text it @ rest, False, page, msk) = mask_inner n pages (rest, (\<exists>a. it = From a), page', msk')
    \<and> length msk' = length msk \<and> 0 < page'
    \<and> mask_pages msk' \<union> (if \<exists>a. it = From a then {page'..pages} else {}) = shown pages (item_pages it) \<union> mask_pages msk"
proof (cases it)
  case (Page a)
  then show ?thesis
    using mask_inner_number [of rest a page False pages msk n] assms by (fastforce simp: shown_def)
next
  case (Range a b)
  have e: "ends_number gu_ascii_isdigit (CHR ''-'' # print_d (int b) @ rest)" by (simp add: ends_number_def)
  obtain page1 msk1 where 1: "mask_inner n pages (print_d (int a) @ CHR ''-'' # print_d (int b) @ rest, False, page, msk)
      = mask_inner n pages (CHR ''-'' # print_d (int b) @ rest, False, page1, msk1)"
    "length msk1 = length msk" "0 < page1" "page1 = int a + 1 \<or> page1 > pages \<and> page1 = int a"
    "mask_pages msk1 = shown pages {int a..int a} \<union> mask_pages msk"
    using mask_inner_number [OF e, of a page False pages msk n] assms Range by auto
  obtain page2 msk2 where 2: "mask_inner n pages (print_d (int b) @ rest, True, page1, msk1) = mask_inner n pages (rest, False, page2, msk2)"
    "length msk2 = length msk" "0 < page2" "mask_pages msk2 = shown pages {page1..int b} \<union> mask_pages msk1"
    using mask_inner_number [OF assms(2), of b page1 True pages msk1 n] assms Range 1 by auto
  have "shown pages {page1..int b} \<union> shown pages {int a..int a} = shown pages (insert (int a) {int a..int b})"
    using 1(4) by (auto simp: shown_def)
  then have "mask_pages msk2 = shown pages (item_pages it) \<union> mask_pages msk" using 1(5) 2(4) Range by auto
  moreover have "mask_inner n pages (item_text it @ rest, False, page, msk) = mask_inner n pages (rest, False, page2, msk2)"
    using 1(1) 2(1) Range assms(5) by (simp add: mask_inner_hyphen)
  ultimately show ?thesis using 2(2,3) Range by auto
next
  case (From a)
  have e: "ends_number gu_ascii_isdigit (CHR ''-'' # rest)" by (simp add: ends_number_def)
  obtain page1 msk1 where 1: "mask_inner n pages (print_d (int a) @ CHR ''-'' # rest, False, page, msk)
      = mask_inner n pages (CHR ''-'' # rest, False, page1, msk1)"
    "length msk1 = length msk" "0 < page1" "page1 = int a + 1 \<or> page1 > pages \<and> page1 = int a"
    "mask_pages msk1 = shown pages {int a..int a} \<union> mask_pages msk"
    using mask_inner_number [OF e, of a page False pages msk n] assms From by auto
  have "{page1..pages} \<union> shown pages {int a..int a} = shown pages {int a..}"
    using 1(4) assms(1) From by (auto simp: shown_def)
  moreover have "mask_inner n pages (item_text it @ rest, False, page, msk) = mask_inner n pages (rest, True, page1, msk1)"
    using 1(1) From assms(5) by (simp add: mask_inner_hyphen)
  ultimately show ?thesis using 1 From by auto
qed

lemma mask_outer_step:
  "mask_outer n pages (p, ranged, page, msk) =
     (if p = [] then Inr (True, msk)
      else case n of
        0 \<Rightarrow> Inl (GuUB ''mask_outer: out of fuel'')
      | Suc n \<Rightarrow> bindE (mask_inner (length p) pages (p, ranged, page, msk)) (outer_next n pages))"
  by (subst mask_outer.simps) (simp add: outer_next_def [abs_def] case_prod_unfold cong: nat.case_cong)

lemma item_text_Nil [simp]: "item_text it \<noteq> []"
  by (cases it) (auto simp: print_d_def)

lemma items_text_Nil [simp]: "items_text (j # is) \<noteq> []"
  by (cases "(j # is)" rule: items_text.cases) auto

text \<open>The close of an open range, at a comma or at the end.\<close>

lemma outer_next_close:
  assumes "0 < page" "pages \<le> 6 * int (length msk)"
  shows "\<exists>page' msk'. outer_next n pages (True, p, ranged, page, msk) = mask_outer n pages (p, False, page', msk')
    \<and> length msk' = length msk \<and> 0 < page' \<and> mask_pages msk' = mask_pages msk \<union> (if ranged then {page..pages} else {})"
proof (cases ranged)
  case True
  obtain m where "run_pages page pages msk = Inr (max page (pages + 1), m)" "length m = length msk"
    "mask_pages m = {page..pages} \<union> mask_pages msk"
    using run_pages_ok [OF assms] by blast
  with True assms(1) show ?thesis
    by (intro exI [of _ "max page (pages + 1)"] exI [of _ m]) (auto simp: outer_next_def)
qed (use assms in \<open>auto simp: outer_next_def\<close>)

text \<open>A whole list, by induction over its items.\<close>

lemma mask_items:
  assumes "is \<noteq> []" "\<forall>ic \<in> set is. item_ok (fst ic)" "\<forall>ic \<in> set (butlast is). separated ic"
    "0 < page" "pages \<le> 6 * int (length msk)" "length (items_text is) \<le> m" "length (items_text is) \<le> Suc n"
  shows "\<exists>msk'. bindE (mask_inner m pages (items_text is, False, page, msk)) (outer_next n pages) = Inr (True, msk')
    \<and> length msk' = length msk \<and> mask_pages msk' = shown pages (\<Union>ic \<in> set is. item_pages (fst ic)) \<union> mask_pages msk"
  using assms
proof (induction "is" arbitrary: page msk m n rule: items_text.induct)
  case (2 i c)
  have e: "ends_number gu_ascii_isdigit []" by (simp add: ends_number_def)
  obtain page1 msk1 where 1: "mask_inner m pages (item_text i @ [], False, page, msk) = mask_inner m pages ([], (\<exists>a. i = From a), page1, msk1)"
    "length msk1 = length msk" "0 < page1"
    "mask_pages msk1 \<union> (if \<exists>a. i = From a then {page1..pages} else {}) = shown pages (item_pages i) \<union> mask_pages msk"
    using mask_inner_item [OF _ e, of i page pages msk m] 2 by auto
  obtain page2 msk2 where "outer_next n pages (True, [], (\<exists>a. i = From a), page1, msk1) = mask_outer n pages ([], False, page2, msk2)"
    "length msk2 = length msk" "mask_pages msk2 = mask_pages msk1 \<union> (if \<exists>a. i = From a then {page1..pages} else {})"
    using outer_next_close [OF 1(3), of pages msk1 n "[]" "\<exists>a. i = From a"] 2 1(2) by auto
  moreover have "mask_inner m pages ([], (\<exists>a. i = From a), page1, msk1) = Inr (True, [], (\<exists>a. i = From a), page1, msk1)"
    by (subst mask_inner.simps) simp
  ultimately show ?case using 1 by (auto simp: mask_outer_step)
next
  case (3 i c j "is")
  let ?more = "items_text (j # is)" and ?U = "\<Union>ic \<in> set (j # is). item_pages (fst ic)"
  have sep: "separated (i, c)" and ok: "item_ok i" using 3(3,4) by simp_all
  then have c: "c = CHR '','' \<or> (c = CHR '' '' \<and> \<not> (\<exists>a. i = From a))" by (simp add: separated_def)
  then have e: "ends_number gu_ascii_isdigit (c # ?more)" by (auto simp: ends_number_def gu_ascii_isdigit_def)
  have len: "length (item_text i @ c # ?more) \<le> m" "length (item_text i @ c # ?more) \<le> Suc n" using 3(7,8) by simp_all
  then have le: "length (c # ?more) \<le> m" "length ?more \<le> n" by (simp_all add: Suc_le_eq)
  obtain page1 msk1 where 1: "mask_inner m pages (item_text i @ c # ?more, False, page, msk) = mask_inner m pages (c # ?more, (\<exists>a. i = From a), page1, msk1)"
    "length msk1 = length msk" "0 < page1"
    "mask_pages msk1 \<union> (if \<exists>a. i = From a then {page1..pages} else {}) = shown pages (item_pages i) \<union> mask_pages msk"
    using mask_inner_item [OF ok e 3(5,6) len(1)] by auto
  have un: "shown pages (item_pages i \<union> ?U) = shown pages ?U \<union> shown pages (item_pages i)" by (auto simp: shown_def)
  have IH: "\<exists>msk'. bindE (mask_inner m' pages (?more, False, page2, msk2)) (outer_next n' pages) = Inr (True, msk')
      \<and> length msk' = length msk2 \<and> mask_pages msk' = shown pages ?U \<union> mask_pages msk2"
    if "0 < page2" "length msk2 = length msk" "length ?more \<le> m'" "length ?more \<le> Suc n'" for page2 msk2 m' n'
    using 3(1) [of page2 msk2 m' n'] 3(3,4,6) that by simp
  show ?case
  proof (cases "c = CHR '',''")
    case True
    then have s: "mask_inner m pages (c # ?more, (\<exists>a. i = From a), page1, msk1) = Inr (True, ?more, (\<exists>a. i = From a), page1, msk1)"
      using le(1) by (subst mask_inner_step) (auto simp: gu_ascii_isspace_def gu_ascii_isdigit_def)
    obtain page2 msk2 where 2: "outer_next n pages (True, ?more, (\<exists>a. i = From a), page1, msk1) = mask_outer n pages (?more, False, page2, msk2)"
      "length msk2 = length msk" "0 < page2" "mask_pages msk2 = mask_pages msk1 \<union> (if \<exists>a. i = From a then {page1..pages} else {})"
      using outer_next_close [OF 1(3), of pages msk1 n ?more "\<exists>a. i = From a"] 3(6) 1(2) by auto
    obtain n' where n': "n = Suc n'" using le(2) by (cases n) auto
    show ?thesis
      using IH [OF 2(3,2), of "length ?more" n'] le(2) n' 1(4) 2 un
      by (auto simp: 1(1) s mask_outer_step)
  next
    case False
    then have f: "\<not> (\<exists>a. i = From a)" "c = CHR '' ''" using c by auto
    then have s: "mask_inner m pages (c # ?more, False, page1, msk1) = mask_inner m pages (?more, False, page1, msk1)"
      using le(1) by (subst mask_inner_step) (auto simp: gu_ascii_isspace_def)
    show ?thesis
      using IH [OF 1(3,2), of m n] le 1(1,2,4) f(1) un s by auto
  qed
qed simp

lemma and_two_power: "(b :: int) AND 2 ^ k \<noteq> 0 \<longleftrightarrow> bit b k"
  by (simp add: bit_iff_and_push_bit_not_eq_0 push_bit_eq_mult)

lemma count_bits_card: "count_bits b = int (card {k. k < 6 \<and> bit b k})"
proof -
  have "card (set (filter (bit b) [0..<6])) = length (filter (bit b) [0..<6])" by (rule distinct_card) simp
  moreover have "set (filter (bit b) [0..<6]) = {k. k < 6 \<and> bit b k}" by auto
  ultimately show ?thesis unfolding count_bits_def and_two_power by simp
qed

text \<open>The count is that of the pages whose bits are set.\<close>

lemma mask_pages_image:
  "mask_pages msk = (\<lambda>(i, k). 6 * int i + int k + 1) ` (SIGMA i : {..<length msk}. {k. k < 6 \<and> bit (msk ! i) k})" (is "_ = ?f ` ?A")
proof
  show "?f ` ?A \<subseteq> mask_pages msk" by (auto simp: mask_pages_def)
next
  show "mask_pages msk \<subseteq> ?f ` ?A"
  proof
    fix p assume p: "p \<in> mask_pages msk"
    then have "p = ?f (nat ((p - 1) div 6), nat ((p - 1) mod 6))" by (auto simp: mask_pages_def pos_imp_zdiv_nonneg_iff)
    moreover have "(nat ((p - 1) div 6), nat ((p - 1) mod 6)) \<in> ?A" using p by (auto simp: mask_pages_def)
    ultimately show "p \<in> ?f ` ?A" by blast
  qed
qed

lemma count_mask: "sum_list (map count_bits msk) = int (card (mask_pages msk))"
proof -
  have inj: "inj_on (\<lambda>(i, k). 6 * int i + int k + 1) (SIGMA i : {..<length msk}. {k. k < 6 \<and> bit (msk ! i) k})"
    by (auto simp: inj_on_def; presburger)
  have "card (mask_pages msk) = (\<Sum>i<length msk. card {k. k < 6 \<and> bit (msk ! i) k})"
    unfolding mask_pages_image card_image [OF inj] by (rule card_SigmaI) auto
  moreover have "sum_list (map count_bits msk) = (\<Sum>i<length msk. count_bits (msk ! i))"
    by (simp add: sum_list_sum_nth atLeast0LessThan)
  ultimately show ?thesis by (simp add: count_bits_card)
qed

lemma mask_bytes_enough: "0 \<le> pages \<Longrightarrow> pages \<le> 6 * mask_bytes pages \<and> 0 \<le> mask_bytes pages"
  by (auto simp: mask_bytes_def; linarith)

lemma encode_items:
  assumes "is \<noteq> []" "\<forall>ic \<in> set is. item_ok (fst ic)" "\<forall>ic \<in> set (butlast is). separated ic"
    "0 \<le> attr_pages job" "attr_pages job + 5 < 2 ^ 31"
  shows "\<exists>msk. pagemask_encode (items_text is) job
      = Inr (0, job\<lparr>pl_count := int (card (mask_pages msk)), pl_mask := Some (map (\<lambda>b. b + 33) msk)\<rparr>)
    \<and> int (length msk) = mask_bytes (attr_pages job)
    \<and> mask_pages msk = shown (attr_pages job) (\<Union>ic \<in> set is. item_pages (fst ic))"
proof -
  let ?t = "items_text is" and ?m = "replicate (nat (mask_bytes (attr_pages job))) (0 :: int)"
  note b = mask_bytes_enough [OF assms(4)]
  have z: "mask_pages ?m = {}" by (auto simp: mask_pages_def)
  have "?t \<noteq> []" using assms(1) by (cases "is") simp_all
  then obtain n where n: "length ?t = Suc n" by (cases ?t) auto
  obtain msk where "bindE (mask_inner (length ?t) (attr_pages job) (?t, False, 1, ?m)) (outer_next n (attr_pages job)) = Inr (True, msk)"
    "length msk = length ?m" "mask_pages msk = shown (attr_pages job) (\<Union>ic \<in> set is. item_pages (fst ic)) \<union> mask_pages ?m"
    using mask_items [OF assms(1-3), of 1 "attr_pages job" ?m "length ?t" n] b n by auto
  moreover from this have "mask_outer (length ?t) (attr_pages job) (?t, False, 1, ?m) = Inr (True, msk)"
    unfolding n using n by (auto simp: mask_outer_step)
  ultimately show ?thesis
    using b assms(5) by (intro exI [of _ msk]) (auto simp: pagemask_encode_def Let_def z count_mask)
qed

lemma get_bit_mask:
  assumes "pl_mask job = Some (map (\<lambda>b. b + 33) msk)" "1 \<le> page" "page \<le> attr_pages job" "int (length msk) = mask_bytes (attr_pages job)"
  shows "pagemask_get_bit job page = (if page \<in> mask_pages msk then 1 else 0)"
proof -
  have "attr_pages job \<le> 6 * int (length msk)" using mask_bytes_enough assms by simp
  then have i: "nat ((page - 1) div 6) < length msk" using assms(2,3) by (simp add: nat_less_iff)
  then show ?thesis using assms by (simp add: pagemask_get_bit_def Let_def and_two_power mask_pages_def)
qed

subsection \<open>Bytes of the mask\<close>

lemma or_six_bits: "0 \<le> b \<Longrightarrow> b < 64 \<Longrightarrow> k < 6 \<Longrightarrow> 0 \<le> b OR 2 ^ k \<and> b OR 2 ^ k < (64 :: int)"
  using OR_upper [of b 6 "2 ^ k"] power_strict_increasing [of k 6 "2 :: int"] by simp

lemma set_page_six:
  assumes "set_page page msk = Inr msk'" "six_bits msk"
  shows "six_bits msk' \<and> length msk' = length msk"
proof -
  let ?i = "nat ((page - 1) div 6)"
  have "?i < length msk" "msk' = msk[?i := msk ! ?i OR 2 ^ nat ((page - 1) mod 6)]"
    using assms(1) by (auto simp: set_page_def Let_def split: if_splits)
  moreover have "nat ((page - 1) mod 6) < 6" by simp
  ultimately show ?thesis
    using assms(2) or_six_bits [of "msk ! ?i" "nat ((page - 1) mod 6)"] set_update_subset_insert [of msk ?i]
    by (fastforce simp: six_bits_def)
qed

lemma set_pages_six:
  "foldE set_page ps msk = Inr msk' \<Longrightarrow> six_bits msk \<Longrightarrow> six_bits msk' \<and> length msk' = length msk"
  by (induction ps arbitrary: msk) (auto simp: bindE_def dest: set_page_six split: sum.splits)

lemma run_pages_six:
  "run_pages page u msk = Inr (page', msk') \<Longrightarrow> six_bits msk \<Longrightarrow> six_bits msk' \<and> length msk' = length msk"
  by (auto simp: run_pages_def bindE_def dest: set_pages_six split: sum.splits)

lemma mask_number_six:
  "mask_number pages (p, ranged, page, msk) = Inr (p', r', q', msk') \<Longrightarrow> six_bits msk \<Longrightarrow> six_bits msk' \<and> length msk' = length msk"
  by (auto simp: mask_number_def Let_def bindE_def dest: run_pages_six split: if_splits sum.splits)

lemma mask_inner_six:
  "mask_inner n pages (p, r, q, msk) = Inr (v, p', r', q', msk') \<Longrightarrow> six_bits msk \<Longrightarrow> six_bits msk' \<and> length msk' = length msk"
proof (induction n arbitrary: p r q msk)
  case (Suc n)
  show ?case
  proof (cases "p = [] \<or> gu_ascii_isspace (hd p) \<or> \<not> gu_ascii_isdigit (hd p)")
    case True
    show ?thesis
      using Suc.prems True by (subst (asm) mask_inner.simps) (auto split: if_splits dest: Suc.IH [OF _ Suc.prems(2)])
  next
    case False
    then obtain p1 r1 q1 msk1 where "mask_number pages (p, r, q, msk) = Inr (p1, r1, q1, msk1)"
      "mask_inner n pages (p1, r1, q1, msk1) = Inr (v, p', r', q', msk')"
      using Suc.prems(1) by (subst (asm) mask_inner.simps) (auto simp: bindE_def split: sum.splits)
    with Suc mask_number_six show ?thesis by metis
  qed
qed (subst (asm) mask_inner.simps, auto split: if_splits)

lemma mask_outer_six:
  "mask_outer n pages (p, r, q, msk) = Inr (v, msk') \<Longrightarrow> six_bits msk \<Longrightarrow> six_bits msk' \<and> length msk' = length msk"
proof (induction n arbitrary: p r q msk)
  case 0
  then show ?case by (auto simp: mask_outer_step split: if_splits)
next
  case (Suc n)
  show ?case
  proof (cases "p = []")
    case False
    then obtain v1 p1 r1 q1 msk1 where 1: "mask_inner (length p) pages (p, r, q, msk) = Inr (v1, p1, r1, q1, msk1)"
      "outer_next n pages (v1, p1, r1, q1, msk1) = Inr (v, msk')"
      using Suc.prems(1) by (auto simp: mask_outer_step bindE_def split: sum.splits)
    have "six_bits msk1 \<and> length msk1 = length msk" using mask_inner_six [OF 1(1) Suc.prems(2)] .
    with 1(2) Suc.IH show ?thesis
      by (auto simp: outer_next_def bindE_def split: if_splits sum.splits dest: run_pages_six)
  qed (use Suc.prems in \<open>simp add: mask_outer_step\<close>)
qed

section \<open>Properties\<close>

text \<open>
  C8. For every list of pages, closed ranges and open ranges in the notation of the manual, whatever its order and
  overlaps, the mask made for a document selects exactly the pages of the document that the list names, and the
  count stored with it is their number.
\<close>

theorem pagemask_exact:
  assumes "is \<noteq> []" "\<forall>ic \<in> set is. item_ok (fst ic)" "\<forall>ic \<in> set (butlast is). separated ic"
    "0 \<le> attr_pages job" "attr_pages job + 5 < 2 ^ 31"
  shows "\<exists>job'. pagemask_encode (items_text is) job = Inr (0, job') \<and> attr_pages job' = attr_pages job
    \<and> (\<forall>page. 1 \<le> page \<and> page \<le> attr_pages job \<longrightarrow>
         pagemask_get_bit job' page = (if \<exists>ic \<in> set is. page \<in> item_pages (fst ic) then 1 else 0))
    \<and> pagemask_count job' = int (card {page. 1 \<le> page \<and> page \<le> attr_pages job \<and> (\<exists>ic \<in> set is. page \<in> item_pages (fst ic))})"
proof -
  obtain msk where m: "pagemask_encode (items_text is) job
      = Inr (0, job\<lparr>pl_count := int (card (mask_pages msk)), pl_mask := Some (map (\<lambda>b. b + 33) msk)\<rparr>)"
    "int (length msk) = mask_bytes (attr_pages job)"
    "mask_pages msk = shown (attr_pages job) (\<Union>ic \<in> set is. item_pages (fst ic))"
    using encode_items [OF assms] by blast
  let ?job = "job\<lparr>pl_count := int (card (mask_pages msk)), pl_mask := Some (map (\<lambda>b. b + 33) msk)\<rparr>"
  have s: "mask_pages msk = {page. 1 \<le> page \<and> page \<le> attr_pages job \<and> (\<exists>ic \<in> set is. page \<in> item_pages (fst ic))}"
    using m(3) by (auto simp: shown_def)
  have "pagemask_get_bit ?job page = (if \<exists>ic \<in> set is. page \<in> item_pages (fst ic) then 1 else 0)"
    if "1 \<le> page" "page \<le> attr_pages job" for page
    using get_bit_mask [of ?job msk page] that m(2) by (simp add: s)
  with m(1) s show ?thesis by (intro exI [of _ ?job]) (simp add: pagemask_count_def)
qed

theorem pagemask_exact_witness:
  "\<exists>job'. pagemask_encode ''7,2-4 12-'' \<lparr>attr_pages = 14, pl_mask = None, pl_count = -1\<rparr> = Inr (0, job') \<and> pagemask_count job' = 7
    \<and> pagemask_get_bit job' 3 = 1 \<and> pagemask_get_bit job' 5 = 0"
proof -
  let ?is = "[(Page 7, CHR '',''), (Range 2 4, CHR '' ''), (From 12, CHR '','')]" and ?job = "\<lparr>attr_pages = 14, pl_mask = None, pl_count = -1\<rparr>"
  have t: "items_text ?is = ''7,2-4 12-''" by code_simp
  have "{page. 1 \<le> page \<and> page \<le> (14 :: int) \<and> (\<exists>ic \<in> set ?is. page \<in> item_pages (fst ic))} = {2, 3, 4, 7, 12, 13, 14}" by auto
  moreover obtain job' where "pagemask_encode (items_text ?is) ?job = Inr (0, job')"
    "\<forall>page. 1 \<le> page \<and> page \<le> 14 \<longrightarrow> pagemask_get_bit job' page = (if \<exists>ic \<in> set ?is. page \<in> item_pages (fst ic) then 1 else 0)"
    "pagemask_count job' = int (card {page. 1 \<le> page \<and> page \<le> (14 :: int) \<and> (\<exists>ic \<in> set ?is. page \<in> item_pages (fst ic))})"
    using pagemask_exact [of ?is ?job] by (auto simp: separated_def)
  ultimately show ?thesis unfolding t by auto
qed

text \<open>
  Whatever the text, a mask that is accepted has one byte for every six pages and every byte is a printable
  character, from 33 to 96, so that it is one word of the queue file line that carries it.
\<close>

theorem pagemask_printable:
  assumes "pagemask_encode text job = Inr (0, job')" "0 \<le> attr_pages job"
  shows "\<exists>msk. pl_mask job' = Some msk \<and> int (length msk) = (attr_pages job + 5) div 6 \<and> (\<forall>b \<in> set msk. 33 \<le> b \<and> b \<le> 96)"
proof -
  let ?m = "replicate (nat (mask_bytes (attr_pages job))) (0 :: int)"
  obtain msk where m: "mask_outer (length text) (attr_pages job) (text, False, 1, ?m) = Inr (True, msk)"
    "pl_mask job' = Some (map (\<lambda>b. b + 33) msk)"
    using assms(1) by (auto simp: pagemask_encode_def Let_def bindE_def split: if_splits sum.splits)
  have "six_bits ?m" by (simp add: six_bits_def)
  from mask_outer_six [OF m(1) this] have "six_bits msk" "length msk = nat (mask_bytes (attr_pages job))" by simp_all
  with m(2) assms(2) show ?thesis by (auto simp: six_bits_def mask_bytes_def)
qed

theorem pagemask_printable_witness:
  "\<exists>msk. pl_mask (snd (projr (pagemask_encode ''-3, 5'' \<lparr>attr_pages = 7, pl_mask = None, pl_count = -1\<rparr>))) = Some msk \<and> int (length msk) = 2
    \<and> (\<forall>b \<in> set msk. 33 \<le> b \<and> b \<le> 96)"
proof -
  have "pagemask_encode ''-3, 5'' \<lparr>attr_pages = 7, pl_mask = None, pl_count = -1\<rparr>
      = Inr (0, \<lparr>attr_pages = 7, pl_mask = Some [56, 33], pl_count = 4\<rparr>)"
    by code_simp
  from pagemask_printable [OF this] this show ?thesis by simp
qed

end
