(* ===== verification/Sheets.thy ===== *)
theory Sheets
  imports Daemon Pagemask
begin

unbundle bit_operations_syntax

text \<open>
  The arrangement of pages on sheets by \<^verbatim>\<open>pprdrv\<close>: the table of the selected pages (\<^verbatim>\<open>make_pagetable()\<close> of
  \<^verbatim>\<open>pprdrv/pprdrv.c\<close>), the number of sheets and the printing order (\<^verbatim>\<open>page_computations()\<close>), the choice between
  the ways to make copies, the imposition of booklets (\<^verbatim>\<open>pprdrv_signature.c\<close>) and the loop over copies, sheets
  and pages (\<^verbatim>\<open>copy_pages()\<close>); \<^verbatim>\<open>compute_charge()\<close> of \<^verbatim>\<open>libppr/charge.c\<close>, which counts the same sheets for the bill;
  and the last computations of \<^verbatim>\<open>ppr\<close> on these numbers.
\<close>

section \<open>Definitions\<close>

text \<open>How \<^verbatim>\<open>pprdrv\<close> ends early: \<^verbatim>\<open>fatal()\<close> or another exit with its code, undefined behaviour, a loop that does not end, or
  that the given behaviour of the outside world is used up while the program waits for more of it.\<close>

datatype drv_err = DrvFatal int string | DrvUB string | DrvLoop string | DrvWaiting string

abbreviation (input) SIG_FRONTS :: int where "SIG_FRONTS \<equiv> 1"
abbreviation (input) SIG_BACKS :: int where "SIG_BACKS \<equiv> 2"
abbreviation (input) SIG_BOTH :: int where "SIG_BOTH \<equiv> 3"
abbreviation (input) PAGEORDER_ASCEND :: int where "PAGEORDER_ASCEND \<equiv> 1"
abbreviation (input) PAGEORDER_DESCEND :: int where "PAGEORDER_DESCEND \<equiv> -1"
abbreviation (input) PAGEORDER_SPECIAL :: int where "PAGEORDER_SPECIAL \<equiv> 0"

text \<open>The members of \<^verbatim>\<open>struct QEntryFile\<close> that decide the arrangement, and the global variables that hold it.\<close>

record sheet_job = page_job +
  attr_pagefactor :: int
  attr_pageorder :: int
  attr_script :: bool
  N_Up_N :: int
  N_Up_sigsheets :: int
  N_Up_sigpart :: int
  opts_copies :: int
  opts_collate :: bool

record arrangement =
  sheetcount :: int
  current_job_direction :: int
  print_direction :: int
  copies_auto :: int
  copies_auto_collate :: int
  copies_doc_countdown :: int
  copies_pages_countdown :: int

subsection \<open>Counting sheets\<close>

definition page_computations :: "int \<Rightarrow> sheet_job \<Rightarrow> arrangement \<Rightarrow> drv_err + arrangement" where
  "page_computations OutputOrder job a =
     (let pages = pagemask_count job; sigpages = N_Up_N job * 2 * N_Up_sigsheets job in
      bindE
        (if N_Up_sigsheets job = 0 then
           if attr_pagefactor job = 0 then Inl (DrvUB ''division by zero'')
           else Inr (c_div (pages + attr_pagefactor job - 1) (attr_pagefactor job))
         else
           if sigpages = 0 \<or> attr_pagefactor job = 0 then Inl (DrvUB ''division by zero'')
           else Inr (c_div (pages + sigpages - 1) sigpages * N_Up_sigsheets job
                     * c_div (N_Up_N job * 2) (attr_pagefactor job)))
        (\<lambda>sheets.
           bindE
             (if attr_pageorder job = PAGEORDER_SPECIAL then Inr 1
              else if attr_pageorder job = PAGEORDER_ASCEND then Inr 1
              else if attr_pageorder job = PAGEORDER_DESCEND then Inr (-1)
              else Inl (DrvFatal EXIT_JOBERR ''PageOrder is invalid''))
             (\<lambda>direction.
                Inr (a\<lparr>sheetcount := sheets, current_job_direction := direction,
                       print_direction := (if attr_pageorder job = PAGEORDER_SPECIAL then 1 else OutputOrder)\<rparr>))))"

text \<open>\<open>printer_can_collate\<close>, which asks the PPD file, is the argument \<open>can_collate\<close>.\<close>

definition select_copies_method :: "bool \<Rightarrow> sheet_job \<Rightarrow> arrangement \<Rightarrow> arrangement" where
  "select_copies_method can_collate job a =
     (if opts_copies job < 2 \<or> \<not> opts_collate job then
        a\<lparr>copies_auto := opts_copies job, copies_auto_collate := 0, copies_doc_countdown := 1, copies_pages_countdown := 1\<rparr>
      else if can_collate then
        a\<lparr>copies_auto := opts_copies job, copies_auto_collate := 1, copies_doc_countdown := 1, copies_pages_countdown := 1\<rparr>
      else if \<not> attr_script job \<or> attr_pageorder job = PAGEORDER_SPECIAL then
        a\<lparr>copies_auto := 1, copies_auto_collate := 0, copies_doc_countdown := opts_copies job, copies_pages_countdown := 1\<rparr>
      else
        a\<lparr>copies_auto := 1, copies_auto_collate := 0, copies_doc_countdown := 1, copies_pages_countdown := opts_copies job\<rparr>)"

subsection \<open>Booklets\<close>

definition signature :: "'a sheet_job_scheme \<Rightarrow> int \<Rightarrow> int \<Rightarrow> drv_err + int" where
  "signature job sheetnumber sheetpage =
     (let simplex = (N_Up_N job = attr_pagefactor job);
          sheetpage = (if simplex \<and> sheetnumber AND 1 \<noteq> 0 then sheetpage + N_Up_N job else sheetpage);
          sheetnumber = (if simplex then c_div sheetnumber 2 else sheetnumber) in
      if sheetpage < c_div (attr_pagefactor job) 2 \<and> N_Up_sigpart job AND SIG_FRONTS = 0
         \<or> sheetpage \<ge> c_div (attr_pagefactor job) 2 \<and> N_Up_sigpart job AND SIG_BACKS = 0
      then Inr (-1)
      else if N_Up_sigsheets job = 0 then Inl (DrvUB ''division by zero'')
      else
        let sigpages = N_Up_N job * N_Up_sigsheets job * 2;
            signumber = c_div sheetnumber (N_Up_sigsheets job);
            sigsheet = c_mod sheetnumber (N_Up_sigsheets job);
            leftcentre = c_div sigpages 2 - 1 in
        bindE
          (if N_Up_N job = 2 then
             if sheetpage = 0 then Inr (leftcentre - sigsheet * 2)
             else if sheetpage = 1 then Inr (leftcentre + sigsheet * 2 + 1)
             else if sheetpage = 2 then Inr (leftcentre + sigsheet * 2 + 2)
             else if sheetpage = 3 then Inr (leftcentre - sigsheet * 2 - 1)
             else Inl (DrvFatal EXIT_PRNERR_NORETRY ''pprdrv_signature.c: this can't happend'')
           else Inr sheetpage)
          (\<lambda>sigpage. Inr (signumber * sigpages + sigpage)))"

subsection \<open>The table of pages\<close>

text \<open>
  The \<^verbatim>\<open>-pages\<close> file and the position in it. \<open>getpline\<close> reads with \<^verbatim>\<open>fgets()\<close> into \<^verbatim>\<open>pline[256]\<close> and cuts off the last
  character, which is the newline unless the line is longer than the buffer or has no newline.
\<close>

record page_file =
  pf_text :: string
  pf_pos :: nat

definition fgets_line :: "nat \<Rightarrow> string \<Rightarrow> string" where
  "fgets_line n s =
     (let l = takeWhile (\<lambda>c. c \<noteq> CHR 0x0A) s in
      if length l < length s \<and> length l < n - 1 then l @ [CHR 0x0A] else take (n - 1) l)"

definition getpline :: "page_file \<Rightarrow> string option \<times> page_file" where
  "getpline f =
     (let l = fgets_line 256 (drop (pf_pos f) (pf_text f)) in
      if l = [] then (None, f)
      else (Some (butlast l), f\<lparr>pf_pos := pf_pos f + length l\<rparr>))"

lemma getpline_progress:
  assumes "getpline f = (Some pline, f')"
  shows "length (pf_text f') - pf_pos f' < length (pf_text f) - pf_pos f"
proof -
  have "fgets_line 256 (drop (pf_pos f) (pf_text f)) = []" if "length (pf_text f) \<le> pf_pos f" using that by (simp add: fgets_line_def)
  then have "pf_pos f < length (pf_text f)" using assms by (auto simp: getpline_def Let_def not_le [symmetric] split: if_splits)
  moreover have "pf_text f' = pf_text f" "pf_pos f < pf_pos f'" using assms by (auto simp: getpline_def Let_def split: if_splits)
  ultimately show ?thesis by simp
qed

text \<open>The search for the blank line that ends the record of a page.\<close>

function skip_record :: "page_file \<Rightarrow> drv_err + page_file" where
  "skip_record f =
     (case getpline f of
        (None, _) \<Rightarrow> Inl (DrvFatal EXIT_JOBERR ''make_pagetable(): invalid job: EOF before end of page in -pages file'')
      | (Some pline, f') \<Rightarrow> if pline = [] then Inr f' else skip_record f')"
  by pat_completeness auto

termination
  by (relation "measure (\<lambda>f. length (pf_text f) - pf_pos f)") (auto dest: getpline_progress [OF sym])

declare skip_record.simps [simp del]

text \<open>An entry of the table: where the rest of the page's record is, and where its text is.\<close>

record PAGETABLE =
  pages_offset :: nat
  text_offset :: int


definition scan_offset :: "string \<Rightarrow> drv_err + int option" where
  "scan_offset pline =
     (case gu_sscanf pline ''Offset: %ld'' [] of
        Inl _ \<Rightarrow> Inl (DrvUB ''gu_sscanf()'')
      | Inr (n, vs) \<Rightarrow> Inr (if n \<noteq> 1 then None else case vs of [SInt v] \<Rightarrow> Some v | _ \<Rightarrow> None))"

text \<open>One round of the loop: the record of one page, which enters the table when the page is selected.\<close>

definition table_page :: "sheet_job \<Rightarrow> int \<Rightarrow> int \<Rightarrow> page_file \<times> PAGETABLE list \<Rightarrow> drv_err + page_file \<times> PAGETABLE list" where
  "table_page job printed_pages page s =
     (case s of (f, pagetable) \<Rightarrow>
        case getpline f of
          (None, _) \<Rightarrow> Inl (DrvFatal EXIT_JOBERR ''make_pagetable(): bad job: EOF where Page: expected'')
        | (Some pline, f) \<Rightarrow>
            if \<not> lmatch pline ''%%Page:'' then Inl (DrvFatal EXIT_JOBERR ''make_pagetable(): bad job: Page: expected'')
            else case getpline f of
              (None, _) \<Rightarrow> Inl (DrvFatal EXIT_JOBERR ''make_pagetable(): bad job: EOF where Offset: expected'')
            | (Some pline, f) \<Rightarrow>
                bindE (scan_offset pline) (\<lambda>offset.
                  case offset of
                    None \<Rightarrow> Inl (DrvFatal EXIT_JOBERR ''make_pagetable(): bad job: Offset: expected'')
                  | Some temp_offset \<Rightarrow>
                      if pagemask_get_bit job page = 1 then
                        if int (length pagetable) \<ge> printed_pages
                        then Inl (DrvFatal EXIT_JOBERR ''make_pagetable(): bad job: pagetable[] overflow'')
                        else bindE (skip_record f) (\<lambda>f'.
                               Inr (f', pagetable @ [\<lparr>pages_offset = pf_pos f, text_offset = temp_offset\<rparr>]))
                      else bindE (skip_record f) (\<lambda>f'. Inr (f', pagetable))))"

definition make_pagetable :: "sheet_job \<Rightarrow> page_file \<Rightarrow> drv_err + page_file \<times> PAGETABLE list" where
  "make_pagetable job f =
     (if attr_pages job \<le> 0 then Inr (f, [])
      else
        let available_pages = attr_pages job; printed_pages = pagemask_count job in
        bindE
          (foldE (table_page job printed_pages)
             (if attr_pageorder job = PAGEORDER_DESCEND then rev [1..available_pages] else [1..available_pages]) (f, []))
          (\<lambda>(f, pagetable).
             if int (length pagetable) \<noteq> printed_pages
             then Inl (DrvFatal EXIT_JOBERR ''make_pagetable(): assertion failed'')
             else Inr (f, pagetable)))"

subsection \<open>Copying the pages\<close>

text \<open>
  What the loops send: a page of the document with its new number (\<^verbatim>\<open>copy_a_page()\<close> after the seeks), or a blank
  page to fill up a sheet.
\<close>

datatype page_event = Copy_page PAGETABLE int | Dummy_page int

text \<open>One place of a sheet; on the last sheet of the last copy no blank pages are sent.\<close>

definition place_page ::
  "sheet_job \<Rightarrow> arrangement \<Rightarrow> PAGETABLE list \<Rightarrow> bool \<Rightarrow> int \<Rightarrow> int \<Rightarrow> page_event list \<Rightarrow> drv_err + page_event list" where
  "place_page job a pagetable last_copy sheetnumber sheetmember out =
     bindE
       (if N_Up_sigsheets job = 0 then Inr (sheetnumber * attr_pagefactor job + sheetmember)
        else signature job sheetnumber sheetmember)
       (\<lambda>pagenumber.
          if N_Up_sigsheets job \<noteq> 0 \<and> pagenumber = -1 then Inr out
          else
            let npages = int (length pagetable);
                pageindex = (if current_job_direction a = 1 then pagenumber else npages - pagenumber - 1);
                sheetlimit = (if print_direction a = -1 then -1 else sheetcount a) in
            if pageindex < npages \<and> pageindex \<ge> 0
            then Inr (out @ [Copy_page (pagetable ! nat pageindex) (pagenumber + 1)])
            else if \<not> last_copy \<or> N_Up_sigsheets job \<noteq> 0 \<or> sheetnumber + print_direction a \<noteq> sheetlimit
            then Inr (out @ [Dummy_page (pagenumber + 1)])
            else Inr out)"

text \<open>The loop over the sheets of a copy. It has to end within as many rounds as there are sheets.\<close>

fun sheet_loop ::
  "nat \<Rightarrow> sheet_job \<Rightarrow> arrangement \<Rightarrow> PAGETABLE list \<Rightarrow> bool \<Rightarrow> int \<Rightarrow> page_event list \<Rightarrow> drv_err + page_event list" where
  "sheet_loop rounds job a pagetable last_copy sheetnumber out =
     (if sheetnumber = (if print_direction a = -1 then -1 else sheetcount a) then Inr out
      else case rounds of
        0 \<Rightarrow> Inl (DrvLoop ''copy_pages(): sheets'')
      | Suc n \<Rightarrow>
          bindE (foldE (place_page job a pagetable last_copy sheetnumber) [0..attr_pagefactor job - 1] out)
            (sheet_loop n job a pagetable last_copy (sheetnumber + print_direction a)))"

declare sheet_loop.simps [simp del]

text \<open>The loop over the copies, with what is left of \<^verbatim>\<open>copies_pages_countdown\<close> after the decrement.\<close>

fun copies_loop :: "nat \<Rightarrow> sheet_job \<Rightarrow> arrangement \<Rightarrow> PAGETABLE list \<Rightarrow> page_event list \<Rightarrow> drv_err + page_event list" where
  "copies_loop 0 job a pagetable out = Inr out"
| "copies_loop (Suc countdown) job a pagetable out =
     bindE
       (sheet_loop (nat (sheetcount a)) job a pagetable (countdown = 0)
          (if print_direction a = -1 then sheetcount a - 1 else 0) out)
       (copies_loop countdown job a pagetable)"

text \<open>
  The whole of \<^verbatim>\<open>copy_pages()\<close>. Its loop leaves \<^verbatim>\<open>copies_pages_countdown\<close> at -1. Entered with a negative value it would
  count down until the integer overflows.
\<close>

definition copy_pages :: "sheet_job \<Rightarrow> arrangement \<Rightarrow> page_file \<Rightarrow> drv_err + page_file \<times> arrangement \<times> page_event list" where
  "copy_pages job a f =
     bindE (make_pagetable job f) (\<lambda>(f, pagetable).
       if pagetable = [] then Inr (f, a, [])
       else if copies_pages_countdown a < 0 then Inl (DrvLoop ''copy_pages(): copies'')
       else bindE (copies_loop (nat (copies_pages_countdown a)) job a pagetable []) (\<lambda>out.
              Inr (f, a\<lparr>copies_pages_countdown := -1\<rparr>, out)))"

text \<open>
  The loop of \<^verbatim>\<open>real_main()\<close> that sends the document \<^verbatim>\<open>copies_doc_countdown\<close> times, with the files rewound before each but
  the first, as far as it concerns the pages: \<open>copy_pages\<close> is reached in a document with page comments.
\<close>

fun print_documents :: "nat \<Rightarrow> sheet_job \<Rightarrow> arrangement \<Rightarrow> page_file \<Rightarrow> drv_err + page_file \<times> arrangement \<times> page_event list" where
  "print_documents 0 job a f = Inr (f, a\<lparr>copies_doc_countdown := -1\<rparr>, [])"
| "print_documents (Suc countdown) job a f =
     bindE (if attr_script job then copy_pages job a f else Inr (f, a, [])) (\<lambda>(f, a, out).
       bindE (print_documents countdown job a (if countdown = 0 then f else f\<lparr>pf_pos := 0\<rparr>)) (\<lambda>(f, a, out').
         Inr (f, a, out @ out')))"

subsection \<open>The bill\<close>

record COMPUTED_CHARGE =
  per_duplex :: int
  per_simplex :: int
  duplex_sheets :: int
  simplex_sheets :: int
  charge_total :: int

definition compute_charge :: "int \<Rightarrow> int \<Rightarrow> int \<Rightarrow> int \<Rightarrow> int \<Rightarrow> int \<Rightarrow> int \<Rightarrow> int \<Rightarrow> drv_err + COMPUTED_CHARGE" where
  "compute_charge per_duplex_sheet per_simplex_sheet vpages n_up_n vpages_per_sheet sigsheets sigpart copies =
     bindE
       (if sigsheets \<noteq> 0 then
          let pages_per_signature = n_up_n * 2 * sigsheets in
          if pages_per_signature = 0 \<or> (sigpart AND SIG_BOTH = SIG_BOTH \<and> vpages_per_sheet = 0) then Inl (DrvUB ''division by zero'')
          else
            let signature_count = c_div (vpages + pages_per_signature - 1) pages_per_signature in
            if sigpart AND SIG_BOTH = SIG_BOTH
            then Inr (signature_count * sigsheets * c_div (n_up_n * 2) vpages_per_sheet, 0)
            else if vpages_per_sheet = n_up_n then Inr (0, signature_count * sigsheets)
            else Inr (c_div (signature_count * sigsheets + 1) 2, 0)
        else if n_up_n = 0 then Inl (DrvUB ''division by zero'')
        else
          let sides = c_div (vpages + n_up_n - 1) n_up_n in
          if vpages_per_sheet = n_up_n then Inr (0, sides) else Inr (c_div sides 2, c_mod sides 2))
       (\<lambda>(duplex, simplex).
          let duplex = (if copies \<ge> 0 then duplex * copies else duplex);
              simplex = (if copies \<ge> 0 then simplex * copies else simplex) in
          Inr \<lparr>per_duplex = per_duplex_sheet, per_simplex = per_simplex_sheet, duplex_sheets = duplex, simplex_sheets = simplex,
               charge_total = duplex * per_duplex_sheet + simplex * per_simplex_sheet\<rparr>)"

text \<open>From \<^verbatim>\<open>main()\<close> of \<^verbatim>\<open>ppr\<close>: the final page factor, and the number of sheets of a booklet.\<close>

definition final_pagefactor :: "int \<Rightarrow> sheet_job \<Rightarrow> sheet_job" where
  "final_pagefactor duplex_pagefactor job =
     (let job = job\<lparr>attr_pagefactor := duplex_pagefactor * N_Up_N job\<rparr> in
      if N_Up_sigsheets job = -1 \<and> attr_pages job > 0 \<and> N_Up_N job \<noteq> 0
      then job\<lparr>N_Up_sigsheets := c_div (attr_pages job + N_Up_N job * 2 - 1) (N_Up_N job * 2)\<rparr>
      else job)"

end
