(* ===== verification/Imposition.thy ===== *)
theory Imposition
  imports Sheets "HOL-Library.Multiset"
begin

unbundle bit_operations_syntax

text \<open>
  The correctness of the arrangement of pages on sheets (\<open>Sheets\<close>): the table of pages, the imposition of booklets, the
  loops over copies, sheets and places, and the charge.
\<close>

section \<open>Reference definitions\<close>

text \<open>The number of the page at a place of a sheet, and what is sent for it when there is such a page.\<close>

definition number :: "sheet_job \<Rightarrow> int \<Rightarrow> int \<Rightarrow> drv_err + int" where
  "number job s m = (if N_Up_sigsheets job = 0 then Inr (s * attr_pagefactor job + m) else signature job s m)"

definition copy_event :: "arrangement \<Rightarrow> PAGETABLE list \<Rightarrow> int \<Rightarrow> page_event" where
  "copy_event a pagetable p =
     Copy_page (pagetable ! nat (if current_job_direction a = 1 then p else int (length pagetable) - p - 1)) (p + 1)"

fun copies_page :: "page_event \<Rightarrow> bool" where
  "copies_page (Copy_page e k) = True"
| "copies_page (Dummy_page k) = False"

abbreviation (input) wanted :: "PAGETABLE list \<Rightarrow> int list \<Rightarrow> int list" where
  "wanted pagetable ps \<equiv> filter (\<lambda>p. 0 \<le> p \<and> p < int (length pagetable)) ps"

text \<open>The sheets of a copy in the order of printing, the numbers of the pages on them, and that all places have a number.\<close>

definition sheet_numbers :: "arrangement \<Rightarrow> int list" where
  "sheet_numbers a = (if print_direction a = -1 then rev [0..sheetcount a - 1] else [0..sheetcount a - 1])"

definition numbered :: "sheet_job \<Rightarrow> int \<Rightarrow> (int \<Rightarrow> int \<Rightarrow> int) \<Rightarrow> bool" where
  "numbered job c p \<longleftrightarrow> (\<forall>s \<in> set [0..c - 1]. \<forall>m \<in> set [0..attr_pagefactor job - 1]. number job s m = Inr (p s m))"

definition sheet_pages :: "sheet_job \<Rightarrow> (int \<Rightarrow> int \<Rightarrow> int) \<Rightarrow> int list \<Rightarrow> int list" where
  "sheet_pages job p ss = concat (map (\<lambda>s. map (p s) [0..attr_pagefactor job - 1]) ss)"

text \<open>A booklet of two pages to a side: its sheets are stacked, the first of them innermost, and folded; \<open>fold_book\<close> is the order in which the pages are then read. A sheet lists the left and right page of its front and of its back.\<close>

definition fold_sheet :: "int list \<Rightarrow> int list \<Rightarrow> int list" where
  "fold_sheet book sheet = [sheet ! 3, sheet ! 0] @ book @ [sheet ! 1, sheet ! 2]"

definition fold_book :: "int list list \<Rightarrow> int list" where
  "fold_book sheets = foldl fold_sheet [] sheets"

definition booklet_sheet :: "int \<Rightarrow> int \<Rightarrow> int list" where
  "booklet_sheet centre s = [centre - s * 2, centre + s * 2 + 1, centre + s * 2 + 2, centre - s * 2 - 1]"

abbreviation (input) centre :: "sheet_job \<Rightarrow> int \<Rightarrow> int" where
  "centre job g \<equiv> g * (4 * N_Up_sigsheets job) + 2 * N_Up_sigsheets job - 1"

definition booklet_page :: "sheet_job \<Rightarrow> int \<Rightarrow> int list" where
  "booklet_page job i = booklet_sheet (centre job (i div N_Up_sigsheets job)) (i mod N_Up_sigsheets job)"

text \<open>The jobs whose arrangement is that of the manual: no booklet, or a booklet of two pages to a side with both sides printed. \<open>booklet_n_up_repeats\<close> and \<open>simplex_fronts_half\<close> show what happens to others.\<close>

definition arrangeable :: "sheet_job \<Rightarrow> bool" where
  "arrangeable job \<longleftrightarrow> attr_pagefactor job > 0 \<and>
     (N_Up_sigsheets job = 0
      \<or> N_Up_N job = 2 \<and> (attr_pagefactor job = 2 \<or> attr_pagefactor job = 4) \<and> N_Up_sigsheets job > 0 \<and> N_Up_sigpart job AND SIG_BOTH = SIG_BOTH)"

definition sheets_needed :: "sheet_job \<Rightarrow> int \<Rightarrow> int" where
  "sheets_needed job n =
     (if N_Up_sigsheets job = 0 then (n + attr_pagefactor job - 1) div attr_pagefactor job
      else (n + 4 * N_Up_sigsheets job - 1) div (4 * N_Up_sigsheets job) * N_Up_sigsheets job * (4 div attr_pagefactor job))"

text \<open>The entry of the \<open>k\<close>-th page in reading order, whichever way the file is ordered.\<close>

definition reading_entry :: "sheet_job \<Rightarrow> PAGETABLE list \<Rightarrow> nat \<Rightarrow> PAGETABLE" where
  "reading_entry job pagetable k = pagetable ! (if attr_pageorder job = PAGEORDER_DESCEND then length pagetable - 1 - k else k)"

text \<open>The \<^verbatim>\<open>-pages\<close> file as \<^verbatim>\<open>ppr\<close> writes it: for each page its comment line, the place of its text, further comments, and a blank line.\<close>

record page_record =
  pr_label :: string
  pr_offset :: nat
  pr_comments :: "string list"

definition record_head :: "page_record \<Rightarrow> string" where
  "record_head r = ''%%Page:'' @ pr_label r @ CHR 0x0A # ''Offset: '' @ print_d (int (pr_offset r)) @ [CHR 0x0A]"

definition record_text :: "page_record \<Rightarrow> string" where
  "record_text r = record_head r @ concat (map (\<lambda>l. l @ [CHR 0x0A]) (pr_comments r)) @ [CHR 0x0A]"

definition short_line :: "string \<Rightarrow> bool" where
  "short_line l \<longleftrightarrow> CHR 0x0A \<notin> set l \<and> length l < 255"

definition record_ok :: "page_record \<Rightarrow> bool" where
  "record_ok r \<longleftrightarrow> short_line (''%%Page:'' @ pr_label r) \<and> pr_offset r < 2 ^ 63 \<and> length (print_d (int (pr_offset r))) < 200
     \<and> (\<forall>l \<in> set (pr_comments r). l \<noteq> [] \<and> short_line l)"

text \<open>What is ahead in the file, and the file after so many more characters.\<close>

definition standing :: "page_file \<Rightarrow> string \<Rightarrow> bool" where
  "standing f s \<longleftrightarrow> drop (pf_pos f) (pf_text f) = s"

definition moved :: "page_file \<Rightarrow> nat \<Rightarrow> page_file" where
  "moved f n = f\<lparr>pf_pos := pf_pos f + n\<rparr>"

definition record_entry :: "nat \<Rightarrow> page_record \<Rightarrow> PAGETABLE" where
  "record_entry pos r = \<lparr>pages_offset = pos + length (record_head r), text_offset = int (pr_offset r)\<rparr>"

text \<open>The entries of a file of records that starts at a position, each with its page number; the selected ones; and the events that print them in reading order.\<close>

fun located :: "nat \<Rightarrow> (int \<times> page_record) list \<Rightarrow> (int \<times> PAGETABLE) list" where
  "located pos [] = []"
| "located pos ((p, r) # prs) = (p, record_entry pos r) # located (pos + length (record_text r)) prs"

abbreviation (input) picked :: "sheet_job \<Rightarrow> (int \<times> PAGETABLE) list \<Rightarrow> PAGETABLE list" where
  "picked job es \<equiv> map snd (filter (\<lambda>pe. pagemask_get_bit job (fst pe) = 1) es)"

definition reading_order :: "sheet_job \<Rightarrow> nat \<Rightarrow> page_record list \<Rightarrow> (int \<times> PAGETABLE) list" where
  "reading_order job pos rs =
     (if attr_pageorder job = PAGEORDER_DESCEND then rev (located pos (zip (rev [1..attr_pages job]) rs))
      else located pos (zip [1..attr_pages job] rs))"

definition selected :: "sheet_job \<Rightarrow> nat \<Rightarrow> page_record list \<Rightarrow> (int \<times> PAGETABLE) list" where
  "selected job pos rs = filter (\<lambda>pe. pagemask_get_bit job (fst pe) = 1) (reading_order job pos rs)"

definition printed_once :: "(int \<times> PAGETABLE) list \<Rightarrow> page_event list" where
  "printed_once pes = map (\<lambda>k. Copy_page (snd (pes ! k)) (int k + 1)) [0..<length pes]"

subsection \<open>Examples\<close>

definition example_records :: "page_record list" where
  "example_records = [\<lparr>pr_label = '' i 1'', pr_offset = 0, pr_comments = [''%%PageMedia: letter'']\<rparr>,
     \<lparr>pr_label = '' ii 2'', pr_offset = 120, pr_comments = []\<rparr>, \<lparr>pr_label = '' iii 3'', pr_offset = 310, pr_comments = []\<rparr>]"

definition example_sheet_job :: sheet_job where
  "example_sheet_job = \<lparr>attr_pages = 3, pl_mask = Some [38], pl_count = 2, attr_pagefactor = 1, attr_pageorder = 1, attr_script = True,
     N_Up_N = 1, N_Up_sigsheets = 0, N_Up_sigpart = 3, opts_copies = 2, opts_collate = True\<rparr>"

definition example_arrangement :: arrangement where
  "example_arrangement = \<lparr>sheetcount = 0, current_job_direction = 0, print_direction = 0, copies_auto = 0, copies_auto_collate = 0,
     copies_doc_countdown = 0, copies_pages_countdown = 0\<rparr>"

definition example_file :: page_file where
  "example_file = \<lparr>pf_text = concat (map record_text example_records) @ ''%%Trailer'' @ [CHR 0x0A], pf_pos = 0\<rparr>"

definition example_arranged :: arrangement where
  "example_arranged = example_arrangement\<lparr>sheetcount := 2, current_job_direction := 1, print_direction := 1\<rparr>"

definition example_booklet :: sheet_job where
  "example_booklet = example_sheet_job\<lparr>attr_pagefactor := 4, N_Up_N := 2, N_Up_sigsheets := 2\<rparr>"

section \<open>Lemmas\<close>

subsection \<open>The loops\<close>

lemma place_page_ok:
  assumes "number job s m = Inr p"
  shows "\<exists>es. place_page job a pagetable l s m out = Inr (out @ es)
    \<and> filter copies_page es = map (copy_event a pagetable) (wanted pagetable [p])"
  using assms
  by (auto simp: place_page_def number_def copy_event_def Let_def split: if_splits)

lemma place_pages_ok:
  assumes "\<forall>m \<in> set ms. number job s m = Inr (p m)"
  shows "\<exists>es. foldE (place_page job a pagetable l s) ms out = Inr (out @ es)
    \<and> filter copies_page es = map (copy_event a pagetable) (wanted pagetable (map p ms))"
  using assms
proof (induction ms arbitrary: out)
  case (Cons m ms)
  obtain e1 where 1: "place_page job a pagetable l s m out = Inr (out @ e1)"
    "filter copies_page e1 = map (copy_event a pagetable) (wanted pagetable [p m])"
    using place_page_ok Cons.prems by (metis list.set_intros(1))
  obtain e2 where 2: "foldE (place_page job a pagetable l s) ms (out @ e1) = Inr ((out @ e1) @ e2)"
    "filter copies_page e2 = map (copy_event a pagetable) (wanted pagetable (map p ms))"
    using Cons.IH [of "out @ e1"] Cons.prems by auto
  show ?case using 1 2 by (intro exI [of _ "e1 @ e2"]) auto
qed simp

lemma sheet_loop_ok:
  assumes "print_direction a \<noteq> 0" "x + int rounds * print_direction a = (if print_direction a = -1 then -1 else sheetcount a)"
    "\<forall>i < rounds. \<forall>m \<in> set [0..attr_pagefactor job - 1]. number job (x + int i * print_direction a) m = Inr (p (x + int i * print_direction a) m)"
  shows "\<exists>es. sheet_loop rounds job a pagetable l x out = Inr (out @ es)
    \<and> filter copies_page es = map (copy_event a pagetable)
        (wanted pagetable (concat (map (\<lambda>i. map (p (x + int i * print_direction a)) [0..attr_pagefactor job - 1]) [0..<rounds])))"
  using assms
proof (induction rounds arbitrary: x out)
  case 0
  then show ?case by (subst sheet_loop.simps) simp
next
  case (Suc n)
  let ?d = "print_direction a" and ?ms = "[0..attr_pagefactor job - 1]"
  have p0: "\<forall>m \<in> set ?ms. number job x m = Inr (p x m)" using Suc.prems(3) [rule_format, of 0] by simp
  obtain e1 where 1: "foldE (place_page job a pagetable l x) ?ms out = Inr (out @ e1)"
    "filter copies_page e1 = map (copy_event a pagetable) (wanted pagetable (map (p x) ?ms))"
    using place_pages_ok [OF p0] by blast
  have shift: "x + int (Suc i) * ?d = (x + ?d) + int i * ?d" for i by (simp add: algebra_simps)
  have lim: "x + ?d + int n * ?d = (if ?d = -1 then -1 else sheetcount a)" using Suc.prems(2) shift [of n] by simp
  have ps: "\<forall>i < n. \<forall>m \<in> set ?ms. number job (x + ?d + int i * ?d) m = Inr (p (x + ?d + int i * ?d) m)"
  proof (intro allI impI ballI)
    fix i m assume "i < n" "m \<in> set ?ms"
    with Suc.prems(3) [rule_format, of "Suc i" m] show "number job (x + ?d + int i * ?d) m = Inr (p (x + ?d + int i * ?d) m)"
      unfolding shift by simp
  qed
  obtain e2 where 2: "sheet_loop n job a pagetable l (x + ?d) (out @ e1) = Inr ((out @ e1) @ e2)"
    "filter copies_page e2 = map (copy_event a pagetable)
        (wanted pagetable (concat (map (\<lambda>i. map (p (x + ?d + int i * ?d)) ?ms) [0..<n])))"
    using Suc.IH [OF Suc.prems(1) lim ps] by blast
  have ne: "x \<noteq> (if ?d = -1 then -1 else sheetcount a)" using Suc.prems(1,2) by auto
  have u: "[0..<Suc n] = 0 # map Suc [0..<n]" by (simp add: upt_conv_Cons map_Suc_upt del: upt_Suc)
  have "sheet_loop (Suc n) job a pagetable l x out = Inr (out @ e1 @ e2)"
    using ne 1(1) 2(1) by (subst sheet_loop.simps) simp
  moreover have "concat (map (\<lambda>i. map (p (x + int i * ?d)) ?ms) [0..<Suc n])
      = map (p x) ?ms @ concat (map (\<lambda>i. map (p (x + ?d + int i * ?d)) ?ms) [0..<n])"
    unfolding u by (simp add: comp_def algebra_simps)
  ultimately show ?case using 1(2) 2(2) by (intro exI [of _ "e1 @ e2"]) simp
qed

lemma sheet_numbers_map:
  assumes "print_direction a = 1 \<or> print_direction a = -1" "0 \<le> sheetcount a"
  shows "map (\<lambda>i. (if print_direction a = -1 then sheetcount a - 1 else 0) + int i * print_direction a) [0..<nat (sheetcount a)] = sheet_numbers a"
  using assms by (intro nth_equalityI) (auto simp: sheet_numbers_def rev_nth)

lemma copies_loop_ok:
  assumes "print_direction a = 1 \<or> print_direction a = -1" "0 \<le> sheetcount a"
    "\<forall>s \<in> set [0..sheetcount a - 1]. \<forall>m \<in> set [0..attr_pagefactor job - 1]. number job s m = Inr (p s m)"
  shows "\<exists>es. copies_loop c job a pagetable out = Inr (out @ es)
    \<and> filter copies_page es = concat (replicate c (map (copy_event a pagetable)
        (wanted pagetable (concat (map (\<lambda>s. map (p s) [0..attr_pagefactor job - 1]) (sheet_numbers a))))))"
proof (induction c arbitrary: out)
  case (Suc c)
  let ?x = "if print_direction a = -1 then sheetcount a - 1 else 0" and ?f = "\<lambda>s. map (p s) [0..attr_pagefactor job - 1]"
  have m: "map (\<lambda>i. ?x + int i * print_direction a) [0..<nat (sheetcount a)] = sheet_numbers a"
    by (rule sheet_numbers_map [OF assms(1,2)])
  have mem: "?x + int i * print_direction a \<in> set [0..sheetcount a - 1]" if "i < nat (sheetcount a)" for i
    using that assms(1) by auto
  have eq: "map (\<lambda>i. ?f (?x + int i * print_direction a)) [0..<nat (sheetcount a)] = map ?f (sheet_numbers a)"
    unfolding m [symmetric] by simp
  have nz: "print_direction a \<noteq> 0" using assms(1) by auto
  have lim: "?x + int (nat (sheetcount a)) * print_direction a = (if print_direction a = -1 then -1 else sheetcount a)"
    using assms(1,2) by auto
  have ps: "\<forall>i < nat (sheetcount a). \<forall>m \<in> set [0..attr_pagefactor job - 1].
      number job (?x + int i * print_direction a) m = Inr (p (?x + int i * print_direction a) m)"
    using assms(3) mem by blast
  obtain e1 where 1: "sheet_loop (nat (sheetcount a)) job a pagetable (c = 0) ?x out = Inr (out @ e1)"
    "filter copies_page e1 = map (copy_event a pagetable) (wanted pagetable (concat (map ?f (sheet_numbers a))))"
    using sheet_loop_ok [OF nz lim ps, of pagetable "c = 0" out] unfolding eq by blast
  obtain e2 where "copies_loop c job a pagetable (out @ e1) = Inr ((out @ e1) @ e2)"
    "filter copies_page e2 = concat (replicate c (map (copy_event a pagetable) (wanted pagetable (concat (map ?f (sheet_numbers a))))))"
    using Suc.IH by blast
  with 1 show ?case by (intro exI [of _ "e1 @ e2"]) simp
qed simp

subsection \<open>Numbers of the pages\<close>

lemma upto_int: "[0..int k - 1] = map int [0..<k]"
  by (intro nth_equalityI) auto

lemma blocks_upto:
  assumes "0 \<le> n"
  shows "concat (map (\<lambda>s. map (\<lambda>m. int s * n + m) [0..n - 1]) [0..<k]) = [0..int k * n - 1]"
proof (induction k)
  case (Suc k)
  have "map (\<lambda>m. int k * n + m) [0..n - 1] = [int k * n..int (Suc k) * n - 1]"
    using assms by (intro nth_equalityI) (auto simp: algebra_simps)
  moreover have "[0..int (Suc k) * n - 1] = [0..int k * n - 1] @ [int k * n..int (Suc k) * n - 1]"
    using upto_split1 [of 0 "int k * n" "int (Suc k) * n - 1"] assms by (cases "n = 0") (auto simp: algebra_simps)
  ultimately show ?case using Suc.IH by simp
qed simp

lemma fold_book_centre: "fold_book (map (\<lambda>s. booklet_sheet c (int s)) [0..<k]) = [c - int k * 2 + 1..c + int k * 2]"
proof (induction k)
  case (Suc k)
  let ?l = "c - int k * 2" and ?u = "c + int k * 2"
  have "[?l - 1..?u + 2] = (?l - 1) # ?l # [?l + 1..?u] @ [?u + 1, ?u + 2]"
    using upto_rec1 [of "?l - 1" "?u + 2"] upto_rec1 [of "?l" "?u + 2"] upto_rec2 [of "?l + 1" "?u + 2"] upto_rec2 [of "?l + 1" "?u + 1"]
    by (simp add: add.commute [of 1])
  with Suc.IH show ?case by (simp add: fold_book_def fold_sheet_def booklet_sheet_def algebra_simps)
qed (simp add: fold_book_def)

lemma foldl_sheet_mset:
  "\<forall>s \<in> set sheets. length s = 4 \<Longrightarrow> mset (foldl fold_sheet book sheets) = mset book + mset (concat sheets)"
proof (induction sheets arbitrary: book)
  case (Cons s sheets)
  then obtain a b c d where "s = [a, b, c, d]" by (auto simp: length_Suc_conv eval_nat_numeral)
  with Cons show ?case by (simp add: fold_sheet_def)
qed simp

lemma fold_book_mset: "\<forall>s \<in> set sheets. length s = 4 \<Longrightarrow> mset (fold_book sheets) = mset (concat sheets)"
  by (simp add: fold_book_def foldl_sheet_mset)

lemma sigpart_both:
  assumes "part AND 3 = (3 :: int)"
  shows "part AND 1 \<noteq> 0" "part AND 2 \<noteq> 0"
proof -
  have "part AND 1 = (part AND 3) AND 1" "part AND 2 = (part AND 3) AND 2" by (simp_all add: and.assoc)
  then show "part AND 1 \<noteq> 0" "part AND 2 \<noteq> 0" using assms by simp_all
qed

lemma split_sheet:
  assumes "0 \<le> g" "0 \<le> s" "s < q"
  shows "(g * q + s) div q = g" "(g * q + s) mod q = (s :: int)"
  using assms by simp_all

lemma signature_duplex:
  assumes "N_Up_N job = 2" "attr_pagefactor job = 4" "0 < N_Up_sigsheets job" "N_Up_sigpart job AND SIG_BOTH = SIG_BOTH"
    "0 \<le> g" "0 \<le> s" "s < N_Up_sigsheets job" "m < 4"
  shows "signature job (g * N_Up_sigsheets job + s) (int m) = Inr (booklet_sheet (g * (4 * N_Up_sigsheets job) + 2 * N_Up_sigsheets job - 1) s ! m)"
proof -
  let ?q = "N_Up_sigsheets job"
  have "0 \<le> g * ?q + s" using assms by simp
  then have q: "c_div (g * ?q + s) ?q = g" "c_mod (g * ?q + s) ?q = s" "c_div (?q * 4) 2 = ?q * 2"
    using assms split_sheet [of g s ?q] by simp_all
  have "m = 0 \<or> m = 1 \<or> m = 2 \<or> m = 3" using assms(8) by auto
  then show ?thesis
    using assms(1-4) sigpart_both [OF assms(4)] q
    by (elim disjE) (simp_all add: signature_def Let_def booklet_sheet_def algebra_simps)
qed

lemma signature_simplex:
  assumes "N_Up_N job = 2" "attr_pagefactor job = 2" "0 < N_Up_sigsheets job" "N_Up_sigpart job AND SIG_BOTH = SIG_BOTH"
    "0 \<le> g" "0 \<le> s" "s < N_Up_sigsheets job" "m < 2" "k < 2"
  shows "signature job (2 * (g * N_Up_sigsheets job + s) + int k) (int m)
    = Inr (booklet_sheet (g * (4 * N_Up_sigsheets job) + 2 * N_Up_sigsheets job - 1) s ! (2 * k + m))"
proof -
  let ?q = "N_Up_sigsheets job"
  have nn: "0 \<le> g * ?q + s" using assms by simp
  then have q: "c_div (g * ?q + s) ?q = g" "c_mod (g * ?q + s) ?q = s" "c_div (?q * 4) 2 = ?q * 2"
    using assms split_sheet [of g s ?q] by simp_all
  have k: "k = 0 \<or> k = 1" and m: "m = 0 \<or> m = 1" using assms(8,9) by auto
  define t where "t = 2 * (g * ?q + s) + int k"
  define u where "u = g * ?q + s"
  have odd: "(2 * x + int k) AND 1 = int k" for x using k by (auto simp: and_one_eq)
  have "t AND 1 = int k" unfolding t_def by (rule odd)
  moreover have "c_div t 2 = u" "c_div u ?q = g" "c_mod u ?q = s" using nn k q unfolding t_def u_def by auto
  ultimately have "signature job t (int m) = Inr (booklet_sheet (g * (4 * ?q) + 2 * ?q - 1) s ! (2 * k + m))"
    using k m assms(1-4) sigpart_both [OF assms(4)] q(3)
    by (elim disjE) (simp_all add: signature_def Let_def booklet_sheet_def algebra_simps)
  then show ?thesis by (simp add: t_def)
qed

lemma concat_nested: "concat (concat xss) = concat (map concat xss)"
  by (induction xss) simp_all

lemma booklet_numbers:
  assumes "0 < q"
  shows "mset (concat (map (\<lambda>i. booklet_sheet ((int i div q) * (4 * q) + 2 * q - 1) (int i mod q)) [0..<G * nat q])) = mset [0..int G * (4 * q) - 1]"
proof -
  let ?f = "\<lambda>i. booklet_sheet ((i div q) * (4 * q) + 2 * q - 1) (i mod q)"
  let ?g = "\<lambda>g. concat (map (\<lambda>s. ?f (int g * q + s)) [0..q - 1])"
  have i: "map int [0..<G * nat q] = concat (map (\<lambda>g. map (\<lambda>s. int g * q + s) [0..q - 1]) [0..<G])"
    using blocks_upto [of q G] assms by (simp add: upto_int [symmetric])
  have "map (\<lambda>i. ?f (int i)) [0..<G * nat q] = map ?f (map int [0..<G * nat q])" by simp
  also have "\<dots> = concat (map (\<lambda>g. map (\<lambda>s. ?f (int g * q + s)) [0..q - 1]) [0..<G])"
    unfolding i by (simp add: map_concat comp_def)
  finally have c: "concat (map (\<lambda>i. ?f (int i)) [0..<G * nat q]) = concat (map ?g [0..<G])"
    by (simp add: concat_nested comp_def)
  have book: "mset (?g g) = mset (map (\<lambda>m. int g * (4 * q) + m) [0..4 * q - 1])" for g
  proof -
    let ?c = "int g * (4 * q) + 2 * q - 1"
    have "map (\<lambda>s. ?f (int g * q + s)) [0..q - 1] = map (\<lambda>s. booklet_sheet ?c (int s)) [0..<nat q]"
      using assms upto_int [of "nat q"] by simp
    then have "mset (?g g) = mset (fold_book (map (\<lambda>s. booklet_sheet ?c (int s)) [0..<nat q]))"
      by (simp add: fold_book_mset booklet_sheet_def)
    also have "\<dots> = mset [int g * (4 * q)..int g * (4 * q) + 4 * q - 1]"
      using assms by (simp add: fold_book_centre algebra_simps)
    also have "[int g * (4 * q)..int g * (4 * q) + 4 * q - 1] = map (\<lambda>m. int g * (4 * q) + m) [0..4 * q - 1]"
      by (intro nth_equalityI) auto
    finally show ?thesis .
  qed
  have "mset (concat (map ?g [0..<G])) = mset (concat (map (\<lambda>g. map (\<lambda>m. int g * (4 * q) + m) [0..4 * q - 1]) [0..<G]))"
    unfolding mset_concat by (simp only: map_map comp_def book)
  also have "\<dots> = mset [0..int G * (4 * q) - 1]" using blocks_upto [of "4 * q" G] assms by simp
  finally show ?thesis unfolding c .
qed

lemma pairs: "concat (map f [0..<2 * k]) = concat (map (\<lambda>i. f (2 * i) @ f (2 * i + 1)) [0..<k])"
  by (induction k) simp_all

lemma round_up:
  assumes "0 < f" "0 \<le> (n :: int)"
  shows "n \<le> (n + f - 1) div f * f" "0 \<le> (n + f - 1) div f"
proof -
  have "(n + f - 1) div f * f + (n + f - 1) mod f = n + f - 1" by simp
  moreover have "(n + f - 1) mod f < f" using assms by simp
  ultimately show "n \<le> (n + f - 1) div f * f" by linarith
qed (use assms in \<open>simp add: pos_imp_zdiv_nonneg_iff\<close>)

lemma sheet_parts:
  assumes "0 < q" "0 \<le> (i :: int)"
  shows "i div q * q + i mod q = i" "0 \<le> i div q" "0 \<le> i mod q" "i mod q < q"
  using assms by (simp_all add: pos_imp_zdiv_nonneg_iff)

lemma plain_numbers:
  assumes "0 < attr_pagefactor job" "N_Up_sigsheets job = 0" "0 \<le> c"
  shows "numbered job c (\<lambda>s m. s * attr_pagefactor job + m)"
    "sheet_pages job (\<lambda>s m. s * attr_pagefactor job + m) [0..c - 1] = [0..c * attr_pagefactor job - 1]"
  using blocks_upto [of "attr_pagefactor job" "nat c"] assms upto_int [of "nat c"]
  by (simp_all add: numbered_def number_def sheet_pages_def comp_def)

lemma duplex_numbers:
  assumes "N_Up_N job = 2" "attr_pagefactor job = 4" "0 < N_Up_sigsheets job" "N_Up_sigpart job AND SIG_BOTH = SIG_BOTH"
  shows "numbered job c (\<lambda>s m. booklet_page job s ! nat m)"
    "sheet_pages job (\<lambda>s m. booklet_page job s ! nat m) [0..int k - 1] = concat (map (\<lambda>i. booklet_page job (int i)) [0..<k])"
proof -
  have "number job s m = Inr (booklet_page job s ! nat m)" if "s \<in> set [0..c - 1]" "m \<in> set [0..attr_pagefactor job - 1]" for s m
  proof -
    have s: "0 \<le> s" "nat m < 4" using that assms(2) by auto
    show ?thesis
      using signature_duplex [OF assms sheet_parts(2-4) [OF assms(3) s(1)] s(2)] sheet_parts(1) [OF assms(3) s(1)] that assms(3)
      by (simp add: number_def booklet_page_def)
  qed
  then show "numbered job c (\<lambda>s m. booklet_page job s ! nat m)" by (simp add: numbered_def)
  have "map (\<lambda>m. booklet_page job s ! nat m) [0..attr_pagefactor job - 1] = booklet_page job s" for s
    unfolding assms(2) by (simp add: booklet_page_def booklet_sheet_def upto.simps)
  then show "sheet_pages job (\<lambda>s m. booklet_page job s ! nat m) [0..int k - 1] = concat (map (\<lambda>i. booklet_page job (int i)) [0..<k])"
    by (simp add: sheet_pages_def upto_int comp_def)
qed

lemma simplex_numbers:
  assumes "N_Up_N job = 2" "attr_pagefactor job = 2" "0 < N_Up_sigsheets job" "N_Up_sigpart job AND SIG_BOTH = SIG_BOTH"
  shows "numbered job c (\<lambda>s m. booklet_page job (s div 2) ! nat (2 * (s mod 2) + m))"
    "sheet_pages job (\<lambda>s m. booklet_page job (s div 2) ! nat (2 * (s mod 2) + m)) [0..int (2 * k) - 1] = concat (map (\<lambda>i. booklet_page job (int i)) [0..<k])"
proof -
  let ?p = "\<lambda>s m. booklet_page job (s div 2) ! nat (2 * (s mod 2) + m)"
  have "number job s m = Inr (?p s m)" if "s \<in> set [0..c - 1]" "m \<in> set [0..attr_pagefactor job - 1]" for s m
  proof -
    have s: "0 \<le> s div 2" "2 * (s div 2) + int (nat (s mod 2)) = s" "nat m < 2" "nat (s mod 2) < 2" using that assms(2) by auto
    have "nat (2 * (s mod 2) + m) = 2 * nat (s mod 2) + nat m" using that assms(2) by (simp add: nat_add_distrib nat_mult_distrib)
    then show ?thesis
      using signature_simplex [OF assms sheet_parts(2-4) [OF assms(3) s(1)] s(3,4)]
        s(2) sheet_parts(1) [OF assms(3) s(1)] that assms(2,3)
      by (simp add: number_def booklet_page_def)
  qed
  then show "numbered job c ?p" by (simp add: numbered_def)
  have two: "map (?p (int (2 * i))) [0..attr_pagefactor job - 1] @ map (?p (int (2 * i + 1))) [0..attr_pagefactor job - 1] = booklet_page job (int i)" for i
    unfolding assms(2) by (simp add: booklet_page_def booklet_sheet_def upto.simps)
  have "sheet_pages job ?p [0..int (2 * k) - 1] = concat (map (\<lambda>i. map (?p (int i)) [0..attr_pagefactor job - 1]) [0..<2 * k])"
    unfolding sheet_pages_def upto_int by (simp add: comp_def)
  then show "sheet_pages job ?p [0..int (2 * k) - 1] = concat (map (\<lambda>i. booklet_page job (int i)) [0..<k])"
    unfolding pairs by (simp only: two)
qed

lemma place_numbers:
  assumes "arrangeable job" "0 \<le> n"
  shows "\<exists>p u. numbered job (sheets_needed job n) p \<and> 0 \<le> sheets_needed job n \<and> n \<le> u + 1
    \<and> mset (sheet_pages job p [0..sheets_needed job n - 1]) = mset [0..u]
    \<and> (N_Up_sigsheets job = 0 \<longrightarrow> sheet_pages job p [0..sheets_needed job n - 1] = [0..u])"
proof (cases "N_Up_sigsheets job = 0")
  case True
  have f: "0 < attr_pagefactor job" using assms(1) by (simp add: arrangeable_def)
  show ?thesis
    using plain_numbers [OF f True, of "sheets_needed job n"] round_up [OF f assms(2)] True
    by (intro exI [of _ "\<lambda>s m. s * attr_pagefactor job + m"] exI [of _ "sheets_needed job n * attr_pagefactor job - 1"])
      (simp add: sheets_needed_def)
next
  case False
  let ?f = "attr_pagefactor job" and ?q = "N_Up_sigsheets job"
  have j: "N_Up_N job = 2" "?f = 2 \<or> ?f = 4" "0 < ?q" "N_Up_sigpart job AND SIG_BOTH = SIG_BOTH"
    using assms(1) False by (auto simp: arrangeable_def)
  define G where "G = nat ((n + 4 * ?q - 1) div (4 * ?q))"
  have G: "int G = (n + 4 * ?q - 1) div (4 * ?q)" "n \<le> int G * (4 * ?q)"
    using round_up [of "4 * ?q" n] j(3) assms(2) by (simp_all add: G_def)
  have c: "sheets_needed job n = int (G * nat ?q * nat (4 div ?f))" using False j by (auto simp: sheets_needed_def G)
  have all: "mset (concat (map (\<lambda>i. booklet_page job (int i)) [0..<G * nat ?q])) = mset [0..int G * (4 * ?q) - 1]"
    unfolding booklet_page_def by (rule booklet_numbers [OF j(3)])
  have "\<exists>p. numbered job (sheets_needed job n) p
      \<and> sheet_pages job p [0..sheets_needed job n - 1] = concat (map (\<lambda>i. booklet_page job (int i)) [0..<G * nat ?q])"
    using j(2)
  proof
    assume f: "?f = 2"
    have "sheets_needed job n = int (2 * (G * nat ?q))" unfolding c f by simp
    then show ?thesis
      by (intro exI [of _ "\<lambda>s m. booklet_page job (s div 2) ! nat (2 * (s mod 2) + m)"] conjI) (simp_all only: simplex_numbers [OF j(1) f j(3,4)])
  next
    assume f: "?f = 4"
    have "sheets_needed job n = int (G * nat ?q)" unfolding c f by simp
    then show ?thesis
      by (intro exI [of _ "\<lambda>s m. booklet_page job s ! nat m"] conjI) (simp_all only: duplex_numbers [OF j(1) f j(3,4)])
  qed
  then obtain p where p: "numbered job (sheets_needed job n) p"
    "sheet_pages job p [0..sheets_needed job n - 1] = concat (map (\<lambda>i. booklet_page job (int i)) [0..<G * nat ?q])" by blast
  have "0 \<le> sheets_needed job n" unfolding c by simp
  then show ?thesis
    using p all G(2) False by (intro exI [of _ p] exI [of _ "int G * (4 * ?q) - 1"]) simp
qed

subsection \<open>One copy\<close>

lemma page_computations_ok:
  assumes "arrangeable job" "page_computations order job a0 = Inr a" "0 \<le> pagemask_count job"
  shows "sheetcount a = sheets_needed job (pagemask_count job)"
    "current_job_direction a = (if attr_pageorder job = PAGEORDER_DESCEND then -1 else 1)"
    "print_direction a = (if attr_pageorder job = PAGEORDER_SPECIAL then 1 else order)"
    "copies_pages_countdown a = copies_pages_countdown a0"
  using assms
  by (auto simp: page_computations_def arrangeable_def sheets_needed_def Let_def bindE_eq_Inr algebra_simps split: if_splits)

lemma filter_upto: "n \<le> u + 1 \<Longrightarrow> filter (\<lambda>p. 0 \<le> p \<and> p < n) [0..u] = [0..n - 1]"
proof -
  assume le: "n \<le> u + 1"
  show ?thesis
  proof (cases "0 \<le> n")
    case True
    have "[0..u] = [0..n - 1] @ [n..u]" using upto_split1 [of 0 n u] True le by (cases "n = u + 1") auto
    then show ?thesis by (simp add: filter_True filter_False)
  qed (simp add: filter_False)
qed

lemma copy_event_entry:
  assumes "current_job_direction a = (if attr_pageorder job = PAGEORDER_DESCEND then -1 else 1)" "k < length pagetable"
  shows "copy_event a pagetable (int k) = Copy_page (reading_entry job pagetable k) (int k + 1)"
  using assms by (auto simp: copy_event_def reading_entry_def nat_diff_distrib of_nat_diff intro!: arg_cong [of _ _ "(!) pagetable"])

lemma copies_loop_exact:
  assumes "arrangeable job" "page_computations order job a0 = Inr a" "order = 1 \<or> order = -1"
    "pagemask_count job = int (length pagetable)"
  shows "\<exists>out. copies_loop c job a pagetable [] = Inr out
    \<and> mset (filter copies_page out)
      = repeat_mset c (mset (map (\<lambda>k. Copy_page (reading_entry job pagetable k) (int k + 1)) [0..<length pagetable]))
    \<and> (N_Up_sigsheets job = 0 \<and> print_direction a = 1 \<longrightarrow> filter copies_page out
      = concat (replicate c (map (\<lambda>k. Copy_page (reading_entry job pagetable k) (int k + 1)) [0..<length pagetable])))"
proof -
  let ?n = "int (length pagetable)"
  have nn: "0 \<le> pagemask_count job" using assms(4) by simp
  note pc = page_computations_ok [OF assms(1,2) nn]
  have d: "print_direction a = 1 \<or> print_direction a = -1" using pc(3) assms(3) by auto
  obtain p u where p: "numbered job (sheetcount a) p" "0 \<le> sheetcount a" "?n \<le> u + 1"
    "mset (sheet_pages job p [0..sheetcount a - 1]) = mset [0..u]"
    "N_Up_sigsheets job = 0 \<longrightarrow> sheet_pages job p [0..sheetcount a - 1] = [0..u]"
    using place_numbers [OF assms(1) nn] unfolding pc(1) assms(4) by blast
  obtain es where es: "copies_loop c job a pagetable [] = Inr es"
    "filter copies_page es = concat (replicate c (map (copy_event a pagetable) (wanted pagetable (sheet_pages job p (sheet_numbers a)))))"
    using copies_loop_ok [OF d p(2), of job p c pagetable "[]"] p(1) unfolding numbered_def sheet_pages_def by auto
  have evs: "map (copy_event a pagetable) [0..?n - 1] = map (\<lambda>k. Copy_page (reading_entry job pagetable k) (int k + 1)) [0..<length pagetable]"
    unfolding upto_int using copy_event_entry [OF pc(2)] by simp
  have "mset (sheet_pages job p (sheet_numbers a)) = mset [0..u]"
    using p(4) by (simp add: sheet_pages_def sheet_numbers_def mset_concat rev_map [symmetric] sum_mset_sum_list [symmetric])
  then have "mset (wanted pagetable (sheet_pages job p (sheet_numbers a))) = mset [0..?n - 1]"
    using filter_upto [OF p(3)] by (metis mset_filter)
  then have m: "mset (map (copy_event a pagetable) (wanted pagetable (sheet_pages job p (sheet_numbers a))))
      = mset (map (copy_event a pagetable) [0..?n - 1])" by (metis mset_map)
  have r: "mset (concat (replicate c xs)) = repeat_mset c (mset xs)" for xs :: "page_event list" by (induction c) simp_all
  have o: "map (copy_event a pagetable) (wanted pagetable (sheet_pages job p (sheet_numbers a))) = map (copy_event a pagetable) [0..?n - 1]"
    if "N_Up_sigsheets job = 0" "print_direction a = 1"
    using that p(5) filter_upto [OF p(3)] by (simp add: sheet_numbers_def)
  have "mset (filter copies_page es) = repeat_mset c (mset (map (copy_event a pagetable) [0..?n - 1]))" by (simp only: es(2) r m)
  with es o show ?thesis unfolding evs by (intro exI [of _ es]) simp
qed

subsection \<open>The table\<close>

lemma parse_flags_long [scan_simps]:
  "parse_flags (CHR ''l'' # CHR ''d'' # p) ws = Inr (\<lparr>cf_suppress = False, cf_maxextlen = 0, cf_islong = True, cf_isshort = False\<rparr>, ws, CHR ''d'' # p)"
  by (simp add: parse_flags_def gu_ascii_isdigit_def scan_number_def)

lemma conv_d_long [scan_simps]:
  assumes "ends_number gu_ascii_isdigit t" "n < 2 ^ 63" "cf_islong f"
  shows "conv_d f (print_d (int n) @ t) = Inr (Some (t, store f (SInt (int n)), 1))"
proof -
  have d: "print_d (int n) = print_nat 10 n" by (simp add: print_d_def)
  have t: "takeWhile gu_ascii_isdigit (print_nat 10 n @ t) = print_nat 10 n" using takeWhile_ends [OF all_digits assms(1)] .
  have h: "hd (print_nat 10 n @ t) \<noteq> CHR ''-''" using hd_print_nat_digit [of n] by (auto simp: gu_ascii_isdigit_def)
  show ?thesis using assms(2,3) h t scan_number_print [of n] by (simp add: conv_d_def Let_def d)
qed

lemma scan_offset_print:
  assumes "n < 2 ^ 63"
  shows "scan_offset (''Offset: '' @ print_d (int n)) = Inr (Some (int n))"
  using conv_d_long [of "[]" n] assms
  by (simp add: scan_offset_def gu_sscanf_def scan_simps store_def)

lemma moved_simps [simp]: "moved (moved f m) n = moved f (m + n)" "pf_pos (moved f n) = pf_pos f + n"
  by (simp_all add: moved_def)

lemma standing_moved: "standing f (s @ t) \<Longrightarrow> standing (moved f (length s)) t"
  by (simp add: standing_def moved_def add.commute [of "pf_pos f"] flip: drop_drop)

lemma getpline_standing:
  assumes "standing f (l @ CHR 0x0A # t)" "short_line l"
  shows "getpline f = (Some l, moved f (length l + 1))" "standing (moved f (length l + 1)) t"
proof -
  have "takeWhile (\<lambda>c. c \<noteq> CHR 0x0A) (l @ CHR 0x0A # t) = l"
    using assms(2) by (subst takeWhile_append2) (auto simp: short_line_def)
  then have "fgets_line 256 (l @ CHR 0x0A # t) = l @ [CHR 0x0A]"
    using assms(2) by (simp add: fgets_line_def short_line_def Let_def)
  then show "getpline f = (Some l, moved f (length l + 1))"
    using assms(1) by (simp add: getpline_def standing_def moved_def Let_def)
  show "standing (moved f (length l + 1)) t" using standing_moved [of f "l @ [CHR 0x0A]" t] assms(1) by simp
qed

lemma skip_record_standing:
  assumes "\<forall>l \<in> set ls. l \<noteq> [] \<and> short_line l" "standing f (concat (map (\<lambda>l. l @ [CHR 0x0A]) ls) @ CHR 0x0A # t)"
  shows "skip_record f = Inr (moved f (length (concat (map (\<lambda>l. l @ [CHR 0x0A]) ls)) + 1))"
  using assms
proof (induction ls arbitrary: f)
  case Nil
  then have "getpline f = (Some [], moved f 1)" using getpline_standing [of f "[]" t] by (simp add: short_line_def)
  then show ?case by (subst skip_record.simps) simp
next
  case (Cons l ls)
  then have g: "getpline f = (Some l, moved f (length l + 1))"
      "standing (moved f (length l + 1)) (concat (map (\<lambda>l. l @ [CHR 0x0A]) ls) @ CHR 0x0A # t)"
    using getpline_standing [of f l "concat (map (\<lambda>l. l @ [CHR 0x0A]) ls) @ CHR 0x0A # t"] by simp_all
  with Cons.IH [OF _ g(2)] Cons.prems(1) show ?case by (subst skip_record.simps) simp
qed

lemma table_page_standing:
  assumes "record_ok r" "standing f (record_text r @ t)" "pagemask_get_bit job page = 1 \<longrightarrow> int (length tab) < printed"
  shows "table_page job printed page (f, tab)
    = Inr (moved f (length (record_text r)), tab @ (if pagemask_get_bit job page = 1 then [record_entry (pf_pos f) r] else []))"
proof -
  let ?p = "''%%Page:'' @ pr_label r" and ?o = "''Offset: '' @ print_d (int (pr_offset r))"
  let ?c = "concat (map (\<lambda>l. l @ [CHR 0x0A]) (pr_comments r))"
  have s: "short_line ?p" "\<forall>l \<in> set (pr_comments r). l \<noteq> [] \<and> short_line l" using assms(1) by (auto simp: record_ok_def)
  have nl: "CHR 0x0A \<notin> set (print_d (int n))" for n using all_digits [of n] by (auto simp: print_d_def gu_ascii_isdigit_def)
  then have so: "short_line ?o" using assms(1) by (simp add: record_ok_def short_line_def)
  have st: "standing f (?p @ CHR 0x0A # ?o @ CHR 0x0A # ?c @ CHR 0x0A # t)"
    using assms(2) by (simp add: record_text_def record_head_def)
  note g1 = getpline_standing [OF st s(1)]
  note g2 = getpline_standing [OF g1(2) so]
  have h: "length ?p + 1 + (length ?o + 1) = length (record_head r)" by (simp add: record_head_def)
  have sk: "skip_record (moved f (length (record_head r))) = Inr (moved f (length (record_text r)))"
    using skip_record_standing [OF s(2) g2(2) [unfolded moved_simps h]] by (simp add: record_text_def)
  have off: "scan_offset ?o = Inr (Some (int (pr_offset r)))" using scan_offset_print assms(1) by (simp add: record_ok_def)
  have lm: "lmatch ?p ''%%Page:''" by (simp add: lmatch_def)
  have g2': "getpline (moved f (length ?p + 1)) = (Some ?o, moved f (length (record_head r)))" using g2(1) unfolding moved_simps h .
  show ?thesis
    unfolding table_page_def prod.case g1(1) option.case g2' off bindE_Inr
    using lm assms(3) sk by (auto simp: record_entry_def)
qed

lemma map_fst_located [simp]: "map fst (located pos prs) = map fst prs"
  by (induction pos prs rule: located.induct) simp_all

lemma table_loop_standing:
  assumes "\<forall>pr \<in> set prs. record_ok (snd pr)" "standing f (concat (map (\<lambda>pr. record_text (snd pr)) prs) @ t)"
    "int (length tab + length (picked job (located (pf_pos f) prs))) \<le> printed"
  shows "foldE (table_page job printed) (map fst prs) (f, tab)
    = Inr (moved f (length (concat (map (\<lambda>pr. record_text (snd pr)) prs))), tab @ picked job (located (pf_pos f) prs))"
  using assms
proof (induction prs arbitrary: f tab)
  case Nil
  then show ?case by (simp add: moved_def)
next
  case (Cons pr prs)
  obtain p r where pr: "pr = (p, r)" by (cases pr)
  let ?t = "concat (map (\<lambda>pr. record_text (snd pr)) prs) @ t"
  let ?e = "if pagemask_get_bit job p = 1 then [record_entry (pf_pos f) r] else []"
  have s: "standing f (record_text r @ ?t)" using Cons.prems(2) pr by simp
  have p1: "table_page job printed p (f, tab) = Inr (moved f (length (record_text r)), tab @ ?e)"
    using table_page_standing [OF _ s, of job p tab printed] Cons.prems pr by auto
  have "foldE (table_page job printed) (map fst prs) (moved f (length (record_text r)), tab @ ?e)
      = Inr (moved (moved f (length (record_text r))) (length (concat (map (\<lambda>pr. record_text (snd pr)) prs))),
             (tab @ ?e) @ picked job (located (pf_pos (moved f (length (record_text r)))) prs))"
    using Cons.prems pr standing_moved [OF s] by (intro Cons.IH) auto
  with p1 show ?case by (simp add: pr)
qed

lemma map_fst_reading_order:
  assumes "length rs = nat (attr_pages job)"
  shows "map fst (reading_order job pos rs) = [1..attr_pages job]"
  using assms by (auto simp: reading_order_def rev_map [symmetric])

lemma length_selected:
  assumes "length rs = nat (attr_pages job)"
  shows "length (selected job pos rs) = length (filter (\<lambda>p. pagemask_get_bit job p = 1) [1..attr_pages job])"
  unfolding map_fst_reading_order [OF assms, of pos, symmetric] by (simp add: selected_def filter_map comp_def)

lemma make_pagetable_ok:
  assumes "length rs = nat (attr_pages job)" "0 < attr_pages job" "\<forall>r \<in> set rs. record_ok r" "standing f (concat (map record_text rs) @ t)"
    "pagemask_count job = int (length (filter (\<lambda>p. pagemask_get_bit job p = 1) [1..attr_pages job]))"
  shows "\<exists>table. make_pagetable job f = Inr (moved f (length (concat (map record_text rs))), table)
    \<and> length table = length (selected job (pf_pos f) rs)
    \<and> (\<forall>k < length table. reading_entry job table k = snd (selected job (pf_pos f) rs ! k))"
proof -
  let ?ps = "if attr_pageorder job = PAGEORDER_DESCEND then rev [1..attr_pages job] else [1..attr_pages job]"
  let ?prs = "zip ?ps rs" and ?sel = "selected job (pf_pos f) rs"
  have l: "length ?ps = length rs" using assms(1) by simp
  have z: "map fst ?prs = ?ps" "map snd ?prs = rs" using l by simp_all
  have "map (\<lambda>pr. record_text (snd pr)) ?prs = map record_text (map snd ?prs)" by simp
  then have c: "map (\<lambda>pr. record_text (snd pr)) ?prs = map record_text rs" unfolding z .
  have tab: "picked job (located (pf_pos f) ?prs) = (if attr_pageorder job = PAGEORDER_DESCEND then rev (map snd ?sel) else map snd ?sel)"
    by (simp add: selected_def reading_order_def rev_map rev_filter)
  have n: "int (length (picked job (located (pf_pos f) ?prs))) = pagemask_count job"
    unfolding tab using length_selected [OF assms(1)] assms(5) by simp
  have ok: "\<forall>pr \<in> set ?prs. record_ok (snd pr)" using assms(3) by (auto dest: set_zip_rightD)
  have "foldE (table_page job (pagemask_count job)) ?ps (f, [])
      = Inr (moved f (length (concat (map record_text rs))), picked job (located (pf_pos f) ?prs))"
    using table_loop_standing [OF ok, of f t "[]" job "pagemask_count job"] assms(4) n unfolding c z by simp
  then have mk: "make_pagetable job f = Inr (moved f (length (concat (map record_text rs))), picked job (located (pf_pos f) ?prs))"
    using assms(2) n by (simp add: make_pagetable_def)
  have "reading_entry job (picked job (located (pf_pos f) ?prs)) k = snd (?sel ! k)" if "k < length ?sel" for k
    unfolding tab using that by (auto simp: reading_entry_def rev_nth rev_map)
  with mk tab show ?thesis by (intro exI [of _ "picked job (located (pf_pos f) ?prs)"]) (simp split: if_splits)
qed

subsection \<open>The example\<close>

lemma example_records_ok: "\<forall>r \<in> set example_records. record_ok r"
proof -
  have "length (print_d 0) < 200" "length (print_d 120) < 200" "length (print_d 310) < 200" by code_simp+
  then show ?thesis by (simp add: example_records_def record_ok_def short_line_def)
qed

lemma example_standing: "standing example_file (concat (map record_text example_records) @ ''%%Trailer'' @ [CHR 0x0A])"
  by (simp add: standing_def example_file_def)

section \<open>Properties\<close>



text \<open>
  A job with page comments in special order, of which a printer that cannot collate is to make two or more
  collated copies, never ends: the document is sent again for each copy, but \<^verbatim>\<open>copies_pages_countdown\<close>, which the
  first time has counted down below zero, is not set again.
\<close>

theorem special_copies_endless:
  assumes "arrangeable job" "page_computations order job a0 = Inr a1" "order = 1 \<or> order = -1" "a = select_copies_method False job a1"
    "attr_pageorder job = PAGEORDER_SPECIAL" "attr_script job" "opts_collate job" "opts_copies job \<ge> 2"
    "length rs = nat (attr_pages job)" "0 < attr_pages job" "\<forall>r \<in> set rs. record_ok r" "pf_pos f = 0" "standing f (concat (map record_text rs) @ t)"
    "pagemask_count job = int (length (filter (\<lambda>p. pagemask_get_bit job p = 1) [1..attr_pages job]))" "0 < pagemask_count job"
  shows "print_documents (nat (copies_doc_countdown a)) job a f = Inl (DrvLoop ''copy_pages(): copies'')"
proof -
  have a: "copies_doc_countdown a = opts_copies job" "copies_pages_countdown a = 1" using assms(4-8) by (auto simp: select_copies_method_def)
  then have n: "nat (copies_doc_countdown a) = Suc (Suc (nat (opts_copies job - 2)))" using assms(8) by linarith
  obtain table where t: "make_pagetable job f = Inr (moved f (length (concat (map record_text rs))), table)"
    "length table = length (selected job (pf_pos f) rs)"
    using make_pagetable_ok [OF assms(9-11,13,14)] by blast
  have ne: "table \<noteq> []" using t(2) length_selected [OF assms(9)] assms(14,15) by auto
  have pc: "page_computations order job (select_copies_method False job a0) = Inr a"
    using assms(2,4) by (auto simp: page_computations_def select_copies_method_def Let_def bindE_eq_Inr split: if_splits)
  have c: "pagemask_count job = int (length table)" using t(2) length_selected [OF assms(9)] assms(14) by simp
  obtain out where o: "copies_loop 1 job a table [] = Inr out" using copies_loop_exact [OF assms(1) pc assms(3) c, of 1] by blast
  let ?a = "a\<lparr>copies_pages_countdown := -1\<rparr>" and ?f = "moved f (length (concat (map record_text rs)))"
  have first: "copy_pages job a f = Inr (?f, ?a, out)" using t(1) ne a(2) o by (simp add: copy_pages_def)
  have "?f\<lparr>pf_pos := 0\<rparr> = f" using assms(12) by (simp add: moved_def)
  then have second: "copy_pages job ?a (?f\<lparr>pf_pos := 0\<rparr>) = Inl (DrvLoop ''copy_pages(): copies'')"
    using t(1) ne by (simp add: copy_pages_def)
  show ?thesis unfolding n using first second assms(6) by simp
qed

theorem special_copies_endless_witness:
  "print_documents 2 (example_sheet_job\<lparr>attr_pageorder := 0\<rparr>) (select_copies_method False (example_sheet_job\<lparr>attr_pageorder := 0\<rparr>) example_arranged) example_file
     = Inl (DrvLoop ''copy_pages(): copies'')"
proof -
  let ?job = "example_sheet_job\<lparr>attr_pageorder := 0\<rparr>"
  have j: "arrangeable ?job" "attr_pageorder ?job = 0" "attr_script ?job" "opts_collate ?job" "opts_copies ?job \<ge> 2"
    "length example_records = nat (attr_pages ?job)" "0 < attr_pages ?job" "pf_pos example_file = 0" "0 < pagemask_count ?job" by code_simp+
  have pc: "page_computations 1 ?job example_arrangement = Inr example_arranged" by code_simp
  have n: "pagemask_count ?job = int (length (filter (\<lambda>p. pagemask_get_bit ?job p = 1) [1..attr_pages ?job]))" by code_simp
  have d: "nat (copies_doc_countdown (select_copies_method False ?job example_arranged)) = 2" by code_simp
  show ?thesis
    using special_copies_endless [OF j(1) pc _ refl j(2-7) example_records_ok j(8) example_standing n j(9)] unfolding d by simp
qed



text \<open>
  A signature with other than two pages to a side puts the same pages on each of its sheets, so that the pages
  after the first sheet's are never printed.
\<close>

theorem booklet_n_up_repeats:
  assumes "N_Up_N job > 0" "N_Up_N job \<noteq> 2" "attr_pagefactor job = 2 * N_Up_N job" "0 < N_Up_sigsheets job"
    "N_Up_sigpart job AND SIG_BOTH = SIG_BOTH" "0 \<le> g" "0 \<le> s" "s < N_Up_sigsheets job"
  shows "signature job (g * N_Up_sigsheets job + s) m = Inr (g * (N_Up_N job * N_Up_sigsheets job * 2) + m)"
proof -
  have "0 \<le> g * N_Up_sigsheets job + s" using assms by simp
  then have "c_div (g * N_Up_sigsheets job + s) (N_Up_sigsheets job) = g" using assms split_sheet [of g s "N_Up_sigsheets job"] by simp
  then show ?thesis using assms(1-5) sigpart_both [OF assms(5)] by (simp add: signature_def Let_def)
qed

theorem booklet_n_up_repeats_witness:
  "signature (example_booklet\<lparr>N_Up_N := 4, attr_pagefactor := 8\<rparr>) 0 5 = Inr 5 \<and> signature (example_booklet\<lparr>N_Up_N := 4, attr_pagefactor := 8\<rparr>) 1 5 = Inr 5"
  using booklet_n_up_repeats [of "example_booklet\<lparr>N_Up_N := 4, attr_pagefactor := 8\<rparr>" 0 0 5] booklet_n_up_repeats [of "example_booklet\<lparr>N_Up_N := 4, attr_pagefactor := 8\<rparr>" 0 1 5]
  by (simp add: example_booklet_def example_sheet_job_def)

text \<open>When only the fronts of a booklet are printed, one side to a sheet, the right hand page of the front is taken for a back.\<close>

lemma simplex_fronts_half:
  assumes "N_Up_N job = 2" "attr_pagefactor job = 2" "N_Up_sigpart job = SIG_FRONTS"
  shows "signature job 0 1 = Inr (-1)"
  using assms by (simp add: signature_def Let_def)

lemma halves:
  assumes "0 < N" "0 \<le> (n :: int)"
  shows "(n + N - 1) div N div 2 + (n + N - 1) div N mod 2 = (n + 2 * N - 1) div (2 * N)"
proof -
  have "n + 2 * N - 1 = (n + N - 1) + N * 1" by simp
  then have "(n + 2 * N - 1) div N = (n + N - 1) div N + 1" using assms by (metis div_mult_self2 add.commute less_irrefl)
  then have "(n + 2 * N - 1) div (N * 2) = ((n + N - 1) div N + 1) div 2" using assms by (simp add: zdiv_zmult2_eq)
  moreover have "s div 2 + s mod 2 = (s + 1) div 2" for s :: int by presburger
  ultimately show ?thesis by (simp add: mult.commute)
qed

text \<open>
  The bill counts the sheets that are printed: the duplex and simplex sheets that \<^verbatim>\<open>compute_charge()\<close> charges for are
  together the sheets of \<^verbatim>\<open>page_computations()\<close> times the copies, and in jobs without booklets they have exactly
  the printed sides.
\<close>

theorem charge_counts_sheets:
  assumes "arrangeable job" "page_computations order job a0 = Inr a" "0 \<le> pagemask_count job" "0 < N_Up_N job"
    "attr_pagefactor job = N_Up_N job \<or> attr_pagefactor job = 2 * N_Up_N job"
  shows "\<exists>ch. compute_charge d s (pagemask_count job) (N_Up_N job) (attr_pagefactor job) (N_Up_sigsheets job) (N_Up_sigpart job) copies = Inr ch
    \<and> duplex_sheets ch + simplex_sheets ch = sheetcount a * (if copies \<ge> 0 then copies else 1)
    \<and> charge_total ch = duplex_sheets ch * d + simplex_sheets ch * s
    \<and> (N_Up_sigsheets job = 0 \<longrightarrow> 2 * duplex_sheets ch + simplex_sheets ch
         = (if attr_pagefactor job = N_Up_N job then sheetcount a else (pagemask_count job + N_Up_N job - 1) div N_Up_N job) * (if copies \<ge> 0 then copies else 1))"
proof (cases "N_Up_sigsheets job = 0")
  case True
  let ?n = "pagemask_count job" and ?N = "N_Up_N job"
  have c: "sheetcount a = (?n + attr_pagefactor job - 1) div attr_pagefactor job"
    using page_computations_ok(1) [OF assms(1-3)] True by (simp add: sheets_needed_def)
  have s0: "0 \<le> (?n + ?N - 1) div ?N" using round_up(2) [OF assms(4,3)] .
  show ?thesis
    using assms(5)
  proof
    assume "attr_pagefactor job = ?N"
    then show ?thesis using assms(3,4) True c by (simp add: compute_charge_def Let_def)
  next
    assume f: "attr_pagefactor job = 2 * ?N"
    then have "sheetcount a = (?n + ?N - 1) div ?N div 2 + (?n + ?N - 1) div ?N mod 2" using c halves [OF assms(4,3)] by simp
    moreover have "copies * (x mod 2) + copies * (2 * (x div 2)) = copies * x" for x
      by (metis distrib_left add.commute mult_div_mod_eq)
    ultimately show ?thesis using assms(3,4) True f s0 by (simp add: compute_charge_def Let_def algebra_simps)
  qed
next
  case False
  then have j: "N_Up_N job = 2" "0 < N_Up_sigsheets job" "N_Up_sigpart job AND SIG_BOTH = SIG_BOTH"
    "attr_pagefactor job = 2 \<or> attr_pagefactor job = 4"
    using assms(1) by (auto simp: arrangeable_def)
  then show ?thesis
    using page_computations_ok(1) [OF assms(1-3)] False assms(3)
    by (auto simp: compute_charge_def Let_def sheets_needed_def algebra_simps)
qed

theorem charge_counts_sheets_witness:
  "\<exists>ch. compute_charge 8 5 (pagemask_count example_sheet_job) 1 1 0 3 2 = Inr ch \<and> duplex_sheets ch + simplex_sheets ch = 4 \<and> charge_total ch = 20"
proof -
  have pc: "page_computations 1 example_sheet_job example_arrangement = Inr example_arranged" by code_simp
  have a: "arrangeable example_sheet_job" "0 \<le> pagemask_count example_sheet_job" "0 < N_Up_N example_sheet_job"
    "attr_pagefactor example_sheet_job = N_Up_N example_sheet_job \<or> attr_pagefactor example_sheet_job = 2 * N_Up_N example_sheet_job" by code_simp+
  show ?thesis
    using charge_counts_sheets [OF a(1) pc a(2-4), of 8 5 2] by (auto simp: example_sheet_job_def example_arranged_def example_arrangement_def)
qed

end
