(* ===== verification/Writemon.thy ===== *)
theory Writemon
  imports Sheets
begin

text \<open>
  Times (\<^verbatim>\<open>libgu/gu_timeval.c\<close>) and the stall monitor of \<^verbatim>\<open>pprdrv\<close> (\<^verbatim>\<open>pprdrv/pprdrv_writemon.c\<close>), which watches how long
  an operation on the printer takes, announces each minute of a stall, and enforces the time limit for a page.
\<close>

section \<open>Definitions\<close>

subsection \<open>Times\<close>

record timeval =
  tv_sec :: int
  tv_usec :: int

definition gu_timeval_cmp :: "timeval \<Rightarrow> timeval \<Rightarrow> int" where
  "gu_timeval_cmp t1 t2 =
     (if tv_sec t1 > tv_sec t2 then 1
      else if tv_sec t1 < tv_sec t2 then -1
      else if tv_usec t1 > tv_usec t2 then 1
      else if tv_usec t1 < tv_usec t2 then -1
      else 0)"

definition gu_timeval_sub :: "timeval \<Rightarrow> timeval \<Rightarrow> timeval" where
  "gu_timeval_sub t1 t2 =
     (let sec = tv_sec t1 - tv_sec t2; usec = tv_usec t1 - tv_usec t2 in
      if usec < 0 then \<lparr>tv_sec = sec - 1, tv_usec = usec + 1000000\<rparr> else \<lparr>tv_sec = sec, tv_usec = usec\<rparr>)"

definition gu_timeval_add :: "timeval \<Rightarrow> timeval \<Rightarrow> timeval" where
  "gu_timeval_add t1 t2 =
     (let sec = tv_sec t1 + tv_sec t2; usec = tv_usec t1 + tv_usec t2 in
      if usec > 1000000 then \<lparr>tv_sec = sec + 1, tv_usec = usec - 1000000\<rparr> else \<lparr>tv_sec = sec, tv_usec = usec\<rparr>)"

definition gu_timeval_zero :: timeval where
  "gu_timeval_zero = \<lparr>tv_sec = 0, tv_usec = 0\<rparr>"

subsection \<open>State\<close>

text \<open>
  An entry of \<^verbatim>\<open>stack[]\<close>. The monitor's state has the stack with its top first, the page stopwatch, the limit from
  the printer's configuration, the clock (the results of \<^verbatim>\<open>gettimeofday()\<close> by their number), and what was sent to
  the commentators and to the \<^verbatim>\<open>ppop status\<close> file.
\<close>

record stall =
  remembered_operation :: string
  start_time :: timeval
  start_time_set :: bool
  stall_time :: timeval
  stall_time_minutes_announced :: int

datatype wm_event = Status_writemon string int | Commentary string string int int | Status_pagemon string

record writemon =
  stall_stack :: "stall list"
  online_online_valid :: bool
  online_online :: bool
  online_unaccumulated_start_time :: timeval
  online_accumulator :: timeval
  PageTimeLimit :: int
  wall_clock :: "nat \<Rightarrow> timeval"
  clock_reads :: nat
  wm_events :: "wm_event list"

definition gettimeofday :: "'a writemon_scheme \<Rightarrow> timeval \<times> 'a writemon_scheme" where
  "gettimeofday d = (wall_clock d (clock_reads d), d\<lparr>clock_reads := Suc (clock_reads d)\<rparr>)"

definition wm_emit :: "wm_event \<Rightarrow> 'a writemon_scheme \<Rightarrow> 'a writemon_scheme" where
  "wm_emit e d = d\<lparr>wm_events := wm_events d @ [e]\<rparr>"

definition set_top :: "stall \<Rightarrow> 'a writemon_scheme \<Rightarrow> 'a writemon_scheme" where
  "set_top s d = d\<lparr>stall_stack := s # tl (stall_stack d)\<rparr>"

subsection \<open>Operations\<close>

definition writemon_init :: "'a writemon_scheme \<Rightarrow> 'a writemon_scheme" where
  "writemon_init d = d\<lparr>stall_stack := [], online_accumulator := gu_timeval_zero, online_online_valid := False\<rparr>"

definition compute_severity :: "int \<Rightarrow> int" where
  "compute_severity minutes =
     (let severity = c_div minutes 3; severity = (if severity < 1 then 1 else severity) in if severity > 10 then 10 else severity)"

text \<open>The two times of a new entry are not read before they are set; they are zero here.\<close>

definition writemon_start :: "string \<Rightarrow> 'a writemon_scheme \<Rightarrow> drv_err + 'a writemon_scheme" where
  "writemon_start operation d =
     (if length (stall_stack d) \<ge> 10 then Inl (DrvFatal EXIT_PRNERR_NORETRY ''writemon_start(): assertion failed: stackp >= 10'')
      else
        let s = \<lparr>remembered_operation = operation, start_time = gu_timeval_zero, start_time_set = False,
                 stall_time = gu_timeval_zero, stall_time_minutes_announced = 0\<rparr> in
        Inr (wm_emit (Status_writemon operation 0) (d\<lparr>stall_stack := s # stall_stack d\<rparr>)))"

definition writemon_stalled :: "timeval \<Rightarrow> 'a writemon_scheme \<Rightarrow> 'a writemon_scheme" where
  "writemon_stalled time_stalled d =
     (let s = (hd (stall_stack d))\<lparr>stall_time := time_stalled\<rparr>;
          minutes = c_div (tv_sec time_stalled) 60 in
      if minutes > stall_time_minutes_announced s then
        wm_emit (Status_writemon (remembered_operation s) minutes)
          (set_top (s\<lparr>stall_time_minutes_announced := minutes\<rparr>)
             (wm_emit (Commentary ''STALLED'' (remembered_operation s) (tv_sec time_stalled) (compute_severity minutes)) d))
      else set_top s d)"

text \<open>The loop that makes the announcements that are due; \<open>stall_loop_ends\<close> shows that two rounds are enough.\<close>

definition next_announcement :: "stall \<Rightarrow> timeval" where
  "next_announcement s = (start_time s)\<lparr>tv_sec := tv_sec (start_time s) + (stall_time_minutes_announced s + 1) * 60\<rparr>"

fun stall_loop :: "nat \<Rightarrow> timeval \<Rightarrow> 'a writemon_scheme \<Rightarrow> drv_err + 'a writemon_scheme" where
  "stall_loop rounds now_time d =
     (if gu_timeval_cmp (next_announcement (hd (stall_stack d))) now_time \<le> 0 then
        case rounds of
          0 \<Rightarrow> Inl (DrvLoop ''writemon_sleep_time()'')
        | Suc n \<Rightarrow> stall_loop n now_time (writemon_stalled (gu_timeval_sub now_time (start_time (hd (stall_stack d)))) d)
      else Inr d)"

declare stall_loop.simps [simp del]

text \<open>The time at which the page has used up its limit, and the waking time moved forward to it.\<close>

definition page_expiration :: "'a writemon_scheme \<Rightarrow> timeval" where
  "page_expiration d =
     gu_timeval_sub (gu_timeval_add \<lparr>tv_sec = PageTimeLimit d, tv_usec = 0\<rparr> (online_unaccumulated_start_time d)) (online_accumulator d)"

definition page_limit :: "timeval \<Rightarrow> timeval \<Rightarrow> 'a writemon_scheme \<Rightarrow> drv_err + timeval" where
  "page_limit now_time wake d =
     (if PageTimeLimit d > 0 \<and> online_online_valid d \<and> online_online d then
        if gu_timeval_cmp now_time (page_expiration d) > 0 then Inl (DrvFatal EXIT_JOBERR ''PageTimeLimit exceeded'')
        else Inr (if gu_timeval_cmp (page_expiration d) wake < 0 then page_expiration d else wake)
      else Inr wake)"

text \<open>The first call after \<open>writemon_start\<close> records the start time.\<close>

definition set_start :: "timeval \<Rightarrow> 'a writemon_scheme \<Rightarrow> 'a writemon_scheme" where
  "set_start now_time d =
     (let s = hd (stall_stack d) in
      if start_time_set s then d else set_top (s\<lparr>start_time := now_time, start_time_set := True\<rparr>) d)"

text \<open>The result has the time to sleep, or nothing when the caller's timeout has come.\<close>

definition writemon_sleep_time :: "int \<Rightarrow> 'a writemon_scheme \<Rightarrow> drv_err + timeval option \<times> 'a writemon_scheme" where
  "writemon_sleep_time timeout d =
     (if stall_stack d = [] then Inl (DrvFatal EXIT_PRNERR_NORETRY ''writemon_sleep_time(): assertion failed: writemon_start() wasn't called'')
      else
        let (now_time, d) = gettimeofday d;
            d = set_start now_time d;
            start = start_time (hd (stall_stack d));
            your_next_time = start\<lparr>tv_sec := tv_sec start + timeout\<rparr> in
        if timeout > 0 \<and> gu_timeval_cmp your_next_time now_time \<le> 0 then Inr (None, d)
        else
          bindE (stall_loop 2 now_time d) (\<lambda>d.
            let my_next_time = next_announcement (hd (stall_stack d)) in
            bindE (page_limit now_time
                     (if timeout < 1 \<or> gu_timeval_cmp my_next_time your_next_time < 0 then my_next_time else your_next_time) d)
              (\<lambda>wake.
                 let sleep_time = gu_timeval_sub wake now_time in
                 if tv_sec sleep_time < 0 \<or> (tv_sec sleep_time = 0 \<and> tv_usec sleep_time < 0)
                 then Inl (DrvFatal EXIT_PRNERR_NORETRY ''writemon_sleep_time(): assertion failed, sleep_time is negative'')
                 else Inr (Some sleep_time, d))))"

definition writemon_unstalled :: "string \<Rightarrow> 'a writemon_scheme \<Rightarrow> drv_err + 'a writemon_scheme" where
  "writemon_unstalled operation d =
     (case stall_stack d of
        [] \<Rightarrow> Inl (DrvFatal EXIT_PRNERR_NORETRY ''writemon_unstalled(): assertion failed: writemon_start() wasn't called'')
      | s # stack \<Rightarrow>
          if operation \<noteq> remembered_operation s
          then Inl (DrvFatal EXIT_PRNERR_NORETRY ''writemon_unstalled(): assertion failed: operation'')
          else
            let minutes = stall_time_minutes_announced s;
                d = (if minutes > 0
                     then wm_emit (Commentary ''UNSTALLED'' (remembered_operation s) minutes (compute_severity minutes)) d else d);
                d = d\<lparr>stall_stack := stack\<rparr> in
            Inr (if stack \<noteq> [] then wm_emit (Status_writemon (remembered_operation (hd stack)) 0) d else d))"

definition writemon_pagedrop :: "'a writemon_scheme \<Rightarrow> 'a writemon_scheme" where
  "writemon_pagedrop d =
     (let d = d\<lparr>online_accumulator := gu_timeval_zero\<rparr>;
          (now_time, d) = gettimeofday d;
          d = d\<lparr>online_unaccumulated_start_time := now_time\<rparr> in
      wm_emit (Status_pagemon (if online_online d then ''0 '' @ print_d (tv_sec now_time) else ''0'')) d)"

definition writemon_online :: "bool \<Rightarrow> 'a writemon_scheme \<Rightarrow> 'a writemon_scheme" where
  "writemon_online online d =
     (if online \<noteq> online_online d \<or> \<not> online_online_valid d then
        let d = (if online then
                   let (now_time, d) = gettimeofday d;
                       d = d\<lparr>online_unaccumulated_start_time := now_time\<rparr> in
                   wm_emit (Status_pagemon (print_d (tv_sec (online_accumulator d)) @ '' '' @ print_d (tv_sec now_time))) d
                 else
                   let d = (if online_online_valid d then
                              let (t, d) = gettimeofday d in
                              d\<lparr>online_accumulator := gu_timeval_add (online_accumulator d) (gu_timeval_sub t (online_unaccumulated_start_time d))\<rparr>
                            else d) in
                   wm_emit (Status_pagemon (print_d (tv_sec (online_accumulator d)))) d) in
        d\<lparr>online_online_valid := True, online_online := online\<rparr>
      else d)"

subsection \<open>Reference definitions\<close>

text \<open>A time in microseconds; times as the system gives them; and what \<open>gu_timeval_add\<close> may make of them, a full second of
  microseconds (\<open>timeval_add_carry\<close>).\<close>

definition micros :: "timeval \<Rightarrow> int" where
  "micros t = tv_sec t * 1000000 + tv_usec t"

definition normal_time :: "timeval \<Rightarrow> bool" where
  "normal_time t \<longleftrightarrow> 0 \<le> tv_usec t \<and> tv_usec t < 1000000"

definition nearly_normal :: "timeval \<Rightarrow> bool" where
  "nearly_normal t \<longleftrightarrow> 0 \<le> tv_usec t \<and> tv_usec t \<le> 1000000"

text \<open>The announcements that are due after so many microseconds.\<close>

definition announcements :: "stall \<Rightarrow> int \<Rightarrow> wm_event list" where
  "announcements s elapsed =
     (let minutes = elapsed div 60000000 in
      if minutes > stall_time_minutes_announced s
      then [Commentary ''STALLED'' (remembered_operation s) (elapsed div 1000000) (compute_severity minutes),
            Status_writemon (remembered_operation s) minutes]
      else [])"

text \<open>What the stopwatch and the clock have to be like.\<close>

definition watch_ok :: "'a writemon_scheme \<Rightarrow> bool" where
  "watch_ok d \<longleftrightarrow> normal_time (online_unaccumulated_start_time d) \<and> nearly_normal (online_accumulator d)"

definition stall_ok :: "stall \<Rightarrow> timeval \<Rightarrow> bool" where
  "stall_ok s now \<longleftrightarrow> normal_time (start_time s) \<and> micros (start_time s) + stall_time_minutes_announced s * 60000000 \<le> micros now"

text \<open>Whether the time limit of the page is in force, and when it is used up: the online time so far counts, the time offline does not.\<close>

definition page_watched :: "'a writemon_scheme \<Rightarrow> bool" where
  "page_watched d \<longleftrightarrow> PageTimeLimit d > 0 \<and> online_online_valid d \<and> online_online d"

definition page_deadline :: "'a writemon_scheme \<Rightarrow> int" where
  "page_deadline d = PageTimeLimit d * 1000000 - micros (online_accumulator d) + micros (online_unaccumulated_start_time d)"

text \<open>The current operation with its start time, and the end of \<open>writemon_sleep_time\<close>.\<close>

definition started :: "stall \<Rightarrow> timeval \<Rightarrow> stall" where
  "started s now = (if start_time_set s then s else s\<lparr>start_time := now, start_time_set := True\<rparr>)"

definition finish_sleep :: "timeval \<Rightarrow> timeval \<Rightarrow> 'a writemon_scheme \<Rightarrow> drv_err + timeval option \<times> 'a writemon_scheme" where
  "finish_sleep now wake d =
     bindE (page_limit now wake d) (\<lambda>wake.
       let sleep_time = gu_timeval_sub wake now in
       if tv_sec sleep_time < 0 \<or> (tv_sec sleep_time = 0 \<and> tv_usec sleep_time < 0)
       then Inl (DrvFatal EXIT_PRNERR_NORETRY ''writemon_sleep_time(): assertion failed, sleep_time is negative'')
       else Inr (Some sleep_time, d))"

definition example_monitor :: writemon where
  "example_monitor = \<lparr>stall_stack = [\<lparr>remembered_operation = ''WRITE'', start_time = \<lparr>tv_sec = 100, tv_usec = 900000\<rparr>, start_time_set = True,
       stall_time = gu_timeval_zero, stall_time_minutes_announced = 1\<rparr>],
     online_online_valid = False, online_online = False, online_unaccumulated_start_time = gu_timeval_zero, online_accumulator = gu_timeval_zero,
     PageTimeLimit = 0, wall_clock = (\<lambda>n. \<lparr>tv_sec = 300, tv_usec = 100000\<rparr>), clock_reads = 0, wm_events = []\<rparr>"

section \<open>Lemmas\<close>

lemma cmp_micros:
  assumes "normal_time t1" "normal_time t2"
  shows "gu_timeval_cmp t1 t2 \<le> 0 \<longleftrightarrow> micros t1 \<le> micros t2" "gu_timeval_cmp t1 t2 < 0 \<longleftrightarrow> micros t1 < micros t2"
    "gu_timeval_cmp t1 t2 > 0 \<longleftrightarrow> micros t1 > micros t2"
  using assms by (auto simp: gu_timeval_cmp_def micros_def normal_time_def)

lemma sub_micros [simp]: "micros (gu_timeval_sub t1 t2) = micros t1 - micros t2"
  by (simp add: gu_timeval_sub_def micros_def Let_def)

lemma add_micros [simp]: "micros (gu_timeval_add t1 t2) = micros t1 + micros t2"
  by (simp add: gu_timeval_add_def micros_def Let_def)

lemma sub_normal: "normal_time t1 \<Longrightarrow> normal_time t2 \<Longrightarrow> normal_time (gu_timeval_sub t1 t2)"
  by (auto simp: gu_timeval_sub_def normal_time_def Let_def)

lemma sub_nonneg:
  assumes "nearly_normal t1" "normal_time t2"
  and "gu_timeval_cmp t2 t1 \<le> 0"
  shows "\<not> (tv_sec (gu_timeval_sub t1 t2) < 0 \<or> (tv_sec (gu_timeval_sub t1 t2) = 0 \<and> tv_usec (gu_timeval_sub t1 t2) < 0))"
  using assms by (auto simp: gu_timeval_sub_def normal_time_def nearly_normal_def gu_timeval_cmp_def Let_def split: if_splits)

lemma add_nearly: "nearly_normal t1 \<Longrightarrow> normal_time t2 \<Longrightarrow> nearly_normal (gu_timeval_add t1 t2)"
  by (auto simp: gu_timeval_add_def normal_time_def nearly_normal_def Let_def)

lemma next_announcement_time [simp]:
  "micros (next_announcement s) = micros (start_time s) + (stall_time_minutes_announced s + 1) * 60000000"
  "normal_time (next_announcement s) = normal_time (start_time s)"
  by (simp_all add: next_announcement_def micros_def normal_time_def algebra_simps)

lemma minutes_micros:
  assumes "normal_time t" "0 \<le> micros t"
  shows "c_div (tv_sec t) 60 = micros t div 60000000" "tv_sec t = micros t div 1000000"
proof -
  show s: "tv_sec t = micros t div 1000000" using assms(1) by (simp add: micros_def normal_time_def)
  then have "0 \<le> tv_sec t" using assms(2) by (simp add: pos_imp_zdiv_nonneg_iff)
  then have "c_div (tv_sec t) 60 = micros t div 1000000 div 60" using s by simp
  then show "c_div (tv_sec t) 60 = micros t div 60000000" by (simp add: zdiv_zmult2_eq [symmetric])
qed

lemma timeval_add_carry:
  "gu_timeval_add \<lparr>tv_sec = 0, tv_usec = 500000\<rparr> \<lparr>tv_sec = 0, tv_usec = 500000\<rparr> = \<lparr>tv_sec = 0, tv_usec = 1000000\<rparr>
   \<and> gu_timeval_cmp \<lparr>tv_sec = 0, tv_usec = 1000000\<rparr> \<lparr>tv_sec = 1, tv_usec = 0\<rparr> = -1"
  by code_simp

lemma stall_loop_ends:
  assumes "stall_stack d = s # rest" "normal_time (start_time s)" "normal_time now" "micros (start_time s) \<le> micros now" "0 \<le> stall_time_minutes_announced s"
  shows "\<exists>s'. stall_loop 2 now d = Inr (d\<lparr>stall_stack := s' # rest, wm_events := wm_events d @ announcements s (micros now - micros (start_time s))\<rparr>)
    \<and> start_time s' = start_time s \<and> start_time_set s' = start_time_set s \<and> remembered_operation s' = remembered_operation s
    \<and> stall_time_minutes_announced s' = max (stall_time_minutes_announced s) ((micros now - micros (start_time s)) div 60000000)
    \<and> micros now < micros (next_announcement s')"
proof -
  let ?e = "micros now - micros (start_time s)" and ?t = "gu_timeval_sub now (start_time s)"
  have t: "normal_time ?t" "micros ?t = ?e" "0 \<le> ?e" using assms(2-4) by (simp_all add: sub_normal)
  have m: "c_div (tv_sec ?t) 60 = ?e div 60000000" "tv_sec ?t = ?e div 1000000" using minutes_micros [OF t(1)] t(2,3) by simp_all
  have due: "gu_timeval_cmp (next_announcement s) now \<le> 0 \<longleftrightarrow> ?e div 60000000 > stall_time_minutes_announced s"
    using cmp_micros(1) [of "next_announcement s" now] assms(2,3) by auto
  show ?thesis
  proof (cases "?e div 60000000 > stall_time_minutes_announced s")
    case False
    then have "stall_loop 2 now d = Inr d" using due assms(1) by (subst stall_loop.simps) simp
    then show ?thesis using False assms(1) by (intro exI [of _ s]) (auto simp: announcements_def)
  next
    case True
    let ?s = "s\<lparr>stall_time := ?t, stall_time_minutes_announced := ?e div 60000000\<rparr>"
    let ?d = "d\<lparr>stall_stack := ?s # rest, wm_events := wm_events d @ announcements s ?e\<rparr>"
    have st: "writemon_stalled ?t d = ?d"
      using True assms(1) m by (simp add: writemon_stalled_def Let_def wm_emit_def set_top_def announcements_def)
    have l: "micros now < micros (next_announcement ?s)" by simp
    then have "\<not> gu_timeval_cmp (next_announcement ?s) now \<le> 0"
      using cmp_micros(1) [of "next_announcement ?s" now] assms(2,3) by simp
    then have "stall_loop 1 now ?d = Inr ?d" by (subst stall_loop.simps) simp
    then have "stall_loop 2 now d = Inr ?d" using True due assms(1) st by (subst stall_loop.simps) (simp add: numeral_2_eq_2)
    then show ?thesis using True l by (intro exI [of _ ?s]) simp
  qed
qed

lemma page_expiration_time:
  assumes "watch_ok d"
  shows "normal_time (page_expiration d)" "micros (page_expiration d) = page_deadline d"
  using assms
  by (auto simp: page_expiration_def gu_timeval_add_def gu_timeval_sub_def normal_time_def nearly_normal_def Let_def page_deadline_def
      micros_def watch_ok_def)

lemma page_limit_wake:
  assumes "normal_time now" "normal_time wake" "micros now \<le> micros wake" "watch_ok d"
  shows "page_limit now wake d =
      (if page_watched d then
         if micros now > page_deadline d then Inl (DrvFatal EXIT_JOBERR ''PageTimeLimit exceeded'')
         else Inr (if page_deadline d < micros wake then page_expiration d else wake)
       else Inr wake)"
  using cmp_micros [OF assms(1) page_expiration_time(1) [OF assms(4)]] cmp_micros [OF page_expiration_time(1) [OF assms(4)] assms(2)]
    page_expiration_time(2) [OF assms(4)]
  by (simp add: page_limit_def page_watched_def)

lemma sleep_time_unfold:
  assumes "stall_stack d = s # rest" "now = wall_clock d (clock_reads d)"
    "stall_loop 2 now (d\<lparr>clock_reads := Suc (clock_reads d), stall_stack := started s now # rest\<rparr>) = Inr d'"
    "stall_stack d' = s' # rest" "y = (start_time (started s now))\<lparr>tv_sec := tv_sec (start_time (started s now)) + timeout\<rparr>"
  shows "writemon_sleep_time timeout d =
      (if timeout > 0 \<and> gu_timeval_cmp y now \<le> 0
       then Inr (None, d\<lparr>clock_reads := Suc (clock_reads d), stall_stack := started s now # rest\<rparr>)
       else finish_sleep now (if timeout < 1 \<or> gu_timeval_cmp (next_announcement s') y < 0 then next_announcement s' else y) d')"
proof -
  let ?d1 = "d\<lparr>clock_reads := Suc (clock_reads d)\<rparr>" and ?d2 = "d\<lparr>clock_reads := Suc (clock_reads d), stall_stack := started s now # rest\<rparr>"
  have "set_start now ?d1 = ?d2" using assms(1) by (cases d) (simp add: set_start_def started_def set_top_def)
  then show ?thesis
    using assms
    by (simp add: writemon_sleep_time_def gettimeofday_def Let_def finish_sleep_def del: split_paired_Ex)
qed

lemma finish_sleep_ok:
  assumes "normal_time now" "normal_time wake" "micros now \<le> micros wake" "watch_ok d"
  shows "case finish_sleep now wake d of
      Inl e \<Rightarrow> e = DrvFatal EXIT_JOBERR ''PageTimeLimit exceeded'' \<and> page_watched d \<and> page_deadline d < micros now
    | Inr (None, d') \<Rightarrow> False
    | Inr (Some t, d') \<Rightarrow> d' = d \<and> 0 \<le> micros t \<and> micros now + micros t = (if page_watched d then min (page_deadline d) (micros wake) else micros wake)"
proof (cases "page_limit now wake d")
  case (Inl e)
  then show ?thesis using page_limit_wake [OF assms] by (auto simp: finish_sleep_def split: if_splits)
next
  case (Inr w)
  then have w: "normal_time w" "micros now \<le> micros w" "micros w = (if page_watched d then min (page_deadline d) (micros wake) else micros wake)"
    using page_limit_wake [OF assms] assms(2,3) page_expiration_time [OF assms(4)] by (auto split: if_splits)
  then have "\<not> (tv_sec (gu_timeval_sub w now) < 0 \<or> (tv_sec (gu_timeval_sub w now) = 0 \<and> tv_usec (gu_timeval_sub w now) < 0))"
    using sub_nonneg [OF _ assms(1), of w] cmp_micros(1) [OF assms(1) w(1)] by (simp add: normal_time_def nearly_normal_def)
  then show ?thesis using w Inr by (simp add: finish_sleep_def Let_def)
qed

lemma watch_ok_online:
  assumes "watch_ok d" "normal_time (wall_clock d (clock_reads d))"
  shows "watch_ok (writemon_online online d)"
  using assms by (auto simp: writemon_online_def watch_ok_def gettimeofday_def wm_emit_def Let_def add_nearly sub_normal)

lemma watch_ok_pagedrop:
  assumes "watch_ok d" "normal_time (wall_clock d (clock_reads d))"
  shows "watch_ok (writemon_pagedrop d)"
  using assms
  by (auto simp: writemon_pagedrop_def watch_ok_def gettimeofday_def wm_emit_def Let_def gu_timeval_zero_def nearly_normal_def)

lemma sleep_time_watch:
  assumes "stall_stack d = s # rest" "0 \<le> stall_time_minutes_announced s" "now = wall_clock d (clock_reads d)" "normal_time now" "watch_ok d"
    "s0 = started s now" "stall_ok s0 now"
  shows "case writemon_sleep_time timeout d of
      Inl e \<Rightarrow> e = DrvFatal EXIT_JOBERR ''PageTimeLimit exceeded'' \<and> page_watched d \<and> page_deadline d < micros now
    | Inr (None, d') \<Rightarrow> timeout > 0 \<and> micros now \<ge> micros (start_time s0) + timeout * 1000000 \<and> wm_events d' = wm_events d
    | Inr (Some t, d') \<Rightarrow> 0 \<le> micros t \<and> micros t \<le> 60000000
        \<and> (timeout > 0 \<longrightarrow> micros now + micros t \<le> micros (start_time s0) + timeout * 1000000)
        \<and> (page_watched d \<longrightarrow> micros now + micros t \<le> page_deadline d)
        \<and> (\<exists>s'. d' = d\<lparr>clock_reads := Suc (clock_reads d), stall_stack := s' # rest,
                wm_events := wm_events d @ announcements s0 (micros now - micros (start_time s0))\<rparr>
             \<and> start_time s' = start_time s0 \<and> start_time_set s' \<and> remembered_operation s' = remembered_operation s
             \<and> stall_time_minutes_announced s' = (micros now - micros (start_time s0)) div 60000000)"
proof -
  let ?d = "d\<lparr>clock_reads := Suc (clock_reads d), stall_stack := s0 # rest\<rparr>"
  let ?e = "micros now - micros (start_time s0)"
  define y where "y = (start_time s0)\<lparr>tv_sec := tv_sec (start_time s0) + timeout\<rparr>"
  have y: "micros y = micros (start_time s0) + timeout * 1000000" "normal_time y"
    using assms(7) by (simp_all add: y_def micros_def normal_time_def stall_ok_def algebra_simps)
  have s0: "normal_time (start_time s0)" "micros (start_time s0) \<le> micros now" "0 \<le> stall_time_minutes_announced s0"
    "stall_time_minutes_announced s0 \<le> ?e div 60000000"
    using assms(2,6,7) by (auto simp: stall_ok_def started_def)
  obtain s' where s': "stall_loop 2 now ?d = Inr (?d\<lparr>stall_stack := s' # rest, wm_events := wm_events ?d @ announcements s0 ?e\<rparr>)"
      "start_time s' = start_time s0" "start_time_set s' = start_time_set s0" "remembered_operation s' = remembered_operation s0" "stall_time_minutes_announced s' = max (stall_time_minutes_announced s0) (?e div 60000000)"
      "micros now < micros (next_announcement s')"
    using stall_loop_ends [of ?d s0 rest now] s0 assms(4) by auto
  let ?d' = "?d\<lparr>stall_stack := s' # rest, wm_events := wm_events ?d @ announcements s0 ?e\<rparr>"
  define wake where "wake = (if timeout < 1 \<or> gu_timeval_cmp (next_announcement s') y < 0 then next_announcement s' else y)"
  have unf: "writemon_sleep_time timeout d = (if timeout > 0 \<and> gu_timeval_cmp y now \<le> 0 then Inr (None, ?d) else finish_sleep now wake ?d')"
    using sleep_time_unfold [OF assms(1,3), of ?d' s' y timeout] s'(1) assms(6) by (simp add: wake_def y_def)
  have op: "remembered_operation s0 = remembered_operation s" "start_time_set s0" using assms(6) by (simp_all add: started_def)
  show ?thesis
  proof (cases "timeout > 0 \<and> gu_timeval_cmp y now \<le> 0")
    case True
    then show ?thesis unfolding unf using y cmp_micros(1) [OF y(2) assms(4)] by simp
  next
    case False
    have w: "normal_time wake" "micros now \<le> micros wake" "micros wake \<le> micros (next_announcement s')" "timeout > 0 \<longrightarrow> micros wake \<le> micros y"
      unfolding wake_def
      using False y s'(2,6) s0(1) cmp_micros [OF y(2) assms(4)] cmp_micros(2) [of "next_announcement s'" y] by (auto simp: not_less not_le)
    have "watch_ok ?d'" "page_watched ?d' = page_watched d" "page_deadline ?d' = page_deadline d"
      using assms(5) by (simp_all add: watch_ok_def page_watched_def page_deadline_def)
    with finish_sleep_ok [OF assms(4) w(1,2), of ?d'] False show ?thesis
      unfolding unf using w(3,4) y(1) s'(2-5) s0(4) op by (auto split: sum.splits option.splits)
  qed
qed

section \<open>Properties\<close>



end
