(* ===== verification/Faults.thy ===== *)
theory Faults
  imports Writemon Question
begin

text \<open>
  Early ends of the processes that \<^verbatim>\<open>pprdrv\<close> feeds: \<^verbatim>\<open>fault_check()\<close> of \<^verbatim>\<open>pprdrv/pprdrv.c\<close> with the checks of the interface
  program (\<^verbatim>\<open>pprdrv/pprdrv_interface.c\<close>) and of the RIP (\<^verbatim>\<open>pprdrv/pprdrv_rip.c\<close>), and the exit codes of \<^verbatim>\<open>pprdrv\<close> that result.
\<close>

section \<open>Definitions\<close>

text \<open>
  What a call of \<^verbatim>\<open>fault_check()\<close> finds. \<open>interface_died\<close> and \<open>rip_died\<close> have the wait status that the handler of \<^verbatim>\<open>SIGCHLD\<close> has
  recorded, if any. \<open>interface_end\<close> is the status with which the interface ends when its pipes are closed, and \<open>posterror\<close>
  and \<open>ghosterror\<close> say whether errors of PostScript or of Ghostscript have been read from it by then.
\<close>

record fault_flags =
  sigterm_caught :: bool
  interface_died :: "wstat option"
  interface_fault_check_disable :: bool
  interface_end :: wstat
  rip_died :: "wstat option"
  rip_fault_check_disable :: bool
  posterror :: bool
  ghosterror :: bool
  test_mode :: bool

abbreviation (input) EXIT_INTMAX :: int where "EXIT_INTMAX \<equiv> EXIT_PRNERR_NORETRY_NO_SUCH_ADDRESS"
abbreviation (input) SIGSEGV :: int where "SIGSEGV \<equiv> 11"
abbreviation (input) SIGPIPE :: int where "SIGPIPE \<equiv> 13"

text \<open>A well controlled exit passes with its code.\<close>

definition interface_exit_screen :: "wstat \<Rightarrow> drv_err + int" where
  "interface_exit_screen interface_wait_status =
     (case interface_wait_status of
        Signaled sig dumped stopsig \<Rightarrow>
          if dumped then Inl (DrvFatal EXIT_PRNERR_NORETRY ''interface core dump'')
          else Inl (DrvFatal EXIT_PRNERR ''interface program killed'')
      | Exited e \<Rightarrow>
          if e = EXIT_SIGNAL then Inl (DrvFatal EXIT_SIGNAL ''interface program killed'')
          else if e > EXIT_INTMAX then Inl (DrvFatal EXIT_PRNERR ''Interface program malfunction: it returned invalid exit code.'')
          else Inr e
      | Stopped sig \<Rightarrow> Inl (DrvFatal EXIT_PRNERR_NORETRY ''Mischief afoot, interface program stopped by signal.'')
      | OtherStatus \<Rightarrow> Inl (DrvFatal EXIT_PRNERR_NORETRY ''Bizaar interface program malfunction: SIGCHLD w/out signal or exit().''))"

definition interface_fault_check :: "fault_flags \<Rightarrow> drv_err + unit" where
  "interface_fault_check f =
     (case interface_died f of
        None \<Rightarrow> Inr ()
      | Some interface_wait_status \<Rightarrow>
          if interface_fault_check_disable f then Inr ()
          else
            bindE (interface_exit_screen interface_wait_status) (\<lambda>e.
              if e = EXIT_PRINTED then
                Inl (DrvFatal EXIT_PRNERR_NORETRY ''Interface program malfunction: it quit before accepting all of the job but didn't return an error code.'')
              else if posterror f then Inl (DrvFatal EXIT_JOBERR ''postscript error'')
              else Inl (DrvFatal e [])))"

text \<open>\<^verbatim>\<open>interface_close(FALSE)\<close>: nothing is flushed; the result is the exit code of the interface.\<close>

definition interface_close :: "fault_flags \<Rightarrow> drv_err + int" where
  "interface_close f = (if test_mode f then Inr EXIT_PRINTED else interface_exit_screen (interface_end f))"

definition rip_exit_screen :: "wstat \<Rightarrow> drv_err + int" where
  "rip_exit_screen rip_wait_status =
     (case rip_wait_status of
        Signaled sig dumped stopsig \<Rightarrow>
          if sig = SIGSEGV then Inl (DrvFatal EXIT_JOBERR ''RIP segfault'')
          else if sig = SIGPIPE then Inl (DrvFatal EXIT_PRNERR ''RIP broken pipe'')
          else Inl (DrvFatal EXIT_PRNERR ''RIP killed'')
      | Exited e \<Rightarrow> Inr e
      | Stopped sig \<Rightarrow> Inl (DrvFatal EXIT_PRNERR_NORETRY ''RIP stopped by signal.'')
      | OtherStatus \<Rightarrow> Inl (DrvFatal EXIT_PRNERR_NORETRY ''Bizaar RIP malfunction: SIGCHLD w/out signal or exit.''))"

definition rip_fault_check :: "fault_flags \<Rightarrow> drv_err + unit" where
  "rip_fault_check f =
     (case rip_died f of
        None \<Rightarrow> Inr ()
      | Some rip_wait_status \<Rightarrow>
          if rip_fault_check_disable f then Inr ()
          else
            bindE (interface_close f) (\<lambda>_.
            bindE (rip_exit_screen rip_wait_status) (\<lambda>exit_code.
              if exit_code = 1 \<and> ghosterror f then Inl (DrvFatal EXIT_PRNERR_NORETRY ''Ghostscript RIP aborted.'')
              else Inl (DrvFatal EXIT_JOBERR ''The RIP exited before accepting all of the data.''))))"

definition fault_check :: "fault_flags \<Rightarrow> drv_err + unit" where
  "fault_check f =
     (if sigterm_caught f then Inl (DrvFatal EXIT_SIGNAL ''printing halted'')
      else bindE (interface_fault_check f) (\<lambda>_. rip_fault_check f))"

subsection \<open>Reference definitions\<close>

text \<open>A process that ended although its end is being watched for, and an exit code of a process.\<close>

definition faulty :: "fault_flags \<Rightarrow> bool" where
  "faulty f \<longleftrightarrow> sigterm_caught f \<or> (interface_died f \<noteq> None \<and> \<not> interface_fault_check_disable f)
     \<or> (rip_died f \<noteq> None \<and> \<not> rip_fault_check_disable f)"

definition proper_wstat :: "wstat \<Rightarrow> bool" where
  "proper_wstat w = (case w of Exited e \<Rightarrow> 0 \<le> e \<and> e < 256 | _ \<Rightarrow> True)"

definition quiet_flags :: fault_flags where
  "quiet_flags = \<lparr>sigterm_caught = False, interface_died = None, interface_fault_check_disable = False, interface_end = Exited 0,
     rip_died = None, rip_fault_check_disable = False, posterror = False, ghosterror = False, test_mode = False\<rparr>"

section \<open>Lemmas\<close>

lemma interface_screen_codes:
  assumes "proper_wstat w"
  shows "case interface_exit_screen w of Inl e \<Rightarrow> (\<exists>c m. e = DrvFatal c m \<and> 1 \<le> c \<and> c \<le> EXIT_INTMAX) | Inr e \<Rightarrow> 0 \<le> e \<and> e \<le> EXIT_INTMAX"
  using assms by (auto simp: interface_exit_screen_def proper_wstat_def split: wstat.splits)

lemma interface_fault:
  assumes "interface_died f = Some w" "\<not> interface_fault_check_disable f" "proper_wstat w"
  shows "\<exists>c m. interface_fault_check f = Inl (DrvFatal c m) \<and> 1 \<le> c \<and> c \<le> EXIT_INTMAX"
  using assms interface_screen_codes [OF assms(3)]
  by (cases "interface_exit_screen w") (auto simp: interface_fault_check_def)

lemma interface_code:
  assumes "interface_died f = Some (Exited e)" "\<not> interface_fault_check_disable f" "EXIT_PRINTED < e" "e \<le> EXIT_INTMAX"
  shows "\<exists>m. interface_fault_check f = Inl (DrvFatal (if posterror f \<and> e \<noteq> EXIT_SIGNAL then EXIT_JOBERR else e) m)"
  using assms by (auto simp: interface_fault_check_def interface_exit_screen_def)

lemma rip_fault:
  assumes "rip_died f = Some w" "\<not> rip_fault_check_disable f" "proper_wstat w" "proper_wstat (interface_end f)"
  shows "\<exists>c m. rip_fault_check f = Inl (DrvFatal c m) \<and> 1 \<le> c \<and> c \<le> EXIT_INTMAX"
proof -
  have "case interface_close f of Inl e \<Rightarrow> (\<exists>c m. e = DrvFatal c m \<and> 1 \<le> c \<and> c \<le> EXIT_INTMAX) | Inr e \<Rightarrow> True"
    using interface_screen_codes [OF assms(4)] by (auto simp: interface_close_def split: sum.splits)
  moreover have "case rip_exit_screen w of Inl e \<Rightarrow> (\<exists>c m. e = DrvFatal c m \<and> 1 \<le> c \<and> c \<le> EXIT_INTMAX) | Inr e \<Rightarrow> True"
    by (auto simp: rip_exit_screen_def split: wstat.splits)
  ultimately show ?thesis
    using assms(1,2) by (cases "interface_close f"; cases "rip_exit_screen w") (auto simp: rip_fault_check_def)
qed

lemma no_fault: "\<not> faulty f \<Longrightarrow> fault_check f = Inr ()"
  by (auto simp: faulty_def fault_check_def interface_fault_check_def rip_fault_check_def split: option.split)

lemma quiet_check [simp]: "fault_check quiet_flags = Inr ()"
  by (rule no_fault) (simp add: faulty_def quiet_flags_def)

section \<open>Properties\<close>



end
