(* ===== verification/Printer_Buf.thy ===== *)
theory Printer_Buf
  imports Faults
begin

unbundle bit_operations_syntax

text \<open>
  The output of \<^verbatim>\<open>pprdrv\<close> (\<^verbatim>\<open>pprdrv/pprdrv_buf.c\<close>): the write buffer in front of the pipe to the interface program, the
  encodings on top of it (tagged binary protocol, PostScript strings, quoted values of PPD files, formatted
  output), and the program \<^verbatim>\<open>ppr/tbcp2bin.c\<close> that undoes the tagged binary protocol in incoming jobs.
\<close>

section \<open>Definitions\<close>

subsection \<open>State\<close>

text \<open>
  The results of \<^verbatim>\<open>select()\<close> and \<^verbatim>\<open>write()\<close> to come are lists; the program waits when they are used up. \<open>Wrote n\<close> says that
  the pipe has room for \<open>n\<close> bytes. \<open>Readable n\<close> stands
  for a call of \<^verbatim>\<open>feedback_reader()\<close> that finds \<open>n\<close> control-Ds, which is all that matters of it here. \<open>faults\<close> gives what
  each call of \<^verbatim>\<open>fault_check()\<close> finds.
\<close>

datatype select_result = Select_timeout | Select_EINTR | Select_error | Readable nat | Writable | Other_ready

datatype write_result = Wrote nat | Write_EINTR | Write_EAGAIN | Write_EPIPE | Write_error

abbreviation (input) JOBBREAK_CONTROL_D :: int where "JOBBREAK_CONTROL_D \<equiv> 2"
abbreviation (input) BUFSIZE :: nat where "BUFSIZE \<equiv> 8192"

record drv = writemon +
  wbuf :: string
  control_d_count :: int
  tbcp_on :: bool
  Jobbreak :: int
  Feedback :: bool
  doing_primary_job :: bool
  selects :: "select_result list"
  writes :: "write_result list"
  faults :: "nat \<Rightarrow> fault_flags"
  fault_checks :: nat
  sent :: string
  bytes_sent :: int

subsection \<open>The buffer\<close>

definition printer_TBCP_on :: "drv \<Rightarrow> drv" where
  "printer_TBCP_on d = d\<lparr>tbcp_on := True\<rparr>"

definition printer_TBCP_off :: "drv \<Rightarrow> drv" where
  "printer_TBCP_off d = d\<lparr>tbcp_on := False\<rparr>"

definition printer_bufinit :: "drv \<Rightarrow> drv" where
  "printer_bufinit d = printer_TBCP_off (d\<lparr>wbuf := [], control_d_count := 0\<rparr>)"

definition check_fault :: "drv \<Rightarrow> drv_err + drv" where
  "check_fault d = bindE (fault_check (faults d (fault_checks d))) (\<lambda>_. Inr (d\<lparr>fault_checks := Suc (fault_checks d)\<rparr>))"

text \<open>The control-Ds in the block to be sent, found one after the other with \<^verbatim>\<open>memchr()\<close>.\<close>

function ctrl_d_loop :: "string \<Rightarrow> int \<Rightarrow> int" where
  "ctrl_d_loop wptr n =
     (let p = dropWhile (\<lambda>c. c \<noteq> CHR 0x04) wptr in if p = [] then n else ctrl_d_loop (tl p) (n + 1))"
  by pat_completeness auto

termination
proof (relation "measure (\<lambda>(wptr, n). length wptr)")
  fix wptr n p
  assume "p = dropWhile (\<lambda>c. c \<noteq> CHR 0x04) wptr" "p \<noteq> []"
  then have "length p \<le> length wptr" "0 < length p" using length_dropWhile_le [of _ wptr] by simp_all
  then show "((tl p, n + 1), wptr, n) \<in> measure (\<lambda>(wptr, n). length wptr)" by (cases p) auto
qed simp

declare ctrl_d_loop.simps [simp del]

text \<open>Sleeping until the pipe has room.\<close>

fun wait_loop :: "select_result list \<Rightarrow> drv \<Rightarrow> drv_err + drv" where
  "wait_loop rs d =
     bindE (writemon_sleep_time 0 d) (\<lambda>(sleep_time, d).
       if sleep_time = None then Inr (d\<lparr>selects := rs\<rparr>)
       else
         bindE (check_fault d) (\<lambda>d.
           case rs of
             [] \<Rightarrow> Inl (DrvWaiting ''select()'')
           | r # rs \<Rightarrow>
               (case r of
                  Select_timeout \<Rightarrow> wait_loop rs d
                | Select_EINTR \<Rightarrow> wait_loop rs d
                | Select_error \<Rightarrow> Inl (DrvFatal EXIT_PRNERR ''printer_flush(): select() failed'')
                | Readable n \<Rightarrow> bindE (check_fault d) (\<lambda>d. wait_loop rs (d\<lparr>control_d_count := control_d_count d - int n\<rparr>))
                | Writable \<Rightarrow> Inr (d\<lparr>selects := rs\<rparr>)
                | Other_ready \<Rightarrow> Inl (DrvFatal EXIT_PRNERR_NORETRY ''printer_flush(): assertion failed''))))"

declare wait_loop.simps [simp del]

text \<open>The call of \<^verbatim>\<open>write()\<close> with its restarts; the result has the number of bytes written.\<close>

fun fault_checks_loop :: "nat \<Rightarrow> drv \<Rightarrow> drv_err + drv" where
  "fault_checks_loop 0 d = Inr d"
| "fault_checks_loop (Suc n) d = bindE (check_fault d) (fault_checks_loop n)"

fun write_loop :: "write_result list \<Rightarrow> nat \<Rightarrow> drv \<Rightarrow> drv_err + nat \<times> drv" where
  "write_loop [] remain d = Inl (DrvWaiting ''write()'')"
| "write_loop (r # rs) remain d =
     (case r of
        Wrote n \<Rightarrow> Inr (min n remain, d\<lparr>writes := rs\<rparr>)
      | Write_EINTR \<Rightarrow> bindE (check_fault d) (write_loop rs remain)
      | Write_EAGAIN \<Rightarrow> write_loop rs remain d
      | Write_EPIPE \<Rightarrow> bindE (fault_checks_loop 10 d) (\<lambda>d. Inl (DrvFatal EXIT_PRNERR ''printer_flush(): unexplained EPIPE''))
      | Write_error \<Rightarrow> Inl (DrvFatal EXIT_PRNERR ''printer_flush(): write failed''))"

text \<open>The loop until all of the block is written. Each round takes at least one result of \<^verbatim>\<open>write()\<close>, so that the round
  after the last result waits there.\<close>

fun flush_loop :: "nat \<Rightarrow> string \<Rightarrow> drv \<Rightarrow> drv_err + drv" where
  "flush_loop rounds block d =
     (if block = [] then Inr d
      else case rounds of
        0 \<Rightarrow> Inl (DrvWaiting ''write()'')
      | Suc k \<Rightarrow>
          bindE (writemon_start ''WRITE'' d) (\<lambda>d.
          bindE (wait_loop (selects d) d) (\<lambda>d.
          bindE (write_loop (writes d) (length block) d) (\<lambda>(n, d).
            let d = d\<lparr>sent := sent d @ take n block\<rparr>;
                d = (if doing_primary_job d then d\<lparr>bytes_sent := bytes_sent d + int n\<rparr> else d) in
            bindE (writemon_unstalled ''WRITE'' d) (flush_loop k (drop n block))))))"

declare flush_loop.simps [simp del]

definition printer_flush :: "drv \<Rightarrow> drv_err + int \<times> drv" where
  "printer_flush d =
     (let d = (if Jobbreak d = JOBBREAK_CONTROL_D \<and> Feedback d
               then d\<lparr>control_d_count := ctrl_d_loop (wbuf d) (control_d_count d)\<rparr> else d) in
      bindE (flush_loop (Suc (length (writes d))) (wbuf d) d) (\<lambda>d'. Inr (int (length (wbuf d)), d'\<lparr>wbuf := []\<rparr>)))"

subsection \<open>Characters and strings\<close>

text \<open>A byte is stored from an \<^verbatim>\<open>int\<close>, the value of a \<^verbatim>\<open>char\<close>.\<close>

definition raw_printer_putc :: "int \<Rightarrow> drv \<Rightarrow> drv_err + drv" where
  "raw_printer_putc c d =
     bindE (if length (wbuf d) = BUFSIZE then bindE (printer_flush d) (\<lambda>(_, d). Inr d) else Inr d)
       (\<lambda>d. Inr (d\<lparr>wbuf := wbuf d @ [char_of c]\<rparr>))"

definition raw_printer_write :: "string \<Rightarrow> drv \<Rightarrow> drv_err + drv" where
  "raw_printer_write buf = foldE (\<lambda>c. raw_printer_putc (c_char c)) buf"

definition raw_printer_puts :: "string \<Rightarrow> drv \<Rightarrow> drv_err + drv" where
  "raw_printer_puts str = foldE (\<lambda>c. raw_printer_putc (c_char c)) str"

definition tbcp_special :: "int \<Rightarrow> bool" where
  "tbcp_special c \<longleftrightarrow> c \<in> {0x01, 0x03, 0x04, 0x05, 0x11, 0x13, 0x14, 0x1b, 0x1c}"

definition tbcp_printer_putc :: "int \<Rightarrow> drv \<Rightarrow> drv_err + drv" where
  "tbcp_printer_putc c d =
     (if tbcp_special c then bindE (raw_printer_putc 1 d) (raw_printer_putc (c XOR 0x40)) else raw_printer_putc c d)"

definition tbcp_printer_write :: "string \<Rightarrow> drv \<Rightarrow> drv_err + drv" where
  "tbcp_printer_write buf = foldE (\<lambda>c. tbcp_printer_putc (c_char c)) buf"

definition tbcp_printer_puts :: "string \<Rightarrow> drv \<Rightarrow> drv_err + drv" where
  "tbcp_printer_puts str = foldE (\<lambda>c. tbcp_printer_putc (c_char c)) str"

text \<open>The three macros, which call through the pointers that \<open>printer_TBCP_on\<close> and \<open>printer_TBCP_off\<close> set.\<close>

definition printer_putc :: "int \<Rightarrow> drv \<Rightarrow> drv_err + drv" where
  "printer_putc c d = (if tbcp_on d then tbcp_printer_putc c d else raw_printer_putc c d)"

definition printer_puts :: "string \<Rightarrow> drv \<Rightarrow> drv_err + drv" where
  "printer_puts str d = (if tbcp_on d then tbcp_printer_puts str d else raw_printer_puts str d)"

definition printer_write :: "string \<Rightarrow> drv \<Rightarrow> drv_err + drv" where
  "printer_write buf d = (if tbcp_on d then tbcp_printer_write buf d else raw_printer_write buf d)"

definition printer_putline :: "string \<Rightarrow> drv \<Rightarrow> drv_err + drv" where
  "printer_putline str d = bindE (printer_puts str d) (printer_putc 10)"

subsection \<open>Formatted output\<close>

text \<open>
  The arguments of \<open>printer_printf\<close>; \<^verbatim>\<open>%f\<close> is given with its text, the result of \<^verbatim>\<open>gu_dtostr()\<close>. \<^verbatim>\<open>%o\<close> prints an \<^verbatim>\<open>unsigned
  int\<close> with at least three digits.
\<close>

datatype parg = PStr string | PInt int | PDouble string

definition print_o3 :: "int \<Rightarrow> string" where
  "print_o3 n = (let s = print_nat 8 (nat (n mod 2 ^ 32)) in replicate (3 - length s) CHR ''0'' @ s)"

text \<open>The format characters with their arguments taken off; a missing or wrong argument is undefined.\<close>

fun printf_arg :: "char \<Rightarrow> parg list \<Rightarrow> drv \<Rightarrow> drv_err + parg list \<times> drv" where
  "printf_arg c args d =
     (if c = CHR ''%'' then bindE (printer_putc 0x25 d) (\<lambda>d. Inr (args, d))
      else if c \<notin> {CHR ''s'', CHR ''d'', CHR ''o'', CHR ''f''}
      then Inl (DrvFatal EXIT_PRNERR_NORETRY ''printer_printf(): illegal format spec'')
      else case args of
        PStr s # args \<Rightarrow>
          if c = CHR ''s'' then bindE (printer_puts s d) (\<lambda>d. Inr (args, d)) else Inl (DrvUB ''va_arg()'')
      | PInt n # args \<Rightarrow>
          if c = CHR ''d'' then bindE (printer_puts (print_d n) d) (\<lambda>d. Inr (args, d))
          else if c = CHR ''o'' then bindE (printer_puts (print_o3 n) d) (\<lambda>d. Inr (args, d))
          else Inl (DrvUB ''va_arg()'')
      | PDouble s # args \<Rightarrow>
          if c = CHR ''f'' then bindE (printer_puts s d) (\<lambda>d. Inr (args, d)) else Inl (DrvUB ''va_arg()'')
      | [] \<Rightarrow> Inl (DrvUB ''va_arg()''))"

fun printer_printf :: "string \<Rightarrow> parg list \<Rightarrow> drv \<Rightarrow> drv_err + drv" where
  "printer_printf [] args d = Inr d"
| "printer_printf [c] args d =
     (if c = CHR ''%'' then Inl (DrvFatal EXIT_PRNERR_NORETRY ''printer_printf(): illegal format spec'')
      else printer_putc (c_char c) d)"
| "printer_printf (c # c' # str) args d =
     (if c = CHR ''%'' then bindE (printf_arg c' args d) (\<lambda>(args, d). printer_printf str args d)
      else bindE (printer_putc (c_char c) d) (printer_printf (c' # str) args))"

subsection \<open>Quoted values and PostScript strings\<close>

text \<open>
  The value of a hexadecimal digit as the source takes it: any letter counts. \<open>hex_loop\<close> is the inner loop; \<open>place\<close> has
  the first digit of a pair.
\<close>

definition hex_digit :: "char \<Rightarrow> int option" where
  "hex_digit c =
     (let n = c_char c in
      if 48 \<le> n \<and> n \<le> 57 then Some (n - 48)
      else if 97 \<le> n \<and> n \<le> 122 then Some (n - 97 + 10)
      else if 65 \<le> n \<and> n \<le> 90 then Some (n - 65 + 10)
      else None)"

fun hex_loop :: "string \<Rightarrow> int option \<Rightarrow> drv \<Rightarrow> drv_err + string \<times> drv" where
  "hex_loop [] place d = Inr ([], d)"
| "hex_loop (c # s) place d =
     (if c = CHR ''>'' then Inr (c # s, d)
      else case hex_digit c of
        None \<Rightarrow> hex_loop s place d
      | Some x \<Rightarrow>
          (case place of
             Some val \<Rightarrow> bindE (printer_putc (val + x) d) (hex_loop s None)
           | None \<Rightarrow> hex_loop s (Some (x * 16)) d))"

fun quoted_loop :: "nat \<Rightarrow> string \<Rightarrow> drv \<Rightarrow> drv_err + drv" where
  "quoted_loop fuel [] d = Inr d"
| "quoted_loop 0 (c # s) d = Inl (DrvLoop ''printer_puts_QuotedValue()'')"
| "quoted_loop (Suc n) (c # s) d =
     (if c \<noteq> CHR ''<'' then bindE (printer_putc (c_char c) d) (quoted_loop n s)
      else bindE (hex_loop s None d) (\<lambda>(s, d). quoted_loop n (if s \<noteq> [] then tl s else s) d))"

definition printer_puts_QuotedValue :: "string \<Rightarrow> drv \<Rightarrow> drv_err + drv" where
  "printer_puts_QuotedValue s d = quoted_loop (length s) s d"

definition printer_putc_escaped :: "int \<Rightarrow> drv \<Rightarrow> drv_err + drv" where
  "printer_putc_escaped c d =
     (if c = 40 \<or> c = 41 \<or> c = 0x5C then bindE (printer_putc 0x5C d) (printer_putc c)
      else if c \<ge> 32 \<and> c < 127 then printer_putc c d
      else printer_printf [CHR 0x5C, CHR ''%'', CHR ''o''] [PInt c] d)"

definition printer_puts_escaped :: "string \<Rightarrow> drv \<Rightarrow> drv_err + drv" where
  "printer_puts_escaped str = foldE (\<lambda>c. printer_putc_escaped (c_char c)) str"

definition printer_universal_exit_language :: "drv \<Rightarrow> drv_err + drv" where
  "printer_universal_exit_language = printer_puts (CHR 0x1B # ''%-12345X'')"

text \<open>\<open>message\<close> is the text that \<^verbatim>\<open>vsnprintf()\<close> makes, cut to the length of the display.\<close>

definition printer_display_printf :: "string \<Rightarrow> drv \<Rightarrow> drv_err + drv" where
  "printer_display_printf message =
     printer_printf (''@PJL RDYMSG DISPLAY = '' @ [CHR 0x22, CHR ''%'', CHR ''s'', CHR 0x22, CHR 0x0A]) [PStr (take 32 message)]"

subsection \<open>The decoder of incoming jobs\<close>

text \<open>\<^verbatim>\<open>fgetc()\<close> at the end of the file gives -1, which is decoded and written like a character.\<close>

fun tbcp2bin :: "string \<Rightarrow> string" where
  "tbcp2bin [] = []"
| "tbcp2bin [c] =
     (if c = CHR 0x04 then [] else if c = CHR 0x01 then [char_of ((-1 :: int) XOR 0x40)] else [c])"
| "tbcp2bin (c # c' # s) =
     (if c = CHR 0x04 then tbcp2bin (c' # s)
      else if c = CHR 0x01 then
        if c' = CHR ''M'' then tbcp2bin s else char_of (of_char c' XOR 0x40 :: int) # tbcp2bin s
      else c # tbcp2bin (c' # s))"

end
