(* ===== verification/Output.thy ===== *)
theory Output
  imports Printer_Buf
begin

unbundle bit_operations_syntax

text \<open>
  The output of \<^verbatim>\<open>pprdrv\<close> as a stream of bytes: what reaches the pipe to the interface program, that it gets there, and that the encodings can be undone.
\<close>

section \<open>Reference definitions\<close>

text \<open>What an operation keeps: the buffer, what was sent, and the protocol.\<close>

definition kept :: "drv \<Rightarrow> drv \<Rightarrow> bool" where
  "kept d d' \<longleftrightarrow> wbuf d' = wbuf d \<and> sent d' = sent d \<and> tbcp_on d' = tbcp_on d"

text \<open>What has been given out, whether it is still in the buffer or not; the bytes of a character on the wire; and an operation that gives out \<open>s\<close> and keeps the buffer within its size.\<close>

definition stream :: "drv \<Rightarrow> string" where
  "stream d = sent d @ wbuf d"

definition wire :: "bool \<Rightarrow> int \<Rightarrow> string" where
  "wire tbcp c = (if tbcp \<and> tbcp_special c then [CHR 0x01, char_of (c XOR 0x40)] else [char_of c])"

definition wires :: "bool \<Rightarrow> string \<Rightarrow> string" where
  "wires tbcp s = concat (map (\<lambda>c. wire tbcp (c_char c)) s)"

definition outputs :: "drv \<Rightarrow> string \<Rightarrow> drv_err + drv \<Rightarrow> bool" where
  "outputs d s m \<longleftrightarrow> onR m (\<lambda>d'. stream d' = stream d @ s \<and> tbcp_on d' = tbcp_on d \<and> (length (wbuf d) \<le> BUFSIZE \<longrightarrow> length (wbuf d') \<le> BUFSIZE))"

text \<open>The value of a PostScript string between its parentheses, as the PostScript language has it for the escapes that are used: a parenthesis or a backslash, and three octal digits.\<close>

definition octal_value :: "string \<Rightarrow> nat" where
  "octal_value s = foldl (\<lambda>n c. 8 * n + (of_char c - 48)) 0 s"

fun ps_string :: "string \<Rightarrow> string" where
  "ps_string [] = []"
| "ps_string (c # s) =
     (if c \<noteq> CHR 0x5C then c # ps_string s
      else if s \<noteq> [] \<and> (hd s = CHR ''('' \<or> hd s = CHR '')'' \<or> hd s = CHR 0x5C) then hd s # ps_string (tl s)
      else char_of (octal_value (take 3 s)) # ps_string (drop 3 s))"

declare ps_string.simps(2) [simp del]

definition escaped :: "int \<Rightarrow> string" where
  "escaped c =
     (if c = 40 \<or> c = 41 \<or> c = 0x5C then [CHR 0x5C, char_of c]
      else if c \<ge> 32 \<and> c < 127 then [char_of c]
      else CHR 0x5C # print_o3 c)"

text \<open>An outside world that does no harm: no faults, a clock that gives proper times, no page time limit, room on the stack of the monitor.\<close>

definition calm :: "drv \<Rightarrow> bool" where
  "calm d \<longleftrightarrow> (\<forall>n. \<not> faulty (faults d n)) \<and> PageTimeLimit d = 0 \<and> (\<forall>n. normal_time (wall_clock d n)) \<and> watch_ok d \<and> length (stall_stack d) < 10"

definition example_drv :: drv where
  "example_drv = \<lparr>stall_stack = [], online_online_valid = False, online_online = False, online_unaccumulated_start_time = gu_timeval_zero,
     online_accumulator = gu_timeval_zero, PageTimeLimit = 0, wall_clock = (\<lambda>n. gu_timeval_zero), clock_reads = 0, wm_events = [],
     wbuf = ''%!'', control_d_count = 0, tbcp_on = True, Jobbreak = 2, Feedback = True, doing_primary_job = True,
     selects = [Select_EINTR, Writable, Readable 1, Writable], writes = [Wrote 3, Write_EAGAIN, Wrote 100], faults = (\<lambda>n. quiet_flags), fault_checks = 0,
     sent = [], bytes_sent = 0\<rparr>"

section \<open>Lemmas\<close>

subsection \<open>Flushing\<close>

lemma drv_eq_more:
  fixes d d' :: drv
  assumes "writemon.more d' = writemon.more d"
  shows "wbuf d' = wbuf d" "sent d' = sent d" "tbcp_on d' = tbcp_on d" "control_d_count d' = control_d_count d"
    "selects d' = selects d" "writes d' = writes d" "faults d' = faults d" "doing_primary_job d' = doing_primary_job d"
    "Jobbreak d' = Jobbreak d" "Feedback d' = Feedback d"
  using assms by (cases d; cases d'; simp)+

lemma emit_more [simp]: "writemon.more (wm_emit e d) = writemon.more d" "writemon.more (set_top s d) = writemon.more d"
  "writemon.more (set_start t d) = writemon.more d" "writemon.more (writemon_stalled t d) = writemon.more d"
  by (simp_all add: wm_emit_def set_top_def set_start_def writemon_stalled_def Let_def)

lemma stall_loop_more: "stall_loop n t d = Inr d' \<Longrightarrow> writemon.more d' = writemon.more d"
proof (induction n arbitrary: d)
  case 0
  then show ?case by (subst (asm) stall_loop.simps) (simp split: if_splits)
next
  case (Suc n)
  from Suc.prems show ?case by (subst (asm) stall_loop.simps) (auto split: if_splits dest: Suc.IH)
qed

lemma writemon_more:
  "writemon_start op d = Inr d' \<Longrightarrow> writemon.more d' = writemon.more d"
  "writemon_unstalled op d = Inr d' \<Longrightarrow> writemon.more d' = writemon.more d"
  "writemon_sleep_time t d = Inr (r, d') \<Longrightarrow> writemon.more d' = writemon.more d"
    apply (auto simp: writemon_start_def Let_def split: if_splits) [1]
   apply (auto simp: writemon_unstalled_def Let_def split: if_splits list.splits) [1]
  apply (auto simp: writemon_sleep_time_def Let_def gettimeofday_def bindE_eq_Inr split: if_splits dest!: stall_loop_more) [1]
  done

lemma kept_refl [simp]: "kept d d" by (simp add: kept_def)

lemma kept_trans: "kept d1 d2 \<Longrightarrow> kept d2 d3 \<Longrightarrow> kept d1 d3" by (simp add: kept_def)

lemma kept_more: "kept d0 d \<Longrightarrow> writemon.more d' = writemon.more d \<Longrightarrow> kept d0 d'"
  using drv_eq_more [of d' d] by (simp add: kept_def)

lemma kept_fields [simp]:
  "kept d0 (d\<lparr>selects := x\<rparr>) = kept d0 d" "kept d0 (d\<lparr>writes := y\<rparr>) = kept d0 d"
  "kept d0 (d\<lparr>fault_checks := n\<rparr>) = kept d0 d" "kept d0 (d\<lparr>control_d_count := c\<rparr>) = kept d0 d"
  "kept d0 (d\<lparr>bytes_sent := c\<rparr>) = kept d0 d"
  by (simp_all add: kept_def)

lemma check_fault_kept: "kept d0 d \<Longrightarrow> onR (check_fault d) (kept d0)"
  by (auto simp: check_fault_def intro!: onR_I)

lemma sleep_kept: "kept d0 d \<Longrightarrow> onR (writemon_sleep_time t d) (\<lambda>(r, d'). kept d0 d')"
  by (auto intro!: onR_I dest: writemon_more(3) intro: kept_more)

lemma wait_loop_kept: "kept d0 d \<Longrightarrow> onR (wait_loop rs d) (kept d0)"
proof (induction rs arbitrary: d)
  case Nil
  show ?case
    by (subst wait_loop.simps) (auto intro!: onR_mono [OF sleep_kept [OF Nil]] onR_mono [OF check_fault_kept])
next
  case (Cons r rs)
  show ?case
    by (subst wait_loop.simps, cases r)
      (auto intro!: onR_mono [OF sleep_kept [OF Cons.prems]] onR_mono [OF check_fault_kept] Cons.IH)
qed

lemma fault_checks_kept: "kept d0 d \<Longrightarrow> onR (fault_checks_loop n d) (kept d0)"
  by (induction n arbitrary: d) (auto intro!: onR_mono [OF check_fault_kept])

lemma write_loop_kept: "kept d0 d \<Longrightarrow> onR (write_loop rs remain d) (\<lambda>(n, d'). kept d0 d' \<and> n \<le> remain)"
proof (induction rs arbitrary: d)
  case (Cons r rs)
  then show ?case by (cases r) (auto intro!: onR_mono [OF check_fault_kept [OF Cons.prems]] onR_mono [OF fault_checks_kept [OF Cons.prems]])
qed simp

lemma flush_loop_sent:
  "flush_loop k block d = Inr d' \<Longrightarrow> sent d' = sent d @ block \<and> wbuf d' = wbuf d \<and> tbcp_on d' = tbcp_on d"
proof (induction k arbitrary: block d)
  case 0
  then show ?case by (subst (asm) flush_loop.simps) (simp split: if_splits)
next
  case (Suc k)
  show ?case
  proof (cases "block = []")
    case True
    with Suc.prems show ?thesis by (subst (asm) flush_loop.simps) simp
  next
    case False
    with Suc.prems obtain d1 d2 n d3 d4 where s: "writemon_start ''WRITE'' d = Inr d1" "wait_loop (selects d1) d1 = Inr d2"
      "write_loop (writes d2) (length block) d2 = Inr (n, d3)"
      "writemon_unstalled ''WRITE'' (let d = d3\<lparr>sent := sent d3 @ take n block\<rparr> in
         if doing_primary_job d then d\<lparr>bytes_sent := bytes_sent d + int n\<rparr> else d) = Inr d4"
      "flush_loop k (drop n block) d4 = Inr d'"
      by (subst (asm) flush_loop.simps) (auto simp: bindE_eq_Inr Let_def)
    have "kept d d3"
      using onR_D [OF write_loop_kept [OF onR_D [OF wait_loop_kept [OF kept_more [OF kept_refl writemon_more(1) [OF s(1)]]] s(2)]] s(3)] by simp
    moreover have "sent d4 = sent d3 @ take n block \<and> wbuf d4 = wbuf d3 \<and> tbcp_on d4 = tbcp_on d3"
      using kept_more [OF kept_refl writemon_more(2) [OF s(4)]] by (auto simp: kept_def Let_def split: if_splits)
    ultimately show ?thesis using Suc.IH [OF s(5)] by (simp add: kept_def)
  qed
qed

lemma printer_flush_sent:
  assumes "printer_flush d = Inr (n, d')"
  shows "n = int (length (wbuf d)) \<and> sent d' = sent d @ wbuf d \<and> wbuf d' = [] \<and> tbcp_on d' = tbcp_on d"
  using assms by (auto simp: printer_flush_def Let_def bindE_eq_Inr split: if_splits dest!: flush_loop_sent)

subsection \<open>The stream of bytes\<close>

lemma outputs_Inr [simp]: "outputs d [] (Inr d)" by (simp add: outputs_def)

lemma outputs_Inl [simp]: "outputs d s (Inl e)" by (simp add: outputs_def)

lemma outputs_bind:
  assumes "outputs d s m" "\<And>d'. m = Inr d' \<Longrightarrow> tbcp_on d' = tbcp_on d \<Longrightarrow> outputs d' t (k d')"
  shows "outputs d (s @ t) (bindE m k)"
  using assms unfolding outputs_def onR_bindE
  by (auto intro: onR_mono simp: onR_def split: sum.splits)

lemma outputs_fold:
  assumes "\<And>x d'. tbcp_on d' = tbcp_on d \<Longrightarrow> outputs d' (f x) (g x d')"
  shows "outputs d (concat (map f xs)) (foldE g xs d)"
  using assms
proof (induction xs arbitrary: d)
  case (Cons x xs)
  then show ?case using outputs_bind [of d "f x" "g x d" "concat (map f xs)" "foldE g xs"] by simp
qed simp

lemma raw_putc_outputs: "outputs d [char_of c] (raw_printer_putc c d)"
proof (cases "length (wbuf d) = BUFSIZE")
  case True
  have "stream d' @ [char_of c] = stream d @ [char_of c] \<and> tbcp_on d' = tbcp_on d \<and> wbuf d' = []" if "printer_flush d = Inr (n, d')" for n d'
    using printer_flush_sent [OF that] by (simp add: stream_def)
  then show ?thesis using True by (auto simp: outputs_def raw_printer_putc_def stream_def intro!: onR_I)
qed (auto simp: outputs_def raw_printer_putc_def stream_def)

lemma char_of_one: "char_of (1 :: int) = CHR 0x01"
  by code_simp

lemma wire_outputs: "outputs d (wire True c) (tbcp_printer_putc c d)" "outputs d (wire False c) (raw_printer_putc c d)"
  using outputs_bind [OF raw_putc_outputs [of d 1] raw_putc_outputs [of _ "c XOR 0x40"]] raw_putc_outputs [of d c]
    char_of_one by (auto simp: tbcp_printer_putc_def wire_def)

lemma putc_outputs: "outputs d (wire (tbcp_on d) c) (printer_putc c d)"
  using wire_outputs by (simp add: printer_putc_def)

lemma write_outputs:
  "outputs d (wires (tbcp_on d) s) (printer_write s d)" "outputs d (wires (tbcp_on d) s) (printer_puts s d)"
  using outputs_fold [of d "\<lambda>c. wire True (c_char c)" "\<lambda>c. tbcp_printer_putc (c_char c)" s, OF wire_outputs(1)]
    outputs_fold [of d "\<lambda>c. wire False (c_char c)" "\<lambda>c. raw_printer_putc (c_char c)" s, OF wire_outputs(2)]
  by (simp_all add: wires_def printer_write_def printer_puts_def tbcp_printer_write_def tbcp_printer_puts_def
      raw_printer_write_def raw_printer_puts_def)

subsection \<open>The tagged binary protocol\<close>

lemma wires_simps [simp]: "wires b [] = []" "wires b (c # s) = wire b (c_char c) @ wires b s"
  by (simp_all add: wires_def)

lemma wires_raw [simp]: "wires False s = s"
  by (induction s) (simp_all add: wire_def)

lemma tbcp2bin_plain: "c \<noteq> CHR 0x04 \<Longrightarrow> c \<noteq> CHR 0x01 \<Longrightarrow> tbcp2bin (c # t) = c # tbcp2bin t"
  by (cases t) simp_all

lemma tbcp2bin_tagged: "c \<noteq> CHR ''M'' \<Longrightarrow> tbcp2bin (CHR 0x01 # c # t) = char_of (of_char c XOR 0x40 :: int) # tbcp2bin t"
  by simp

lemma tbcp2bin_wire: "tbcp2bin (wire True (c_char c) @ t) = c # tbcp2bin t"
proof (cases "tbcp_special (c_char c)")
  case True
  then have "c_char c \<in> {0x01, 0x03, 0x04, 0x05, 0x11, 0x13, 0x14, 0x1b, 0x1c}" by (simp add: tbcp_special_def)
  then have "c \<in> char_of ` {0x01 :: int, 0x03, 0x04, 0x05, 0x11, 0x13, 0x14, 0x1b, 0x1c}" by (metis c_char_byte image_eqI)
  moreover have "\<forall>c \<in> char_of ` {0x01 :: int, 0x03, 0x04, 0x05, 0x11, 0x13, 0x14, 0x1b, 0x1c}.
      char_of (c_char c XOR 0x40) \<noteq> CHR ''M'' \<and> char_of (of_char (char_of (c_char c XOR 0x40) :: char) XOR 0x40 :: int) = c"
    by code_simp
  ultimately have k: "char_of (c_char c XOR 0x40) \<noteq> CHR ''M''" "char_of (of_char (char_of (c_char c XOR 0x40) :: char) XOR 0x40 :: int) = c"
    by blast+
  have "wire True (c_char c) @ t = CHR 0x01 # char_of (c_char c XOR 0x40) # t" using True by (simp add: wire_def)
  then show ?thesis by (simp only: tbcp2bin_tagged [OF k(1)] k(2))
next
  case False
  have "tbcp_special (c_char CHR 0x01)" "tbcp_special (c_char CHR 0x04)" by code_simp+
  then have "c \<noteq> CHR 0x04" "c \<noteq> CHR 0x01" using False by auto
  with False show ?thesis by (simp add: wire_def tbcp2bin_plain)
qed

lemma tbcp2bin_wires: "tbcp2bin (wires True s) = s"
proof (induction s)
  case (Cons c s)
  then show ?case using tbcp2bin_wire [of c "wires True s"] by simp
qed simp

lemma ctrl_d_loop_count: "ctrl_d_loop s n = n + int (count_list s CHR 0x04)"
proof (induction s n rule: ctrl_d_loop.induct)
  case (1 s n)
  have split: "count_list s CHR 0x04 = count_list (dropWhile (\<lambda>c. c \<noteq> CHR 0x04) s) CHR 0x04"
    by (induction s) auto
  show ?case
  proof (cases "dropWhile (\<lambda>c. c \<noteq> CHR 0x04) s")
    case Nil
    with split show ?thesis by (subst ctrl_d_loop.simps) (simp add: Let_def)
  next
    case (Cons c t)
    then have "c = CHR 0x04" using hd_dropWhile [of "\<lambda>c. c \<noteq> CHR 0x04" s] by simp
    then show ?thesis using 1 [OF refl] Cons split by (subst ctrl_d_loop.simps) (simp add: Let_def)
  qed
qed

subsection \<open>PostScript strings\<close>

lemma escaped_outputs:
  assumes "\<not> tbcp_on d"
  shows "outputs d (escaped c) (printer_putc_escaped c d)"
proof -
  have b: "c_char CHR 0x5C = 92" by code_simp
  have one: "outputs d' [char_of c'] (printer_putc c' d')" if "\<not> tbcp_on d'" for c' d'
    using putc_outputs [of d' c'] that by (simp add: wire_def)
  have str: "outputs d' s (printer_puts s d')" if "\<not> tbcp_on d'" for s d'
    using write_outputs(2) [of d' s] that by simp
  have bs: "char_of (92 :: int) = CHR 0x5C" by code_simp
  have o: "printer_printf ''%o'' [PInt c] = printer_puts (print_o3 c)" by (rule ext) (simp add: bindE_assoc)
  show ?thesis
    using outputs_bind [OF one [OF assms, of 92], of "[char_of c]" "printer_putc c"] one [OF assms, of c] one
      outputs_bind [OF one [OF assms, of 92], of "print_o3 c" "printer_puts (print_o3 c)"] str assms bs
    by (auto simp: escaped_def printer_putc_escaped_def b o)
qed

lemma print_o3_small:
  assumes "n < 512"
  shows "print_o3 (int n) = [digit_char (n div 64), digit_char (n div 8 mod 8), digit_char (n mod 8)]"
proof -
  have r: "print_nat 8 m = (if m < 8 then [digit_char m] else print_nat 8 (m div 8) @ [digit_char (m mod 8)])" for m
    by (subst print_nat.simps) simp
  have z: "digit_char 0 = CHR ''0''" by code_simp
  have d: "n div 8 div 8 = n div 64" by (simp add: div_mult2_eq [symmetric])
  have m: "nat (int n mod 2 ^ 32) = n" using assms by simp
  consider "n < 8" | "8 \<le> n" "n < 64" | "64 \<le> n" by linarith
  then show ?thesis
  proof cases
    case 1
    then show ?thesis unfolding print_o3_def m by (simp add: r [of n] z numeral_2_eq_2)
  next
    case 2
    then have "n div 8 < 8" by linarith
    with 2 show ?thesis unfolding print_o3_def m by (simp add: r [of n] r [of "n div 8"] z)
  next
    case 3
    then have "\<not> n div 8 < 8" "n div 8 div 8 < 8" using assms d by linarith+
    with 3 show ?thesis unfolding print_o3_def m using d by (simp add: r [of n] r [of "n div 8"] r [of "n div 64"])
  qed
qed

lemma of_char_digit: "k < 8 \<Longrightarrow> (of_char (digit_char k) :: nat) = 48 + k"
  by (simp add: digit_char_def)

lemma print_o3_ascii:
  assumes "n < 512"
  shows "length (print_o3 (int n)) = 3" "octal_value (print_o3 (int n)) = n" "hd (print_o3 (int n)) \<notin> {CHR ''('', CHR '')'', CHR 0x5C}"
proof -
  have k: "n div 64 < 8" "n div 8 mod 8 < 8" "n mod 8 < 8" using assms by linarith+
  have "digit_char (n div 64) \<notin> {CHR ''('', CHR '')'', CHR 0x5C}" using of_char_digit [OF k(1)] k(1) by auto
  then show "hd (print_o3 (int n)) \<notin> {CHR ''('', CHR '')'', CHR 0x5C}" using print_o3_small [OF assms] by simp
  have "n div 8 div 8 = n div 64" by (simp add: div_mult2_eq [symmetric])
  moreover have "8 * (8 * (n div 8 div 8) + n div 8 mod 8) + n mod 8 = n" by (simp only: mult_div_mod_eq)
  ultimately have "8 * (8 * (n div 64) + n div 8 mod 8) + n mod 8 = n" by (simp only:)
  then show "octal_value (print_o3 (int n)) = n" using print_o3_small [OF assms] k by (simp add: octal_value_def of_char_digit)
qed (use print_o3_small [OF assms] in simp)

lemma ps_string_escaped:
  assumes "(of_char c :: nat) < 128"
  shows "ps_string (escaped (c_char c) @ t) = c # ps_string t"
proof -
  have n: "c_char c = int (of_char c)" "(of_char c :: nat) < 512" using assms of_nat_of_char [of c, where ?'a = int] by (simp_all add: c_char_def)
  let ?o = "print_o3 (int (of_char c))"
  have o: "length ?o = 3" "octal_value ?o = of_char c" "hd ?o \<notin> {CHR ''('', CHR '')'', CHR 0x5C}" using print_o3_ascii [OF n(2)] by blast+
  have bs: "c_char CHR 0x5C = 92" by code_simp
  have e: "ps_string (CHR 0x5C # ?o @ t) = c # ps_string t"
    using o by (subst ps_string.simps) (auto simp: hd_append)
  have p: "c_char c \<in> {40, 41, 92} \<Longrightarrow> c = CHR ''('' \<or> c = CHR '')'' \<or> c = CHR 0x5C"
  proof -
    assume "c_char c \<in> {40, 41, 92}"
    then have "c \<in> char_of ` {40 :: int, 41, 92}" by (metis c_char_byte image_eqI)
    moreover have "char_of ` {40 :: int, 41, 92} = {CHR ''('', CHR '')'', CHR 0x5C}" by code_simp
    ultimately show "c = CHR ''('' \<or> c = CHR '')'' \<or> c = CHR 0x5C" by blast
  qed
  consider "c_char c \<in> {40, 41, 92}" | "c_char c \<notin> {40, 41, 92}" "c_char c \<ge> 32" "c_char c < 127" | "c_char c \<notin> {40, 41, 92}" "\<not> (c_char c \<ge> 32 \<and> c_char c < 127)"
    by blast
  then show ?thesis
  proof cases
    case 1
    then have "escaped (c_char c) = [CHR 0x5C, c]" by (auto simp: escaped_def)
    with p [OF 1] show ?thesis by (auto simp: ps_string.simps)
  next
    case 2
    then have "escaped (c_char c) = [c]" "c \<noteq> CHR 0x5C" using bs by (auto simp: escaped_def)
    then show ?thesis by (simp add: ps_string.simps)
  next
    case 3
    then have "escaped (c_char c) = CHR 0x5C # ?o" using n(1) by (auto simp: escaped_def)
    with e show ?thesis by simp
  qed
qed

lemma puts_escaped_outputs:
  assumes "\<not> tbcp_on d"
  shows "outputs d (concat (map (\<lambda>c. escaped (c_char c)) s)) (printer_puts_escaped s d)"
  unfolding printer_puts_escaped_def using escaped_outputs assms by (intro outputs_fold) simp

lemma ps_string_text:
  assumes "\<forall>c \<in> set s. (of_char c :: nat) < 128"
  shows "ps_string (concat (map (\<lambda>c. escaped (c_char c)) s)) = s"
  using assms by (induction s) (simp_all add: ps_string_escaped)

text \<open>Characters beyond ASCII are negative and come out with eleven digits.\<close>

lemma escaped_non_ascii: "escaped (c_char CHR 0xE1) = CHR 0x5C # ''37777777741''"
proof -
  have "c_char CHR 0xE1 = -31" by code_simp
  moreover have "digit_char 1 = CHR ''1''" "digit_char 3 = CHR ''3''" "digit_char 4 = CHR ''4''" "digit_char 7 = CHR ''7''" by code_simp+
  ultimately show ?thesis by (simp add: escaped_def print_o3_def print_nat.simps)
qed

subsection \<open>Progress\<close>

lemma sleep_calm:
  assumes "calm d" "writemon_start op d = Inr d1"
  shows "\<exists>t s' ev. remembered_operation s' = op \<and> writemon_sleep_time 0 d1
    = Inr (Some t, d1\<lparr>clock_reads := Suc (clock_reads d), stall_stack := s' # stall_stack d, wm_events := ev\<rparr>)"
proof -
  let ?s = "\<lparr>remembered_operation = op, start_time = gu_timeval_zero, start_time_set = False, stall_time = gu_timeval_zero, stall_time_minutes_announced = 0\<rparr>"
  have d1: "d1 = wm_emit (Status_writemon op 0) (d\<lparr>stall_stack := ?s # stall_stack d\<rparr>)"
    using assms(2) by (auto simp: writemon_start_def Let_def split: if_splits)
  let ?n = "wall_clock d1 (clock_reads d1)"
  have c: "stall_stack d1 = ?s # stall_stack d" "normal_time ?n" "watch_ok d1" "clock_reads d1 = clock_reads d" "PageTimeLimit d1 = 0"
    using assms(1) by (simp_all add: d1 wm_emit_def calm_def watch_ok_def)
  have ok: "stall_ok (started ?s ?n) ?n" using c(2) by (simp add: stall_ok_def started_def)
  let ?ev = "wm_events d1 @ announcements (started ?s ?n) (micros ?n - micros (start_time (started ?s ?n)))"
  obtain t s' where "writemon_sleep_time 0 d1 = Inr (Some t, d1\<lparr>clock_reads := Suc (clock_reads d1), stall_stack := s' # stall_stack d, wm_events := ?ev\<rparr>)"
      "remembered_operation s' = op"
    using sleep_time_watch [OF c(1) _ refl c(2,3) refl ok, of 0] c(5) by (auto simp: page_watched_def split: sum.splits option.splits)
  then show ?thesis unfolding c(4) by blast
qed

lemma flush_round:
  assumes "calm d" "selects d = Writable # ss" "writes d = Wrote n # ws" "block \<noteq> []"
  shows "\<exists>d'. flush_loop (Suc k) block d = flush_loop k (drop n block) d' \<and> calm d' \<and> selects d' = ss \<and> writes d' = ws
    \<and> control_d_count d' = control_d_count d"
proof -
  obtain d1 where d1: "writemon_start ''WRITE'' d = Inr d1" using assms(1) by (simp add: writemon_start_def calm_def Let_def)
  note m1 = drv_eq_more [OF writemon_more(1) [OF d1]]
  obtain t s' ev where s: "remembered_operation s' = ''WRITE''"
    "writemon_sleep_time 0 d1 = Inr (Some t, d1\<lparr>clock_reads := Suc (clock_reads d), stall_stack := s' # stall_stack d, wm_events := ev\<rparr>)"
    using sleep_calm [OF assms(1) d1] by blast
  let ?d2 = "d1\<lparr>clock_reads := Suc (clock_reads d), stall_stack := s' # stall_stack d, wm_events := ev\<rparr>"
  have f: "check_fault ?d2 = Inr (?d2\<lparr>fault_checks := Suc (fault_checks ?d2)\<rparr>)" using assms(1) m1 by (simp add: check_fault_def calm_def no_fault)
  let ?d3 = "?d2\<lparr>fault_checks := Suc (fault_checks ?d2), selects := ss\<rparr>"
  have w: "wait_loop (selects d1) d1 = Inr ?d3" using assms(2) m1 s(2) f by (subst wait_loop.simps) simp
  have wr: "write_loop (writes ?d3) (length block) ?d3 = Inr (min n (length block), ?d3\<lparr>writes := ws\<rparr>)" using assms(3) m1 by simp
  let ?d4 = "?d3\<lparr>writes := ws, sent := sent ?d3 @ take n block\<rparr>"
  let ?d5 = "if doing_primary_job ?d4 then ?d4\<lparr>bytes_sent := bytes_sent ?d4 + int (min n (length block))\<rparr> else ?d4"
  have fields: "stall_stack ?d5 = s' # stall_stack d" "PageTimeLimit ?d5 = PageTimeLimit d" "wall_clock ?d5 = wall_clock d"
      "online_unaccumulated_start_time ?d5 = online_unaccumulated_start_time d" "online_accumulator ?d5 = online_accumulator d"
      "faults ?d5 = faults d" "selects ?d5 = ss" "writes ?d5 = ws" "control_d_count ?d5 = control_d_count d"
    using d1 m1 by (auto simp: writemon_start_def Let_def wm_emit_def split: if_splits)
  obtain d6 where d6: "writemon_unstalled ''WRITE'' ?d5 = Inr d6" using s(1) fields(1) by (simp add: writemon_unstalled_def Let_def)
  have "stall_stack d6 = stall_stack d" "PageTimeLimit d6 = PageTimeLimit ?d5" "wall_clock d6 = wall_clock ?d5"
      "online_unaccumulated_start_time d6 = online_unaccumulated_start_time ?d5" "online_accumulator d6 = online_accumulator ?d5"
    using d6 fields(1) s(1) by (auto simp: writemon_unstalled_def Let_def wm_emit_def simp del: if_split split: if_splits)
  then have "calm d6" "selects d6 = ss" "writes d6 = ws" "control_d_count d6 = control_d_count d"
    using assms(1) fields drv_eq_more [OF writemon_more(2) [OF d6]] by (simp_all add: calm_def watch_ok_def)
  moreover have "flush_loop (Suc k) block d = flush_loop k (drop n block) d6"
    using assms(4) d1 w wr d6 by (subst flush_loop.simps) (simp add: Let_def min_def split: if_splits)
  ultimately show ?thesis by blast
qed

lemma flush_loop_live:
  assumes "calm d" "selects d = replicate (length ns) Writable @ ss" "writes d = map Wrote ns @ ws" "length block \<le> sum_list ns" "length ns \<le> k"
  shows "\<exists>d'. flush_loop k block d = Inr d' \<and> control_d_count d' = control_d_count d"
  using assms
proof (induction ns arbitrary: block d k)
  case Nil
  then show ?case by (subst flush_loop.simps) simp
next
  case (Cons n ns)
  show ?case
  proof (cases "block = []")
    case True
    then show ?thesis by (subst flush_loop.simps) simp
  next
    case False
    obtain j where j: "k = Suc j" using Cons.prems(5) by (cases k) auto
    obtain d' where "flush_loop k block d = flush_loop j (drop n block) d'" "calm d'" "selects d' = replicate (length ns) Writable @ ss" "writes d' = map Wrote ns @ ws"
        "control_d_count d' = control_d_count d"
      using flush_round [OF Cons.prems(1), of _ n _ block j] Cons.prems(2,3) False j by auto
    with Cons.IH [of d' "drop n block" j] Cons.prems(4,5) j show ?thesis by simp
  qed
qed

lemma example_flushed:
  "\<exists>d1 d2. printer_write [CHR 0x04, CHR ''x''] example_drv = Inr d1 \<and> printer_flush d1 = Inr (5, d2)"
proof -
  have "case printer_write [CHR 0x04, CHR ''x''] example_drv of Inl _ \<Rightarrow> False | Inr d1 \<Rightarrow> (case printer_flush d1 of Inl _ \<Rightarrow> False | Inr (n, d2) \<Rightarrow> n = 5)"
    by code_simp
  then show ?thesis by (auto split: sum.splits)
qed

section \<open>Properties\<close>

text \<open>
  C12. The buffered output is a byte stream: after \<open>printer_write\<close> and \<open>printer_flush\<close>, however often the buffer was flushed in between and however the pipe took the blocks apart, the pipe has received what was sent before, then the old contents of the buffer, then the new data in the encoding in force, in order and without loss or repetition. The buffer never exceeds its size, and \<open>printer_flush\<close> returns the number of bytes it had to send.
\<close>

theorem output_refines:
  assumes "length (wbuf d) \<le> BUFSIZE" "printer_write s d = Inr d1" "printer_flush d1 = Inr (n, d2)"
  shows "sent d2 = sent d @ wbuf d @ wires (tbcp_on d) s \<and> wbuf d2 = [] \<and> length (wbuf d1) \<le> BUFSIZE \<and> n = int (length (wbuf d1))"
  using assms write_outputs(1) [of d s] printer_flush_sent [OF assms(3)] by (simp add: outputs_def stream_def)

theorem output_refines_witness:
  "\<exists>d1 d2. printer_write [CHR 0x04, CHR ''x''] example_drv = Inr d1 \<and> printer_flush d1 = Inr (5, d2)
     \<and> sent d2 = ''%!'' @ [CHR 0x01, CHR ''D'', CHR ''x'']"
proof -
  obtain d1 d2 where d: "printer_write [CHR 0x04, CHR ''x''] example_drv = Inr d1" "printer_flush d1 = Inr (5, d2)"
    using example_flushed by blast
  have l: "length (wbuf example_drv) \<le> 8192" by (simp add: example_drv_def)
  have w: "sent example_drv @ wbuf example_drv @ wires (tbcp_on example_drv) [CHR 0x04, CHR ''x''] = ''%!'' @ [CHR 0x01, CHR ''D'', CHR ''x'']"
    by code_simp
  show ?thesis using output_refines [OF l d] d unfolding w by blast
qed

text \<open>
  C27. \<open>printer_flush\<close> returns: when the pipe becomes writable as often as it takes a part of the block and the parts add up to the block, and nothing else intervenes, the whole buffer has been sent, and exactly its control-Ds are added to the count of acknowledgements to wait for if the job break method is control-D with feedback.
\<close>

theorem flush_delivers:
  assumes "calm d" "selects d = replicate (length ns) Writable @ ss" "writes d = map Wrote ns @ ws" "length (wbuf d) \<le> sum_list ns"
  shows "\<exists>d'. printer_flush d = Inr (int (length (wbuf d)), d') \<and> sent d' = sent d @ wbuf d \<and> wbuf d' = []
    \<and> control_d_count d' = control_d_count d + (if Jobbreak d = JOBBREAK_CONTROL_D \<and> Feedback d then int (count_list (wbuf d) CHR 0x04) else 0)"
proof -
  let ?d = "if Jobbreak d = JOBBREAK_CONTROL_D \<and> Feedback d then d\<lparr>control_d_count := ctrl_d_loop (wbuf d) (control_d_count d)\<rparr> else d"
  have c: "calm ?d" "selects ?d = replicate (length ns) Writable @ ss" "writes ?d = map Wrote ns @ ws" "length (wbuf ?d) \<le> sum_list ns"
    using assms by (simp_all add: calm_def watch_ok_def)
  obtain d1 where "flush_loop (Suc (length (writes ?d))) (wbuf ?d) ?d = Inr d1" "control_d_count d1 = control_d_count ?d"
    using flush_loop_live [OF c, of "Suc (length (writes ?d))"] c(3) by auto
  then have f: "printer_flush d = Inr (int (length (wbuf d)), d1\<lparr>wbuf := []\<rparr>)" "control_d_count d1 = control_d_count ?d"
    by (auto simp: printer_flush_def Let_def)
  with printer_flush_sent [OF f(1)] show ?thesis by (simp add: ctrl_d_loop_count)
qed

theorem flush_delivers_witness:
  "\<exists>d'. printer_flush (example_drv\<lparr>selects := [Writable, Writable], writes := [Wrote 1, Wrote 1]\<rparr>) = Inr (2, d') \<and> sent d' = ''%!''"
proof -
  let ?d = "example_drv\<lparr>selects := [Writable, Writable], writes := [Wrote 1, Wrote 1]\<rparr>"
  have c: "calm ?d" "selects ?d = replicate (length [1 :: nat, 1]) Writable @ []" "writes ?d = map Wrote [1, 1] @ []" "length (wbuf ?d) \<le> sum_list [1, 1]"
    "int (length (wbuf ?d)) = 2" "sent ?d @ wbuf ?d = ''%!''"
    by (simp_all add: calm_def watch_ok_def example_drv_def normal_time_def nearly_normal_def gu_timeval_zero_def faulty_def quiet_flags_def)
  show ?thesis using flush_delivers [OF c(1-4)] unfolding c(5,6) by blast
qed

text \<open>
  C25. The tagged binary protocol round trip: what \<open>printer_write\<close> puts on the wire with the protocol switched on is decoded by \<^verbatim>\<open>tbcp2bin\<close> to the same bytes, whatever they are.
\<close>

theorem tbcp_roundtrip:
  assumes "tbcp_on d" "length (wbuf d) \<le> BUFSIZE" "printer_write s d = Inr d1" "printer_flush d1 = Inr (n, d2)"
  shows "\<exists>data. sent d2 = sent d @ wbuf d @ data \<and> tbcp2bin data = s"
proof -
  have "sent d2 = sent d @ wbuf d @ wires True s"
    using assms write_outputs(1) [of d s] printer_flush_sent [OF assms(4)] by (simp add: outputs_def stream_def)
  then show ?thesis using tbcp2bin_wires by blast
qed

theorem tbcp_roundtrip_witness:
  "\<exists>d1 d2 data. printer_write [CHR 0x04, CHR ''x''] example_drv = Inr d1 \<and> printer_flush d1 = Inr (5, d2)
     \<and> sent d2 = ''%!'' @ data \<and> tbcp2bin data = [CHR 0x04, CHR ''x'']"
proof -
  obtain d1 d2 where d: "printer_write [CHR 0x04, CHR ''x''] example_drv = Inr d1" "printer_flush d1 = Inr (5, d2)"
    using example_flushed by blast
  have e: "tbcp_on example_drv" "length (wbuf example_drv) \<le> 8192" "sent example_drv = []" "wbuf example_drv = ''%!''" by (simp_all add: example_drv_def)
  show ?thesis using tbcp_roundtrip [OF e(1,2) d] d unfolding e(3,4) append_Nil by blast
qed

text \<open>
  The PostScript string round trip: what \<open>printer_puts_escaped\<close> gives out for a text of ASCII characters (control characters, parentheses and backslashes included) is the body of a PostScript string whose value is that text.
\<close>

theorem escaped_roundtrip:
  assumes "\<not> tbcp_on d" "\<forall>c \<in> set s. (of_char c :: nat) < 128" "printer_puts_escaped s d = Inr d'"
  shows "\<exists>body. stream d' = stream d @ body \<and> ps_string body = s"
  using puts_escaped_outputs [OF assms(1), of s] ps_string_text [OF assms(2)] assms(3) by (auto simp: outputs_def)

theorem escaped_roundtrip_witness:
  "\<exists>d' body. printer_puts_escaped [CHR ''('', CHR 0x09, CHR ''a''] (example_drv\<lparr>tbcp_on := False\<rparr>) = Inr d'
     \<and> stream d' = ''%!'' @ body \<and> ps_string body = [CHR ''('', CHR 0x09, CHR ''a'']"
proof -
  let ?d = "example_drv\<lparr>tbcp_on := False\<rparr>" and ?s = "[CHR ''('', CHR 0x09, CHR ''a'']"
  have "case printer_puts_escaped ?s ?d of Inl _ \<Rightarrow> False | Inr d' \<Rightarrow> True" by code_simp
  then obtain d' where d: "printer_puts_escaped ?s ?d = Inr d'" by (auto split: sum.splits)
  have e: "\<not> tbcp_on ?d" "\<forall>c \<in> set ?s. (of_char c :: nat) < 128" "stream ?d = ''%!''" by (simp_all add: example_drv_def stream_def)
  show ?thesis using escaped_roundtrip [OF e(1,2) d] d unfolding e(3) by blast
qed

end
