(* ===== verification/Access.thy ===== *)
theory Access
  imports Enqueue "HOL-Library.Sublist"
begin

text \<open>
  Who may do what: wildcard patterns (\<^verbatim>\<open>nonppr_misc/wildmat/gu_wildmat.c\<close>), the comparison of a user name with a pattern
  (\<^verbatim>\<open>libppr/username_match.c\<close>) and the access control lists (\<^verbatim>\<open>libppr/acl.c\<close>).
\<close>

section \<open>Definitions\<close>

subsection \<open>Wildcards\<close>

text \<open>The three results of \<^verbatim>\<open>DoMatch()\<close>.\<close>

datatype match_result = MTrue | MFalse | MAbort

text \<open>
  The character after a backslash: the value to compare with the next character of the text, and the rest of the
  pattern. At the end of the pattern this is the NUL, which no character of the text equals.
\<close>

definition is_octal :: "char \<Rightarrow> bool" where
  "is_octal c \<longleftrightarrow> 48 \<le> c_char c \<and> c_char c \<le> 55"

definition hex_value :: "char \<Rightarrow> int option" where
  "hex_value c =
     (let c2 = c_char c - 48 in
      if c2 \<ge> 0 \<and> c2 \<le> 9 then Some c2
      else let c2 = c2 - 7 in
        if c2 \<ge> 10 \<and> c2 \<le> 15 then Some c2
        else let c2 = c2 - 32 in if c2 \<ge> 10 \<and> c2 \<le> 15 then Some c2 else None)"

definition controls :: "(char \<times> int) list" where
  "controls = [(CHR ''a'', 7), (CHR ''b'', 8), (CHR ''f'', 12), (CHR ''n'', 10), (CHR ''r'', 13), (CHR ''t'', 9), (CHR ''v'', 11)]"

definition escape :: "string \<Rightarrow> int \<times> string" where
  "escape p =
     (case p of
        [] \<Rightarrow> (0, [])
      | c # q \<Rightarrow>
          if is_octal c then
            let ds = take 3 (takeWhile is_octal p) in (foldl (\<lambda>n d. n * 8 + (c_char d - 48)) 0 ds, drop (length ds) p)
          else if c = CHR ''x'' then
            let ds = take 2 (takeWhile (\<lambda>d. hex_value d \<noteq> None) q) in
            (foldl (\<lambda>n d. n * 16 + the (hex_value d)) 0 ds, drop (length ds) q)
          else case map_of controls c of Some v \<Rightarrow> (v, q) | None \<Rightarrow> (c_char c, q))"

text \<open>
  The loop over a character class; the result says whether the character was found and what follows the closing
  bracket. A class without one is read past the end of the pattern, unless it does not match.
\<close>

fun class_loop :: "char \<Rightarrow> char \<Rightarrow> bool \<Rightarrow> string \<Rightarrow> gu_err + bool \<times> string option" where
  "class_loop t prev matched [] = Inr (matched, None)"
| "class_loop t prev matched (c # p) =
     (if c = CHR '']'' then Inr (matched, Some p)
      else if c = CHR ''-'' then
        (case p of
           [] \<Rightarrow> Inl (GuUB ''DoMatch(): range at the end of the pattern'')
         | d # q \<Rightarrow>
             if d \<noteq> CHR '']'' then class_loop t d (matched \<or> c_char t \<le> c_char d \<and> c_char t \<ge> c_char prev) q
             else class_loop t c (matched \<or> t = c) p)
      else class_loop t c (matched \<or> t = c) p)"

text \<open>A character class after its opening bracket: whether \<open>t\<close> is in it, and the rest of the pattern.\<close>

definition char_class :: "char \<Rightarrow> string \<Rightarrow> gu_err + bool \<times> string" where
  "char_class t p =
     (let reverse = (p \<noteq> [] \<and> hd p = CHR ''^'');
          p = (if reverse then tl p else p);
          first = (p \<noteq> [] \<and> (hd p = CHR '']'' \<or> hd p = CHR ''-''));
          prev = (if first then hd p else if reverse then CHR ''^'' else CHR ''['') in
      bindE (class_loop t prev (first \<and> hd p = t) (if first then tl p else p)) (\<lambda>(matched, rest).
        if matched = reverse then Inr (False, [])
        else case rest of
          None \<Rightarrow> Inl (GuUB ''DoMatch(): class without closing bracket'')
        | Some q \<Rightarrow> Inr (True, q)))"

lemma length_escape [termination_simp]: "length (snd (escape p)) \<le> length p"
  by (cases p) (simp_all add: escape_def Let_def le_SucI split: option.split)

lemma length_class_loop:
  "class_loop t prev matched p = Inr (m, Some q) \<Longrightarrow> length q \<le> length p"
proof (induction t prev matched p arbitrary: m q rule: class_loop.induct)
  case (2 t prev matched c p)
  then show ?case by (cases p) (auto split: if_splits, (meson le_SucI)+)
qed simp

lemma length_char_class: "char_class t p = Inr (m, q) \<Longrightarrow> length q \<le> length p"
  by (auto simp: char_class_def Let_def split: if_splits option.splits dest!: length_class_loop)

lemma length_dropWhile_star [termination_simp]: "length (dropWhile P p) \<le> length p"
  by (rule length_dropWhile_le)

lemma bindE_cong [fundef_cong]:
  "m = m' \<Longrightarrow> (\<And>a. m' = Inr a \<Longrightarrow> k a = k' a) \<Longrightarrow> bindE m k = bindE m' k'"
  by (cases m') auto

text \<open>\<^verbatim>\<open>DoMatch()\<close>, and its loop over the places where the pattern after a star may begin.\<close>

function (sequential) do_match :: "string \<Rightarrow> string \<Rightarrow> gu_err + match_result"
  and star_loop :: "string \<Rightarrow> string \<Rightarrow> gu_err + match_result" where
  "do_match text [] = Inr (if text = [] then MTrue else MFalse)"
| "do_match text (c # p) =
     (if c = CHR ''*'' then
        let q = dropWhile (\<lambda>c. c = CHR ''*'') p in if q = [] then Inr MTrue else star_loop text q
      else
        case text of
          [] \<Rightarrow> Inr MAbort
        | t # text \<Rightarrow>
            if c = CHR 0x5C then if c_char t = fst (escape p) then do_match text (snd (escape p)) else Inr MFalse
            else if c = CHR ''?'' then do_match text p
            else if c = CHR ''['' then
              bindE (char_class t p) (\<lambda>r. if fst r then do_match text (snd r) else Inr MFalse)
            else if t \<noteq> c then Inr MFalse
            else do_match text p)"
| "star_loop [] q = Inr MAbort"
| "star_loop (t # text) q = bindE (do_match (t # text) q) (\<lambda>m. if m \<noteq> MFalse then Inr m else star_loop text q)"
  by pat_completeness auto

termination
  by (relation "measures [\<lambda>x. case x of Inl (t, p) \<Rightarrow> length p | Inr (t, p) \<Rightarrow> length p,
        \<lambda>x. case x of Inl (t, p) \<Rightarrow> length t | Inr (t, p) \<Rightarrow> length t, \<lambda>x. case x of Inl _ \<Rightarrow> 0 | Inr _ \<Rightarrow> 1]")
    (auto simp: less_Suc_eq_le length_dropWhile_le length_escape dest: length_char_class)

definition gu_wildmat :: "string \<Rightarrow> string \<Rightarrow> gu_err + bool" where
  "gu_wildmat text p = (if p = ''*'' then Inr True else bindE (do_match text p) (\<lambda>m. Inr (m = MTrue)))"

subsection \<open>User names\<close>

definition localhost_remove :: "string option \<Rightarrow> string option" where
  "localhost_remove host =
     (case host of
        None \<Rightarrow> None
      | Some h \<Rightarrow> if h = ''localhost'' then None else if h = ''127.0.0.1'' then None else Some h)"

text \<open>The part before the first \<^verbatim>\<open>@\<close>, and the part after it.\<close>

definition split_host :: "string \<Rightarrow> string \<times> string option" where
  "split_host s =
     (let name = takeWhile (\<lambda>c. c \<noteq> CHR ''@'') s; rest = dropWhile (\<lambda>c. c \<noteq> CHR ''@'') s in
      (name, if rest = [] then None else Some (tl rest)))"

definition username_match :: "string \<Rightarrow> string \<Rightarrow> gu_err + bool" where
  "username_match username pattern =
     (if username = pattern then Inr True
      else
        let username_host = localhost_remove (snd (split_host username));
            pattern_host = localhost_remove (snd (split_host pattern)) in
        bindE (gu_wildmat (fst (split_host username)) (fst (split_host pattern))) (\<lambda>m.
          if \<not> m then Inr False
          else case username_host of
            Some uh \<Rightarrow> (case pattern_host of None \<Rightarrow> Inr False | Some ph \<Rightarrow> gu_wildmat uh ph)
          | None \<Rightarrow> (case pattern_host of None \<Rightarrow> Inr True | Some ph \<Rightarrow> Inr (ph = ''*''))))"

subsection \<open>Access control lists\<close>

text \<open>
  The names of the spooler's users and the directory come from the configuration of the build; \<open>files\<close> is the file system.
\<close>

record acl_config =
  USER_PPR :: string
  USER_PPRWWW :: string
  ACLDIR :: string

definition internal_list :: "acl_config \<Rightarrow> string list" where
  "internal_list cfg = [''root'', USER_PPR cfg, USER_PPRWWW cfg]"

fun allow_loop :: "string \<Rightarrow> string list \<Rightarrow> gu_err + bool" where
  "allow_loop user [] = Inr False"
| "allow_loop user (line # ls) =
     (if line \<noteq> [] \<and> (hd line = CHR ''#'' \<or> hd line = CHR '';'') then allow_loop user ls
      else bindE (username_match user line) (\<lambda>m. if m then Inr True else allow_loop user ls))"

definition user_acl_allows :: "acl_config \<Rightarrow> (string \<rightharpoonup> string) \<Rightarrow> string \<Rightarrow> string \<Rightarrow> gu_err + bool" where
  "user_acl_allows cfg files user acl =
     (if user \<in> set (internal_list cfg) then Inr True
      else bindE (ppr_fnamef ''%s/%s.allow'' [FStr (ACLDIR cfg), FStr acl]) (\<lambda>fname.
        case files fname of None \<Rightarrow> Inr False | Some c \<Rightarrow> allow_loop user (file_lines c)))"

subsection \<open>Reference definitions\<close>

text \<open>
  The meaning of a pattern: its items, and the texts they match. \<open>Lit n\<close> is a character with that value, \<open>Class neg rs\<close>
  one that is in one of the ranges, or in none of them.
\<close>

datatype item = Star | Any | Lit int | Class bool "(int \<times> int) list"

fun fits :: "item \<Rightarrow> char \<Rightarrow> bool" where
  "fits Star c = False"
| "fits Any c = True"
| "fits (Lit n) c = (c_char c = n)"
| "fits (Class neg rs) c = (list_ex (\<lambda>(lo, hi). lo \<le> c_char c \<and> c_char c \<le> hi) rs \<noteq> neg)"

inductive matches :: "item list \<Rightarrow> string \<Rightarrow> bool" where
  matches_Nil: "matches [] []"
| matches_Star: "matches ps t \<Longrightarrow> matches (Star # ps) (s @ t)"
| matches_One: "fits i c \<Longrightarrow> matches ps t \<Longrightarrow> matches (i # ps) (c # t)"

fun class_ranges :: "char \<Rightarrow> string \<Rightarrow> ((int \<times> int) list \<times> string) option" where
  "class_ranges prev [] = None"
| "class_ranges prev (c # p) =
     (if c = CHR '']'' then Some ([], p)
      else if c = CHR ''-'' \<and> p = [] then None
      else if c = CHR ''-'' \<and> hd p \<noteq> CHR '']'' then
        map_option (\<lambda>(rs, q). ((c_char prev, c_char (hd p)) # rs, q)) (class_ranges (hd p) (tl p))
      else map_option (\<lambda>(rs, q). ((c_char c, c_char c) # rs, q)) (class_ranges c p))"

text \<open>A class may begin with a caret, then with a closing bracket or a minus sign that stand for themselves.\<close>

definition class_item :: "string \<Rightarrow> (item \<times> string) option" where
  "class_item p =
     (let neg = (p \<noteq> [] \<and> hd p = CHR ''^''); p = (if neg then tl p else p) in
      if p \<noteq> [] \<and> (hd p = CHR '']'' \<or> hd p = CHR ''-'') then
        map_option (\<lambda>(rs, q). (Class neg ((c_char (hd p), c_char (hd p)) # rs), q)) (class_ranges (hd p) (tl p))
      else map_option (\<lambda>(rs, q). (Class neg rs, q)) (class_ranges (if neg then CHR ''^'' else CHR ''['') p))"

lemma length_class_ranges: "class_ranges prev p = Some (rs, q) \<Longrightarrow> length q \<le> length p"
proof (induction prev p arbitrary: rs q rule: class_ranges.induct)
  case (2 prev c p)
  then show ?case by (cases p) (auto split: if_splits simp: le_SucI)
qed simp

lemma length_class_item: "class_item p = Some (i, q) \<Longrightarrow> length q \<le> length p"
  by (auto simp: class_item_def Let_def split: if_splits dest!: length_class_ranges)

function items :: "string \<Rightarrow> item list option" where
  "items [] = Some []"
| "items (c # p) =
     (if c = CHR ''*'' then map_option ((#) Star) (items p)
      else if c = CHR ''?'' then map_option ((#) Any) (items p)
      else if c = CHR 0x5C then map_option ((#) (Lit (fst (escape p)))) (items (snd (escape p)))
      else if c = CHR ''['' then
        (case class_item p of None \<Rightarrow> None | Some (i, q) \<Rightarrow> map_option ((#) i) (items q))
      else map_option ((#) (Lit (c_char c))) (items p))"
  by pat_completeness auto

termination
  by (relation "measure length") (auto simp: less_Suc_eq_le length_escape dest: length_class_item)

text \<open>A result of \<open>do_match\<close> as it should be. \<open>MAbort\<close> says in addition that no end of the text matches, which is what lets the loop over the places of a star stop early; the result of that loop is never \<open>MFalse\<close>.\<close>

definition agrees :: "gu_err + match_result \<Rightarrow> item list \<Rightarrow> string \<Rightarrow> bool" where
  "agrees r ps s \<longleftrightarrow> returns r (\<lambda>m. (m = MTrue \<longleftrightarrow> matches ps s) \<and> (m = MAbort \<longrightarrow> (\<forall>u. suffix u s \<longrightarrow> \<not> matches ps u)))"

definition finds :: "gu_err + match_result \<Rightarrow> item list \<Rightarrow> string \<Rightarrow> bool" where
  "finds r ps s \<longleftrightarrow> returns r (\<lambda>m. m \<noteq> MFalse \<and> (m = MTrue \<longleftrightarrow> (\<exists>u. suffix u s \<and> matches ps u)))"

text \<open>A line of a list: patterns for the name and for the host. A user of this host is let in by a pattern without a host or with the host \<^verbatim>\<open>*\<close>, a user of another host only by a pattern with a host that matches, or by the very same text.\<close>

definition proper_pattern :: "string \<Rightarrow> bool" where
  "proper_pattern p \<longleftrightarrow> items (fst (split_host p)) \<noteq> None \<and> (case localhost_remove (snd (split_host p)) of None \<Rightarrow> True | Some h \<Rightarrow> items h \<noteq> None)"

definition pattern_allows :: "string \<Rightarrow> string \<Rightarrow> bool" where
  "pattern_allows p user \<longleftrightarrow> user = p
     \<or> (\<exists>ps. items (fst (split_host p)) = Some ps \<and> matches ps (fst (split_host user))
        \<and> (case (localhost_remove (snd (split_host user)), localhost_remove (snd (split_host p))) of
              (None, None) \<Rightarrow> True
            | (None, Some ph) \<Rightarrow> ph = ''*''
            | (Some uh, None) \<Rightarrow> False
            | (Some uh, Some ph) \<Rightarrow> (\<exists>hs. items ph = Some hs \<and> matches hs uh)))"

definition comment :: "string \<Rightarrow> bool" where
  "comment l \<longleftrightarrow> l \<noteq> [] \<and> (hd l = CHR ''#'' \<or> hd l = CHR '';'')"

definition acl_lines :: "(string \<rightharpoonup> string) \<Rightarrow> string \<Rightarrow> string set" where
  "acl_lines files fname = (case files fname of None \<Rightarrow> {} | Some c \<Rightarrow> set (file_lines c))"

definition example_acl :: acl_config where
  "example_acl = \<lparr>USER_PPR = ''ppr'', USER_PPRWWW = ''pprwww'', ACLDIR = ''/acl''\<rparr>"

section \<open>Lemmas\<close>

inductive_cases matches_ConsE: "matches (i # ps) t"

inductive_simps matches_Nil_iff [simp]: "matches [] t"

lemma c_char_inj [simp]: "c_char c = c_char d \<longleftrightarrow> c = d"
  by (metis c_char_byte)

lemma matches_Star_iff: "matches (Star # ps) t \<longleftrightarrow> (\<exists>u. suffix u t \<and> matches ps u)"
  by (auto simp: suffix_def elim!: matches_ConsE intro: matches_Star)

lemma matches_One_iff: "i \<noteq> Star \<Longrightarrow> matches (i # ps) t \<longleftrightarrow> (\<exists>c u. t = c # u \<and> fits i c \<and> matches ps u)"
  by (auto elim!: matches_ConsE intro: matches_One)

lemma matches_Star_Star: "matches (Star # Star # ps) t \<longleftrightarrow> matches (Star # ps) t"
  unfolding matches_Star_iff by (meson suffix_order.order_refl suffix_order.order_trans)

lemma class_loop_ranges:
  "class_ranges prev p = Some (rs, q) \<Longrightarrow>
   class_loop t prev m p = Inr (m \<or> list_ex (\<lambda>(lo, hi). lo \<le> c_char t \<and> c_char t \<le> hi) rs, Some q)"
proof (induction prev p arbitrary: rs q m rule: class_ranges.induct)
  case (2 prev c p)
  have eq: "c_char c \<le> c_char t \<and> c_char t \<le> c_char c \<longleftrightarrow> t = c" for c by (auto simp: order_eq_iff [symmetric])
  show ?case
  proof (cases "c = CHR ''-''")
    case True
    with "2.prems" obtain d p' where p: "p = d # p'" by (cases p) auto
    show ?thesis using True p "2.prems" "2.IH" by (auto simp: eq split: if_splits)
  next
    case False
    then show ?thesis using "2.prems" "2.IH" by (auto simp: eq split: if_splits)
  qed
qed simp

lemma char_class_item:
  assumes "class_item p = Some (i, q)"
  shows "char_class t p = Inr (fits i t, if fits i t then q else [])" "i \<noteq> Star"
proof -
  have eq: "c_char c \<le> c_char t \<and> c_char t \<le> c_char c \<longleftrightarrow> c = t" for c by (auto simp: order_eq_iff [symmetric])
  show "char_class t p = Inr (fits i t, if fits i t then q else [])"
    using assms by (auto simp: class_item_def char_class_def Let_def eq class_loop_ranges split: if_splits)
  show "i \<noteq> Star" using assms by (auto simp: class_item_def Let_def split: if_splits)
qed

lemma items_after_stars:
  assumes "items p = Some ps"
  shows "\<exists>qs. items (dropWhile (\<lambda>c. c = CHR ''*'') p) = Some qs \<and> (\<forall>t. matches (Star # ps) t = matches (Star # qs) t)"
  using assms
proof (induction p arbitrary: ps)
  case (Cons c p)
  show ?case
  proof (cases "c = CHR ''*''")
    case True
    then obtain ps' where ps': "ps = Star # ps'" "items p = Some ps'" using Cons.prems by auto
    with Cons.IH [OF ps'(2)] True show ?thesis by (auto simp: matches_Star_Star)
  qed (use Cons.prems in auto)
qed simp

lemma items_first:
  assumes "items (c # p) = Some ps" "c \<noteq> CHR ''*''"
  shows "\<exists>i qs. ps = i # qs \<and> i \<noteq> Star"
  using assms by (auto split: if_splits option.splits dest: char_class_item(2))

lemma agrees_One:
  assumes "i \<noteq> Star" "r = (if fits i t then r' else Inr MFalse)" "fits i t \<Longrightarrow> agrees r' qs u"
  shows "agrees r (i # qs) (t # u)"
proof (cases "fits i t")
  case True
  obtain m where m: "r' = Inr m" "m = MTrue \<longleftrightarrow> matches qs u" "m = MAbort \<longrightarrow> (\<forall>v. suffix v u \<longrightarrow> \<not> matches qs v)"
    using assms(3) [OF True] by (auto simp: agrees_def returns_iff)
  have "\<not> matches (i # qs) v" if "m = MAbort" "suffix v (t # u)" for v
    using m(3) that assms(1) by (auto simp: matches_One_iff suffix_Cons dest: suffix_ConsD)
  then show ?thesis using m assms(1,2) True by (auto simp: agrees_def returns_iff matches_One_iff)
qed (use assms(1,2) in \<open>simp add: agrees_def returns_iff matches_One_iff\<close>)

lemma agrees_Star:
  assumes "items p = Some ps" "q = dropWhile (\<lambda>c. c = CHR ''*'') p"
    and "\<And>qs. q \<noteq> [] \<Longrightarrow> items q = Some qs \<Longrightarrow> hd q \<noteq> CHR ''*'' \<Longrightarrow> finds (star_loop s q) qs s"
  shows "agrees (if q = [] then Inr MTrue else star_loop s q) (Star # ps) s"
proof -
  obtain qs where qs: "items q = Some qs" "\<And>t. matches (Star # ps) t = matches (Star # qs) t"
    using items_after_stars [OF assms(1)] assms(2) by blast
  show ?thesis
  proof (cases "q = []")
    case True
    then have "qs = []" using qs(1) by simp
    then show ?thesis using True qs(2) by (auto simp: agrees_def returns_iff matches_Star_iff)
  next
    case False
    have "hd q \<noteq> CHR ''*''" using hd_dropWhile [OF False [unfolded assms(2)]] assms(2) by simp
    then obtain m where "star_loop s q = Inr m" "m \<noteq> MFalse" "m = MTrue \<longleftrightarrow> (\<exists>u. suffix u s \<and> matches qs u)"
      using assms(3) [OF False qs(1)] by (auto simp: finds_def returns_iff)
    then show ?thesis
      using False qs(2) suffix_order.trans by (cases m) (auto simp: agrees_def returns_iff matches_Star_iff)
  qed
qed

lemma finds_step:
  assumes "agrees r ps (t # s)" "r = Inr MFalse \<Longrightarrow> finds r' ps s"
  shows "finds (bindE r (\<lambda>m. if m \<noteq> MFalse then Inr m else r')) ps (t # s)"
proof -
  obtain m where m: "r = Inr m" "m = MTrue \<longleftrightarrow> matches ps (t # s)" "m = MAbort \<longrightarrow> (\<forall>u. suffix u (t # s) \<longrightarrow> \<not> matches ps u)"
    using assms(1) by (auto simp: agrees_def returns_iff)
  show ?thesis
  proof (cases "m = MFalse")
    case True
    then show ?thesis using assms(2) m by (auto simp: finds_def returns_iff suffix_Cons)
  next
    case False
    then show ?thesis using m by (cases m) (auto simp: finds_def returns_iff)
  qed
qed

lemma do_match_matches:
  "items p = Some ps \<Longrightarrow> agrees (do_match s p) ps s"
  "items q = Some ps \<Longrightarrow> q \<noteq> [] \<Longrightarrow> hd q \<noteq> CHR ''*'' \<Longrightarrow> finds (star_loop s q) ps s"
proof (induction s p and s q arbitrary: ps and ps rule: do_match_star_loop.induct)
  case (1 s)
  then show ?case by (auto simp: agrees_def returns_iff)
next
  case (2 s c p)
  show ?case
  proof (cases "c = CHR ''*''")
    case True
    then obtain ps' where ps': "ps = Star # ps'" "items p = Some ps'" using "2.prems" by auto
    show ?thesis using agrees_Star [OF ps'(2) refl, of s] "2.IH"(1) [OF True refl] True ps'(1) by (simp add: Let_def)
  next
    case False
    then show ?thesis
    proof (cases s)
      case Nil
      then show ?thesis using items_first [OF "2.prems" False] False by (auto simp: agrees_def returns_iff matches_One_iff)
    next
      case (Cons t u)
      consider "c = CHR ''?''" | "c = CHR 0x5C" | "c = CHR ''[''" | "c \<notin> {CHR ''*'', CHR ''?'', CHR 0x5C, CHR ''[''}" using False by blast
      then show ?thesis
      proof cases
        case 1
        then obtain qs where qs: "ps = Any # qs" "items p = Some qs" using "2.prems" by auto
        show ?thesis unfolding Cons qs(1) by (rule agrees_One [OF _ _ "2.IH"(3) [OF False Cons _ 1 qs(2)]]) (use 1 in simp_all)
      next
        case 2
        then obtain qs where qs: "ps = Lit (fst (escape p)) # qs" "items (snd (escape p)) = Some qs" using "2.prems" by auto
        show ?thesis unfolding Cons qs(1) by (rule agrees_One [OF _ _ "2.IH"(2) [OF False Cons 2 _ qs(2)]]) (use 2 in simp_all)
      next
        case 3
        then obtain i q qs where qs: "ps = i # qs" "class_item p = Some (i, q)" "items q = Some qs"
          using "2.prems" by (auto split: option.splits)
        note c = char_class_item [OF qs(2)]
        have ih: "fits i t \<Longrightarrow> agrees (do_match u q) qs u" using "2.IH"(4) [OF False Cons _ _ 3 c(1), of qs] 3 qs(3) by simp
        show ?thesis unfolding Cons qs(1) by (rule agrees_One [OF c(2) _ ih]) (use 3 c(1) in simp)
      next
        case 4
        then obtain qs where qs: "ps = Lit (c_char c) # qs" "items p = Some qs" using "2.prems" by auto
        show ?thesis unfolding Cons qs(1) by (rule agrees_One [OF _ _ "2.IH"(5) [OF False Cons _ _ _ _ qs(2)]]) (use 4 in auto)
      qed
    qed
  qed
next
  case (3 q)
  then show ?case using items_first [of "hd q" "tl q" ps] by (auto simp: finds_def returns_iff matches_One_iff)
next
  case (4 t s q)
  then show ?case using finds_step [of "do_match (t # s) q" ps t s "star_loop s q"] by simp
qed

lemma wildmat_matches:
  assumes "items p = Some ps"
  shows "gu_wildmat s p = Inr (matches ps s)"
proof (cases "p = ''*''")
  case True
  then have "ps = [Star]" using assms by simp
  then show ?thesis using True by (auto simp: gu_wildmat_def matches_Star_iff)
next
  case False
  then show ?thesis using do_match_matches(1) [OF assms, of s] by (auto simp: gu_wildmat_def agrees_def returns_iff)
qed

lemma username_match_allows:
  assumes "proper_pattern pattern"
  shows "username_match user pattern = Inr (pattern_allows pattern user)"
proof -
  obtain ps where ps: "items (fst (split_host pattern)) = Some ps" using assms by (auto simp: proper_pattern_def)
  have h: "\<exists>hs. items ph = Some hs" if "localhost_remove (snd (split_host pattern)) = Some ph" for ph
    using assms that by (auto simp: proper_pattern_def)
  show ?thesis
  proof (cases "localhost_remove (snd (split_host pattern))")
    case None
    then show ?thesis using ps by (auto simp: username_match_def pattern_allows_def wildmat_matches Let_def split: option.split)
  next
    case (Some ph)
    then obtain hs where "items ph = Some hs" using h by blast
    then show ?thesis using Some ps by (auto simp: username_match_def pattern_allows_def wildmat_matches Let_def split: option.split)
  qed
qed

lemma allow_loop_lines:
  assumes "\<forall>l \<in> set ls. comment l \<or> proper_pattern l"
  shows "allow_loop user ls = Inr (\<exists>l \<in> set ls. \<not> comment l \<and> pattern_allows l user)"
  using assms by (induction ls) (auto simp: comment_def username_match_allows)

section \<open>Properties\<close>

text \<open>
  C13. \<open>gu_wildmat\<close> decides whether a text matches a pattern: for every pattern whose character classes are closed, its backtracking search, cut short by \<open>MAbort\<close>, gives exactly the meaning of the pattern, whatever the number of stars, and reads nothing past the end of the pattern or of the text.
\<close>

theorem wildmat_exact:
  assumes "items p = Some ps"
  shows "gu_wildmat s p = Inr (matches ps s)"
  using wildmat_matches [OF assms] .

theorem wildmat_exact_witness:
  "gu_wildmat ''printer12'' ''p*[0-9]?'' = Inr (matches [Lit 112, Star, Class False [(48, 48), (48, 57)], Any] ''printer12'')
   \<and> gu_wildmat ''printer12'' ''p*[0-9]?'' = Inr True"
proof -
  have i: "items ''p*[0-9]?'' = Some [Lit 112, Star, Class False [(48, 48), (48, 57)], Any]" by code_simp
  have "gu_wildmat ''printer12'' ''p*[0-9]?'' = Inr True" by code_simp
  then show ?thesis using wildmat_exact [OF i, of "''printer12''"] by simp
qed

text \<open>
  C19. An access control list lets in exactly the users that are built in and those that a line of its file, comments apart, allows: a user of another host needs a line with a host that matches.
\<close>

theorem acl_exact:
  assumes "ppr_fnamef ''%s/%s.allow'' [FStr (ACLDIR cfg), FStr acl] = Inr fname"
    and "\<forall>l \<in> acl_lines files fname. comment l \<or> proper_pattern l"
  shows "user_acl_allows cfg files user acl
    = Inr (user \<in> set (internal_list cfg) \<or> (\<exists>l \<in> acl_lines files fname. \<not> comment l \<and> pattern_allows l user))"
  using assms allow_loop_lines by (auto simp: user_acl_allows_def acl_lines_def split: option.split)

theorem acl_exact_witness:
  "user_acl_allows example_acl (Map.empty(''/acl/ppop.allow'' \<mapsto> ''# operators'' @ [CHR 0x0A] @ ''op*@*.edu'' @ [CHR 0x0A])) ''op7@x.edu'' ''ppop'' = Inr True"
proof -
  let ?fs = "Map.empty(''/acl/ppop.allow'' \<mapsto> ''# operators'' @ [CHR 0x0A] @ ''op*@*.edu'' @ [CHR 0x0A])"
  have f: "ppr_fnamef ''%s/%s.allow'' [FStr (ACLDIR example_acl), FStr ''ppop''] = Inr ''/acl/ppop.allow''" by code_simp
  have "file_lines (''# operators'' @ [CHR 0x0A] @ ''op*@*.edu'' @ [CHR 0x0A]) = [''# operators'', ''op*@*.edu'']" by code_simp
  then have l: "acl_lines ?fs ''/acl/ppop.allow'' = {''# operators'', ''op*@*.edu''}" by (simp add: acl_lines_def)
  have c: "comment ''# operators''" "\<not> comment ''op*@*.edu''" "proper_pattern ''op*@*.edu''" by code_simp+
  have "username_match ''op7@x.edu'' ''op*@*.edu'' = Inr True" by code_simp
  then have a: "pattern_allows ''op*@*.edu'' ''op7@x.edu''" using username_match_allows [OF c(3)] by simp
  show ?thesis using acl_exact [OF f, of ?fs "''op7@x.edu''"] c a unfolding l by simp
qed

end
