(* ===== verification/Queue_File.thy ===== *)
theory Queue_File
  imports Complex_Main Enqueue Pagemask
begin

text \<open>
  The queue file of a job, which \<^verbatim>\<open>ppr\<close> writes, \<^verbatim>\<open>pprd\<close> and \<^verbatim>\<open>ppop\<close> change, and \<^verbatim>\<open>pprdrv\<close>, \<^verbatim>\<open>ppop\<close> and the responders read:
  \<^verbatim>\<open>libppr/qentryfile_clear.c\<close>, \<^verbatim>\<open>libppr/qentryfile_save.c\<close>, \<^verbatim>\<open>libppr/qentryfile_load.c\<close>, the checks of \<^verbatim>\<open>ppr/ppr_main.c\<close> on
  what goes into it, and \<^verbatim>\<open>libgu/gu_dtostr.c\<close>.
\<close>

section \<open>Definitions\<close>

subsection \<open>The contents\<close>

text \<open>
  \<^verbatim>\<open>struct QEntryFile\<close> without the members that no function here touches (\<^verbatim>\<open>nmedia\<close>, \<^verbatim>\<open>media[]\<close>, \<^verbatim>\<open>opts.resume\<close>). A \<^verbatim>\<open>gu_boolean\<close> is an
  \<^verbatim>\<open>int\<close>; \<open>None\<close> is the null pointer; a \<^verbatim>\<open>float\<close> is the number it stands for.
\<close>

record JOB_SPOOL_STATE =
  jss_priority :: int
  jss_sequence_number :: int
  jss_status :: int
  jss_flags :: int

record RESPONDER =
  rs_name :: "string option"
  rs_address :: "string option"
  rs_options :: "string option"

record qf_attr =
  at_langlevel :: int
  at_extensions :: int
  at_DSClevel :: rat
  at_DSC_job_type :: "string option"
  at_pages :: int
  at_pageorder :: int
  at_pagefactor :: int
  at_prolog :: int
  at_docsetup :: int
  at_script :: int
  at_proofmode :: int
  at_orientation :: int
  at_input_bytes :: int
  at_postscript_bytes :: int
  at_parts :: int
  at_docdata :: int

record qf_opts =
  op_binselect :: int
  op_copies :: int
  op_collate :: int
  op_keep_badfeatures :: int
  op_hacks :: int

record qf_N_Up =
  nu_N :: int
  nu_borders :: int
  nu_sigsheets :: int
  nu_sigpart :: int
  nu_job_does_n_up :: int

record QEntryFile =
  j_PPRVersion :: rat
  j_lc_messages :: "string option"
  j_destname :: "string option"
  j_id :: int
  j_subid :: int
  j_spool_state :: JOB_SPOOL_STATE
  j_time :: int
  j_user :: "string option"
  j_magic_cookie :: "string option"
  j_For :: "string option"
  j_charge_to :: "string option"
  j_Routing :: "string option"
  j_Title :: "string option"
  j_Creator :: "string option"
  j_lpqFileName :: "string option"
  j_responder :: RESPONDER
  j_commentary :: int
  j_do_banner :: int
  j_do_trailer :: int
  j_attr :: qf_attr
  j_opts :: qf_opts
  j_N_Up :: qf_N_Up
  j_draft_notice :: "string option"
  j_PassThruPDL :: "string option"
  j_Filters :: "string option"
  j_PJL :: "string option"
  j_StripPrinter :: int
  j_page_mask :: "string option"
  j_page_count :: int
  j_question :: "string option"
  j_ripopts :: "string option"

definition qentryfile_clear :: "QEntryFile \<Rightarrow> QEntryFile" where
  "qentryfile_clear job = job\<lparr>
     j_destname := None, j_id := 0, j_subid := 0,
     j_spool_state := \<lparr>jss_priority = 1, jss_sequence_number = 0, jss_status = 0, jss_flags = 0\<rparr>,
     j_PPRVersion := 0, j_time := 0, j_commentary := 0, j_StripPrinter := 1,
     j_attr := (j_attr job)\<lparr>at_DSC_job_type := None\<rparr>,
     j_user := None, j_For := None, j_charge_to := None, j_magic_cookie := None,
     j_responder := \<lparr>rs_name = None, rs_address = None, rs_options = None\<rparr>, j_lc_messages := None,
     j_Creator := None, j_Title := None, j_Routing := None, j_lpqFileName := None, j_PassThruPDL := None,
     j_Filters := None, j_PJL := None, j_page_count := -1, j_page_mask := None,
     j_draft_notice := None, j_question := None, j_ripopts := None\<rparr>"

subsection \<open>Checks before writing\<close>

text \<open>The checks of \<^verbatim>\<open>ppr\<close>; a failure ends the program.\<close>

definition assert_ok_value :: "string option \<Rightarrow> bool \<Rightarrow> bool \<Rightarrow> bool \<Rightarrow> string \<Rightarrow> gu_err + unit" where
  "assert_ok_value value null_ok empty_ok entirely_whitespace_ok name =
     (case value of
        None \<Rightarrow> if null_ok then Inr () else Inl (GuThrow (''NULL value for '' @ name))
      | Some v \<Rightarrow>
          if CHR 0x0A \<in> set v then Inl (GuThrow (''line feed in '' @ name))
          else if v = [] then if empty_ok then Inr () else Inl (GuThrow (name @ '' is empty''))
          else if entirely_whitespace_ok \<or> (\<exists>c \<in> set v. \<not> gu_ascii_isspace c) then Inr ()
          else Inl (GuThrow (name @ '' is entirely whitespace'')))"

definition check_values :: "QEntryFile \<Rightarrow> gu_err + unit" where
  "check_values q =
     bindE (assert_ok_value (j_For q) False False False ''qentry->For'') (\<lambda>_.
     bindE (assert_ok_value (j_charge_to q) True False False ''qentry->charge_to'') (\<lambda>_.
     bindE (assert_ok_value (j_Title q) True True False ''qentry->Title'') (\<lambda>_.
     bindE (assert_ok_value (j_draft_notice q) True False False ''qentry->draft_notice'') (\<lambda>_.
     bindE (assert_ok_value (j_Creator q) True False False ''qentry->Creator'') (\<lambda>_.
     bindE (assert_ok_value (j_Routing q) True False False ''qentry->Routing'') (\<lambda>_.
     bindE (assert_ok_value (j_lpqFileName q) True False False ''qentry->lpqFileName'') (\<lambda>_.
     bindE (assert_ok_value (rs_name (j_responder q)) False False False ''qentry->responder'') (\<lambda>_.
     bindE (assert_ok_value (rs_address (j_responder q)) False False False ''qentry->responder.address'') (\<lambda>_.
     bindE (assert_ok_value (rs_options (j_responder q)) True True True ''qentry->responder.options'') (\<lambda>_.
     bindE (assert_ok_value (j_ripopts q) True True True ''qentry->ripopts'') (\<lambda>_.
       assert_ok_value (j_lc_messages q) True False False ''LC_MESSAGES'')))))))))))"

subsection \<open>Numbers with decimals\<close>

text \<open>
  \<^verbatim>\<open>gu_dtostr()\<close> with exact arithmetic. The fraction may be 10000, which prints as if it were 0.
\<close>

definition frac_digits :: "nat \<Rightarrow> string" where
  "frac_digits fraction =
     map digit_char (rev (dropWhile (\<lambda>d. d = 0) [fraction mod 10, fraction div 10 mod 10, fraction div 100 mod 10, fraction div 1000 mod 10]))"

definition fraction_of :: "rat \<Rightarrow> nat" where
  "fraction_of n = nat \<lfloor>(n - of_int \<lfloor>n\<rfloor> + 1 / 20000) * 10000\<rfloor>"

definition gu_dtostr :: "rat \<Rightarrow> gu_err + string" where
  "gu_dtostr n =
     (let neg = (n < 0); n = \<bar>n\<bar>; whole = \<lfloor>n\<rfloor>; ds = frac_digits (fraction_of n) in
      if whole \<ge> 2 ^ 31 then Inl (GuUB ''conversion of a double to int'')
      else if whole > 999999999 then Inr ''<overflow>''
      else Inr ((if neg then ''-'' else []) @ print_nat 10 (nat whole) @ (if ds = [] then [] else CHR ''.'' # ds)))"

subsection \<open>Saving\<close>

text \<open>A string printed with \<^verbatim>\<open>%s\<close>; the null pointer is undefined. A line that is left out for a null pointer.\<close>

definition print_s :: "string option \<Rightarrow> gu_err + string" where
  "print_s s = (case s of None \<Rightarrow> Inl (GuUB ''%s of a null pointer'') | Some v \<Rightarrow> Inr v)"

definition opt_line :: "string \<Rightarrow> string option \<Rightarrow> string list" where
  "opt_line name s = (case s of None \<Rightarrow> [] | Some v \<Rightarrow> [name @ v])"

definition pprd_save_line :: "JOB_SPOOL_STATE \<Rightarrow> string" where
  "pprd_save_line s =
     ''PPRD: '' @ print_X 2 (jss_priority s) @ '' '' @ print_X 8 (jss_sequence_number s) @ '' '' @
     print_X 2 (jss_status s * -1) @ '' '' @ print_X 4 (jss_flags s) @ replicate 38 CHR '' ''"

text \<open>From \<^verbatim>\<open>include/version.h\<close>.\<close>

definition SHORT_VERSION :: string where
  "SHORT_VERSION = ''2.00a1''"

definition submitter_lines :: "QEntryFile \<Rightarrow> gu_err + string list" where
  "submitter_lines q =
     bindE (print_s (j_user q)) (\<lambda>user.
     bindE (print_s (j_magic_cookie q)) (\<lambda>magic_cookie.
     bindE (print_s (rs_name (j_responder q))) (\<lambda>name.
     bindE (print_s (rs_address (j_responder q))) (\<lambda>address.
       Inr ([''User: '' @ user, ''PPRVersion: '' @ SHORT_VERSION] @
            opt_line ''LC_MESSAGES: '' (j_lc_messages q) @
            [''Time: '' @ print_d (j_time q), ''MagicCookie: '' @ magic_cookie,
             ''For: '' @ (case j_For q of None \<Rightarrow> ''???'' | Some v \<Rightarrow> v)] @
            opt_line ''Charge-To: '' (j_charge_to q) @
            opt_line ''Title: '' (if j_Title q = Some [] then None else j_Title q) @
            opt_line ''DraftNotice: '' (j_draft_notice q) @
            opt_line ''Creator: '' (j_Creator q) @
            opt_line ''Routing: '' (j_Routing q) @
            opt_line ''lpqFileName: '' (j_lpqFileName q) @
            [''Banners: '' @ join_d [j_do_banner q, j_do_trailer q],
             ''Response: '' @ name @ '' '' @ address @ '' '' @ (case rs_options (j_responder q) of None \<Rightarrow> [] | Some v \<Rightarrow> v),
             ''Commentary: '' @ print_d (j_commentary q)])))))"

definition document_lines :: "QEntryFile \<Rightarrow> gu_err + string list" where
  "document_lines q =
     (let a = j_attr q; p = j_opts q; n = j_N_Up q in
      bindE (gu_dtostr (at_DSClevel a)) (\<lambda>DSClevel.
        Inr ([''Attr-DSC: '' @ DSClevel @ '' '' @ (case at_DSC_job_type a of None \<Rightarrow> ''NULL'' | Some v \<Rightarrow> v) @ '' '' @
                join_d [at_orientation a, at_proofmode a, at_docdata a],
              ''Attr-DSC-Sections: '' @ join_d [at_prolog a, at_docsetup a, at_script a],
              ''Attr-LangLevel: '' @ join_d [at_langlevel a, at_extensions a],
              ''Attr-Pages: '' @ join_d [at_pages a, at_pageorder a, at_pagefactor a],
              ''Attr-ByteCounts: '' @ join_d [at_input_bytes a, at_postscript_bytes a],
              ''Attr-Parts: '' @ print_d (at_parts a),
              ''Opts: '' @ join_d [op_binselect p, op_copies p, op_collate p, op_keep_badfeatures p, op_hacks p],
              ''N-Up: '' @ join_d [nu_N n, nu_borders n, nu_sigsheets n, nu_sigpart n, nu_job_does_n_up n]] @
             opt_line ''Filters: '' (j_Filters q) @
             opt_line ''PassThruPDL: '' (j_PassThruPDL q) @
             [''StripPrinter: '' @ print_d (j_StripPrinter q)] @
             (case j_page_mask q of None \<Rightarrow> [] | Some m \<Rightarrow> [''PageList: '' @ print_d (j_page_count q) @ '' '' @ m]) @
             opt_line ''Question: '' (j_question q) @
             opt_line ''RIPopts: '' (j_ripopts q) @
             [''EndMisc''])))"

text \<open>The arithmetic of the last lines; a result that does not fit its type is undefined.\<close>

definition ipp_results :: "QEntryFile \<Rightarrow> int list \<times> int" where
  "ipp_results q =
     (let a = j_attr q; N = nu_N (j_N_Up q);
          sides = at_pages a + N; sheets = at_pages a + at_pagefactor a in
      ([sides, sides - 1, c_div (sides - 1) N, sheets, sheets - 1, c_div (sheets - 1) (at_pagefactor a),
        c_div (sheets - 1) (at_pagefactor a) * op_copies (j_opts q)],
       (if j_PassThruPDL q \<noteq> None then at_input_bytes a else at_postscript_bytes a) + 512))"

definition ipp_fits :: "QEntryFile \<Rightarrow> bool" where
  "ipp_fits q \<longleftrightarrow> list_all (\<lambda>n. - (2 ^ 31) \<le> n \<and> n < 2 ^ 31) (fst (ipp_results q)) \<and> - (2 ^ 63) \<le> snd (ipp_results q) \<and> snd (ipp_results q) < 2 ^ 63"

definition ipp_lines :: "QEntryFile \<Rightarrow> gu_err + string list" where
  "ipp_lines q =
     (let a = j_attr q in
      if nu_N (j_N_Up q) = 0 \<or> at_pagefactor a = 0 then Inl (GuUB ''division by zero'')
      else if \<not> ipp_fits q then Inl (GuUB ''integer overflow'')
      else
        Inr ([''job-originating-user-name '' @ (case j_user q of None \<Rightarrow> ''?'' | Some v \<Rightarrow> v)] @
             (case j_Title q of
                Some (c # t) \<Rightarrow> [''job-name '' @ c # t]
              | _ \<Rightarrow> opt_line ''job-name '' (j_lpqFileName q)) @
             [''job-k-octets '' @ print_d (c_div ((if j_PassThruPDL q \<noteq> None then at_input_bytes a else at_postscript_bytes a) + 512) 1024),
              ''job-impressions '' @ print_d (c_div (at_pages a + nu_N (j_N_Up q) - 1) (nu_N (j_N_Up q))),
              ''job-media-sheets '' @ print_d (c_div (at_pages a + at_pagefactor a - 1) (at_pagefactor a) * op_copies (j_opts q)),
              ''EndIPP'']))"

definition qentryfile_save :: "QEntryFile \<Rightarrow> gu_err + string" where
  "qentryfile_save q =
     (let pprd = pprd_save_line (j_spool_state q) in
      if length pprd + 1 \<noteq> 64 then Inl (GuThrow ''PPRD line is not 64 bytes long!'')
      else
        bindE (submitter_lines q) (\<lambda>l1.
        bindE (document_lines q) (\<lambda>l2.
        bindE (ipp_lines q) (\<lambda>l3.
          Inr (concat (map (\<lambda>l. l @ [CHR 0x0A]) (pprd # l1 @ l2 @ l3)))))))"

subsection \<open>Loading\<close>

text \<open>
  The stores of the scanner through its pointers. \<open>fl\<close> makes a \<^verbatim>\<open>float\<close> of a sign, the part before the point and the digits
  after it, with the rounding of the machine. \<^verbatim>\<open>%hx\<close> stores two bytes, into the lower half of an \<^verbatim>\<open>int\<close>.
\<close>

type_synonym setter = "sval \<Rightarrow> QEntryFile \<Rightarrow> QEntryFile"

definition int_field :: "(int \<Rightarrow> QEntryFile \<Rightarrow> QEntryFile) \<Rightarrow> setter" where
  "int_field f v q = (case v of SInt n \<Rightarrow> f n q | _ \<Rightarrow> q)"

definition str_field :: "(string option \<Rightarrow> QEntryFile \<Rightarrow> QEntryFile) \<Rightarrow> setter" where
  "str_field f v q = (case v of SStr s \<Rightarrow> f (Some s) q | _ \<Rightarrow> q)"

definition float_field :: "(bool \<Rightarrow> int \<Rightarrow> string \<Rightarrow> rat) \<Rightarrow> (rat \<Rightarrow> QEntryFile \<Rightarrow> QEntryFile) \<Rightarrow> setter" where
  "float_field fl f v q = (case v of SFloat neg whole ds \<Rightarrow> f (fl neg whole ds) q | _ \<Rightarrow> q)"

definition store_all :: "setter list \<Rightarrow> sval list \<Rightarrow> QEntryFile \<Rightarrow> QEntryFile" where
  "store_all setters vs q = foldl (\<lambda>q (f, v). f v q) q (zip setters vs)"

definition scan_into :: "string \<Rightarrow> setter list \<Rightarrow> string \<Rightarrow> QEntryFile \<Rightarrow> gu_err + int \<times> QEntryFile" where
  "scan_into format setters string q = bindE (gu_sscanf string format []) (\<lambda>(n, vs). Inr (n, store_all setters vs q))"

definition on_state :: "(int \<Rightarrow> JOB_SPOOL_STATE \<Rightarrow> JOB_SPOOL_STATE) \<Rightarrow> setter" where
  "on_state f = int_field (\<lambda>n q. q\<lparr>j_spool_state := f n (j_spool_state q)\<rparr>)"

definition on_attr :: "(int \<Rightarrow> qf_attr \<Rightarrow> qf_attr) \<Rightarrow> setter" where
  "on_attr f = int_field (\<lambda>n q. q\<lparr>j_attr := f n (j_attr q)\<rparr>)"

definition on_opts :: "(int \<Rightarrow> qf_opts \<Rightarrow> qf_opts) \<Rightarrow> setter" where
  "on_opts f = int_field (\<lambda>n q. q\<lparr>j_opts := f n (j_opts q)\<rparr>)"

definition on_N_Up :: "(int \<Rightarrow> qf_N_Up \<Rightarrow> qf_N_Up) \<Rightarrow> setter" where
  "on_N_Up f = int_field (\<lambda>n q. q\<lparr>j_N_Up := f n (j_N_Up q)\<rparr>)"

definition on_responder :: "(string option \<Rightarrow> RESPONDER \<Rightarrow> RESPONDER) \<Rightarrow> setter" where
  "on_responder f = str_field (\<lambda>s q. q\<lparr>j_responder := f s (j_responder q)\<rparr>)"

text \<open>
  The lines that the macro \<^verbatim>\<open>MATCH\<close> deals with: name, format, the count of values that is an error, destinations. The \<^verbatim>\<open>switch\<close>
  on the first character only saves comparisons with names that begin with another one.
\<close>

definition match_lines :: "(string \<times> string \<times> (int \<Rightarrow> bool) \<times> setter list) list" where
  "match_lines =
     [(''Banners: '', ''%d %d'', \<lambda>n. n \<noteq> 2, [int_field (\<lambda>n q. q\<lparr>j_do_banner := n\<rparr>), int_field (\<lambda>n q. q\<lparr>j_do_trailer := n\<rparr>)]),
      (''Charge-To: '', ''%W'', \<lambda>n. n \<noteq> 1, [str_field (\<lambda>s q. q\<lparr>j_charge_to := s\<rparr>)]),
      (''Creator: '', ''%T'', \<lambda>n. n \<noteq> 1, [str_field (\<lambda>s q. q\<lparr>j_Creator := s\<rparr>)]),
      (''Commentary: '', ''%d'', \<lambda>n. n \<noteq> 1, [int_field (\<lambda>n q. q\<lparr>j_commentary := n\<rparr>)]),
      (''DraftNotice: '', ''%T'', \<lambda>n. n \<noteq> 1, [str_field (\<lambda>s q. q\<lparr>j_draft_notice := s\<rparr>)]),
      (''For: '', ''%T'', \<lambda>n. n \<noteq> 1, [str_field (\<lambda>s q. q\<lparr>j_For := s\<rparr>)]),
      (''Filters: '', ''%T'', \<lambda>n. n \<noteq> 1, [str_field (\<lambda>s q. q\<lparr>j_Filters := s\<rparr>)]),
      (''LC_MESSAGES: '', ''%S'', \<lambda>n. n \<noteq> 1, [str_field (\<lambda>s q. q\<lparr>j_lc_messages := s\<rparr>)]),
      (''lpqFileName: '', ''%A'', \<lambda>n. n \<noteq> 1, [str_field (\<lambda>s q. q\<lparr>j_lpqFileName := s\<rparr>)]),
      (''MagicCookie: '', ''%S'', \<lambda>n. n \<noteq> 1, [str_field (\<lambda>s q. q\<lparr>j_magic_cookie := s\<rparr>)]),
      (''N-Up: '', ''%d %d %d %d %d'', \<lambda>n. n \<noteq> 5,
         [on_N_Up (\<lambda>n p. p\<lparr>nu_N := n\<rparr>), on_N_Up (\<lambda>n p. p\<lparr>nu_borders := n\<rparr>), on_N_Up (\<lambda>n p. p\<lparr>nu_sigsheets := n\<rparr>),
          on_N_Up (\<lambda>n p. p\<lparr>nu_sigpart := n\<rparr>), on_N_Up (\<lambda>n p. p\<lparr>nu_job_does_n_up := n\<rparr>)]),
      (''Opts: '', ''%d %d %d %d %u'', \<lambda>n. n \<noteq> 5,
         [on_opts (\<lambda>n p. p\<lparr>op_binselect := n\<rparr>), on_opts (\<lambda>n p. p\<lparr>op_copies := n\<rparr>), on_opts (\<lambda>n p. p\<lparr>op_collate := n\<rparr>),
          on_opts (\<lambda>n p. p\<lparr>op_keep_badfeatures := n\<rparr>), on_opts (\<lambda>n p. p\<lparr>op_hacks := n\<rparr>)]),
      (''Question: '', ''%T'', \<lambda>n. n \<noteq> 1, [str_field (\<lambda>s q. q\<lparr>j_question := s\<rparr>)]),
      (''Routing: '', ''%T'', \<lambda>n. n \<noteq> 1, [str_field (\<lambda>s q. q\<lparr>j_Routing := s\<rparr>)]),
      (''Response: '', ''%S %S %T'', \<lambda>n. n < 2,
         [on_responder (\<lambda>s r. r\<lparr>rs_name := s\<rparr>), on_responder (\<lambda>s r. r\<lparr>rs_address := s\<rparr>), on_responder (\<lambda>s r. r\<lparr>rs_options := s\<rparr>)]),
      (''RIPopts: '', ''%T'', \<lambda>n. n \<noteq> 1, [str_field (\<lambda>s q. q\<lparr>j_ripopts := s\<rparr>)]),
      (''Time: '', ''%U'', \<lambda>n. n \<noteq> 1, [int_field (\<lambda>n q. q\<lparr>j_time := n\<rparr>)]),
      (''Title: '', ''%T'', \<lambda>n. n \<noteq> 1, [str_field (\<lambda>s q. q\<lparr>j_Title := s\<rparr>)]),
      (''User: '', ''%T'', \<lambda>n. n < 1, [str_field (\<lambda>s q. q\<lparr>j_user := s\<rparr>)])]"

text \<open>What has been read: the structure, the names of the lines seen by \<^verbatim>\<open>MATCH\<close>, and \<^verbatim>\<open>retcode\<close>.\<close>

type_synonym load_state = "QEntryFile \<times> string list \<times> int"

definition unrecognized :: "load_state \<Rightarrow> load_state" where
  "unrecognized s = (case s of (q, found, retcode) \<Rightarrow> (q, found, -1))"

fun try_matches :: "(string \<times> string \<times> (int \<Rightarrow> bool) \<times> setter list) list \<Rightarrow> string \<Rightarrow> load_state \<Rightarrow> gu_err + load_state" where
  "try_matches [] line s = Inr (unrecognized s)"
| "try_matches ((name, format, bad, setters) # ms) line s =
     (if \<not> lmatch line name then try_matches ms line s
      else case s of (q, found, retcode) \<Rightarrow>
        bindE (scan_into format setters (drop (length name) line) q) (\<lambda>(n, q).
          Inr (q, found @ [name], if bad n then -1 else retcode)))"

text \<open>The lines that begin with A; an error there ends the function at once, which is the \<open>True\<close> of the result.\<close>

definition attr_lines :: "(bool \<Rightarrow> int \<Rightarrow> string \<Rightarrow> rat) \<Rightarrow> (string \<times> string \<times> int \<times> setter list) list" where
  "attr_lines fl =
     [(''Attr-DSC:'', ''%f %S %d %d %d'', 5,
         [float_field fl (\<lambda>x q. q\<lparr>j_attr := (j_attr q)\<lparr>at_DSClevel := x\<rparr>\<rparr>),
          str_field (\<lambda>s q. q\<lparr>j_attr := (j_attr q)\<lparr>at_DSC_job_type := s\<rparr>\<rparr>),
          on_attr (\<lambda>n a. a\<lparr>at_orientation := n\<rparr>), on_attr (\<lambda>n a. a\<lparr>at_proofmode := n\<rparr>), on_attr (\<lambda>n a. a\<lparr>at_docdata := n\<rparr>)]),
      (''Attr-DSC-Sections:'', ''%d %d %d'', 3,
         [on_attr (\<lambda>n a. a\<lparr>at_prolog := n\<rparr>), on_attr (\<lambda>n a. a\<lparr>at_docsetup := n\<rparr>), on_attr (\<lambda>n a. a\<lparr>at_script := n\<rparr>)]),
      (''Attr-LangLevel:'', ''%d %d'', 2, [on_attr (\<lambda>n a. a\<lparr>at_langlevel := n\<rparr>), on_attr (\<lambda>n a. a\<lparr>at_extensions := n\<rparr>)]),
      (''Attr-Pages:'', ''%d %d %d'', 3,
         [on_attr (\<lambda>n a. a\<lparr>at_pages := n\<rparr>), on_attr (\<lambda>n a. a\<lparr>at_pageorder := n\<rparr>), on_attr (\<lambda>n a. a\<lparr>at_pagefactor := n\<rparr>)]),
      (''Attr-ByteCounts:'', ''%ld %ld'', 2,
         [on_attr (\<lambda>n a. a\<lparr>at_input_bytes := n\<rparr>), on_attr (\<lambda>n a. a\<lparr>at_postscript_bytes := n\<rparr>)]),
      (''Attr-Parts:'', ''%d'', 1, [on_attr (\<lambda>n a. a\<lparr>at_parts := n\<rparr>)])]"

definition clear_null_type :: "QEntryFile \<Rightarrow> QEntryFile" where
  "clear_null_type q =
     (if at_DSC_job_type (j_attr q) = Some ''NULL'' then q\<lparr>j_attr := (j_attr q)\<lparr>at_DSC_job_type := None\<rparr>\<rparr> else q)"

fun try_attrs :: "(string \<times> string \<times> int \<times> setter list) list \<Rightarrow> string \<Rightarrow> load_state \<Rightarrow> gu_err + bool \<times> load_state" where
  "try_attrs [] line s = Inr (False, unrecognized s)"
| "try_attrs ((name, format, count, setters) # ms) line s =
     (case lmatchp line name of
        None \<Rightarrow> try_attrs ms line s
      | Some p \<Rightarrow>
          (case s of (q, found, retcode) \<Rightarrow>
             bindE (scan_into format setters p q) (\<lambda>(n, q).
               if n \<noteq> count then Inr (True, q, found, retcode)
               else Inr (False, if name = ''Attr-DSC:'' then clear_null_type q else q, found, retcode))))"

text \<open>The lines that begin with P.\<close>

definition spool_setters :: "setter list" where
  "spool_setters =
     [on_state (\<lambda>n s. s\<lparr>jss_priority := jss_priority s - jss_priority s mod 2 ^ 16 + n\<rparr>), on_state (\<lambda>n s. s\<lparr>jss_sequence_number := n\<rparr>),
      on_state (\<lambda>n s. s\<lparr>jss_status := to_int16 n\<rparr>), on_state (\<lambda>n s. s\<lparr>jss_flags := n\<rparr>)]"

definition p_line :: "(bool \<Rightarrow> int \<Rightarrow> string \<Rightarrow> rat) \<Rightarrow> string \<Rightarrow> load_state \<Rightarrow> gu_err + load_state" where
  "p_line fl line s =
     (case s of (q, found, retcode) \<Rightarrow>
        bindE (scan_into ''PPRD: %hx %x %hx %hx'' spool_setters line q) (\<lambda>(n, q).
        if n = 4 then
          Inr (q\<lparr>j_spool_state := (j_spool_state q)\<lparr>jss_status := to_int16 (jss_status (j_spool_state q) * -1)\<rparr>\<rparr>, found, retcode)
        else
          bindE (scan_into ''PPRVersion: %f'' [float_field fl (\<lambda>x q. q\<lparr>j_PPRVersion := x\<rparr>)] line q) (\<lambda>(n, q).
          if n = 1 then Inr (q, found, retcode)
          else if lmatch line ''PassThruPDL: '' then
            try_matches [(''PassThruPDL: '', ''%T'', \<lambda>n. n \<noteq> 1, [str_field (\<lambda>s q. q\<lparr>j_PassThruPDL := s\<rparr>)])] line (q, found, retcode)
          else
            bindE (scan_into ''PageList: %d %T''
                     [int_field (\<lambda>n q. q\<lparr>j_page_count := n\<rparr>), str_field (\<lambda>s q. q\<lparr>j_page_mask := s\<rparr>)] line q) (\<lambda>(n, q).
              Inr (if n = 2 then (q, found, retcode) else unrecognized (q, found, retcode))))))"

definition strip_line :: "string \<Rightarrow> load_state \<Rightarrow> gu_err + load_state" where
  "strip_line line s =
     (case s of (q, found, retcode) \<Rightarrow>
        bindE (scan_into ''StripPrinter: %d'' [int_field (\<lambda>n q. q\<lparr>j_StripPrinter := (if n \<noteq> 0 then 1 else 0)\<rparr>)] line q) (\<lambda>(n, q).
          Inr (if n = 1 then (q, found, retcode) else unrecognized s)))"

definition load_line :: "(bool \<Rightarrow> int \<Rightarrow> string \<Rightarrow> rat) \<Rightarrow> string \<Rightarrow> load_state \<Rightarrow> gu_err + bool \<times> load_state" where
  "load_line fl line s =
     (if line = [] then Inr (True, s)
      else if hd line = CHR ''A'' then try_attrs (attr_lines fl) line s
      else bindE
        (if hd line = CHR ''P'' then p_line fl line s
         else if hd line = CHR ''S'' then strip_line line s
         else try_matches match_lines line s) (\<lambda>s. Inr (False, s)))"

text \<open>The loop, with the lines that are left after \<^verbatim>\<open>EndMisc\<close>.\<close>

fun load_loop :: "(bool \<Rightarrow> int \<Rightarrow> string \<Rightarrow> rat) \<Rightarrow> string list \<Rightarrow> load_state \<Rightarrow> gu_err + bool \<times> load_state \<times> string list" where
  "load_loop fl [] s = Inr (False, s, [])"
| "load_loop fl (line # ls) s =
     (if line = ''EndMisc'' then Inr (False, s, ls)
      else bindE (load_line fl line s) (\<lambda>(stop, s). if stop then Inr (True, s, ls) else load_loop fl ls s))"

definition required_lines :: "string list" where
  "required_lines = [''Time: '', ''Opts: '', ''User: '', ''For: '', ''Response: '', ''N-Up: '', ''Banners: '']"

text \<open>The whole function: its result, the structure, and the lines of the file that are left for the caller.\<close>

definition qentryfile_load :: "(bool \<Rightarrow> int \<Rightarrow> string \<Rightarrow> rat) \<Rightarrow> QEntryFile \<Rightarrow> string list \<Rightarrow> gu_err + int \<times> QEntryFile \<times> string list" where
  "qentryfile_load fl job qfile =
     bindE (load_loop fl qfile (job, [], 0)) (\<lambda>(stop, (q, found, retcode), ls).
       if stop then Inr (-1, q, ls)
       else Inr (if set required_lines \<subseteq> set found then retcode else -1, q, tl (dropWhile (\<lambda>l. l \<noteq> ''EndIPP'') ls)))"

end
