(* ===== verification/Things.thy ===== *)
theory Things
  imports Queue_File
begin

unbundle bit_operations_syntax

text \<open>
  What a job needs, as \<^verbatim>\<open>ppr\<close> collects it from the comments of the document and writes it into the queue file: media
  (\<^verbatim>\<open>ppr/ppr_media.c\<close>), requirements (\<^verbatim>\<open>ppr/ppr_req.c\<close>) and resources (\<^verbatim>\<open>ppr/ppr_res.c\<close>), the division of a job into
  segments (\<^verbatim>\<open>ppr/ppr_split.c\<close>), and the writing of the queue file and of the line that tells the daemon
  (\<^verbatim>\<open>ppr/ppr_main.c\<close>).
\<close>

section \<open>Definitions\<close>

subsection \<open>Text\<close>

text \<open>A \<^verbatim>\<open>double\<close> is the number it stands for, and the arithmetic is exact.\<close>

definition gu_getdouble :: "string \<Rightarrow> rat" where
  "gu_getdouble s =
     (let s = dropWhile (\<lambda>c. c = CHR '' '' \<or> c = CHR 0x09) s;
          sign = (if s \<noteq> [] \<and> hd s = CHR ''-'' then -1 else 1);
          s = (if s \<noteq> [] \<and> (hd s = CHR ''+'' \<or> hd s = CHR ''-'') then tl s else s);
          t = foldl (\<lambda>t c. t * 10 + of_int (gu_ascii_digit_value c)) 0 (takeWhile gu_ascii_isdigit s);
          s = dropWhile gu_ascii_isdigit s;
          t = (if s \<noteq> [] \<and> hd s = CHR ''.''
               then fst (foldl (\<lambda>(t, place) c. (t + place * of_int (gu_ascii_digit_value c), place / 10)) (t, 1 / 10)
                      (takeWhile gu_ascii_isdigit (tl s)))
               else t) in
      t * sign)"

definition quote :: "string \<Rightarrow> string" where
  "quote s =
     (if CHR '' '' \<in> set s \<or> CHR 0x09 \<in> set s \<or> strspn s ''0123456789'' = length s
      then take 255 (''('' @ s @ '')'') else s)"

definition padded_cmp :: "string \<Rightarrow> string \<Rightarrow> nat \<Rightarrow> bool" where
  "padded_cmp padded1 padded2 len \<longleftrightarrow> take len padded1 = take len padded2"

text \<open>\<^verbatim>\<open>tolower()\<close> in the C locale.\<close>

definition c_tolower :: "char \<Rightarrow> char" where
  "c_tolower c = (if 65 \<le> c_char c \<and> c_char c \<le> 90 then char_of (nat (c_char c + 32)) else c)"

definition padded_icmp :: "string \<Rightarrow> string \<Rightarrow> nat \<Rightarrow> bool" where
  "padded_icmp padded1 padded2 len \<longleftrightarrow> map c_tolower (take len padded1) = map c_tolower (take len padded2)"

subsection \<open>Things\<close>

record struct_Resource =
  R_Type :: string
  R_Name :: string
  R_Version :: rat
  R_Revision :: int

text \<open>The names are padded with blanks to 16 characters. \<^verbatim>\<open>flag_suitability\<close> plays no role here.\<close>

record struct_Media =
  m_medianame :: string
  m_width :: rat
  m_height :: rat
  m_weight :: rat
  m_colour :: string
  m_type :: string

abbreviation (input) MAX_COLOURNAME :: nat where "MAX_COLOURNAME \<equiv> 16"
abbreviation (input) MAX_TYPENAME :: nat where "MAX_TYPENAME \<equiv> 16"

text \<open>\<^verbatim>\<open>th_ptr\<close> points to what \<^verbatim>\<open>th_type\<close> says.\<close>

datatype thing_ptr = TH_RESOURCE struct_Resource | TH_MEDIA struct_Media | TH_REQUIREMENT string

record struct_Thing =
  th_ptr :: thing_ptr
  R_Flags :: "32 word"

abbreviation (input) MREF_DOC :: "32 word" where "MREF_DOC \<equiv> 1"
abbreviation (input) MREF_PAGE :: "32 word" where "MREF_PAGE \<equiv> 2"
abbreviation (input) REQ_DOC :: "32 word" where "REQ_DOC \<equiv> 1"
abbreviation (input) REQ_PAGE :: "32 word" where "REQ_PAGE \<equiv> 2"
abbreviation (input) REQ_DELETED :: "32 word" where "REQ_DELETED \<equiv> 4"
abbreviation (input) REREF_NEEDED :: "32 word" where "REREF_NEEDED \<equiv> 1"
abbreviation (input) REREF_SUPPLIED :: "32 word" where "REREF_SUPPLIED \<equiv> 2"
abbreviation (input) REREF_INCLUDE :: "32 word" where "REREF_INCLUDE \<equiv> 4"
abbreviation (input) REREF_REALLY_SUPPLIED :: "32 word" where "REREF_REALLY_SUPPLIED \<equiv> 8"
abbreviation (input) REREF_PAGE :: "32 word" where "REREF_PAGE \<equiv> 16"
abbreviation (input) REREF_UNCLEAR :: "32 word" where "REREF_UNCLEAR \<equiv> 32"
abbreviation (input) REREF_REMOVED :: "32 word" where "REREF_REMOVED \<equiv> 64"
abbreviation (input) REREF_FIXINCLUDE :: "32 word" where "REREF_FIXINCLUDE \<equiv> 128"

abbreviation (input) WARNING_PEEVE :: int where "WARNING_PEEVE \<equiv> 0"
abbreviation (input) WARNING_SEVERE :: int where "WARNING_SEVERE \<equiv> 1"

abbreviation (input) PPREXIT_NOMATCH :: int where "PPREXIT_NOMATCH \<equiv> 8"
abbreviation (input) PPREXIT_OTHERERR :: int where "PPREXIT_OTHERERR \<equiv> 12"
abbreviation (input) PPREXIT_CONFIG :: int where "PPREXIT_CONFIG \<equiv> 13"

abbreviation (input) PROOFMODE_NOTIFYME :: int where "PROOFMODE_NOTIFYME \<equiv> -1"

text \<open>
  The variables of \<^verbatim>\<open>ppr\<close> that matter here. The text of a warning is shortened; all are recorded, whatever the level that
  is shown. An end of the program is \<open>PprExit\<close> with the exit code.
\<close>

record ppr_job =
  things :: "struct_Thing list"
  qentry :: QEntryFile
  read_copies :: bool
  pagenumber :: int
  splitting :: bool
  page_comments :: string
  warnings :: "(int \<times> string) list"

datatype ppr_abort = PprExit int string | PprGu gu_err

definition lift_ppr :: "gu_err + 'a \<Rightarrow> ppr_abort + 'a" where
  "lift_ppr r = (case r of Inl e \<Rightarrow> Inl (PprGu e) | Inr a \<Rightarrow> Inr a)"

definition warning :: "int \<Rightarrow> string \<Rightarrow> ppr_job \<Rightarrow> ppr_job" where
  "warning level message j = j\<lparr>warnings := warnings j @ [(level, message)]\<rparr>"

definition has_flag :: "32 word \<Rightarrow> struct_Thing \<Rightarrow> bool" where
  "has_flag f t \<longleftrightarrow> R_Flags t AND f \<noteq> 0"

definition add_flag :: "32 word \<Rightarrow> struct_Thing \<Rightarrow> struct_Thing" where
  "add_flag f t = t\<lparr>R_Flags := R_Flags t OR f\<rparr>"

definition clear_flag :: "32 word \<Rightarrow> struct_Thing \<Rightarrow> struct_Thing" where
  "clear_flag f t = t\<lparr>R_Flags := R_Flags t AND NOT (f)\<rparr>"

text \<open>Which things a segment of a divided job needs is not worked out, and \<^verbatim>\<open>set_thing_bit()\<close>, which is to note it, does nothing.\<close>

definition is_thing_in_current_fragment :: "nat \<Rightarrow> int \<Rightarrow> ppr_job \<Rightarrow> bool" where
  "is_thing_in_current_fragment thing_number fragment j =
     (if \<not> splitting j then True else if fragment = 0 then True else True)"

subsection \<open>Media\<close>

text \<open>
  \<^verbatim>\<open>media()\<close> with the words of the comment. \<open>b\<close> is the byte before a field that consists of blanks only (see \<open>padded_to_ASCIIZ\<close>).
\<close>

definition is_media :: "string \<Rightarrow> struct_Thing \<Rightarrow> bool" where
  "is_media name t = (case th_ptr t of TH_MEDIA m \<Rightarrow> padded_cmp name (m_medianame m) MAX_MEDIANAME | _ \<Rightarrow> False)"

definition media :: "32 word \<Rightarrow> string list \<Rightarrow> ppr_job \<Rightarrow> ppr_abort + ppr_job" where
  "media reftype tokens j =
     (if reftype = MREF_DOC then
        (if length tokens < 6
         then Inr (warning WARNING_SEVERE ''Invalid DocumentMedia line, insufficient parameters'' j)
         else
           let m = \<lparr>m_medianame = ASCIIZ_to_padded (tokens ! 0) MAX_MEDIANAME, m_width = gu_getdouble (tokens ! 1),
                    m_height = gu_getdouble (tokens ! 2), m_weight = gu_getdouble (tokens ! 3),
                    m_colour = ASCIIZ_to_padded (tokens ! 4) MAX_COLOURNAME, m_type = ASCIIZ_to_padded (tokens ! 5) MAX_TYPENAME\<rparr> in
           Inr (j\<lparr>things := things j @ [\<lparr>th_ptr = TH_MEDIA m, R_Flags = MREF_DOC\<rparr>]\<rparr>))
      else if reftype = MREF_PAGE then
        (case tokens of
           [] \<Rightarrow> Inl (PprGu (GuUB ''null pointer''))
         | t # _ \<Rightarrow>
             let medianame = ASCIIZ_to_padded t MAX_MEDIANAME in
             if list_ex (is_media medianame) (things j)
             then Inr (j\<lparr>things := map (\<lambda>x. if is_media medianame x then add_flag MREF_PAGE x else x) (things j)\<rparr>)
             else Inr (warning WARNING_SEVERE ''PageMedia comment names undefined medium'' j))
      else Inl (PprExit PPREXIT_OTHERERR ''media(): invalid reference type''))"

definition unpad :: "char \<Rightarrow> string \<Rightarrow> string" where
  "unpad b s = padded_to_ASCIIZ b s (length s)"

definition document_media_line :: "char \<Rightarrow> bool \<Rightarrow> struct_Media \<Rightarrow> gu_err + string" where
  "document_media_line b first m =
     bindE (gu_dtostr (m_width m)) (\<lambda>width.
     bindE (gu_dtostr (m_height m)) (\<lambda>height.
     bindE (gu_dtostr (m_weight m)) (\<lambda>weight.
       Inr ((if first then ''%%DocumentMedia: '' else ''%%+ '') @ unpad b (m_medianame m) @ '' '' @ width @ '' '' @ height @ '' '' @
            weight @ '' '' @ quote (unpad b (m_colour m)) @ '' '' @ quote (unpad b (m_type m))))))"

definition things_of :: "int \<Rightarrow> ppr_job \<Rightarrow> struct_Thing list" where
  "things_of frag j = map (\<lambda>x. things j ! x) (filter (\<lambda>x. is_thing_in_current_fragment x frag j) [0..<length (things j)])"

definition media_of :: "int \<Rightarrow> ppr_job \<Rightarrow> struct_Media list" where
  "media_of frag j = concat (map (\<lambda>t. case th_ptr t of TH_MEDIA m \<Rightarrow> [m] | _ \<Rightarrow> []) (things_of frag j))"

definition dump_document_media :: "char \<Rightarrow> int \<Rightarrow> ppr_job \<Rightarrow> gu_err + string list" where
  "dump_document_media b frag j =
     foldE (\<lambda>m lines. bindE (document_media_line b (lines = []) m) (\<lambda>l. Inr (lines @ [l]))) (media_of frag j) []"

text \<open>The first medium that is marked for the page is written and its mark cleared.\<close>

fun page_media :: "char \<Rightarrow> struct_Thing list \<Rightarrow> string \<times> struct_Thing list" where
  "page_media b [] = ([], [])"
| "page_media b (t # ts) =
     (case th_ptr t of
        TH_MEDIA m \<Rightarrow>
          if has_flag MREF_PAGE t
          then (''%%PageMedia: '' @ unpad b (m_medianame m) @ [CHR 0x0A], clear_flag MREF_PAGE t # ts)
          else (fst (page_media b ts), t # snd (page_media b ts))
      | _ \<Rightarrow> (fst (page_media b ts), t # snd (page_media b ts)))"

definition dump_page_media :: "char \<Rightarrow> ppr_job \<Rightarrow> ppr_job" where
  "dump_page_media b j =
     j\<lparr>things := snd (page_media b (things j)), page_comments := page_comments j @ fst (page_media b (things j))\<rparr>"

text \<open>
  The three comparisons of \<^verbatim>\<open>write_media_line()\<close> of a medium of the document with a known medium. \<open>c_trunc\<close> is the
  conversion of a \<^verbatim>\<open>double\<close> to an \<^verbatim>\<open>int\<close>, for sizes that fit.
\<close>

definition c_trunc :: "rat \<Rightarrow> int" where
  "c_trunc x = (if x \<ge> 0 then \<lfloor>x\<rfloor> else \<lceil>x\<rceil>)"

definition exact_match :: "struct_Media \<Rightarrow> struct_Media \<Rightarrow> bool" where
  "exact_match m km \<longleftrightarrow>
     \<bar>m_height m - m_height km\<bar> < 1 \<and> \<bar>m_width m - m_width km\<bar> < 1
     \<and> (m_weight m = 0 \<or> m_weight m = m_weight km)
     \<and> (take 1 (m_colour m) = '' '' \<and> take 6 (m_colour km) = ''white '' \<or> padded_cmp (m_colour m) (m_colour km) MAX_COLOURNAME)
     \<and> padded_cmp (m_type m) (m_type km) MAX_TYPENAME"

definition close_match :: "struct_Media \<Rightarrow> struct_Media \<Rightarrow> bool" where
  "close_match m km \<longleftrightarrow>
     \<bar>c_trunc (m_height m - m_height km)\<bar> < 20 \<and> \<bar>c_trunc (m_width m - m_width km)\<bar> < 20
     \<and> padded_icmp (m_type m) (m_type km) MAX_TYPENAME"

definition poor_match :: "struct_Media \<Rightarrow> struct_Media \<Rightarrow> bool" where
  "poor_match m km \<longleftrightarrow>
     \<bar>c_trunc (m_height m - m_height km)\<bar> < 36 \<and> \<bar>c_trunc (m_width m - m_width km)\<bar> < 36 \<and> take 1 (m_type km) = '' ''"

definition media_line :: "char \<Rightarrow> struct_Media \<Rightarrow> struct_Media \<Rightarrow> string" where
  "media_line b km m = ''Media: '' @ unpad b (m_medianame km) @ '' '' @ unpad b (m_medianame m)"

text \<open>\<open>mfile\<close> are the records of the media file. The result is the line, or \<open>None\<close> for -1.\<close>

definition write_media_line :: "char \<Rightarrow> struct_Media list \<Rightarrow> struct_Media \<Rightarrow> ppr_job \<Rightarrow> ppr_abort + string option \<times> ppr_job" where
  "write_media_line b mfile m j =
     (case find (exact_match m) mfile of
        Some km \<Rightarrow> Inr (Some (media_line b km m), j)
      | None \<Rightarrow>
          (case find (close_match m) mfile of
             Some km \<Rightarrow> Inr (Some (media_line b km m), warning WARNING_SEVERE ''Closest medium is an imperfect match'' j)
           | None \<Rightarrow>
               if at_proofmode (j_attr (qentry j)) = PROOFMODE_NOTIFYME then Inl (PprExit PPREXIT_NOMATCH (unpad b (m_medianame m)))
               else
                 (case find (poor_match m) mfile of
                    Some km \<Rightarrow> Inr (Some (media_line b km m), warning WARNING_SEVERE ''Closest medium is a very poor match'' j)
                  | None \<Rightarrow> Inr (None, j))))"

text \<open>
  The default medium: the name given with \<^verbatim>\<open>-D\<close>, what the configuration file says otherwise (\<^verbatim>\<open>gu_ini_scan_list()\<close>: an error
  message, or the values), and what the features of the document say. A field that nothing has been said about is 0 or
  begins with NUL.
\<close>

record media_defaults =
  default_medium :: "string option"
  conf_medium :: "string + rat \<times> rat \<times> rat \<times> string \<times> string"
  guess_media :: struct_Media

definition first_default :: "struct_Media list \<Rightarrow> media_defaults \<Rightarrow> ppr_abort + struct_Media" where
  "first_default mfile dm =
     bindE (case default_medium dm of
       Some name \<Rightarrow>
         (case find (\<lambda>m. m_medianame m = ASCIIZ_to_padded name MAX_MEDIANAME) mfile of
            None \<Rightarrow> Inl (PprExit PPREXIT_NOMATCH ''default medium does not exist'')
          | Some m \<Rightarrow> Inr m)
     | None \<Rightarrow>
         (case conf_medium dm of
            Inl message \<Rightarrow> Inl (PprExit PPREXIT_CONFIG message)
          | Inr (width, height, weight, MediaColor, MediaType) \<Rightarrow>
              Inr \<lparr>m_medianame = [], m_width = width, m_height = height, m_weight = weight,
                   m_colour = ASCIIZ_to_padded MediaColor MAX_COLOURNAME, m_type = ASCIIZ_to_padded MediaType MAX_TYPENAME\<rparr>))
     (\<lambda>def. Inr (def\<lparr>m_medianame := ASCIIZ_to_padded ''NULL'' MAX_MEDIANAME\<rparr>))"

definition is_set :: "string \<Rightarrow> bool" where
  "is_set s \<longleftrightarrow> s \<noteq> [] \<and> hd s \<noteq> CHR 0x00"

definition adjust_default :: "struct_Media \<Rightarrow> struct_Media \<Rightarrow> struct_Media" where
  "adjust_default g def =
     (let def = (if m_width g \<noteq> 0 \<and> m_height g \<noteq> 0 \<and> (m_width g \<noteq> m_width def \<or> m_height g \<noteq> m_height def)
                 then def\<lparr>m_width := m_width g, m_height := m_height g\<rparr> else def);
          def = (if m_weight g \<noteq> 0 \<and> m_weight g \<noteq> m_weight def then def\<lparr>m_weight := m_weight g\<rparr> else def);
          def = (if is_set (m_colour g) \<and> m_colour g \<noteq> m_colour def then def\<lparr>m_colour := m_colour g\<rparr> else def) in
      if is_set (m_type g) \<and> m_type g \<noteq> m_type def then def\<lparr>m_type := m_type g\<rparr> else def)"

definition media_step :: "char \<Rightarrow> struct_Media list \<Rightarrow> struct_Media \<Rightarrow> string list \<times> ppr_job \<Rightarrow> ppr_abort + string list \<times> ppr_job" where
  "media_step b mfile m s =
     (case s of (lines, j) \<Rightarrow>
        bindE (write_media_line b mfile m j) (\<lambda>(line, j).
          case line of
            Some l \<Rightarrow> Inr (lines @ [l], j)
          | None \<Rightarrow> Inr (lines, warning WARNING_SEVERE ''Requested medium is not listed in the media database'' j)))"

definition write_media_lines :: "char \<Rightarrow> struct_Media list option \<Rightarrow> media_defaults \<Rightarrow> int \<Rightarrow> ppr_job \<Rightarrow> ppr_abort + string list \<times> ppr_job" where
  "write_media_lines b mediafile dm frag j =
     (case mediafile of
        None \<Rightarrow> Inl (PprExit PPREXIT_OTHERERR ''Can't open media database'')
      | Some mfile \<Rightarrow>
          bindE (foldE (media_step b mfile) (media_of frag j) ([], j)) (\<lambda>(lines, j).
          if lines \<noteq> [] then Inr (lines, j)
          else
            bindE (first_default mfile dm) (\<lambda>def.
            bindE (write_media_line b mfile (adjust_default (guess_media dm) def) j) (\<lambda>(line, j).
              case line of
                Some l \<Rightarrow> Inr ([l], j)
              | None \<Rightarrow> Inr ([''Media: UNRECOGNIZED NULL''], warning WARNING_SEVERE ''Default medium as overridden does not exist'' j)))))"

subsection \<open>Requirements\<close>

definition set_collate :: "ppr_job \<Rightarrow> ppr_job" where
  "set_collate j = j\<lparr>qentry := (qentry j)\<lparr>j_opts := (j_opts (qentry j))\<lparr>op_collate := 1\<rparr>\<rparr>\<rparr>"

definition set_copies :: "int \<Rightarrow> ppr_job \<Rightarrow> ppr_job" where
  "set_copies n j = j\<lparr>qentry := (qentry j)\<lparr>j_opts := (j_opts (qentry j))\<lparr>op_copies := n\<rparr>\<rparr>\<rparr>"

definition new_punch :: "string \<Rightarrow> ppr_job \<Rightarrow> ppr_abort + string \<times> ppr_job" where
  "new_punch req_name j =
     bindE (lift_ppr (gu_sscanf req_name ''punch%d'' [])) (\<lambda>(n, vs).
       case vs of
         [SInt x] \<Rightarrow>
           if n = 1 \<and> x < 10
           then Inr (take 8 (''punch('' @ print_d x @ '')''),
                     if at_DSClevel (j_attr (qentry j)) \<ge> 3
                     then warning WARNING_PEEVE ''Requirement punch should have parentheses in DSC >= 3.0'' j else j)
           else Inr (req_name, j)
       | _ \<Rightarrow> Inr (req_name, j))"

definition requirement :: "32 word \<Rightarrow> string \<Rightarrow> ppr_job \<Rightarrow> ppr_abort + ppr_job" where
  "requirement reftype req_name j =
     bindE (new_punch req_name j) (\<lambda>(req_name, j).
     if req_name = ''collate'' then Inr (if read_copies j then set_collate j else j)
     else if lmatch req_name ''numcopies('' then
       Inr (if read_copies j then
              let x = c_atoi (drop 10 req_name) in
              if x < 1 then warning WARNING_SEVERE ''Unreasonable requirement ignored'' j else set_copies x j
            else j)
     else
       let x = find_index (\<lambda>t. th_ptr t = TH_REQUIREMENT req_name) (things j) in
       if x = length (things j) then
         let j = (if reftype = REQ_PAGE then warning WARNING_PEEVE ''Requirement missing from Requirements comment'' j else j) in
         Inr (j\<lparr>things := things j @ [\<lparr>th_ptr = TH_REQUIREMENT req_name, R_Flags = reftype\<rparr>]\<rparr>)
       else Inr (j\<lparr>things := (things j)[x := add_flag reftype (things j ! x)]\<rparr>))"

text \<open>
  The loop of \<^verbatim>\<open>delete_requirement()\<close>: what is left of the two strings when it ends, \<open>None\<close> when the second pointer has gone past
  the NUL at the end of the name.
\<close>

fun requirement_cmp :: "string \<Rightarrow> string \<Rightarrow> string \<times> string option" where
  "requirement_cmp [] nptr = ([], Some nptr)"
| "requirement_cmp (c # sptr) [] = (sptr, None)"
| "requirement_cmp (c # sptr) (d # nptr) = (if c \<noteq> d then (sptr, Some nptr) else requirement_cmp sptr nptr)"

definition requirement_deleted :: "string \<Rightarrow> string \<Rightarrow> gu_err + bool" where
  "requirement_deleted req_name s =
     (case requirement_cmp s req_name of
        (c # _, _) \<Rightarrow> Inr False
      | ([], None) \<Rightarrow> Inl (GuUB ''read past the end of a string'')
      | ([], Some n) \<Rightarrow> Inr (n = [] \<or> hd n = CHR ''(''))"

definition delete_thing :: "string \<Rightarrow> struct_Thing \<Rightarrow> gu_err + struct_Thing" where
  "delete_thing req_name t =
     (case th_ptr t of
        TH_REQUIREMENT s \<Rightarrow> bindE (requirement_deleted req_name s) (\<lambda>del. Inr (if del then add_flag REQ_DELETED t else t))
      | _ \<Rightarrow> Inr t)"

definition delete_requirement :: "string \<Rightarrow> ppr_job \<Rightarrow> gu_err + ppr_job" where
  "delete_requirement req_name j =
     bindE (foldE (\<lambda>t ts. bindE (delete_thing req_name t) (\<lambda>t. Inr (ts @ [t]))) (things j) []) (\<lambda>ts. Inr (j\<lparr>things := ts\<rparr>))"

definition page_requirement :: "struct_Thing \<Rightarrow> string \<times> struct_Thing list \<Rightarrow> string \<times> struct_Thing list" where
  "page_requirement t s =
     (case s of (out, ts) \<Rightarrow>
        case th_ptr t of
          TH_REQUIREMENT r \<Rightarrow>
            if has_flag REQ_DELETED t \<or> \<not> has_flag REQ_PAGE t then (out, ts @ [t])
            else (out @ (if out = [] then ''%%PageRequirements: '' else ''%%+ '') @ r @ [CHR 0x0A], ts @ [clear_flag REQ_PAGE t])
        | _ \<Rightarrow> (out, ts @ [t]))"

definition dump_page_requirements :: "ppr_job \<Rightarrow> ppr_job" where
  "dump_page_requirements j =
     (case fold page_requirement (things j) ([], []) of (out, ts) \<Rightarrow> j\<lparr>things := ts, page_comments := page_comments j @ out\<rparr>)"

definition write_requirement_lines :: "int \<Rightarrow> ppr_job \<Rightarrow> string list" where
  "write_requirement_lines fragment j =
     concat (map (\<lambda>t. case th_ptr t of TH_REQUIREMENT r \<Rightarrow> [''Req: '' @ r] | _ \<Rightarrow> []) (things_of fragment j))"

subsection \<open>Resources\<close>

text \<open>The version and revision of a procedure set, and the number of words used.\<close>

definition resource_version :: "string \<Rightarrow> string list \<Rightarrow> rat \<times> int \<times> int \<times> bool" where
  "resource_version restype ts =
     (if restype = ''procset'' then
        (case ts of
           v # vs \<Rightarrow>
             if strspn v ''0123456789.'' = length v then
               (case vs of
                  r # _ \<Rightarrow> if strspn r ''0123456789'' = length r then (gu_getdouble v, c_atoi r, 3, True) else (gu_getdouble v, 0, 2, True)
                | [] \<Rightarrow> (gu_getdouble v, 0, 2, True))
             else (0, 0, 1, False)
         | [] \<Rightarrow> (0, 0, 1, False))
      else (0, 0, 1, True))"

definition resource :: "32 word \<Rightarrow> string option \<Rightarrow> string list \<Rightarrow> ppr_job \<Rightarrow> int \<times> ppr_job" where
  "resource reftype restype tokens j =
     (case (restype, tokens) of
        (Some ty, resname # ts) \<Rightarrow>
          (case resource_version ty ts of (version, revision, rval, ok) \<Rightarrow>
             let j = (if ok then j else warning WARNING_SEVERE ''Procset has no version and revision numbers'' j);
                 r = \<lparr>R_Type = ty, R_Name = resname, R_Version = version, R_Revision = revision\<rparr>;
                 x = find_index (\<lambda>t. th_ptr t = TH_RESOURCE r) (things j);
                 ts = (if x = length (things j) then things j @ [\<lparr>th_ptr = TH_RESOURCE r, R_Flags = 0\<rparr>] else things j) in
             (rval, j\<lparr>things := ts[x := add_flag reftype (ts ! x)]\<rparr>))
      | _ \<Rightarrow> (1, j))"

definition resource_clear :: "32 word \<Rightarrow> string option \<Rightarrow> ppr_job \<Rightarrow> ppr_job" where
  "resource_clear reftype restype j =
     j\<lparr>things := map (\<lambda>t. case th_ptr t of
         TH_RESOURCE r \<Rightarrow> if restype = None \<or> restype = Some (R_Type r) then clear_flag reftype t else t
       | _ \<Rightarrow> t) (things j)\<rparr>"

definition resource_comment :: "struct_Resource \<Rightarrow> gu_err + string" where
  "resource_comment r =
     (if R_Type r = ''procset'' then
        bindE (gu_dtostr (R_Version r)) (\<lambda>v. Inr (R_Type r @ '' '' @ quote (R_Name r) @ '' '' @ v @ '' '' @ print_d (R_Revision r)))
      else Inr (R_Type r @ '' '' @ quote (R_Name r)))"

definition page_resource :: "struct_Thing \<Rightarrow> string \<times> struct_Thing list \<Rightarrow> gu_err + string \<times> struct_Thing list" where
  "page_resource t s =
     (case s of (out, ts) \<Rightarrow>
        case th_ptr t of
          TH_RESOURCE r \<Rightarrow>
            if has_flag REREF_PAGE t then
              bindE (resource_comment r) (\<lambda>c.
                Inr (out @ (if out = [] then ''%%PageResources: '' else ''%%+ '') @ c @ [CHR 0x0A], ts @ [clear_flag REREF_PAGE t]))
            else Inr (out, ts @ [t])
        | _ \<Rightarrow> Inr (out, ts @ [t]))"

definition dump_page_resources :: "ppr_job \<Rightarrow> gu_err + ppr_job" where
  "dump_page_resources j =
     bindE (foldE page_resource (things j) ([], [])) (\<lambda>(out, ts). Inr (j\<lparr>things := ts, page_comments := page_comments j @ out\<rparr>))"

text \<open>
  The tests that \<^verbatim>\<open>rationalize_resources()\<close> makes on one resource, in their order: the new flags and the warnings.
\<close>

definition rationalize_unclear :: "rat \<Rightarrow> struct_Resource \<Rightarrow> struct_Thing \<Rightarrow> struct_Thing \<times> (int \<times> string) list" where
  "rationalize_unclear DSClevel r t =
     (if has_flag REREF_UNCLEAR t \<and> \<not> (has_flag REREF_NEEDED t \<or> has_flag REREF_SUPPLIED t) then
        if has_flag REREF_REALLY_SUPPLIED t then (add_flag REREF_SUPPLIED t, [])
        else if has_flag REREF_INCLUDE t then (add_flag REREF_NEEDED t, [])
        else if R_Type r = ''font'' then
          (add_flag REREF_FIXINCLUDE (add_flag REREF_NEEDED t),
           if DSClevel \<ge> 2 then [(WARNING_SEVERE, ''No IncludeFont for font'')] else [])
        else (t, [(WARNING_SEVERE, ''Resource has no Begin or Include'')])
      else (t, []))"

definition rationalize_resource :: "rat \<Rightarrow> struct_Resource \<Rightarrow> struct_Thing \<Rightarrow> struct_Thing \<times> (int \<times> string) list" where
  "rationalize_resource DSClevel r t =
     (let w1 = (if has_flag REREF_INCLUDE t \<and> has_flag REREF_REALLY_SUPPLIED t
                then [(WARNING_SEVERE, ''Resource has both Include and Begin'')] else []);
          w2 = (if has_flag REREF_NEEDED t \<and> has_flag REREF_SUPPLIED t
                then [(WARNING_SEVERE, ''Resource listed as both supplied and needed'')] else []);
          unsupplied = (has_flag REREF_SUPPLIED t \<and> \<not> has_flag REREF_REALLY_SUPPLIED t);
          t = (if unsupplied then clear_flag REREF_SUPPLIED t else t);
          w3 = (if unsupplied then [(WARNING_SEVERE, ''Resource listed as supplied but it isn't actually supplied'')] else []);
          nowhere = (has_flag REREF_NEEDED t \<and> \<not> has_flag REREF_INCLUDE t);
          t = (if nowhere then add_flag REREF_FIXINCLUDE t else t);
          w4 = (if nowhere then [(WARNING_SEVERE, ''Resource listed as needed but there is no Include'')] else []);
          (t, w5) = rationalize_unclear DSClevel r t;
          unlisted = (has_flag REREF_INCLUDE t \<and> \<not> has_flag REREF_NEEDED t);
          t = (if unlisted then add_flag REREF_NEEDED t else t);
          w6 = (if unlisted then [(WARNING_PEEVE, ''Resource has an Include but isn't listed as needed'')] else []);
          undeclared = (has_flag REREF_REALLY_SUPPLIED t \<and> \<not> has_flag REREF_SUPPLIED t);
          t = (if undeclared then add_flag REREF_SUPPLIED t else t);
          w7 = (if undeclared then [(WARNING_PEEVE, ''Resource is supplied but isn't listed as supplied'')] else []) in
      (if has_flag REREF_REMOVED t then add_flag REREF_NEEDED (clear_flag REREF_SUPPLIED t) else t,
       w1 @ w2 @ w3 @ w4 @ w5 @ w6 @ w7))"

definition rationalize_thing :: "rat \<Rightarrow> struct_Thing \<Rightarrow> struct_Thing \<times> (int \<times> string) list" where
  "rationalize_thing DSClevel t =
     (case th_ptr t of TH_RESOURCE r \<Rightarrow> if R_Flags t = 0 then (t, []) else rationalize_resource DSClevel r t | _ \<Rightarrow> (t, []))"

definition rationalize_resources :: "ppr_job \<Rightarrow> ppr_job" where
  "rationalize_resources j =
     (let rs = map (rationalize_thing (at_DSClevel (j_attr (qentry j)))) (things j) in
      j\<lparr>things := map fst rs, warnings := warnings j @ concat (map snd rs)\<rparr>)"

definition quote_name :: "string \<Rightarrow> string" where
  "quote_name s = concat (map (\<lambda>c. if c = CHR 0x5C \<or> c = CHR 0x22 then [CHR 0x5C, c] else [c]) s)"

definition resource_line :: "struct_Thing \<Rightarrow> struct_Resource \<Rightarrow> gu_err + string" where
  "resource_line t r =
     bindE (gu_dtostr (R_Version r)) (\<lambda>version.
       Inr (''Res: '' @ (if has_flag REREF_NEEDED t then ''1'' else ''0'') @ '' '' @ (if has_flag REREF_FIXINCLUDE t then ''1'' else ''0'') @
            '' '' @ R_Type r @ '' '' @ [CHR 0x22] @ quote_name (R_Name r) @ [CHR 0x22] @ '' '' @ version @ '' '' @ print_d (R_Revision r)))"

definition write_resource_lines :: "int \<Rightarrow> ppr_job \<Rightarrow> gu_err + string list" where
  "write_resource_lines fragment j =
     foldE (\<lambda>t lines. case th_ptr t of
         TH_RESOURCE r \<Rightarrow> if R_Flags t = 0 then Inr lines else bindE (resource_line t r) (\<lambda>l. Inr (lines @ [l]))
       | _ \<Rightarrow> Inr lines) (things_of fragment j) []"

subsection \<open>Dividing a job\<close>

text \<open>
  The segment of each page. \<open>this_frag\<close> counts from the page after the one that begins a segment, except in the first. The numbers
  are stored as \<^verbatim>\<open>unsigned char\<close>.
\<close>

abbreviation (input) MAX_SEGMENTS :: int where "MAX_SEGMENTS \<equiv> 10"

fun assign_segments :: "int \<Rightarrow> nat \<Rightarrow> int \<Rightarrow> int \<Rightarrow> int list" where
  "assign_segments pages_per_fragment 0 this_frag segments_created = []"
| "assign_segments pages_per_fragment (Suc n) this_frag segments_created =
     (if this_frag > pages_per_fragment
      then (segments_created + 1) mod 256 # assign_segments pages_per_fragment n 0 (segments_created + 1)
      else segments_created mod 256 # assign_segments pages_per_fragment n (this_frag + 1) segments_created)"

definition pages_per_fragment :: "int \<Rightarrow> int \<Rightarrow> int \<Rightarrow> int" where
  "pages_per_fragment pages segments pagefactor = c_div (c_div pages segments + pagefactor - 1) pagefactor * pagefactor"

text \<open>The part of \<^verbatim>\<open>split_job()\<close> that decides: the segments of the pages, or \<open>None\<close> if the job is not divided.\<close>

definition split_pages :: "int \<Rightarrow> ppr_job \<Rightarrow> gu_err + int list option \<times> ppr_job" where
  "split_pages segments j =
     (let a = j_attr (qentry j) in
      if \<not> splitting j then Inr (None, j)
      else if pagenumber j = 0 then Inr (None, warning WARNING_SEVERE ''No delimited pages, splitting is impossible.'' j)
      else if at_pageorder a = 0 then Inr (None, warning WARNING_SEVERE ''PageOrder is Special, splitting is impossible.'' j)
      else if pagenumber j \<le> at_pagefactor a then Inr (None, warning WARNING_SEVERE ''not enough pages to split job.'' j)
      else if segments = 0 then Inr (None, j)
      else if at_pagefactor a = 0 then Inl (GuUB ''division by zero'')
      else
        let assigned = assign_segments (pages_per_fragment (pagenumber j) segments (at_pagefactor a)) (nat (pagenumber j)) 0 1 in
        Inr (if last assigned > 1 then Some assigned else None, j))"

subsection \<open>The queue file\<close>

definition write_feature_lines :: "string list \<Rightarrow> string list" where
  "write_feature_lines features = map (\<lambda>f. ''Feature: '' @ f) features"

text \<open>
  \<^verbatim>\<open>write_queue_file()\<close>: the name of the file and its new contents, given the files there are. \<open>rand\<close> is the result of \<^verbatim>\<open>rand()\<close>. A
  file that is overwritten is not cut off.
\<close>

definition lines_text :: "string list \<Rightarrow> string" where
  "lines_text ls = concat (map (\<lambda>l. l @ [CHR 0x0A]) ls)"

definition fatal_check :: "gu_err + unit \<Rightarrow> ppr_abort + unit" where
  "fatal_check r = (case r of Inr u \<Rightarrow> Inr u | Inl (GuThrow m) \<Rightarrow> Inl (PprExit PPREXIT_OTHERERR m) | Inl e \<Rightarrow> Inl (PprGu e))"

definition queue_file_text :: "char \<Rightarrow> struct_Media list option \<Rightarrow> media_defaults \<Rightarrow> string list \<Rightarrow> ppr_job \<Rightarrow> ppr_abort + string \<times> ppr_job" where
  "queue_file_text b mediafile dm features j =
     (let q = qentry j in
      bindE (lift_ppr (qentryfile_save q)) (\<lambda>body.
      bindE (write_media_lines b mediafile dm (j_subid q) j) (\<lambda>(medias, j).
      bindE (lift_ppr (write_resource_lines (j_subid q) j)) (\<lambda>res.
        Inr (body @ lines_text ([''EndAddon''] @ medias @ [''EndMedia''] @ res @ [''EndRes''] @ write_requirement_lines (j_subid q) j @ [''EndReq'']) @
             (case j_PJL q of None \<Rightarrow> [] | Some pjl \<Rightarrow> lines_text [''PJLHint: '' @ print_d (int (length pjl))] @ pjl) @
             lines_text ([''EndPJL''] @ write_feature_lines features @ [''EndSetups'']), j)))))"

definition write_queue_file ::
  "char \<Rightarrow> struct_Media list option \<Rightarrow> media_defaults \<Rightarrow> string list \<Rightarrow> string \<Rightarrow> int \<Rightarrow> bool \<Rightarrow> (string \<rightharpoonup> string) \<Rightarrow> ppr_job
   \<Rightarrow> ppr_abort + string \<times> string \<times> ppr_job" where
  "write_queue_file b mediafile dm features queuedir rand overwrite files j =
     bindE (fatal_check (check_values (qentry j))) (\<lambda>_.
     let q = (qentry j)\<lparr>j_magic_cookie := Some (take 15 (print_X 8 rand))\<rparr>; j = j\<lparr>qentry := q\<rparr> in
     bindE (lift_ppr (print_s (j_destname q))) (\<lambda>destname.
     bindE (lift_ppr (ppr_fnamef ''%s/%s-%d.%d'' [FStr queuedir, FStr destname, FInt (j_id q), FInt (j_subid q)])) (\<lambda>qfname.
     if files qfname \<noteq> None \<and> \<not> overwrite then Inl (PprExit PPREXIT_OTHERERR ''can't open queue file'')
     else
       bindE (queue_file_text b mediafile dm features j) (\<lambda>(content, j).
         Inr (qfname, content @ drop (length content) (case files qfname of None \<Rightarrow> [] | Some old \<Rightarrow> old), j)))))"

text \<open>The line for the FIFO of the daemon.\<close>

definition submit_job :: "bool \<Rightarrow> QEntryFile \<Rightarrow> int \<Rightarrow> gu_err + string" where
  "submit_job skeleton qe subid =
     bindE (print_s (j_destname qe)) (\<lambda>destname.
       Inr ((if skeleton then ''J '' else ''j '') @ destname @ ''-'' @ print_d (j_id qe) @ ''.'' @ print_d subid @ [CHR 0x0A]))"

end
