(* ===== verification/Queue_Files.thy ===== *)
theory Queue_Files
  imports Queue_File
begin

text \<open>
  The queue file as it is written and as it is read back: that the two agree, and where they do not.
\<close>

section \<open>Reference definitions\<close>

text \<open>Texts that survive their line. The end of a line is stripped of white space when it is read, so that a text must not be blank; \<^verbatim>\<open>%S\<close> reads one word; \<^verbatim>\<open>%W\<close> and \<^verbatim>\<open>%A\<close> take quotes away.\<close>

definition textline :: "string \<Rightarrow> bool" where
  "textline s \<longleftrightarrow> rstrip s \<noteq> [] \<and> CHR 0x0A \<notin> set s"

definition is_word :: "string \<Rightarrow> bool" where
  "is_word s \<longleftrightarrow> s \<noteq> [] \<and> (\<forall>c \<in> set s. \<not> gu_ascii_isspace c)"

definition unquoted :: "string \<Rightarrow> bool" where
  "unquoted s \<longleftrightarrow> s \<noteq> [] \<and> hd s \<noteq> CHR 0x22 \<and> hd s \<noteq> CHR 0x27"

definition opt_all :: "(string \<Rightarrow> bool) \<Rightarrow> string option \<Rightarrow> bool" where
  "opt_all P x = (case x of None \<Rightarrow> True | Some v \<Rightarrow> P v)"

text \<open>What is left of a text: \<^verbatim>\<open>%W\<close> reads the first word only, a blank option line is not recognized, and the options of a responder lose white space at both ends.\<close>

definition first_word :: "string \<Rightarrow> string" where
  "first_word = takeWhile (\<lambda>c. c \<notin> {CHR '' '', CHR 0x09, CHR 0x0A})"

definition readable :: "string option \<Rightarrow> string option" where
  "readable x = (case x of None \<Rightarrow> None | Some v \<Rightarrow> if rstrip v = [] then None else Some (rstrip v))"

definition stripped_options :: "string option \<Rightarrow> string option" where
  "stripped_options x = (case x of None \<Rightarrow> None
     | Some v \<Rightarrow> let t = dropWhile gu_ascii_isspace (rstrip v) in if t = [] then None else Some t)"

text \<open>Contents whose numbers fit the conversions that read them, and whose words are words.\<close>

definition fits_int :: "int \<Rightarrow> bool" where
  "fits_int n \<longleftrightarrow> \<bar>n\<bar> < 2 ^ 31"

definition proper_spool_state :: "JOB_SPOOL_STATE \<Rightarrow> bool" where
  "proper_spool_state st \<longleftrightarrow> 0 \<le> jss_priority st \<and> jss_priority st < 256 \<and> 0 \<le> jss_sequence_number st \<and> jss_sequence_number st < 2 ^ 32
     \<and> jss_status st \<le> 0 \<and> - 256 < jss_status st \<and> 0 \<le> jss_flags st \<and> jss_flags st < 2 ^ 16"

definition proper_numbers :: "(bool \<Rightarrow> int \<Rightarrow> string \<Rightarrow> rat) \<Rightarrow> QEntryFile \<Rightarrow> bool" where
  "proper_numbers fl q \<longleftrightarrow>
     (let a = j_attr q; p = j_opts q; n = j_N_Up q; x = at_DSClevel a in
      list_all fits_int [j_do_banner q, j_do_trailer q, j_commentary q, at_orientation a, at_proofmode a, at_docdata a, at_prolog a,
        at_docsetup a, at_script a, at_langlevel a, at_extensions a, at_pages a, at_pageorder a, at_pagefactor a, at_parts a,
        op_binselect p, op_copies p, op_collate p, op_keep_badfeatures p, nu_N n, nu_borders n, nu_sigsheets n, nu_sigpart n,
        nu_job_does_n_up n, j_StripPrinter q, j_page_count q]
      \<and> 0 \<le> j_time q \<and> j_time q < 2 ^ 63 \<and> \<bar>at_input_bytes a\<bar> < 2 ^ 63 \<and> \<bar>at_postscript_bytes a\<bar> < 2 ^ 63
      \<and> 0 \<le> op_hacks p \<and> op_hacks p < 2 ^ 32 \<and> nu_N n \<noteq> 0 \<and> at_pagefactor a \<noteq> 0 \<and> ipp_fits q
      \<and> 0 \<le> x \<and> x < 10 ^ 9 \<and> fl False \<lfloor>x\<rfloor> (frac_digits (fraction_of x)) = x)"

definition proper_strings :: "QEntryFile \<Rightarrow> bool" where
  "proper_strings q \<longleftrightarrow>
     (case (j_user q, j_magic_cookie q, rs_name (j_responder q), rs_address (j_responder q)) of
        (Some user, Some cookie, Some name, Some address) \<Rightarrow> textline user \<and> is_word cookie \<and> is_word name \<and> is_word address
      | _ \<Rightarrow> False)
     \<and> opt_all (\<lambda>v. unquoted v \<and> \<not> gu_ascii_isspace (hd v)) (j_charge_to q) \<and> opt_all is_word (j_lc_messages q) \<and> opt_all unquoted (j_lpqFileName q)
     \<and> opt_all (\<lambda>v. is_word v \<and> v \<noteq> ''NULL'') (at_DSC_job_type (j_attr q))
     \<and> opt_all textline (j_Filters q) \<and> opt_all textline (j_PassThruPDL q) \<and> opt_all textline (j_question q)
     \<and> opt_all (\<lambda>m. textline m \<and> \<not> gu_ascii_isspace (hd m)) (j_page_mask q)"

text \<open>The structure as it is read back, the part of it that each half of the file sets, and the result of the function that reads it.\<close>

definition as_loaded :: "(bool \<Rightarrow> int \<Rightarrow> string \<Rightarrow> rat) \<Rightarrow> QEntryFile \<Rightarrow> QEntryFile" where
  "as_loaded fl q = q\<lparr>j_PPRVersion := fl False 2 ''00'', j_destname := None, j_id := 0, j_subid := 0,
     j_user := map_option rstrip (j_user q), j_For := map_option rstrip (j_For q), j_Routing := map_option rstrip (j_Routing q),
     j_Title := (if j_Title q = Some [] then None else map_option rstrip (j_Title q)), j_Creator := map_option rstrip (j_Creator q),
     j_lpqFileName := map_option rstrip (j_lpqFileName q),
     j_responder := (j_responder q)\<lparr>rs_options := stripped_options (rs_options (j_responder q))\<rparr>,
     j_draft_notice := map_option rstrip (j_draft_notice q), j_PassThruPDL := map_option rstrip (j_PassThruPDL q),
     j_Filters := map_option rstrip (j_Filters q), j_PJL := None, j_StripPrinter := (if j_StripPrinter q \<noteq> 0 then 1 else 0),
     j_page_mask := map_option rstrip (j_page_mask q), j_page_count := (if j_page_mask q = None then -1 else j_page_count q),
     j_question := map_option rstrip (j_question q), j_ripopts := readable (j_ripopts q),
     j_charge_to := map_option (first_word \<circ> rstrip) (j_charge_to q)\<rparr>"

definition submitted :: "(bool \<Rightarrow> int \<Rightarrow> string \<Rightarrow> rat) \<Rightarrow> QEntryFile \<Rightarrow> QEntryFile \<Rightarrow> QEntryFile" where
  "submitted fl q job = job\<lparr>j_user := map_option rstrip (j_user q), j_PPRVersion := fl False 2 ''00'', j_lc_messages := j_lc_messages q, j_time := j_time q,
        j_magic_cookie := j_magic_cookie q, j_For := map_option rstrip (j_For q), j_charge_to := map_option (first_word \<circ> rstrip) (j_charge_to q),
        j_Title := map_option rstrip (if j_Title q = Some [] then None else j_Title q),
        j_draft_notice := map_option rstrip (j_draft_notice q), j_Creator := map_option rstrip (j_Creator q), j_Routing := map_option rstrip (j_Routing q),
        j_lpqFileName := map_option rstrip (j_lpqFileName q), j_do_banner := j_do_banner q, j_do_trailer := j_do_trailer q,
        j_responder := (j_responder q)\<lparr>rs_options := stripped_options (rs_options (j_responder q))\<rparr>,
        j_commentary := j_commentary q\<rparr>"

definition documented :: "QEntryFile \<Rightarrow> QEntryFile \<Rightarrow> QEntryFile" where
  "documented q job = job\<lparr>j_attr := j_attr q, j_opts := j_opts q, j_N_Up := j_N_Up q, j_Filters := map_option rstrip (j_Filters q),
     j_PassThruPDL := map_option rstrip (j_PassThruPDL q), j_StripPrinter := (if j_StripPrinter q \<noteq> 0 then 1 else 0),
     j_page_count := (if j_page_mask q = None then -1 else j_page_count q), j_page_mask := map_option rstrip (j_page_mask q),
     j_question := map_option rstrip (j_question q), j_ripopts := readable (j_ripopts q)\<rparr>"

definition load_code :: "QEntryFile \<Rightarrow> int" where
  "load_code q = (if j_ripopts q \<noteq> None \<and> readable (j_ripopts q) = None then -1 else 0)"

definition clean :: "string \<Rightarrow> bool" where
  "clean l \<longleftrightarrow> CHR 0x0A \<notin> set l"

definition job_line :: "string \<Rightarrow> bool" where
  "job_line l \<longleftrightarrow> take 4 l = ''job-''"

text \<open>A job of David Chappell, and a reader of decimal fractions without rounding.\<close>

definition example_fl :: "bool \<Rightarrow> int \<Rightarrow> string \<Rightarrow> rat" where
  "example_fl neg whole ds = (if neg then -1 else 1) * (of_int whole + of_int (scan_number ds) / 10 ^ length ds)"

definition example_qf :: QEntryFile where
  "example_qf = \<lparr>j_PPRVersion = 0, j_lc_messages = None, j_destname = Some ''laser'', j_id = 7, j_subid = 0,
     j_spool_state = \<lparr>jss_priority = 39, jss_sequence_number = 300, jss_status = -3, jss_flags = 2\<rparr>, j_time = 1100000000,
     j_user = Some ''david'', j_magic_cookie = Some ''c0ffee'', j_For = Some ''David Chappell'', j_charge_to = Some ''David Chappell'',
     j_Routing = None, j_Title = Some ''Annual report  '', j_Creator = Some ''troff'', j_lpqFileName = None,
     j_responder = \<lparr>rs_name = Some ''write'', rs_address = Some ''david'', rs_options = None\<rparr>,
     j_commentary = 0, j_do_banner = 1, j_do_trailer = -1,
     j_attr = \<lparr>at_langlevel = 2, at_extensions = 0, at_DSClevel = 3, at_DSC_job_type = None, at_pages = 10, at_pageorder = 1, at_pagefactor = 2,
       at_prolog = 1, at_docsetup = 1, at_script = 1, at_proofmode = 0, at_orientation = 2, at_input_bytes = 5000, at_postscript_bytes = 5000,
       at_parts = 1, at_docdata = 0\<rparr>,
     j_opts = \<lparr>op_binselect = 1, op_copies = 2, op_collate = 0, op_keep_badfeatures = 1, op_hacks = 3\<rparr>,
     j_N_Up = \<lparr>nu_N = 2, nu_borders = 1, nu_sigsheets = 0, nu_sigpart = 3, nu_job_does_n_up = 0\<rparr>,
     j_draft_notice = None, j_PassThruPDL = None, j_Filters = None, j_PJL = None, j_StripPrinter = 1,
     j_page_mask = None, j_page_count = -1, j_question = None, j_ripopts = Some ''-r 300''\<rparr>"

section \<open>Lemmas\<close>

named_theorems load_lines \<open>lines of a queue file\<close>

subsection \<open>Scanning\<close>

lemma parse_flags_more [scan_simps]:
  "parse_flags (CHR ''l'' # CHR ''d'' # p) ws = Inr (\<lparr>cf_suppress = False, cf_maxextlen = 0, cf_islong = True, cf_isshort = False\<rparr>, ws, CHR ''d'' # p)"
  "c \<in> {CHR ''f'', CHR ''u'', CHR ''T'', CHR ''W'', CHR ''A'', CHR ''U''} \<Longrightarrow>
   parse_flags (c # p) ws = Inr (\<lparr>cf_suppress = False, cf_maxextlen = 0, cf_islong = False, cf_isshort = False\<rparr>, ws, c # p)"
  by (auto simp: parse_flags_def gu_ascii_isdigit_def scan_number_def)

lemma conversion_more [scan_simps]:
  "conversion CHR ''f'' f n s = conv_f f s" "conversion CHR ''u'' f n s = conv_u f s" "conversion CHR ''T'' f n s = conv_T s"
  "conversion CHR ''W'' f n s = conv_W s" "conversion CHR ''A'' f n s = conv_A s" "conversion CHR ''U'' f n s = conv_U s"
  by (simp_all add: conversion_def)

lemma conv_d_print_long [scan_simps]:
  assumes "\<bar>i\<bar> < 2 ^ 63" "ends_number gu_ascii_isdigit rest" "cf_islong f"
  shows "conv_d f (print_d i @ rest) = Inr (Some (rest, store f (SInt i), 1))"
proof -
  have "hd (print_nat 10 n @ rest) \<noteq> CHR ''-''" for n using hd_print_nat_digit [of n] by (auto simp: hd_append)
  then show ?thesis
    using assms by (auto simp: conv_d_def print_d_def Let_def takeWhile_ends [OF all_digits] scan_number_print simp del: takeWhile_append)
qed

lemma print_d_nonneg: "0 \<le> i \<Longrightarrow> print_d i = print_nat 10 (nat i)"
  by (simp add: print_d_def)

lemma take_digits: "takeWhile gu_ascii_isdigit (print_nat 10 n) = print_nat 10 n"
  using all_digits by (simp only: takeWhile_eq_all_conv)

lemma conv_u_print [scan_simps]:
  assumes "0 \<le> i" "i < 2 ^ 32"
  shows "conv_u f (print_d i) = (if cf_islong f then Inl (GuThrow ''gu_sscanf(): %lu not implemented'')
     else Inr (Some ([], store f (SInt (i mod (if cf_isshort f then 2 ^ 16 else 2 ^ 32))), 1)))"
  using assms by (simp add: conv_u_def Let_def print_d_nonneg scan_number_print take_digits)

lemma conv_U_print [scan_simps]:
  "0 \<le> i \<Longrightarrow> i < 2 ^ 63 \<Longrightarrow> conv_U (print_d i) = Inr (Some ([], [SInt i], 1))"
  by (simp add: conv_U_def Let_def print_d_nonneg scan_number_print take_digits)

lemma conv_T_all [scan_simps]:
  assumes "CHR 0x0A \<notin> set s"
  shows "conv_T s = Inr (Some ([], [SStr s], 1))"
proof -
  have "strcspn s [CHR 0x0A] = length s"
    unfolding strcspn_def using assms by (intro arg_cong [of _ _ length]) (auto simp: takeWhile_eq_all_conv)
  then show ?thesis by (simp add: conv_T_def)
qed

lemma word_cspn:
  assumes "is_word s" "ends_number (\<lambda>c. \<not> gu_ascii_isspace c) t" "t = [] \<or> hd t \<in> {CHR '' '', CHR 0x09, CHR 0x0A}"
  shows "strcspn (s @ t) [CHR '' '', CHR 0x09, CHR 0x0A] = length s"
proof -
  have "takeWhile (\<lambda>c. c \<notin> set [CHR '' '', CHR 0x09, CHR 0x0A]) (s @ t) = s"
    using assms by (intro takeWhile_ends) (auto simp: is_word_def gu_ascii_isspace_def ends_number_def)
  then show ?thesis by (simp add: strcspn_def)
qed

lemma conv_S_word [scan_simps]:
  "is_word s \<Longrightarrow> conv_S s = Inr (Some ([], [SStr s], 1))"
  "is_word s \<Longrightarrow> conv_S (s @ CHR '' '' # t) = Inr (Some (CHR '' '' # t, [SStr s], 1))"
  using word_cspn [of s "[]"] word_cspn [of s "CHR '' '' # t"]
  by (simp_all add: conv_S_def Let_def ends_number_def gu_ascii_isspace_def)

lemma conv_W_word [scan_simps]: "is_word s \<Longrightarrow> unquoted s \<Longrightarrow> conv_W s = Inr (Some ([], [SStr s], 1))"
  using word_cspn [of s "[]"] by (simp add: conv_W_def conv_quoted_def unquoted_def Let_def ends_number_def skip_quote_def)

lemma conv_A_text [scan_simps]: "unquoted s \<Longrightarrow> rstrip s = s \<Longrightarrow> conv_A s = Inr (Some ([], [SStr s], 1))"
proof -
  assume s: "unquoted s" "rstrip s = s"
  then have "length (dropWhile gu_ascii_isspace (rev s)) = length s" by (metis length_rev rstrip_def)
  then show ?thesis using s(1) by (simp add: conv_A_def conv_quoted_def unquoted_def Let_def skip_quote_def)
qed

lemma digit_chars: "\<forall>d \<in> set ds. d < 10 \<Longrightarrow> \<forall>c \<in> set (map digit_char ds). gu_ascii_isdigit c"
  using digit_char_class by auto

lemma frac_digits_digits: "\<forall>c \<in> set (frac_digits n). gu_ascii_isdigit c"
  unfolding frac_digits_def by (intro digit_chars) (auto dest: set_dropWhileD)

lemma conv_f_print [scan_simps]:
  assumes "0 \<le> w" "w < 2 ^ 31" "\<forall>c \<in> set ds. gu_ascii_isdigit c"
  shows "conv_f f (print_nat 10 (nat w) @ (if ds = [] then [] else CHR ''.'' # ds) @ CHR '' '' # t)
      = Inr (Some (CHR '' '' # t, store f (SFloat False w ds), 1))"
proof -
  let ?r = "(if ds = [] then [] else CHR ''.'' # ds) @ CHR '' '' # t"
  have e: "ends_number gu_ascii_isdigit ?r" "ends_number gu_ascii_isdigit (CHR '' '' # t)" by (simp_all add: ends_number_def gu_ascii_isdigit_def)
  have h: "hd (print_nat 10 (nat w) @ ?r) \<noteq> CHR ''-''" using hd_print_nat_digit [of "nat w"] by (auto simp: hd_append)
  show ?thesis
    using assms h takeWhile_ends [OF all_digits e(1), of "nat w"] takeWhile_ends [OF assms(3) e(2)]
    by (auto simp: conv_f_def Let_def scan_number_print)
qed

subsection \<open>Lines\<close>

lemma lmatch_simps [simp]: "lmatch a []" "lmatch (c # a) (d # b) \<longleftrightarrow> c = d \<and> lmatch a b" "lmatch (n @ t) n" "lmatch [] (d # b) \<longleftrightarrow> False"
  by (auto simp: lmatch_def)

lemma rstrip_Nil [simp]: "rstrip [] = []" by (simp add: rstrip_def)

lemma rstrip_append: "rstrip (a @ b) = (if rstrip b = [] then rstrip a else a @ rstrip b)"
  by (auto simp: rstrip_def dropWhile_append)

lemma rstrip_Cons: "rstrip (c # b) = (if rstrip b = [] then rstrip [c] else c # rstrip b)"
  using rstrip_append [of "[c]" b] by simp

lemma rstrip_last: "s \<noteq> [] \<Longrightarrow> \<not> gu_ascii_isspace (last s) \<Longrightarrow> rstrip s = s"
  by (cases s rule: rev_cases) (auto simp: rstrip_def)

lemma rstrip_print_d [simp]: "rstrip (print_d i) = print_d i"
  using last_print_d digit_is_xdigit digit_not_space by (intro rstrip_last) auto

lemma rstrip_join_d [simp]: "rstrip (join_d ns) = join_d ns"
  by (induction ns rule: join_d.induct) (simp_all add: rstrip_append rstrip_Cons)

lemma rstrip_word [simp]: "is_word s \<Longrightarrow> rstrip s = s"
  by (intro rstrip_last) (auto simp: is_word_def)

lemma rstrip_subset: "set (rstrip s) \<subseteq> set s"
  by (auto simp: rstrip_def dest: set_dropWhileD)

lemma rstrip_idem [simp]: "rstrip (rstrip s) = rstrip s"
  by (simp add: rstrip_def dropWhile_idem)

lemma hd_rstrip: "rstrip s \<noteq> [] \<Longrightarrow> hd (rstrip s) = hd s"
proof -
  assume a: "rstrip s \<noteq> []"
  have "s = rstrip s @ rev (takeWhile gu_ascii_isspace (rev s))"
    unfolding rstrip_def by (metis rev_append rev_rev_ident takeWhile_dropWhile_id)
  with a show ?thesis by (metis hd_append2)
qed

lemma scan_texts:
  "s \<noteq> [] \<Longrightarrow> CHR 0x0A \<notin> set s \<Longrightarrow> gu_sscanf s ''%T'' [] = Inr (1, [SStr s])"
  "is_word s \<Longrightarrow> gu_sscanf s ''%S'' [] = Inr (1, [SStr s])"
  "is_word s \<Longrightarrow> unquoted s \<Longrightarrow> gu_sscanf s ''%W'' [] = Inr (1, [SStr s])"
  "unquoted s \<Longrightarrow> rstrip s = s \<Longrightarrow> gu_sscanf s ''%A'' [] = Inr (1, [SStr s])"
  by (simp_all add: gu_sscanf_def scan_simps is_word_def) (simp_all add: unquoted_def)

lemma scan_textline: "textline v \<Longrightarrow> gu_sscanf (rstrip v) ''%T'' [] = Inr (1, [SStr (rstrip v)])"
  using scan_texts(1) [of "rstrip v"] rstrip_subset [of v] by (auto simp: textline_def)

lemma match_names:
  assumes "(name, fmt, bad, setters) \<in> set match_lines"
  shows "name \<noteq> []" "hd name \<notin> {CHR ''A'', CHR ''E'', CHR ''P'', CHR ''S''}"
  using assms by (auto simp: match_lines_def)

lemma try_matches_line:
  assumes "(name, fmt, bad, setters) \<in> set match_lines"
  shows "try_matches match_lines (name @ v) (q, found, rc)
    = bindE (scan_into fmt setters v q) (\<lambda>(n, q). Inr (q, found @ [name], if bad n then -1 else rc))"
  using assms unfolding match_lines_def by (elim set_ConsD [elim_format] disjE) simp_all

lemma load_match:
  assumes "(name, fmt, bad, setters) \<in> set match_lines" "gu_sscanf t fmt [] = Inr (n, vs)" "\<not> bad n" "rstrip (name @ v) = name @ t"
  shows "load_loop fl (rstrip (name @ v) # ls) (q, found, rc) = load_loop fl ls (store_all setters vs q, found @ [name], rc)"
proof -
  obtain c cs where c: "name = c # cs" "c \<notin> {CHR ''A'', CHR ''E'', CHR ''P'', CHR ''S''}"
    using match_names [OF assms(1)] by (cases name) auto
  have "load_line fl (name @ t) (q, found, rc) = Inr (False, store_all setters vs q, found @ [name], rc)"
    using c assms(2,3) try_matches_line [OF assms(1), of t q found rc] by (simp add: load_line_def scan_into_def)
  then show ?thesis using c assms(4) by simp
qed

lemma store_one [simp]: "store_all [f] [v] q = f v q"
  by (simp add: store_all_def)

lemma str_field_SStr [simp]: "str_field f (SStr s) q = f (Some s) q"
  by (simp add: str_field_def)

lemma load_text:
  assumes "(name, fmt, bad, [str_field f]) \<in> set match_lines" "\<not> bad 1" "rstrip v \<noteq> []" "gu_sscanf (rstrip v) fmt [] = Inr (1, [SStr (rstrip v)])"
  shows "load_loop fl (rstrip (name @ v) # ls) (q, found, rc) = load_loop fl ls (f (Some (rstrip v)) q, found @ [name], rc)"
  using load_match [OF assms(1,4,2), of v] assms(3) by (simp add: rstrip_append)

lemma load_opt:
  assumes "(name, fmt, bad, [str_field f]) \<in> set match_lines" "\<not> bad 1" "f None q = q"
    and "\<And>v. x = Some v \<Longrightarrow> rstrip v \<noteq> [] \<and> gu_sscanf (rstrip v) fmt [] = Inr (1, [SStr (rstrip v)])"
  shows "load_loop fl (map rstrip (opt_line name x) @ ls) (q, found, rc)
    = load_loop fl ls (f (map_option rstrip x) q, found @ (if x = None then [] else [name]), rc)"
  using assms load_text [OF assms(1,2)] by (cases x) (auto simp: opt_line_def)

lemma scan_unquoted: "textline v \<and> unquoted v \<Longrightarrow> gu_sscanf (rstrip v) ''%A'' [] = Inr (1, [SStr (rstrip v)])"
  using scan_texts(4) [of "rstrip v"] hd_rstrip [of v] by (auto simp: textline_def unquoted_def)

lemma load_Title [load_lines]:
  assumes "j_Title q = None" "\<And>v. x = Some v \<Longrightarrow> textline v"
  shows "load_loop fl (map rstrip (opt_line ''Title: '' x) @ ls) (q, found, rc)
    = load_loop fl ls (q\<lparr>j_Title := map_option rstrip x\<rparr>, found @ (if x = None then [] else [''Title: '']), rc)"
  using assms scan_textline
  by (intro load_opt [where name = "''Title: ''" and fmt = "''%T''" and f = "\<lambda>s q. q\<lparr>j_Title := s\<rparr>" and bad = "\<lambda>n. n \<noteq> 1"])
    (auto simp: match_lines_def textline_def is_word_def rstrip_word [unfolded is_word_def] intro: QEntryFile.equality)

lemma load_draft_notice [load_lines]:
  assumes "j_draft_notice q = None" "\<And>v. x = Some v \<Longrightarrow> textline v"
  shows "load_loop fl (map rstrip (opt_line ''DraftNotice: '' x) @ ls) (q, found, rc)
    = load_loop fl ls (q\<lparr>j_draft_notice := map_option rstrip x\<rparr>, found @ (if x = None then [] else [''DraftNotice: '']), rc)"
  using assms scan_textline
  by (intro load_opt [where name = "''DraftNotice: ''" and fmt = "''%T''" and f = "\<lambda>s q. q\<lparr>j_draft_notice := s\<rparr>" and bad = "\<lambda>n. n \<noteq> 1"])
    (auto simp: match_lines_def textline_def is_word_def rstrip_word [unfolded is_word_def] intro: QEntryFile.equality)

lemma load_Creator [load_lines]:
  assumes "j_Creator q = None" "\<And>v. x = Some v \<Longrightarrow> textline v"
  shows "load_loop fl (map rstrip (opt_line ''Creator: '' x) @ ls) (q, found, rc)
    = load_loop fl ls (q\<lparr>j_Creator := map_option rstrip x\<rparr>, found @ (if x = None then [] else [''Creator: '']), rc)"
  using assms scan_textline
  by (intro load_opt [where name = "''Creator: ''" and fmt = "''%T''" and f = "\<lambda>s q. q\<lparr>j_Creator := s\<rparr>" and bad = "\<lambda>n. n \<noteq> 1"])
    (auto simp: match_lines_def textline_def is_word_def rstrip_word [unfolded is_word_def] intro: QEntryFile.equality)

lemma load_Routing [load_lines]:
  assumes "j_Routing q = None" "\<And>v. x = Some v \<Longrightarrow> textline v"
  shows "load_loop fl (map rstrip (opt_line ''Routing: '' x) @ ls) (q, found, rc)
    = load_loop fl ls (q\<lparr>j_Routing := map_option rstrip x\<rparr>, found @ (if x = None then [] else [''Routing: '']), rc)"
  using assms scan_textline
  by (intro load_opt [where name = "''Routing: ''" and fmt = "''%T''" and f = "\<lambda>s q. q\<lparr>j_Routing := s\<rparr>" and bad = "\<lambda>n. n \<noteq> 1"])
    (auto simp: match_lines_def textline_def is_word_def rstrip_word [unfolded is_word_def] intro: QEntryFile.equality)

lemma load_Filters [load_lines]:
  assumes "j_Filters q = None" "\<And>v. x = Some v \<Longrightarrow> textline v"
  shows "load_loop fl (map rstrip (opt_line ''Filters: '' x) @ ls) (q, found, rc)
    = load_loop fl ls (q\<lparr>j_Filters := map_option rstrip x\<rparr>, found @ (if x = None then [] else [''Filters: '']), rc)"
  using assms scan_textline
  by (intro load_opt [where name = "''Filters: ''" and fmt = "''%T''" and f = "\<lambda>s q. q\<lparr>j_Filters := s\<rparr>" and bad = "\<lambda>n. n \<noteq> 1"])
    (auto simp: match_lines_def textline_def is_word_def rstrip_word [unfolded is_word_def] intro: QEntryFile.equality)

lemma load_question [load_lines]:
  assumes "j_question q = None" "\<And>v. x = Some v \<Longrightarrow> textline v"
  shows "load_loop fl (map rstrip (opt_line ''Question: '' x) @ ls) (q, found, rc)
    = load_loop fl ls (q\<lparr>j_question := map_option rstrip x\<rparr>, found @ (if x = None then [] else [''Question: '']), rc)"
  using assms scan_textline
  by (intro load_opt [where name = "''Question: ''" and fmt = "''%T''" and f = "\<lambda>s q. q\<lparr>j_question := s\<rparr>" and bad = "\<lambda>n. n \<noteq> 1"])
    (auto simp: match_lines_def textline_def is_word_def rstrip_word [unfolded is_word_def] intro: QEntryFile.equality)

lemma lines_append: "((x :: string) # xs) @ ys = x # (xs @ ys)" "([] :: string list) @ ys = ys"
  by simp_all

lemma load_ripopts_text:
  assumes "textline v"
  shows "load_loop fl (rstrip (''RIPopts: '' @ v) # ls) (q, found, rc) = load_loop fl ls (q\<lparr>j_ripopts := Some (rstrip v)\<rparr>, found @ [''RIPopts: ''], rc)"
  using load_text [of "''RIPopts: ''" "''%T''" "\<lambda>n. n \<noteq> 1" "\<lambda>s q. q\<lparr>j_ripopts := s\<rparr>" v] assms scan_textline [OF assms]
  by (simp add: match_lines_def textline_def)

lemma load_ripopts [load_lines]:
  assumes "j_ripopts q = None" "\<And>v. x = Some v \<Longrightarrow> CHR 0x0A \<notin> set v"
  shows "load_loop fl (map rstrip (opt_line ''RIPopts: '' x) @ ls) (q, found, rc)
    = load_loop fl ls (q\<lparr>j_ripopts := readable x\<rparr>, found @ (if readable x = None then [] else [''RIPopts: '']),
        if x \<noteq> None \<and> readable x = None then -1 else rc)"
proof -
  have q: "q\<lparr>j_ripopts := None\<rparr> = q" using assms(1) by (intro QEntryFile.equality) simp_all
  have e: "load_loop fl (''RIPopts:'' # ls) (q, found, rc) = load_loop fl ls (q, found, -1)"
    by (simp add: load_line_def match_lines_def unrecognized_def)
  have "rstrip (''RIPopts: '' @ v) = ''RIPopts:''" if "rstrip v = []" for v
    using rstrip_append [of "''RIPopts: ''" v] that by (simp only: if_True) code_simp
  note b = this
  show ?thesis
  proof (cases x)
    case None
    show ?thesis by (simp add: None q opt_line_def readable_def)
  next
    case (Some v)
    then have "rstrip v \<noteq> [] \<Longrightarrow> textline v" using assms(2) by (simp add: textline_def)
    then show ?thesis using b [of v] e load_ripopts_text [of v]
      by (cases "rstrip v = []") (simp_all add: Some q opt_line_def readable_def lines_append del: load_loop.simps append_Cons)
  qed
qed

lemma scan_first_word:
  assumes "unquoted s" "\<not> gu_ascii_isspace (hd s)"
  shows "gu_sscanf s ''%W'' [] = Inr (1, [SStr (first_word s)])"
proof -
  have "strcspn s [CHR '' '', CHR 0x09, CHR 0x0A] = length (first_word s)" by (simp add: strcspn_def first_word_def)
  moreover have "take (length (first_word s)) s = first_word s" unfolding first_word_def by (metis append_eq_conv_conj takeWhile_dropWhile_id)
  ultimately have "\<exists>r. conv_W s = Inr (Some (r, [SStr (first_word s)], 1))"
    using assms(1) by (simp add: conv_W_def conv_quoted_def unquoted_def Let_def)
  moreover have "s \<noteq> []" using assms(1) by (simp add: unquoted_def)
  ultimately show ?thesis by (auto simp: gu_sscanf_def scan_simps)
qed

lemma load_charge_to [load_lines]:
  assumes "j_charge_to q = None" "\<And>v. x = Some v \<Longrightarrow> textline v \<and> unquoted v \<and> \<not> gu_ascii_isspace (hd v)"
  shows "load_loop fl (map rstrip (opt_line ''Charge-To: '' x) @ ls) (q, found, rc)
    = load_loop fl ls (q\<lparr>j_charge_to := map_option (first_word \<circ> rstrip) x\<rparr>, found @ (if x = None then [] else [''Charge-To: '']), rc)"
proof (cases x)
  case None
  have "q\<lparr>j_charge_to := None\<rparr> = q" using assms(1) by (intro QEntryFile.equality) simp_all
  then show ?thesis using None by (simp add: opt_line_def)
next
  case (Some v)
  then have v: "rstrip v \<noteq> []" "unquoted v" "\<not> gu_ascii_isspace (hd v)" using assms(2) by (simp_all add: textline_def)
  then have "gu_sscanf (rstrip v) ''%W'' [] = Inr (1, [SStr (first_word (rstrip v))])"
    using hd_rstrip [of v] by (intro scan_first_word) (simp_all add: unquoted_def)
  moreover have "rstrip (''Charge-To: '' @ v) = ''Charge-To: '' @ rstrip v" using rstrip_append [of "''Charge-To: ''" v] v(1) by simp
  moreover have "(''Charge-To: '', ''%W'', \<lambda>n. n \<noteq> 1, [str_field (\<lambda>s q. q\<lparr>j_charge_to := s\<rparr>)]) \<in> set match_lines" by (simp add: match_lines_def)
  ultimately have "load_loop fl (rstrip (''Charge-To: '' @ v) # ls) (q, found, rc)
      = load_loop fl ls (q\<lparr>j_charge_to := Some (first_word (rstrip v))\<rparr>, found @ [''Charge-To: ''], rc)"
    using load_match [of "''Charge-To: ''" "''%W''" "\<lambda>n. n \<noteq> 1" "[str_field (\<lambda>s q. q\<lparr>j_charge_to := s\<rparr>)]"] by (simp del: load_loop.simps append_Cons)
  then show ?thesis using Some by (simp add: opt_line_def del: load_loop.simps)
qed

lemma load_lc_messages [load_lines]:
  assumes "j_lc_messages q = None" "\<And>v. x = Some v \<Longrightarrow> is_word v"
  shows "load_loop fl (map rstrip (opt_line ''LC_MESSAGES: '' x) @ ls) (q, found, rc)
    = load_loop fl ls (q\<lparr>j_lc_messages := map_option rstrip x\<rparr>, found @ (if x = None then [] else [''LC_MESSAGES: '']), rc)"
  using assms scan_texts(2)
  by (intro load_opt [where name = "''LC_MESSAGES: ''" and fmt = "''%S''" and f = "\<lambda>s q. q\<lparr>j_lc_messages := s\<rparr>" and bad = "\<lambda>n. n \<noteq> 1"])
    (auto simp: match_lines_def textline_def is_word_def rstrip_word [unfolded is_word_def] intro: QEntryFile.equality)

lemma load_lpqFileName [load_lines]:
  assumes "j_lpqFileName q = None" "\<And>v. x = Some v \<Longrightarrow> textline v \<and> unquoted v"
  shows "load_loop fl (map rstrip (opt_line ''lpqFileName: '' x) @ ls) (q, found, rc)
    = load_loop fl ls (q\<lparr>j_lpqFileName := map_option rstrip x\<rparr>, found @ (if x = None then [] else [''lpqFileName: '']), rc)"
  using assms scan_unquoted
  by (intro load_opt [where name = "''lpqFileName: ''" and fmt = "''%A''" and f = "\<lambda>s q. q\<lparr>j_lpqFileName := s\<rparr>" and bad = "\<lambda>n. n \<noteq> 1"])
    (auto simp: match_lines_def textline_def is_word_def rstrip_word [unfolded is_word_def] intro: QEntryFile.equality)

subsection \<open>Numbers and words\<close>

lemma scan_ints:
  assumes "\<forall>v \<in> set vs. \<bar>v\<bar> < 2 ^ 31" "d_format (length vs) = fmt" "n = int (length vs)"
  shows "gu_sscanf (join_d vs) fmt [] = Inr (n, map SInt vs)"
  using scan_join_d [OF assms(1), of "[]" "length fmt" "join_d vs" "[]" 0 "[]"] assms(2,3) by (simp add: gu_sscanf_def ends_number_def)

lemma int_field_SInt [simp]: "int_field f (SInt n) q = f n q"
  by (simp add: int_field_def)

lemmas on_fields = on_state_def on_attr_def on_opts_def on_N_Up_def on_responder_def store_all_def

lemma load_ints:
  assumes "(name, fmt, bad, setters) \<in> set match_lines" "d_format (length vs) = fmt" "\<not> bad (int (length vs))" "\<forall>v \<in> set vs. \<bar>v\<bar> < 2 ^ 31" "vs \<noteq> []"
  shows "load_loop fl (rstrip (name @ join_d vs) # ls) (q, found, rc) = load_loop fl ls (store_all setters (map SInt vs) q, found @ [name], rc)"
  using load_match [OF assms(1) scan_ints [OF assms(4,2) refl] assms(3), of "join_d vs"] assms(5) by (simp add: rstrip_append)

lemma full_updates [simp]:
  fixes n n' :: qf_N_Up and p p' :: qf_opts and st st' :: JOB_SPOOL_STATE
  shows "n'\<lparr>nu_N := nu_N n, nu_borders := nu_borders n, nu_sigsheets := nu_sigsheets n, nu_sigpart := nu_sigpart n, nu_job_does_n_up := nu_job_does_n_up n\<rparr> = n"
  "p'\<lparr>op_binselect := op_binselect p, op_copies := op_copies p, op_collate := op_collate p, op_keep_badfeatures := op_keep_badfeatures p, op_hacks := op_hacks p\<rparr> = p"
  "st'\<lparr>jss_priority := jss_priority st, jss_sequence_number := jss_sequence_number st, jss_status := jss_status st, jss_flags := jss_flags st\<rparr> = st"
  by (rule qf_N_Up.equality qf_opts.equality JOB_SPOOL_STATE.equality; simp)+

lemma load_Banners [load_lines]:
  assumes "\<bar>a\<bar> < 2 ^ 31" "\<bar>b\<bar> < 2 ^ 31"
  shows "load_loop fl (rstrip (''Banners: '' @ join_d [a, b]) # ls) (q, found, rc)
    = load_loop fl ls (q\<lparr>j_do_banner := a, j_do_trailer := b\<rparr>, found @ [''Banners: ''], rc)"
  by (subst load_ints [of _ "''%d %d''"]) (use assms in \<open>auto simp: match_lines_def store_all_def numeral_2_eq_2\<close>)

lemma load_Commentary [load_lines]:
  assumes "\<bar>a\<bar> < 2 ^ 31"
  shows "load_loop fl (rstrip (''Commentary: '' @ print_d a) # ls) (q, found, rc)
    = load_loop fl ls (q\<lparr>j_commentary := a\<rparr>, found @ [''Commentary: ''], rc)"
  using load_ints [of "''Commentary: ''" "''%d''" "\<lambda>n. n \<noteq> 1" "[int_field (\<lambda>n q. q\<lparr>j_commentary := n\<rparr>)]" "[a]"] assms
  by (simp add: match_lines_def)

lemma load_N_Up [load_lines]:
  assumes "\<forall>v \<in> {nu_N n, nu_borders n, nu_sigsheets n, nu_sigpart n, nu_job_does_n_up n}. \<bar>v\<bar> < 2 ^ 31"
  shows "load_loop fl (rstrip (''N-Up: '' @ join_d [nu_N n, nu_borders n, nu_sigsheets n, nu_sigpart n, nu_job_does_n_up n]) # ls) (q, found, rc)
    = load_loop fl ls (q\<lparr>j_N_Up := n\<rparr>, found @ [''N-Up: ''], rc)"
  by (subst load_ints [of _ "''%d %d %d %d %d''"]) (use assms in \<open>auto simp: match_lines_def on_fields numeral_eq_Suc\<close>)

lemma load_Time [load_lines]:
  assumes "0 \<le> t" "t < 2 ^ 63"
  shows "load_loop fl (rstrip (''Time: '' @ print_d t) # ls) (q, found, rc)
    = load_loop fl ls (q\<lparr>j_time := t\<rparr>, found @ [''Time: ''], rc)"
proof -
  have "gu_sscanf (print_d t) ''%U'' [] = Inr (1, [SInt t])" using assms by (simp add: gu_sscanf_def scan_simps)
  then show ?thesis
    by (subst load_match [of _ "''%U''"]) (auto simp: match_lines_def rstrip_append rstrip_Cons)
qed

lemma load_Opts [load_lines]:
  assumes "\<forall>v \<in> {op_binselect p, op_copies p, op_collate p, op_keep_badfeatures p}. \<bar>v\<bar> < 2 ^ 31" "0 \<le> op_hacks p" "op_hacks p < 2 ^ 32"
  shows "load_loop fl (rstrip (''Opts: '' @ join_d [op_binselect p, op_copies p, op_collate p, op_keep_badfeatures p, op_hacks p]) # ls) (q, found, rc)
    = load_loop fl ls (q\<lparr>j_opts := p\<rparr>, found @ [''Opts: ''], rc)"
proof -
  have "gu_sscanf (join_d [op_binselect p, op_copies p, op_collate p, op_keep_badfeatures p, op_hacks p]) ''%d %d %d %d %u'' []
      = Inr (5, map SInt [op_binselect p, op_copies p, op_collate p, op_keep_badfeatures p, op_hacks p])"
    using assms by (simp add: gu_sscanf_def scan_simps store_def)
  then show ?thesis
    by (subst load_match [of _ "''%d %d %d %d %u''"]) (auto simp: match_lines_def rstrip_append rstrip_Cons on_fields)
qed

lemma load_User [load_lines]:
  assumes "textline v"
  shows "load_loop fl (rstrip (''User: '' @ v) # ls) (q, found, rc) = load_loop fl ls (q\<lparr>j_user := Some (rstrip v)\<rparr>, found @ [''User: ''], rc)"
  using load_text [of "''User: ''" "''%T''" "\<lambda>n. n < 1" "\<lambda>s q. q\<lparr>j_user := s\<rparr>" v] assms scan_textline [OF assms]
  by (simp add: match_lines_def textline_def)

lemma load_For [load_lines]:
  assumes "textline v"
  shows "load_loop fl (rstrip (''For: '' @ v) # ls) (q, found, rc) = load_loop fl ls (q\<lparr>j_For := Some (rstrip v)\<rparr>, found @ [''For: ''], rc)"
  using load_text [of "''For: ''" "''%T''" "\<lambda>n. n \<noteq> 1" "\<lambda>s q. q\<lparr>j_For := s\<rparr>" v] assms scan_textline [OF assms]
  by (simp add: match_lines_def textline_def)

lemma load_MagicCookie [load_lines]:
  assumes "is_word v"
  shows "load_loop fl (rstrip (''MagicCookie: '' @ v) # ls) (q, found, rc)
    = load_loop fl ls (q\<lparr>j_magic_cookie := Some v\<rparr>, found @ [''MagicCookie: ''], rc)"
  using load_text [of "''MagicCookie: ''" "''%S''" "\<lambda>n. n \<noteq> 1" "\<lambda>s q. q\<lparr>j_magic_cookie := s\<rparr>" v] assms scan_texts(2) [OF assms]
  by (simp add: match_lines_def is_word_def)

lemma dropWhile_subset: "set (dropWhile P s) \<subseteq> set s"
  by (auto dest: set_dropWhileD)

lemma is_word_hd: "is_word b \<Longrightarrow> dropWhile gu_ascii_isspace (b @ t) = b @ t" "is_word b \<Longrightarrow> dropWhile gu_ascii_isspace b = b"
  by (cases b; simp add: is_word_def)+

lemma rstrip_trail: "rstrip v = [] \<Longrightarrow> rstrip (b @ CHR '' '' # v) = rstrip b"
  using rstrip_append [of b "CHR '' '' # v"] rstrip_Cons [of "CHR '' ''" v] by (simp add: rstrip_def scan_simps)

lemma is_word_not_Nil: "is_word b \<Longrightarrow> b \<noteq> []"
  by (simp add: is_word_def)

lemma scan_response:
  assumes "is_word a" "is_word b" "CHR 0x0A \<notin> set v"
  shows "gu_sscanf (rstrip (a @ CHR '' '' # b @ CHR '' '' # v)) ''%S %S %T'' []
    = Inr (let t = dropWhile gu_ascii_isspace (rstrip v) in if t = [] then (2, [SStr a, SStr b]) else (3, [SStr a, SStr b, SStr t]))"
proof (cases "rstrip v = []")
  case True
  then have r: "rstrip ((a @ CHR '' '' # b) @ CHR '' '' # v) = rstrip (a @ CHR '' '' # b)" by (rule rstrip_trail)
  have "rstrip (a @ CHR '' '' # b) = a @ CHR '' '' # b"
    using assms(2) rstrip_append [of "a @ '' ''" b] is_word_not_Nil by simp
  then show ?thesis using True assms(1,2) is_word_not_Nil [OF assms(1)] is_word_not_Nil [OF assms(2)] r
    by (simp add: gu_sscanf_def scan_simps is_word_hd)
next
  case False
  then have r: "rstrip (a @ CHR '' '' # b @ CHR '' '' # v) = a @ CHR '' '' # b @ CHR '' '' # rstrip v"
    using rstrip_append [of "a @ '' '' @ b @ '' ''" v] by simp
  let ?t = "dropWhile gu_ascii_isspace (rstrip v)"
  have "CHR 0x0A \<notin> set ?t"
    using assms(3) dropWhile_subset [of gu_ascii_isspace "rstrip v"] rstrip_subset [of v] by blast
  then have "conv_T ?t = Inr (Some ([], [SStr ?t], 1))" by (rule conv_T_all)
  then show ?thesis unfolding r using assms(1,2) is_word_not_Nil [OF assms(1)] is_word_not_Nil [OF assms(2)]
    by (simp add: gu_sscanf_def scan_simps is_word_hd Let_def del: dropWhile_eq_Nil_conv)
qed

lemma load_Response [load_lines]:
  assumes "is_word a" "is_word b" "CHR 0x0A \<notin> set v" "rs_options (j_responder q) = None"
  shows "load_loop fl (rstrip (''Response: '' @ a @ '' '' @ b @ '' '' @ v) # ls) (q, found, rc)
    = load_loop fl ls (q\<lparr>j_responder := \<lparr>rs_name = Some a, rs_address = Some b,
        rs_options = (let t = dropWhile gu_ascii_isspace (rstrip v) in if t = [] then None else Some t)\<rparr>\<rparr>, found @ [''Response: ''], rc)"
proof -
  let ?v = "a @ CHR '' '' # b @ CHR '' '' # v" and ?t = "dropWhile gu_ascii_isspace (rstrip v)"
  let ?set = "[on_responder (\<lambda>s r. r\<lparr>rs_name := s\<rparr>), on_responder (\<lambda>s r. r\<lparr>rs_address := s\<rparr>), on_responder (\<lambda>s r. r\<lparr>rs_options := s\<rparr>)]"
  let ?vs = "if ?t = [] then [SStr a, SStr b] else [SStr a, SStr b, SStr ?t]" and ?n = "if ?t = [] then 2 else (3 :: int)"
  have m: "(''Response: '', ''%S %S %T'', \<lambda>n. n < 2, ?set) \<in> set match_lines" by (simp add: match_lines_def)
  have g: "gu_sscanf (rstrip ?v) ''%S %S %T'' [] = Inr (?n, ?vs)"
    using scan_response [OF assms(1-3)] unfolding Let_def by (simp only: if_distrib [of Inr] split: if_split) simp
  have b: "\<not> ?n < 2" by simp
  have "rstrip (b @ CHR '' '' # v) \<noteq> []"
    using rstrip_trail [of v b] rstrip_append [of "b @ '' ''" v] rstrip_word [OF assms(2)] is_word_not_Nil [OF assms(2)] by (cases "rstrip v = []") simp_all
  then have "rstrip ?v \<noteq> []" using rstrip_append [of "a @ '' ''" "b @ CHR '' '' # v"] by simp
  then have r: "rstrip (''Response: '' @ ?v) = ''Response: '' @ rstrip ?v" using rstrip_append [of "''Response: ''" ?v] by simp
  have "store_all ?set ?vs q = q\<lparr>j_responder := \<lparr>rs_name = Some a, rs_address = Some b, rs_options = (if ?t = [] then None else Some ?t)\<rparr>\<rparr>"
    using assms(4) by (cases "j_responder q") (simp add: on_fields)
  then show ?thesis using load_match [OF m g b r, of fl ls q found rc] by (simp only: Let_def append_Cons append_Nil)
qed

lemma rstrip_pprd_save:
  "rstrip (pprd_save_line st) = ''PPRD: '' @ print_X 2 (jss_priority st) @ '' '' @ print_X 8 (jss_sequence_number st) @ '' '' @ print_X 2 (jss_status st * -1) @ '' '' @ print_X 4 (jss_flags st)"
    (is "_ = ?t")
proof -
  have "last ?t \<in> set (print_X 4 (jss_flags st))" by simp
  then have "\<not> gu_ascii_isspace (last ?t)" using print_X_digits digit_not_space by blast
  then show ?thesis using rstrip_blanks [of ?t 38] by (simp add: pprd_save_line_def)
qed

lemma scan_pprd_save:
  assumes "proper_spool_state st"
  shows "gu_sscanf (rstrip (pprd_save_line st)) ''PPRD: %hx %x %hx %hx'' []
    = Inr (4, map SInt [jss_priority st, jss_sequence_number st, - jss_status st, jss_flags st])"
proof -
  have "print_X w i = c # s \<Longrightarrow> False" if "c = CHR '' ''" for w i c s
    using that hd_print_X_not_space [of w i] by (simp add: scan_simps)
  then show ?thesis unfolding rstrip_pprd_save using assms by (simp add: gu_sscanf_def scan_simps store_def proper_spool_state_def)
qed

lemma load_PPRD [load_lines]:
  assumes "proper_spool_state st" "0 \<le> jss_priority (j_spool_state q)" "jss_priority (j_spool_state q) < 2 ^ 16"
  shows "load_loop fl (rstrip (pprd_save_line st) # ls) (q, found, rc) = load_loop fl ls (q\<lparr>j_spool_state := st\<rparr>, found, rc)"
proof -
  note g = scan_pprd_save [OF assms(1), unfolded rstrip_pprd_save]
  have i: "to_int16 (- jss_status st) = - jss_status st" "to_int16 (jss_status st) = jss_status st"
    using assms(1) by (simp_all add: to_int16_id proper_spool_state_def)
  have "load_line fl (rstrip (pprd_save_line st)) (q, found, rc) = Inr (False, q\<lparr>j_spool_state := st\<rparr>, found, rc)"
    unfolding rstrip_pprd_save using g i assms(2,3) by (simp add: load_line_def p_line_def scan_into_def spool_setters_def on_fields)
  then show ?thesis unfolding rstrip_pprd_save by simp
qed

lemma load_PPRVersion [load_lines]:
  "load_loop fl (rstrip (''PPRVersion: '' @ SHORT_VERSION) # ls) (q, found, rc) = load_loop fl ls (q\<lparr>j_PPRVersion := fl False 2 ''00''\<rparr>, found, rc)"
proof -
  let ?l = "''PPRVersion: 2.00a1''"
  have "gu_sscanf ?l ''PPRD: %hx %x %hx %hx'' [] = Inr (0, [])" "gu_sscanf ?l ''PPRVersion: %f'' [] = Inr (1, [SFloat False 2 ''00''])"
    "rstrip (''PPRVersion: '' @ SHORT_VERSION) = ?l" by code_simp+
  then show ?thesis by (simp add: load_line_def p_line_def scan_into_def store_all_def float_field_def)
qed

subsection \<open>Attributes\<close>

lemma conv_d_print_end [scan_simps]:
  "\<bar>i\<bar> < 2 ^ 31 \<Longrightarrow> \<not> cf_islong f \<Longrightarrow> conv_d f (print_d i) = Inr (Some ([], store f (SInt (if cf_isshort f then to_int16 i else i)), 1))"
  using conv_d_print [of i "[]" f] by (simp add: ends_number_def)

lemma try_attrs_line:
  assumes "(name, fmt, count, setters) \<in> set (attr_lines fl)" "gu_sscanf t fmt [] = Inr (count, vs)" "t \<noteq> []" "\<not> gu_ascii_isspace (hd t)"
  shows "try_attrs (attr_lines fl) (name @ CHR '' '' # t) (q, found, rc)
    = Inr (False, (if name = ''Attr-DSC:'' then clear_null_type else id) (store_all setters vs q), found, rc)"
proof -
  have "lmatchp (name @ CHR '' '' # t) name = Some t"
    using assms(3,4) by (cases t) (auto simp: lmatchp_def gu_ascii_isspace_def)
  then show ?thesis
    using assms(1,2) unfolding attr_lines_def by (elim set_ConsD [elim_format] disjE) (simp_all add: lmatchp_def scan_into_def)
qed

lemma load_attr:
  assumes "(name, fmt, count, setters) \<in> set (attr_lines fl)" "gu_sscanf t fmt [] = Inr (count, vs)" "t \<noteq> []" "\<not> gu_ascii_isspace (hd t)" "rstrip t = t"
  shows "load_loop fl (rstrip (name @ CHR '' '' # t) # ls) (q, found, rc)
    = load_loop fl ls ((if name = ''Attr-DSC:'' then clear_null_type else id) (store_all setters vs q), found, rc)"
proof -
  have n: "hd name = CHR ''A''" "name \<noteq> []" using assms(1) by (auto simp: attr_lines_def)
  have "rstrip (name @ CHR '' '' # t) = name @ CHR '' '' # t" using rstrip_append [of "name @ '' ''" t] assms(3,5) by simp
  moreover have "load_line fl (name @ CHR '' '' # t) (q, found, rc)
      = Inr (False, (if name = ''Attr-DSC:'' then clear_null_type else id) (store_all setters vs q), found, rc)"
    using try_attrs_line [OF assms(1-4)] n by (simp add: load_line_def)
  ultimately show ?thesis using n by (cases name) auto
qed

lemma hd_join_d: "vs \<noteq> [] \<Longrightarrow> \<not> gu_ascii_isspace (hd (join_d vs))"
  by (cases vs rule: join_d.cases) simp_all

lemma load_attr_ints:
  assumes "(name, fmt, count, setters) \<in> set (attr_lines fl)" "name \<noteq> ''Attr-DSC:''" "gu_sscanf (join_d vs) fmt [] = Inr (count, map SInt vs)" "vs \<noteq> []"
    and "line = name @ CHR '' '' # join_d vs" "q' = store_all setters (map SInt vs) q"
  shows "load_loop fl (rstrip line # ls) (q, found, rc) = load_loop fl ls (q', found, rc)"
  using load_attr [OF assms(1,3)] assms(2,4-) hd_join_d by simp

lemma scan_few:
  "\<bar>a\<bar> < 2 ^ 31 \<Longrightarrow> gu_sscanf (print_d a) ''%d'' [] = Inr (1, [SInt a])"
  "\<bar>a\<bar> < 2 ^ 31 \<Longrightarrow> \<bar>b\<bar> < 2 ^ 31 \<Longrightarrow> gu_sscanf (print_d a @ CHR '' '' # print_d b) ''%d %d'' [] = Inr (2, [SInt a, SInt b])"
  "\<bar>a\<bar> < 2 ^ 31 \<Longrightarrow> \<bar>b\<bar> < 2 ^ 31 \<Longrightarrow> \<bar>c\<bar> < 2 ^ 31 \<Longrightarrow>
   gu_sscanf (print_d a @ CHR '' '' # print_d b @ CHR '' '' # print_d c) ''%d %d %d'' [] = Inr (3, [SInt a, SInt b, SInt c])"
  by (simp_all add: gu_sscanf_def scan_simps store_def)

lemma scan_longs:
  "\<bar>a\<bar> < 2 ^ 63 \<Longrightarrow> \<bar>b\<bar> < 2 ^ 63 \<Longrightarrow> gu_sscanf (print_d a @ CHR '' '' # print_d b) ''%ld %ld'' [] = Inr (2, [SInt a, SInt b])"
  using conv_d_print_long [of b "[]"] by (simp add: gu_sscanf_def scan_simps store_def)

lemma load_Sections [load_lines]:
  assumes "\<bar>a\<bar> < 2 ^ 31" "\<bar>b\<bar> < 2 ^ 31" "\<bar>c\<bar> < 2 ^ 31"
  shows "load_loop fl (rstrip (''Attr-DSC-Sections: '' @ join_d [a, b, c]) # ls) (q, found, rc)
    = load_loop fl ls (q\<lparr>j_attr := (j_attr q)\<lparr>at_prolog := a, at_docsetup := b, at_script := c\<rparr>\<rparr>, found, rc)"
  by (rule load_attr_ints [where name = "''Attr-DSC-Sections:''" and fmt = "''%d %d %d''" and vs = "[a, b, c]" and count = 3
        and setters = "[on_attr (\<lambda>n a. a\<lparr>at_prolog := n\<rparr>), on_attr (\<lambda>n a. a\<lparr>at_docsetup := n\<rparr>), on_attr (\<lambda>n a. a\<lparr>at_script := n\<rparr>)]"])
    (use assms in \<open>simp_all add: attr_lines_def on_fields scan_few\<close>)

lemma load_LangLevel [load_lines]:
  assumes "\<bar>a\<bar> < 2 ^ 31" "\<bar>b\<bar> < 2 ^ 31"
  shows "load_loop fl (rstrip (''Attr-LangLevel: '' @ join_d [a, b]) # ls) (q, found, rc)
    = load_loop fl ls (q\<lparr>j_attr := (j_attr q)\<lparr>at_langlevel := a, at_extensions := b\<rparr>\<rparr>, found, rc)"
  by (rule load_attr_ints [where name = "''Attr-LangLevel:''" and fmt = "''%d %d''" and vs = "[a, b]" and count = 2
        and setters = "[on_attr (\<lambda>n a. a\<lparr>at_langlevel := n\<rparr>), on_attr (\<lambda>n a. a\<lparr>at_extensions := n\<rparr>)]"])
    (use assms in \<open>simp_all add: attr_lines_def on_fields scan_few\<close>)

lemma load_Pages [load_lines]:
  assumes "\<bar>a\<bar> < 2 ^ 31" "\<bar>b\<bar> < 2 ^ 31" "\<bar>c\<bar> < 2 ^ 31"
  shows "load_loop fl (rstrip (''Attr-Pages: '' @ join_d [a, b, c]) # ls) (q, found, rc)
    = load_loop fl ls (q\<lparr>j_attr := (j_attr q)\<lparr>at_pages := a, at_pageorder := b, at_pagefactor := c\<rparr>\<rparr>, found, rc)"
  by (rule load_attr_ints [where name = "''Attr-Pages:''" and fmt = "''%d %d %d''" and vs = "[a, b, c]" and count = 3
        and setters = "[on_attr (\<lambda>n a. a\<lparr>at_pages := n\<rparr>), on_attr (\<lambda>n a. a\<lparr>at_pageorder := n\<rparr>), on_attr (\<lambda>n a. a\<lparr>at_pagefactor := n\<rparr>)]"])
    (use assms in \<open>simp_all add: attr_lines_def on_fields scan_few\<close>)

lemma load_ByteCounts [load_lines]:
  assumes "\<bar>a\<bar> < 2 ^ 63" "\<bar>b\<bar> < 2 ^ 63"
  shows "load_loop fl (rstrip (''Attr-ByteCounts: '' @ join_d [a, b]) # ls) (q, found, rc)
    = load_loop fl ls (q\<lparr>j_attr := (j_attr q)\<lparr>at_input_bytes := a, at_postscript_bytes := b\<rparr>\<rparr>, found, rc)"
  by (rule load_attr_ints [where name = "''Attr-ByteCounts:''" and fmt = "''%ld %ld''" and vs = "[a, b]" and count = 2
        and setters = "[on_attr (\<lambda>n a. a\<lparr>at_input_bytes := n\<rparr>), on_attr (\<lambda>n a. a\<lparr>at_postscript_bytes := n\<rparr>)]"])
    (use assms in \<open>simp_all add: attr_lines_def on_fields scan_longs\<close>)

lemma load_Parts [load_lines]:
  assumes "\<bar>a\<bar> < 2 ^ 31"
  shows "load_loop fl (rstrip (''Attr-Parts: '' @ print_d a) # ls) (q, found, rc)
    = load_loop fl ls (q\<lparr>j_attr := (j_attr q)\<lparr>at_parts := a\<rparr>\<rparr>, found, rc)"
  by (rule load_attr_ints [where name = "''Attr-Parts:''" and fmt = "''%d''" and vs = "[a]" and count = 1
        and setters = "[on_attr (\<lambda>n a. a\<lparr>at_parts := n\<rparr>)]"])
    (use assms in \<open>simp_all add: attr_lines_def on_fields scan_few\<close>)

lemma load_DSC [load_lines]:
  assumes "gu_dtostr x = Inr lev" "0 \<le> x" "x < 10 ^ 9" "is_word type" "\<forall>v \<in> {a, b, c}. \<bar>v\<bar> < 2 ^ 31"
    "fl False \<lfloor>x\<rfloor> (frac_digits (fraction_of x)) = x"
  shows "load_loop fl (rstrip (''Attr-DSC: '' @ lev @ '' '' @ type @ '' '' @ join_d [a, b, c]) # ls) (q, found, rc)
    = load_loop fl ls (q\<lparr>j_attr := (j_attr q)\<lparr>at_DSClevel := x, at_DSC_job_type := (if type = ''NULL'' then None else Some type),
        at_orientation := a, at_proofmode := b, at_docdata := c\<rparr>\<rparr>, found, rc)"
proof -
  let ?ds = "frac_digits (fraction_of x)"
  have w: "0 \<le> \<lfloor>x\<rfloor>" "\<lfloor>x\<rfloor> < 10 ^ 9" using assms(2,3) by (simp_all add: floor_less_iff)
  have lev: "lev = print_nat 10 (nat \<lfloor>x\<rfloor>) @ (if ?ds = [] then [] else CHR ''.'' # ?ds)"
    using assms(1,2) w by (simp add: gu_dtostr_def Let_def)
  let ?set = "[float_field fl (\<lambda>x q. q\<lparr>j_attr := (j_attr q)\<lparr>at_DSClevel := x\<rparr>\<rparr>), str_field (\<lambda>s q. q\<lparr>j_attr := (j_attr q)\<lparr>at_DSC_job_type := s\<rparr>\<rparr>),
    on_attr (\<lambda>n a. a\<lparr>at_orientation := n\<rparr>), on_attr (\<lambda>n a. a\<lparr>at_proofmode := n\<rparr>), on_attr (\<lambda>n a. a\<lparr>at_docdata := n\<rparr>)]"
  let ?t = "lev @ CHR '' '' # type @ CHR '' '' # join_d [a, b, c]"
  have "conv_f f ?t = Inr (Some (CHR '' '' # type @ CHR '' '' # join_d [a, b, c], store f (SFloat False \<lfloor>x\<rfloor> ?ds), 1))" for f
    using conv_f_print [of "\<lfloor>x\<rfloor>" ?ds f "type @ CHR '' '' # join_d [a, b, c]"] w frac_digits_digits unfolding lev by simp
  moreover have ne: "?t \<noteq> []" by simp
  ultimately have g: "gu_sscanf ?t ''%f %S %d %d %d'' [] = Inr (5, [SFloat False \<lfloor>x\<rfloor> ?ds, SStr type, SInt a, SInt b, SInt c])"
    using assms(4,5) is_word_not_Nil [OF assms(4)] by (simp add: gu_sscanf_def scan_simps store_def is_word_hd)
  have "hd ?t = hd (print_nat 10 (nat \<lfloor>x\<rfloor>))" by (simp add: lev)
  then have h: "\<not> gu_ascii_isspace (hd ?t)" using hd_print_nat_digit digit_is_xdigit digit_not_space by metis
  have r: "rstrip ?t = ?t" using rstrip_append [of "lev @ CHR '' '' # type @ '' ''" "join_d [a, b, c]"] rstrip_join_d [of "[a, b, c]"] by simp
  have m: "(''Attr-DSC:'', ''%f %S %d %d %d'', 5, ?set) \<in> set (attr_lines fl)" by (simp add: attr_lines_def)
  have "clear_null_type (store_all ?set [SFloat False \<lfloor>x\<rfloor> ?ds, SStr type, SInt a, SInt b, SInt c] q)
      = q\<lparr>j_attr := (j_attr q)\<lparr>at_DSClevel := x, at_DSC_job_type := (if type = ''NULL'' then None else Some type),
        at_orientation := a, at_proofmode := b, at_docdata := c\<rparr>\<rparr>"
    using assms(6) by (simp add: on_fields float_field_def clear_null_type_def)
  then show ?thesis using load_attr [OF m g ne h r, of ls q found rc] by (simp del: load_loop.simps)
qed

lemma scan_no_match:
  "gu_sscanf (''PassThruPDL: '' @ v) ''PPRD: %hx %x %hx %hx'' [] = Inr (0, [])" "gu_sscanf (''PassThruPDL: '' @ v) ''PPRVersion: %f'' [] = Inr (0, [])"
  "gu_sscanf (''PageList: '' @ v) ''PPRD: %hx %x %hx %hx'' [] = Inr (0, [])" "gu_sscanf (''PageList: '' @ v) ''PPRVersion: %f'' [] = Inr (0, [])"
  by (simp_all add: gu_sscanf_def scan_simps gu_ascii_isspace_def)

lemma store_none [simp]: "store_all setters [] q = q"
  by (simp add: store_all_def)

lemma load_PassThruPDL [load_lines]:
  assumes "j_PassThruPDL q = None" "\<And>v. x = Some v \<Longrightarrow> textline v"
  shows "load_loop fl (map rstrip (opt_line ''PassThruPDL: '' x) @ ls) (q, found, rc)
    = load_loop fl ls (q\<lparr>j_PassThruPDL := map_option rstrip x\<rparr>, found @ (if x = None then [] else [''PassThruPDL: '']), rc)"
proof (cases x)
  case None
  have "q\<lparr>j_PassThruPDL := None\<rparr> = q" using assms(1) by (intro QEntryFile.equality) simp_all
  then show ?thesis using None by (simp add: opt_line_def)
next
  case (Some v)
  then have v: "textline v" using assms(2) by simp
  then have "rstrip (''PassThruPDL: '' @ v) = ''PassThruPDL: '' @ rstrip v" using rstrip_append [of "''PassThruPDL: ''" v] by (simp add: textline_def)
  moreover have "load_line fl (''PassThruPDL: '' @ rstrip v) (q, found, rc)
      = Inr (False, q\<lparr>j_PassThruPDL := Some (rstrip v)\<rparr>, found @ [''PassThruPDL: ''], rc)"
    using scan_no_match [of "rstrip v"] scan_textline [OF v] by (simp add: load_line_def p_line_def scan_into_def)
  ultimately show ?thesis using Some by (simp add: opt_line_def)
qed

lemma load_StripPrinter [load_lines]:
  assumes "\<bar>n\<bar> < 2 ^ 31"
  shows "load_loop fl (rstrip (''StripPrinter: '' @ print_d n) # ls) (q, found, rc)
    = load_loop fl ls (q\<lparr>j_StripPrinter := (if n \<noteq> 0 then 1 else 0)\<rparr>, found, rc)"
proof -
  have "gu_sscanf (''StripPrinter: '' @ print_d n) ''StripPrinter: %d'' [] = Inr (1, [SInt n])"
    using assms by (simp add: gu_sscanf_def scan_simps store_def gu_ascii_isspace_def)
  then have "load_line fl (''StripPrinter: '' @ print_d n) (q, found, rc) = Inr (False, q\<lparr>j_StripPrinter := (if n \<noteq> 0 then 1 else 0)\<rparr>, found, rc)"
    by (simp add: load_line_def strip_line_def scan_into_def)
  moreover have "rstrip (''StripPrinter: '' @ print_d n) = ''StripPrinter: '' @ print_d n" using rstrip_append [of "''StripPrinter: ''" "print_d n"] by simp
  ultimately show ?thesis by simp
qed

lemma load_PageList [load_lines]:
  assumes "j_page_mask q = None" "j_page_count q = -1" "\<And>m. x = Some m \<Longrightarrow> textline m \<and> \<not> gu_ascii_isspace (hd m) \<and> \<bar>n\<bar> < 2 ^ 31"
  shows "load_loop fl (map rstrip (case x of None \<Rightarrow> [] | Some m \<Rightarrow> [''PageList: '' @ print_d n @ '' '' @ m]) @ ls) (q, found, rc)
    = load_loop fl ls (q\<lparr>j_page_count := (if x = None then -1 else n), j_page_mask := map_option rstrip x\<rparr>, found, rc)"
proof (cases x)
  case None
  have "q\<lparr>j_page_count := -1, j_page_mask := None\<rparr> = q" using assms(1,2) by (intro QEntryFile.equality) simp_all
  then show ?thesis using None by simp
next
  case (Some m)
  then have m: "textline m" "\<not> gu_ascii_isspace (hd m)" "\<bar>n\<bar> < 2 ^ 31" using assms(3) by simp_all
  let ?l = "''PageList: '' @ print_d n @ '' '' @ rstrip m"
  have r: "rstrip m \<noteq> []" "CHR 0x0A \<notin> set (rstrip m)" "dropWhile gu_ascii_isspace (rstrip m) = rstrip m"
    using m(1,2) rstrip_subset [of m] hd_rstrip [of m] by (auto simp: textline_def dropWhile_eq_self_iff)
  then have "conv_T (rstrip m) = Inr (Some ([], [SStr (rstrip m)], 1))" by (intro conv_T_all)
  then have "gu_sscanf ?l ''PageList: %d %T'' [] = Inr (2, [SInt n, SStr (rstrip m)])"
    using m(3) r by (simp add: gu_sscanf_def scan_simps store_def gu_ascii_isspace_def del: dropWhile_eq_self_iff)
  then have "load_line fl ?l (q, found, rc) = Inr (False, q\<lparr>j_page_count := n, j_page_mask := Some (rstrip m)\<rparr>, found, rc)"
    using scan_no_match(3,4) [of "print_d n @ '' '' @ rstrip m"] by (simp add: load_line_def p_line_def scan_into_def store_all_def)
  moreover have "rstrip (''PageList: '' @ print_d n @ '' '' @ m) = ?l" using rstrip_append [of "''PageList: '' @ print_d n @ '' ''" m] r(1) by simp
  ultimately show ?thesis using Some by simp
qed

subsection \<open>The lines of a file\<close>

lemma split_lines_more: "length c \<le> n \<Longrightarrow> split_lines n c = split_lines (length c) c"
proof (induction n arbitrary: c rule: less_induct)
  case (less n)
  show ?case
  proof (cases c)
    case (Cons x xs)
    then obtain m where m: "n = Suc m" using less.prems by (cases n) auto
    let ?d = "drop (Suc (strcspn c [CHR 0x0A])) c"
    have d: "length ?d \<le> length xs" "length xs \<le> m" using less.prems Cons m by auto
    have "split_lines m ?d = split_lines (length ?d) ?d" "split_lines (length xs) ?d = split_lines (length ?d) ?d"
      using less.IH [of m ?d] less.IH [of "length xs" ?d] d m by auto
    then show ?thesis using Cons m by (simp add: Let_def)
  qed (cases n, simp_all)
qed

lemma file_lines_Cons:
  assumes "CHR 0x0A \<notin> set l"
  shows "file_lines (l @ CHR 0x0A # c) = rstrip l # file_lines c"
proof -
  have t: "takeWhile (\<lambda>c. c \<noteq> CHR 0x0A) (l @ CHR 0x0A # c) = l"
    using assms by (intro takeWhile_ends) (auto simp: ends_number_def)
  have "split_lines (length l + length c) c = split_lines (length c) c" by (rule split_lines_more) simp
  then show ?thesis by (simp add: file_lines_def strcspn_def Let_def t)
qed

lemma file_lines_concat:
  assumes "\<forall>l \<in> set ls. CHR 0x0A \<notin> set l"
  shows "file_lines (concat (map (\<lambda>l. l @ [CHR 0x0A]) ls) @ c) = map rstrip ls @ file_lines c"
  using assms by (induction ls) (simp_all add: file_lines_Cons)

lemma digits_no_newline [simp]: "CHR 0x0A \<notin> set (print_nat 10 n)" "CHR 0x0A \<notin> set (print_d i)" "CHR 0x0A \<notin> set (print_X w i)"
proof -
  show n: "CHR 0x0A \<notin> set (print_nat 10 n)" for n using all_digits [of n] by (auto simp: gu_ascii_isdigit_def)
  then show "CHR 0x0A \<notin> set (print_d i)" by (auto simp: print_d_def)
  show "CHR 0x0A \<notin> set (print_X w i)" using print_X_digits [of w i] by (auto simp: gu_ascii_isxdigit_def gu_ascii_isdigit_def)
qed

lemma join_d_no_newline [simp]: "CHR 0x0A \<notin> set (join_d vs)"
  by (induction vs rule: join_d.induct) simp_all

lemma word_no_newline: "is_word v \<Longrightarrow> CHR 0x0A \<notin> set v"
  by (auto simp: is_word_def gu_ascii_isspace_def)

lemma rstrip_blank: "rstrip v \<noteq> [] \<longleftrightarrow> (\<exists>c \<in> set v. \<not> gu_ascii_isspace c)"
  by (auto simp: rstrip_def)

lemma assert_ok: "assert_ok_value x nul False False name = Inr () \<longleftrightarrow> (case x of None \<Rightarrow> nul | Some v \<Rightarrow> textline v)"
  by (auto simp: assert_ok_value_def textline_def rstrip_blank split: option.split)

lemma bindE_unit: "bindE a (\<lambda>_. b) = Inr () \<longleftrightarrow> a = Inr () \<and> b = Inr ()" for a b :: "gu_err + unit"
  by (cases a) simp_all

lemma assert_ok_empty: "assert_ok_value x True True ws name = Inr () \<longleftrightarrow> opt_all (\<lambda>v. v = [] \<or> (if ws then CHR 0x0A \<notin> set v else textline v)) x"
  by (auto simp: assert_ok_value_def textline_def opt_all_def rstrip_blank split: option.split)

lemma check_values_texts:
  assumes "check_values q = Inr ()"
  shows "opt_all textline (j_For q)" "j_For q \<noteq> None" "opt_all textline (j_draft_notice q)" "opt_all textline (j_Creator q)" "opt_all textline (j_Routing q)"
    "opt_all textline (j_lpqFileName q)" "opt_all (\<lambda>v. v = [] \<or> textline v) (j_Title q)"
    "opt_all (\<lambda>v. v = [] \<or> CHR 0x0A \<notin> set v) (rs_options (j_responder q))"
    "opt_all textline (j_charge_to q)" "opt_all (\<lambda>v. v = [] \<or> CHR 0x0A \<notin> set v) (j_ripopts q)"
proof -
  note c = assms [unfolded check_values_def bindE_unit assert_ok assert_ok_empty if_True if_False]
  show "opt_all textline (j_For q)" "j_For q \<noteq> None" using c by (simp_all add: opt_all_def split: option.splits)
  show "opt_all textline (j_draft_notice q)" "opt_all textline (j_Creator q)" "opt_all textline (j_Routing q)" "opt_all textline (j_lpqFileName q)"
    "opt_all textline (j_charge_to q)" using c unfolding opt_all_def by blast+
  show "opt_all (\<lambda>v. v = [] \<or> textline v) (j_Title q)" "opt_all (\<lambda>v. v = [] \<or> CHR 0x0A \<notin> set v) (rs_options (j_responder q))"
    "opt_all (\<lambda>v. v = [] \<or> CHR 0x0A \<notin> set v) (j_ripopts q)" using c by blast+
qed

subsection \<open>Reading what was written\<close>

lemma opt_allD: "opt_all P x \<Longrightarrow> x = Some v \<Longrightarrow> P v"
  by (simp add: opt_all_def)

lemma word_line: "is_word v \<Longrightarrow> textline v"
  by (auto simp: textline_def is_word_not_Nil word_no_newline)

lemma rstrip_words: "opt_all P x \<Longrightarrow> (\<And>v. P v \<Longrightarrow> is_word v) \<Longrightarrow> map_option rstrip x = x"
  by (cases x) (simp_all add: opt_all_def)

lemma load_submitter:
  assumes q: "j_lc_messages q = None" "j_charge_to q = None" "j_Title q = None" "j_draft_notice q = None" "j_Creator q = None"
      "j_Routing q = None" "j_lpqFileName q = None" "rs_options (j_responder q) = None"
    and t: "textline user" "is_word cookie" "textline for" "is_word name" "is_word address" "CHR 0x0A \<notin> set opts"
    and o: "opt_all is_word lc" "opt_all (\<lambda>v. textline v \<and> unquoted v \<and> \<not> gu_ascii_isspace (hd v)) charge" "opt_all textline title" "opt_all textline draft"
      "opt_all textline creator" "opt_all textline routing" "opt_all (\<lambda>v. textline v \<and> unquoted v) lpq"
    and n: "0 \<le> time" "time < 2 ^ 63" "\<bar>banner\<bar> < 2 ^ 31" "\<bar>trailer\<bar> < 2 ^ 31" "\<bar>commentary\<bar> < 2 ^ 31"
  shows "\<exists>found. load_loop fl (map rstrip ([''User: '' @ user, ''PPRVersion: '' @ SHORT_VERSION] @ opt_line ''LC_MESSAGES: '' lc @
            [''Time: '' @ print_d time, ''MagicCookie: '' @ cookie, ''For: '' @ for] @ opt_line ''Charge-To: '' charge @
            opt_line ''Title: '' title @ opt_line ''DraftNotice: '' draft @ opt_line ''Creator: '' creator @
            opt_line ''Routing: '' routing @ opt_line ''lpqFileName: '' lpq @
            [''Banners: '' @ join_d [banner, trailer], ''Response: '' @ name @ '' '' @ address @ '' '' @ opts,
             ''Commentary: '' @ print_d commentary]) @ ls) (q, [], 0)
    = load_loop fl ls (q\<lparr>j_user := Some (rstrip user), j_PPRVersion := fl False 2 ''00'', j_lc_messages := lc, j_time := time,
        j_magic_cookie := Some cookie, j_For := Some (rstrip for), j_charge_to := map_option (first_word \<circ> rstrip) charge, j_Title := map_option rstrip title,
        j_draft_notice := map_option rstrip draft, j_Creator := map_option rstrip creator, j_Routing := map_option rstrip routing,
        j_lpqFileName := map_option rstrip lpq, j_do_banner := banner, j_do_trailer := trailer,
        j_responder := \<lparr>rs_name = Some name, rs_address = Some address, rs_options = stripped_options (Some opts)\<rparr>,
        j_commentary := commentary\<rparr>, found, 0)
    \<and> {''Time: '', ''User: '', ''For: '', ''Response: '', ''Banners: ''} \<subseteq> set found"
  using n o(2) [THEN opt_allD] o(3) [THEN opt_allD] o(4) [THEN opt_allD] o(5) [THEN opt_allD] o(6) [THEN opt_allD]
    o(7) [THEN opt_allD] o(1) [THEN opt_allD] rstrip_words [OF o(1)]
  by (intro exI conjI,
      simp add: load_lines lines_append q t stripped_options_def Let_def
      del: load_loop.simps append_Cons append_Nil join_d.simps dropWhile_eq_Nil_conv split del: if_split,
      simp)

lemma load_document:
  assumes q: "j_Filters q = None" "j_PassThruPDL q = None" "j_page_mask q = None" "j_page_count q = -1" "j_question q = None" "j_ripopts q = None"
    and d: "gu_dtostr (at_DSClevel a) = Inr lev" "0 \<le> at_DSClevel a" "at_DSClevel a < 10 ^ 9"
      "fl False \<lfloor>at_DSClevel a\<rfloor> (frac_digits (fraction_of (at_DSClevel a))) = at_DSClevel a"
    and o: "opt_all (\<lambda>v. is_word v \<and> v \<noteq> ''NULL'') (at_DSC_job_type a)" "opt_all textline filters" "opt_all textline pdl"
      "opt_all (\<lambda>m. textline m \<and> \<not> gu_ascii_isspace (hd m)) pmask" "opt_all textline question" "opt_all (\<lambda>v. CHR 0x0A \<notin> set v) ripopts"
    and n: "list_all fits_int [at_orientation a, at_proofmode a, at_docdata a, at_prolog a, at_docsetup a, at_script a, at_langlevel a,
        at_extensions a, at_pages a, at_pageorder a, at_pagefactor a, at_parts a, op_binselect p, op_copies p, op_collate p,
        op_keep_badfeatures p, nu_N n, nu_borders n, nu_sigsheets n, nu_sigpart n, nu_job_does_n_up n, strip, count]"
      "\<bar>at_input_bytes a\<bar> < 2 ^ 63" "\<bar>at_postscript_bytes a\<bar> < 2 ^ 63" "0 \<le> op_hacks p" "op_hacks p < 2 ^ 32"
  shows "\<exists>found'. load_loop fl (map rstrip ([''Attr-DSC: '' @ lev @ '' '' @ (case at_DSC_job_type a of None \<Rightarrow> ''NULL'' | Some v \<Rightarrow> v) @ '' '' @
                join_d [at_orientation a, at_proofmode a, at_docdata a],
              ''Attr-DSC-Sections: '' @ join_d [at_prolog a, at_docsetup a, at_script a],
              ''Attr-LangLevel: '' @ join_d [at_langlevel a, at_extensions a],
              ''Attr-Pages: '' @ join_d [at_pages a, at_pageorder a, at_pagefactor a],
              ''Attr-ByteCounts: '' @ join_d [at_input_bytes a, at_postscript_bytes a],
              ''Attr-Parts: '' @ print_d (at_parts a),
              ''Opts: '' @ join_d [op_binselect p, op_copies p, op_collate p, op_keep_badfeatures p, op_hacks p],
              ''N-Up: '' @ join_d [nu_N n, nu_borders n, nu_sigsheets n, nu_sigpart n, nu_job_does_n_up n]] @
             opt_line ''Filters: '' filters @ opt_line ''PassThruPDL: '' pdl @ [''StripPrinter: '' @ print_d strip] @
             (case pmask of None \<Rightarrow> [] | Some m \<Rightarrow> [''PageList: '' @ print_d count @ '' '' @ m]) @
             opt_line ''Question: '' question @ opt_line ''RIPopts: '' ripopts) @ ls) (q, found, 0)
    = load_loop fl ls (q\<lparr>j_attr := a, j_opts := p, j_N_Up := n, j_Filters := map_option rstrip filters, j_PassThruPDL := map_option rstrip pdl,
        j_StripPrinter := (if strip \<noteq> 0 then 1 else 0), j_page_count := (if pmask = None then -1 else count),
        j_page_mask := map_option rstrip pmask, j_question := map_option rstrip question, j_ripopts := readable ripopts\<rparr>, found', if ripopts \<noteq> None \<and> readable ripopts = None then -1 else 0)
    \<and> set found \<union> {''Opts: '', ''N-Up: ''} \<subseteq> set found'"
proof -
  let ?ty = "case at_DSC_job_type a of None \<Rightarrow> ''NULL'' | Some v \<Rightarrow> v"
  have ty: "is_word ?ty" "(if ?ty = ''NULL'' then None else Some ?ty) = at_DSC_job_type a"
    using o(1) by (auto simp: opt_all_def is_word_def gu_ascii_isspace_def split: option.splits)
  have a: "(j_attr q)\<lparr>at_DSClevel := at_DSClevel a, at_DSC_job_type := at_DSC_job_type a, at_orientation := at_orientation a,
      at_proofmode := at_proofmode a, at_docdata := at_docdata a, at_prolog := at_prolog a, at_docsetup := at_docsetup a,
      at_script := at_script a, at_langlevel := at_langlevel a, at_extensions := at_extensions a, at_pages := at_pages a,
      at_pageorder := at_pageorder a, at_pagefactor := at_pagefactor a, at_input_bytes := at_input_bytes a,
      at_postscript_bytes := at_postscript_bytes a, at_parts := at_parts a\<rparr> = a" by (rule qf_attr.equality) simp_all
  have k: "\<bar>count\<bar> < 2 ^ 31" "\<bar>strip\<bar> < 2 ^ 31" using n(1) by (simp_all add: fits_int_def)
  note dsc = load_DSC [where x = "at_DSClevel a" and type = ?ty and fl = fl, OF d(1-3) ty(1) _ d(4), unfolded ty(2)]
  show ?thesis
    using n k(2) d(2,3) o(2) [THEN opt_allD] o(3) [THEN opt_allD] o(5) [THEN opt_allD] o(6) [THEN opt_allD] o(4) [THEN opt_allD] k(1)
    by (intro exI conjI,
      simp add: dsc load_lines lines_append q a fits_int_def
      del: load_loop.simps append_Cons append_Nil join_d.simps split del: if_split,
      simp only: set_append list.set, blast)
qed

lemma clean_simps [simp]: "clean []" "clean (c # l) \<longleftrightarrow> c \<noteq> CHR 0x0A \<and> clean l" "clean (a @ b) \<longleftrightarrow> clean a \<and> clean b"
  "clean (print_nat 10 n)" "clean (print_d i)" "clean (print_X w i)" "clean (join_d vs)" "clean (replicate k CHR '' '')"
  by (auto simp: clean_def)

lemma clean_texts: "textline v \<Longrightarrow> clean v" "is_word v \<Longrightarrow> clean v"
  by (simp_all add: clean_def textline_def word_no_newline)

lemma clean_opt_line: "list_all clean (opt_line name x) \<longleftrightarrow> opt_all (\<lambda>v. clean name \<and> clean v) x"
  by (simp add: opt_line_def opt_all_def split: option.split)

lemma opt_all_mono: "opt_all P x \<Longrightarrow> (\<And>v. P v \<Longrightarrow> Q v) \<Longrightarrow> opt_all Q x"
  by (cases x) (simp_all add: opt_all_def)

lemma clean_dtostr: "gu_dtostr x = Inr s \<Longrightarrow> clean s"
proof -
  have "clean (frac_digits n)" for n using frac_digits_digits [of n] by (auto simp: clean_def gu_ascii_isdigit_def)
  then show "gu_dtostr x = Inr s \<Longrightarrow> clean s" by (auto simp: gu_dtostr_def Let_def split: if_splits)
qed

lemma dtostr_ok: "0 \<le> x \<Longrightarrow> x < 10 ^ 9 \<Longrightarrow> \<exists>s. gu_dtostr x = Inr s"
proof -
  assume "0 \<le> x" "x < 10 ^ 9"
  then have "\<lfloor>\<bar>x\<bar>\<rfloor> < 10 ^ 9" by (simp add: floor_less_iff)
  then show ?thesis by (simp add: gu_dtostr_def Let_def)
qed

lemma file_lines_clean: "list_all clean ls \<Longrightarrow> file_lines (concat (map (\<lambda>l. l @ [CHR 0x0A]) ls) @ c) = map rstrip ls @ file_lines c"
  by (intro file_lines_concat) (auto simp: list_all_iff clean_def)

lemma skip_lines:
  assumes "list_all job_line ls"
  shows "dropWhile (\<lambda>l. l \<noteq> ''EndIPP'') (map rstrip (ls @ [''EndIPP'']) @ rest) = ''EndIPP'' # rest"
proof -
  have "rstrip l \<noteq> ''EndIPP''" if "job_line l" for l using that hd_rstrip [of l] by (cases l) (auto simp: job_line_def)
  moreover have "rstrip ''EndIPP'' = ''EndIPP''" by code_simp
  ultimately show ?thesis using assms by (induction ls) auto
qed

lemma ipp_lines_read:
  assumes "ipp_lines q = Inr ls"
  shows "tl (dropWhile (\<lambda>l. l \<noteq> ''EndIPP'') (map rstrip ls @ rest)) = rest"
proof -
  define names where "names = (case j_Title q of Some (c # t) \<Rightarrow> [''job-name '' @ c # t] | _ \<Rightarrow> opt_line ''job-name '' (j_lpqFileName q))"
  have "list_all job_line names" by (simp add: names_def opt_line_def job_line_def split: option.split list.split)
  then have "ls = butlast ls @ [''EndIPP'']" "list_all job_line (butlast ls)"
    using assms unfolding ipp_lines_def Let_def names_def [symmetric] by (auto simp: butlast_append job_line_def split: if_splits)
  then show ?thesis using skip_lines [of "butlast ls" rest] by simp
qed

lemma ipp_lines_clean:
  assumes "ipp_lines q = Inr ls" "opt_all clean (j_user q)" "opt_all clean (j_Title q)" "opt_all clean (j_lpqFileName q)"
  shows "list_all clean ls"
proof -
  define names where "names = (case j_Title q of Some (c # t) \<Rightarrow> [''job-name '' @ c # t] | _ \<Rightarrow> opt_line ''job-name '' (j_lpqFileName q))"
  have "list_all clean names" using assms(3,4) by (auto simp: names_def clean_opt_line opt_all_def split: option.splits list.splits)
  moreover have "clean (case j_user q of None \<Rightarrow> ''?'' | Some v \<Rightarrow> v)" using assms(2) by (simp add: opt_all_def split: option.splits)
  ultimately show ?thesis using assms(1) unfolding ipp_lines_def Let_def names_def [symmetric] by (auto split: if_splits)
qed

lemma length_pprd_save_line:
  assumes "proper_spool_state st"
  shows "length (pprd_save_line st) = 63"
proof -
  have "length (print_X 2 (jss_priority st)) = 2" "length (print_X 8 (jss_sequence_number st)) = 8"
    "length (print_X 2 (- jss_status st)) = 2" "length (print_X 4 (jss_flags st)) = 4"
    using assms by (auto simp: proper_spool_state_def intro!: length_print_X)
  then show ?thesis by (simp add: pprd_save_line_def)
qed

lemma clean_opts: "opt_all textline x \<Longrightarrow> opt_all clean x" "opt_all is_word x \<Longrightarrow> opt_all clean x"
  by (erule opt_all_mono; simp add: clean_texts)+

lemma clean_opt_line' [simp]: "clean name \<Longrightarrow> opt_all clean x \<Longrightarrow> list_all clean (opt_line name x)"
  by (simp add: clean_opt_line)

lemma submitter_read:
  assumes "check_values q = Inr ()" "proper_numbers fl q" "proper_strings q"
    and q0: "j_lc_messages q0 = None" "j_charge_to q0 = None" "j_Title q0 = None" "j_draft_notice q0 = None" "j_Creator q0 = None"
      "j_Routing q0 = None" "j_lpqFileName q0 = None" "rs_options (j_responder q0) = None"
  obtains l1 where "submitter_lines q = Inr l1" "list_all clean l1"
    "\<And>ls. \<exists>found. load_loop fl (map rstrip l1 @ ls) (q0, [], 0) = load_loop fl ls (submitted fl q q0, found, 0)
      \<and> {''Time: '', ''User: '', ''For: '', ''Response: '', ''Banners: ''} \<subseteq> set found"
proof -
  note p = assms(3) [unfolded proper_strings_def] and c = check_values_texts [OF assms(1)]
  obtain user cookie name address where w: "j_user q = Some user" "j_magic_cookie q = Some cookie"
      "rs_name (j_responder q) = Some name" "rs_address (j_responder q) = Some address"
    and t: "textline user" "is_word cookie" "is_word name" "is_word address" using p by (auto split: option.splits)
  obtain whom where f: "j_For q = Some whom" "textline whom" using c(1,2) by (auto simp: opt_all_def)
  define title where "title = (if j_Title q = Some [] then None else j_Title q)"
  have ti: "opt_all textline title" using c(7) by (auto simp: title_def opt_all_def split: option.splits)
  have lpq: "opt_all (\<lambda>v. textline v \<and> unquoted v) (j_lpqFileName q)" using c(6) p by (simp add: opt_all_def split: option.splits)
  have ch: "opt_all (\<lambda>v. textline v \<and> unquoted v \<and> \<not> gu_ascii_isspace (hd v)) (j_charge_to q)" using c(9) p by (simp add: opt_all_def split: option.splits)
  define opts where "opts = (case rs_options (j_responder q) of None \<Rightarrow> [] | Some v \<Rightarrow> v)"
  have op: "CHR 0x0A \<notin> set opts" "stripped_options (Some opts) = stripped_options (rs_options (j_responder q))"
    using c(8) by (auto simp: opts_def opt_all_def stripped_options_def split: option.splits)
  have "(j_responder q)\<lparr>rs_options := x\<rparr> = \<lparr>rs_name = Some name, rs_address = Some address, rs_options = x\<rparr>" for x
    by (rule RESPONDER.equality) (simp_all add: w)
  then have q': "submitted fl q q0 = q0\<lparr>j_user := Some (rstrip user), j_PPRVersion := fl False 2 ''00'', j_lc_messages := j_lc_messages q, j_time := j_time q,
        j_magic_cookie := Some cookie, j_For := Some (rstrip whom), j_charge_to := map_option (first_word \<circ> rstrip) (j_charge_to q), j_Title := map_option rstrip title,
        j_draft_notice := map_option rstrip (j_draft_notice q), j_Creator := map_option rstrip (j_Creator q), j_Routing := map_option rstrip (j_Routing q),
        j_lpqFileName := map_option rstrip (j_lpqFileName q), j_do_banner := j_do_banner q, j_do_trailer := j_do_trailer q,
        j_responder := \<lparr>rs_name = Some name, rs_address = Some address, rs_options = stripped_options (Some opts)\<rparr>,
        j_commentary := j_commentary q\<rparr>" by (simp add: submitted_def w f title_def op)
  have n: "0 \<le> j_time q" "j_time q < 2 ^ 63" "\<bar>j_do_banner q\<bar> < 2 ^ 31" "\<bar>j_do_trailer q\<bar> < 2 ^ 31" "\<bar>j_commentary q\<bar> < 2 ^ 31"
    using assms(2) by (simp_all add: proper_numbers_def Let_def fits_int_def)
  have cl: "opt_all clean (j_lc_messages q)" using p by (auto elim!: opt_all_mono simp: clean_texts)
  show thesis
  proof (rule that)
    show "submitter_lines q = Inr ([''User: '' @ user, ''PPRVersion: '' @ SHORT_VERSION] @ opt_line ''LC_MESSAGES: '' (j_lc_messages q) @
            [''Time: '' @ print_d (j_time q), ''MagicCookie: '' @ cookie, ''For: '' @ whom] @ opt_line ''Charge-To: '' (j_charge_to q) @
            opt_line ''Title: '' title @ opt_line ''DraftNotice: '' (j_draft_notice q) @ opt_line ''Creator: '' (j_Creator q) @
            opt_line ''Routing: '' (j_Routing q) @ opt_line ''lpqFileName: '' (j_lpqFileName q) @
            [''Banners: '' @ join_d [j_do_banner q, j_do_trailer q], ''Response: '' @ name @ '' '' @ address @ '' '' @ opts,
             ''Commentary: '' @ print_d (j_commentary q)])" (is "_ = Inr ?l1")
      by (simp add: submitter_lines_def print_s_def w f title_def opts_def)
    show "list_all clean ?l1"
      using t f op(1) cl ti c(3-6,9) by (simp add: clean_texts clean_opts clean_def [of opts] clean_def [of SHORT_VERSION] SHORT_VERSION_def)
    show "\<exists>found. load_loop fl (map rstrip ?l1 @ ls) (q0, [], 0) = load_loop fl ls (submitted fl q q0, found, 0)
      \<and> {''Time: '', ''User: '', ''For: '', ''Response: '', ''Banners: ''} \<subseteq> set found" for ls
      unfolding q' by (rule load_submitter [OF q0 t(1,2) f(2) t(3,4) op(1) _ ch ti c(3-5) lpq n]) (use p in simp)
  qed
qed

lemma document_read:
  assumes "proper_numbers fl q" "proper_strings q" "opt_all clean (j_ripopts q)"
    and q0: "j_Filters q0 = None" "j_PassThruPDL q0 = None" "j_page_mask q0 = None" "j_page_count q0 = -1" "j_question q0 = None" "j_ripopts q0 = None"
  obtains l2 where "document_lines q = Inr (l2 @ [''EndMisc''])" "list_all clean l2"
    "\<And>found ls. \<exists>found'. load_loop fl (map rstrip l2 @ ls) (q0, found, 0) = load_loop fl ls (documented q q0, found', load_code q)
      \<and> set found \<union> {''Opts: '', ''N-Up: ''} \<subseteq> set found'"
proof -
  note n = assms(1) [unfolded proper_numbers_def Let_def]
  let ?a = "j_attr q" and ?p = "j_opts q" and ?n = "j_N_Up q"
  have p: "opt_all (\<lambda>v. is_word v \<and> v \<noteq> ''NULL'') (at_DSC_job_type ?a)" "opt_all textline (j_Filters q)" "opt_all textline (j_PassThruPDL q)"
    "opt_all (\<lambda>m. textline m \<and> \<not> gu_ascii_isspace (hd m)) (j_page_mask q)" "opt_all textline (j_question q)"
    "opt_all (\<lambda>v. CHR 0x0A \<notin> set v) (j_ripopts q)"
    using assms(2,3) by (simp_all add: proper_strings_def clean_def [abs_def])
  obtain lev where lev: "gu_dtostr (at_DSClevel ?a) = Inr lev" using dtostr_ok n by blast
  define pages where "pages = (case j_page_mask q of None \<Rightarrow> [] | Some m \<Rightarrow> [''PageList: '' @ print_d (j_page_count q) @ '' '' @ m])"
  have cl: "clean (case at_DSC_job_type ?a of None \<Rightarrow> ''NULL'' | Some v \<Rightarrow> v)" "list_all clean pages"
    using p(1,4) by (auto simp: opt_all_def pages_def clean_texts split: option.splits)
  show thesis
  proof (rule that)
    show "document_lines q = Inr (([''Attr-DSC: '' @ lev @ '' '' @ (case at_DSC_job_type ?a of None \<Rightarrow> ''NULL'' | Some v \<Rightarrow> v) @ '' '' @
                join_d [at_orientation ?a, at_proofmode ?a, at_docdata ?a],
              ''Attr-DSC-Sections: '' @ join_d [at_prolog ?a, at_docsetup ?a, at_script ?a],
              ''Attr-LangLevel: '' @ join_d [at_langlevel ?a, at_extensions ?a],
              ''Attr-Pages: '' @ join_d [at_pages ?a, at_pageorder ?a, at_pagefactor ?a],
              ''Attr-ByteCounts: '' @ join_d [at_input_bytes ?a, at_postscript_bytes ?a],
              ''Attr-Parts: '' @ print_d (at_parts ?a),
              ''Opts: '' @ join_d [op_binselect ?p, op_copies ?p, op_collate ?p, op_keep_badfeatures ?p, op_hacks ?p],
              ''N-Up: '' @ join_d [nu_N ?n, nu_borders ?n, nu_sigsheets ?n, nu_sigpart ?n, nu_job_does_n_up ?n]] @
             opt_line ''Filters: '' (j_Filters q) @ opt_line ''PassThruPDL: '' (j_PassThruPDL q) @ [''StripPrinter: '' @ print_d (j_StripPrinter q)] @
             pages @ opt_line ''Question: '' (j_question q) @ opt_line ''RIPopts: '' (j_ripopts q)) @ [''EndMisc''])" (is "_ = Inr (?l2 @ _)")
      unfolding document_lines_def Let_def pages_def lev by simp
    show "list_all clean ?l2" using cl clean_dtostr [OF lev] p(2,3,5) assms(3) by (simp add: clean_opts del: join_d.simps)
    show "\<exists>found'. load_loop fl (map rstrip ?l2 @ ls) (q0, found, 0) = load_loop fl ls (documented q q0, found', load_code q)
      \<and> set found \<union> {''Opts: '', ''N-Up: ''} \<subseteq> set found'" for found ls
      unfolding documented_def pages_def load_code_def by (rule load_document [OF q0 lev _ _ _ p]) (use n in simp_all)
  qed
qed

lemma both_loaded: "documented q (submitted fl q ((qentryfile_clear job)\<lparr>j_spool_state := j_spool_state q\<rparr>)) = as_loaded fl q"
  by (rule QEntryFile.equality) (simp_all add: documented_def submitted_def qentryfile_clear_def as_loaded_def)

lemma required_found:
  "{''Time: '', ''User: '', ''For: '', ''Response: '', ''Banners: ''} \<subseteq> set f \<Longrightarrow> set f \<union> {''Opts: '', ''N-Up: ''} \<subseteq> set f' \<Longrightarrow> set required_lines \<subseteq> set f'"
  unfolding required_lines_def by (simp only: list.set) blast

lemma queue_file_reads:
  assumes "check_values q = Inr ()" "proper_spool_state (j_spool_state q)" "proper_numbers fl q" "proper_strings q"
  shows "\<exists>content. qentryfile_save q = Inr content
    \<and> qentryfile_load fl (qentryfile_clear job) (file_lines (content @ rest)) = Inr (load_code q, as_loaded fl q, file_lines rest)"
proof -
  let ?q0 = "qentryfile_clear job" and ?st = "j_spool_state q"
  let ?q1 = "?q0\<lparr>j_spool_state := ?st\<rparr>" and ?pprd = "pprd_save_line (j_spool_state q)"
  obtain l1 where l1: "submitter_lines q = Inr l1" "list_all clean l1"
    "\<And>ls. \<exists>found. load_loop fl (map rstrip l1 @ ls) (?q1, [], 0) = load_loop fl ls (submitted fl q ?q1, found, 0)
      \<and> {''Time: '', ''User: '', ''For: '', ''Response: '', ''Banners: ''} \<subseteq> set found"
    using submitter_read [OF assms(1,3,4), of ?q1] by (simp add: qentryfile_clear_def) blast
  have r: "opt_all clean (j_ripopts q)" using check_values_texts(10) [OF assms(1)] by (rule opt_all_mono) (auto simp: clean_def)
  obtain l2 where l2: "document_lines q = Inr (l2 @ [''EndMisc''])" "list_all clean l2"
    "\<And>found ls. \<exists>found'. load_loop fl (map rstrip l2 @ ls) (submitted fl q ?q1, found, 0) = load_loop fl ls (as_loaded fl q, found', load_code q)
      \<and> set found \<union> {''Opts: '', ''N-Up: ''} \<subseteq> set found'"
    using document_read [OF assms(3,4) r, of "submitted fl q ?q1"] both_loaded [of q fl job] by (simp add: submitted_def qentryfile_clear_def) blast
  obtain l3 where l3: "ipp_lines q = Inr l3" using assms(3) by (simp add: ipp_lines_def proper_numbers_def Let_def)
  have "opt_all clean (j_user q)" using assms(4) by (auto simp: proper_strings_def opt_all_def clean_texts split: option.splits)
  moreover have "opt_all clean (j_Title q)" using check_values_texts(7) [OF assms(1)] by (rule opt_all_mono) (auto simp: clean_texts)
  ultimately have c3: "list_all clean l3" using ipp_lines_clean [OF l3] clean_opts(1) [OF check_values_texts(6) [OF assms(1)]] by simp
  let ?ls = "?pprd # l1 @ (l2 @ [''EndMisc'']) @ l3"
  have "qentryfile_save q = Inr (concat (map (\<lambda>l. l @ [CHR 0x0A]) ?ls))"
    using l1(1) l2(1) l3 length_pprd_save_line [OF assms(2)] by (simp add: qentryfile_save_def)
  moreover have "file_lines (concat (map (\<lambda>l. l @ [CHR 0x0A]) ?ls) @ rest) = map rstrip ?ls @ file_lines rest"
    using l1(2) l2(2) c3 by (intro file_lines_clean) (simp add: pprd_save_line_def)
  moreover have "qentryfile_load fl ?q0 (map rstrip ?ls @ file_lines rest) = Inr (load_code q, as_loaded fl q, file_lines rest)"
  proof -
    let ?r = "map rstrip l3 @ file_lines rest"
    obtain f f' where "load_loop fl (map rstrip l1 @ map rstrip l2 @ ''EndMisc'' # ?r) (?q1, [], 0) = load_loop fl (''EndMisc'' # ?r) (as_loaded fl q, f', load_code q)"
      "set required_lines \<subseteq> set f'" using l1(3) l2(3) required_found by metis
    moreover have "load_loop fl (rstrip ?pprd # ls) (?q0, [], 0) = load_loop fl ls (?q1, [], 0)" for ls
      using assms(2) by (intro load_PPRD) (simp_all add: qentryfile_clear_def)
    moreover have "rstrip ''EndMisc'' = ''EndMisc''" by code_simp
    moreover have "load_loop fl (''EndMisc'' # ?r) s = Inr (False, s, ?r)" for s by simp
    ultimately show ?thesis using ipp_lines_read [OF l3] by (simp add: qentryfile_load_def del: load_loop.simps)
  qed
  ultimately show ?thesis by simp
qed

lemma example_proper:
  assumes "q = example_qf \<or> q = example_qf\<lparr>j_ripopts := Some []\<rparr>"
  shows "check_values q = Inr ()" "proper_spool_state (j_spool_state q)" "proper_numbers example_fl q" "proper_strings q"
proof -
  show "check_values q = Inr ()" using assms by (elim disjE; hypsubst) code_simp+
  show "proper_spool_state (j_spool_state q)" using assms by (auto simp: example_qf_def proper_spool_state_def)
  have "example_fl False 3 (frac_digits (fraction_of 3)) = 3"
    by (simp add: fraction_of_def frac_digits_def example_fl_def scan_number_def)
  moreover have "ipp_fits q" using assms by (elim disjE; hypsubst) code_simp+
  ultimately show "proper_numbers example_fl q" using assms by (auto simp: example_qf_def proper_numbers_def fits_int_def)
  show "proper_strings q" using assms by (elim disjE; hypsubst) code_simp+
qed

section \<open>Properties\<close>



text \<open>
  C26. An account that consists of two words, such as the full name that \<^verbatim>\<open>ppr\<close> takes when no account is given, is written in full and read back as its first word, while the name itself is read back in full.
\<close>

theorem charge_account_cut:
  assumes "check_values q = Inr ()" "proper_spool_state (j_spool_state q)" "proper_numbers fl q" "proper_strings q"
    and "j_For q = Some (w @ '' '' @ v)" "j_charge_to q = j_For q" "is_word w" "is_word v"
  shows "\<exists>content r q' ls. qentryfile_save q = Inr content \<and> qentryfile_load fl (qentryfile_clear job) (file_lines content) = Inr (r, q', ls)
    \<and> j_For q' = j_For q \<and> j_charge_to q' = Some w"
proof -
  have r: "rstrip (w @ '' '' @ v) = w @ '' '' @ v" using rstrip_append [of "w @ '' ''" v] assms(8) is_word_not_Nil by simp
  have "first_word (w @ '' '' @ v) = w"
    using assms(7) unfolding first_word_def by (intro takeWhile_ends) (auto simp: is_word_def gu_ascii_isspace_def ends_number_def)
  then have "j_For (as_loaded fl q) = j_For q" "j_charge_to (as_loaded fl q) = Some w"
    using assms(5,6) r by (simp_all add: as_loaded_def)
  then show ?thesis using queue_file_reads [OF assms(1-4), of job "[]"] by auto
qed

theorem charge_account_cut_witness:
  "\<exists>content r q' ls. qentryfile_save example_qf = Inr content
    \<and> qentryfile_load example_fl (qentryfile_clear example_qf) (file_lines content) = Inr (r, q', ls)
    \<and> j_For q' = Some ''David Chappell'' \<and> j_charge_to q' = Some ''David''"
proof -
  have "is_word ''David''" "is_word ''Chappell''" by code_simp+
  then show ?thesis
    using charge_account_cut [where q = example_qf and fl = example_fl and w = "''David''" and v = "''Chappell''" and job = example_qf]
      example_proper [of example_qf] by (simp add: example_qf_def)
qed

text \<open>
  Blank options for the RIP, which the checks of \<^verbatim>\<open>ppr\<close> allow, make a queue file that \<open>qentryfile_load\<close> reports as bad, although all else in it is read.
\<close>

theorem empty_ripopts_unreadable:
  assumes "check_values q = Inr ()" "proper_spool_state (j_spool_state q)" "proper_numbers fl q" "proper_strings q"
    and "j_ripopts q = Some v" "rstrip v = []"
  shows "\<exists>content. qentryfile_save q = Inr content
    \<and> qentryfile_load fl (qentryfile_clear job) (file_lines (content @ rest)) = Inr (-1, as_loaded fl q, file_lines rest)"
proof -
  have "load_code q = -1" using assms(5,6) by (simp add: load_code_def readable_def)
  then show ?thesis using queue_file_reads [OF assms(1-4)] by simp
qed

theorem empty_ripopts_unreadable_witness:
  "let q = example_qf\<lparr>j_ripopts := Some []\<rparr> in \<exists>content. qentryfile_save q = Inr content
    \<and> qentryfile_load example_fl (qentryfile_clear q) (file_lines (content @ [])) = Inr (-1, as_loaded example_fl q, file_lines [])"
  unfolding Let_def
  by (rule empty_ripopts_unreadable [where v = "[]"]) (simp_all add: example_proper)

end
