(* ===== verification/Submission.thy ===== *)
theory Submission
  imports Things Queue_Files
begin

unbundle bit_operations_syntax

text \<open>
  From the submission of a job to the entry in the queue: the media, requirements and resources that \<^verbatim>\<open>ppr\<close> writes into the queue file, the
  division of a job, and that the daemon reads the queue file as the job that was submitted.
\<close>

section \<open>Reference definitions\<close>

text \<open>A resource whose flags agree: what is included is needed, what is needed is brought in somewhere, and what is supplied is really in the document and has not been removed from it.\<close>

definition consistent :: "struct_Thing \<Rightarrow> bool" where
  "consistent t \<longleftrightarrow> (has_flag REREF_INCLUDE t \<longrightarrow> has_flag REREF_NEEDED t)
     \<and> (has_flag REREF_SUPPLIED t \<longleftrightarrow> has_flag REREF_REALLY_SUPPLIED t \<and> \<not> has_flag REREF_REMOVED t)
     \<and> (has_flag REREF_REMOVED t \<longrightarrow> has_flag REREF_NEEDED t)
     \<and> (has_flag REREF_NEEDED t \<longrightarrow> has_flag REREF_INCLUDE t \<or> has_flag REREF_FIXINCLUDE t \<or> has_flag REREF_REMOVED t)"

text \<open>The known media that a medium of the document may be answered with, the line or the absence of one that results, and what a list of lines says about a list of media.\<close>

definition notify_me :: "ppr_job \<Rightarrow> bool" where
  "notify_me j \<longleftrightarrow> at_proofmode (j_attr (qentry j)) = PROOFMODE_NOTIFYME"

definition acceptable :: "bool \<Rightarrow> struct_Media \<Rightarrow> struct_Media \<Rightarrow> bool" where
  "acceptable notify m km \<longleftrightarrow> exact_match m km \<or> close_match m km \<or> \<not> notify \<and> poor_match m km"

definition chosen :: "char \<Rightarrow> bool \<Rightarrow> struct_Media list \<Rightarrow> struct_Media \<Rightarrow> string option \<Rightarrow> bool" where
  "chosen b notify mfile m x = (case x of
     Some l \<Rightarrow> (\<exists>km \<in> set mfile. l = media_line b km m \<and> acceptable notify m km)
   | None \<Rightarrow> \<not> notify \<and> (\<forall>km \<in> set mfile. \<not> acceptable notify m km))"

fun somes :: "'a option list \<Rightarrow> 'a list" where
  "somes [] = []"
| "somes (None # xs) = somes xs"
| "somes (Some x # xs) = x # somes xs"

definition media_named :: "char \<Rightarrow> bool \<Rightarrow> struct_Media list \<Rightarrow> struct_Media list \<Rightarrow> string list \<Rightarrow> bool" where
  "media_named b notify mfile ms ls \<longleftrightarrow>
     (\<forall>l \<in> set ls. \<exists>m \<in> set ms. \<exists>km \<in> set mfile. l = media_line b km m \<and> acceptable notify m km)
     \<and> (\<forall>m \<in> set ms. notify \<or> (\<exists>km \<in> set mfile. acceptable notify m km) \<longrightarrow> (\<exists>km \<in> set mfile. media_line b km m \<in> set ls \<and> acceptable notify m km))"

text \<open>The lines of a queue file that the daemon passes over, and those that name a medium.\<close>

definition ordinary :: "string \<Rightarrow> bool" where
  "ordinary l \<longleftrightarrow> take 5 l \<noteq> ''PPRD:'' \<and> take 6 l \<noteq> ''Media:''"

definition plain :: "string \<Rightarrow> bool" where
  "plain l \<longleftrightarrow> clean l \<and> ordinary l"

definition names_medium :: "string \<Rightarrow> string \<Rightarrow> bool" where
  "names_medium l name \<longleftrightarrow> is_word name \<and> length name \<le> MAX_MEDIANAME \<and> (\<exists>t. l = ''Media: '' @ name @ '' '' @ t)"

text \<open>Things, media records and PJL text that fill their lines and no more.\<close>

definition proper_record :: "struct_Media \<Rightarrow> bool" where
  "proper_record km \<longleftrightarrow> (\<exists>name. is_word name \<and> length name \<le> MAX_MEDIANAME \<and> m_medianame km = ASCIIZ_to_padded name MAX_MEDIANAME)"

definition proper_thing :: "struct_Thing \<Rightarrow> bool" where
  "proper_thing t = (case th_ptr t of
     TH_RESOURCE r \<Rightarrow> clean (R_Type r) \<and> clean (R_Name r) | TH_MEDIA m \<Rightarrow> clean (m_medianame m) | TH_REQUIREMENT r \<Rightarrow> clean r)"

definition pjl_line :: "string \<Rightarrow> bool" where
  "pjl_line l \<longleftrightarrow> clean l \<and> take 1 l = ''@''"

definition proper_pjl :: "string option \<Rightarrow> bool" where
  "proper_pjl x = (case x of None \<Rightarrow> True | Some pjl \<Rightarrow> \<exists>ls. list_all pjl_line ls \<and> pjl = lines_text ls)"

text \<open>The numbers that the daemon gives to the media, and the entry that it makes of a job.\<close>

definition id_step :: "string \<Rightarrow> int list \<times> daemon \<Rightarrow> (int list \<times> daemon) res" where
  "id_step name s = (case s of (ms, d) \<Rightarrow> bindE (get_media_id name d) (\<lambda>(m, d). Inr (ms @ [m], d)))"

definition numbers_of_media :: "string list \<Rightarrow> daemon \<Rightarrow> (int list \<times> daemon) res" where
  "numbers_of_media names d = foldE id_step names ([], d)"

definition submitted_entry :: "JOB_SPOOL_STATE \<Rightarrow> int \<Rightarrow> int \<Rightarrow> int \<Rightarrow> int list \<Rightarrow> daemon \<Rightarrow> QEntry" where
  "submitted_entry st destid jid subid ms d = (blank_entry destid jid subid)\<lparr>q_priority := jss_priority st,
     q_sequence_number := word_of_int (jss_sequence_number st), q_status := (if jss_status st = 0 then STATUS_WAITING else jss_status st),
     q_flags := word_of_int (jss_flags st), q_media := ms @ replicate (MAX_DOCMEDIA - length ms) (-1),
     q_pass := (if destid_is_group destid d then 1 else 0)\<rparr>"

text \<open>A job with a medium, a requirement and a font.\<close>

definition letter :: struct_Media where
  "letter = \<lparr>m_medianame = ''letter          '', m_width = 612, m_height = 792, m_weight = 75, m_colour = ''white           '', m_type = ''                ''\<rparr>"

definition example_submission :: ppr_job where
  "example_submission = \<lparr>things = [\<lparr>th_ptr = TH_MEDIA (letter\<lparr>m_medianame := ''Plain           '', m_weight := 0, m_colour := ''                ''\<rparr>), R_Flags = 1\<rparr>,
       \<lparr>th_ptr = TH_REQUIREMENT ''duplex(tumble)'', R_Flags = 1\<rparr>,
       \<lparr>th_ptr = TH_RESOURCE \<lparr>R_Type = ''font'', R_Name = ''Times-Roman'', R_Version = 0, R_Revision = 0\<rparr>, R_Flags = 32\<rparr>],
     qentry = example_qf, read_copies = True, pagenumber = 20, splitting = True, page_comments = [], warnings = []\<rparr>"

definition example_defaults :: media_defaults where
  "example_defaults = \<lparr>default_medium = None, conf_medium = Inr (612, 792, 75, ''white'', []), guess_media = letter\<rparr>"

definition example_written_qf :: QEntryFile where
  "example_written_qf = example_qf\<lparr>j_magic_cookie := Some ''0000002A''\<rparr>"

section \<open>Lemmas\<close>

subsection \<open>Requirements\<close>

lemma foldE_collect:
  "foldE (\<lambda>t ts. bindE (f t) (\<lambda>t. Inr (ts @ [t]))) xs acc = Inr ys \<longleftrightarrow>
   (\<exists>zs. ys = acc @ zs \<and> list_all2 (\<lambda>x z. f x = Inr z) xs zs)"
proof (induction xs arbitrary: acc)
  case (Cons x xs)
  show ?case
    by (cases "f x") (auto simp: Cons.IH list_all2_Cons1)
qed auto

lemma things_of_all [simp]: "things_of frag j = things j"
proof -
  have "filter (\<lambda>x. is_thing_in_current_fragment x frag j) [0..<length (things j)] = [0..<length (things j)]"
    by (simp add: is_thing_in_current_fragment_def)
  then show ?thesis by (simp add: things_of_def map_nth)
qed

lemma delete_requirement_things:
  "delete_requirement name j = Inr j' \<longleftrightarrow> (\<exists>ts. j' = j\<lparr>things := ts\<rparr> \<and> list_all2 (\<lambda>t t'. delete_thing name t = Inr t') (things j) ts)"
  unfolding delete_requirement_def bindE_eq_Inr foldE_collect by auto

lemma delete_thing_ptr: "delete_thing name t = Inr t' \<Longrightarrow> th_ptr t' = th_ptr t"
  by (auto simp: delete_thing_def add_flag_def split: thing_ptr.splits)

lemma requirement_cmp_same: "requirement_cmp (name @ c # v) name = (v, None)"
  by (induction name) simp_all

lemma delete_thing_more: "th_ptr t = TH_REQUIREMENT (name @ c # v) \<Longrightarrow> delete_thing name t = Inr t' \<Longrightarrow> t' = t"
  by (cases v) (auto simp: delete_thing_def requirement_deleted_def requirement_cmp_same)

lemma requirement_lines_ptr: "map th_ptr (things j') = map th_ptr (things j) \<Longrightarrow> write_requirement_lines frag j' = write_requirement_lines frag j"
proof -
  let ?f = "\<lambda>p. case p of TH_REQUIREMENT r \<Rightarrow> [''Req: '' @ r] | _ \<Rightarrow> []"
  assume "map th_ptr (things j') = map th_ptr (things j)"
  then have "concat (map ?f (map th_ptr (things j'))) = concat (map ?f (map th_ptr (things j)))" by (rule arg_cong)
  then show ?thesis by (simp add: write_requirement_lines_def comp_def)
qed

subsection \<open>Resources\<close>

lemma has_flag_simps [simp]:
  "has_flag f (add_flag g t) \<longleftrightarrow> has_flag f t \<or> f AND g \<noteq> 0"
  "f AND g = 0 \<Longrightarrow> has_flag f (clear_flag g t) \<longleftrightarrow> has_flag f t"
  "has_flag f (clear_flag f t) \<longleftrightarrow> False"
proof -
  have "(x OR g) AND f = 0 \<longleftrightarrow> x AND f = 0 \<and> f AND g = 0" for x :: "32 word"
    by (simp add: bit_eq_iff bit_simps) blast
  then show "has_flag f (add_flag g t) \<longleftrightarrow> has_flag f t \<or> f AND g \<noteq> 0" by (simp add: has_flag_def add_flag_def)
  show "has_flag f (clear_flag f t) \<longleftrightarrow> False" by (simp add: has_flag_def clear_flag_def and.assoc)
  assume "f AND g = 0"
  then have "NOT g AND f = f" by (auto simp: bit_eq_iff bit_simps)
  then show "has_flag f (clear_flag g t) \<longleftrightarrow> has_flag f t" by (simp add: has_flag_def clear_flag_def and.assoc)
qed

lemma th_ptr_flags [simp]: "th_ptr (add_flag f t) = th_ptr t" "th_ptr (clear_flag f t) = th_ptr t"
  by (simp_all add: add_flag_def clear_flag_def)

lemma rationalize_resource_stages:
  obtains t1 t2 t3 t4 t5 where
    "t1 = (if has_flag REREF_SUPPLIED t \<and> \<not> has_flag REREF_REALLY_SUPPLIED t then clear_flag REREF_SUPPLIED t else t)"
    "t2 = (if has_flag REREF_NEEDED t1 \<and> \<not> has_flag REREF_INCLUDE t1 then add_flag REREF_FIXINCLUDE t1 else t1)"
    "t3 = fst (rationalize_unclear l r t2)"
    "t4 = (if has_flag REREF_INCLUDE t3 \<and> \<not> has_flag REREF_NEEDED t3 then add_flag REREF_NEEDED t3 else t3)"
    "t5 = (if has_flag REREF_REALLY_SUPPLIED t4 \<and> \<not> has_flag REREF_SUPPLIED t4 then add_flag REREF_SUPPLIED t4 else t4)"
    "fst (rationalize_resource l r t) = (if has_flag REREF_REMOVED t5 then add_flag REREF_NEEDED (clear_flag REREF_SUPPLIED t5) else t5)"
  by (simp only: rationalize_resource_def Let_def case_prod_beta fst_conv)

lemma rationalize_resource_consistent: "consistent (fst (rationalize_resource l r t))"
proof -
  obtain t1 t2 t3 t4 t5 where t: "t1 = (if has_flag REREF_SUPPLIED t \<and> \<not> has_flag REREF_REALLY_SUPPLIED t then clear_flag REREF_SUPPLIED t else t)"
    "t2 = (if has_flag REREF_NEEDED t1 \<and> \<not> has_flag REREF_INCLUDE t1 then add_flag REREF_FIXINCLUDE t1 else t1)"
    "t3 = fst (rationalize_unclear l r t2)"
    "t4 = (if has_flag REREF_INCLUDE t3 \<and> \<not> has_flag REREF_NEEDED t3 then add_flag REREF_NEEDED t3 else t3)"
    "t5 = (if has_flag REREF_REALLY_SUPPLIED t4 \<and> \<not> has_flag REREF_SUPPLIED t4 then add_flag REREF_SUPPLIED t4 else t4)"
    and r: "fst (rationalize_resource l r t) = (if has_flag REREF_REMOVED t5 then add_flag REREF_NEEDED (clear_flag REREF_SUPPLIED t5) else t5)"
    by (rule rationalize_resource_stages)
  have "has_flag REREF_SUPPLIED t1 \<longrightarrow> has_flag REREF_REALLY_SUPPLIED t1" by (simp add: t(1))
  then have 2: "has_flag REREF_SUPPLIED t2 \<longrightarrow> has_flag REREF_REALLY_SUPPLIED t2"
    "has_flag REREF_NEEDED t2 \<longrightarrow> has_flag REREF_INCLUDE t2 \<or> has_flag REREF_FIXINCLUDE t2" by (simp_all add: t(2))
  then have 3: "has_flag REREF_SUPPLIED t3 \<longrightarrow> has_flag REREF_REALLY_SUPPLIED t3"
    "has_flag REREF_NEEDED t3 \<longrightarrow> has_flag REREF_INCLUDE t3 \<or> has_flag REREF_FIXINCLUDE t3"
    by (simp_all add: t(3) rationalize_unclear_def)
  then have 4: "has_flag REREF_SUPPLIED t4 \<longrightarrow> has_flag REREF_REALLY_SUPPLIED t4" "has_flag REREF_INCLUDE t4 \<longrightarrow> has_flag REREF_NEEDED t4"
    "has_flag REREF_NEEDED t4 \<longrightarrow> has_flag REREF_INCLUDE t4 \<or> has_flag REREF_FIXINCLUDE t4"
    by (simp_all add: t(4))
  then have 5: "has_flag REREF_SUPPLIED t5 \<longleftrightarrow> has_flag REREF_REALLY_SUPPLIED t5" "has_flag REREF_INCLUDE t5 \<longrightarrow> has_flag REREF_NEEDED t5"
    "has_flag REREF_NEEDED t5 \<longrightarrow> has_flag REREF_INCLUDE t5 \<or> has_flag REREF_FIXINCLUDE t5"
    by (auto simp: t(5))
  show ?thesis unfolding r consistent_def using 5 by simp
qed

lemma rationalize_resource_kept:
  assumes "f \<in> {REREF_INCLUDE, REREF_REALLY_SUPPLIED, REREF_PAGE, REREF_UNCLEAR, REREF_REMOVED}"
  shows "has_flag f (fst (rationalize_resource l r t)) \<longleftrightarrow> has_flag f t"
proof -
  obtain t1 t2 t3 t4 t5 where t: "t1 = (if has_flag REREF_SUPPLIED t \<and> \<not> has_flag REREF_REALLY_SUPPLIED t then clear_flag REREF_SUPPLIED t else t)"
    "t2 = (if has_flag REREF_NEEDED t1 \<and> \<not> has_flag REREF_INCLUDE t1 then add_flag REREF_FIXINCLUDE t1 else t1)"
    "t3 = fst (rationalize_unclear l r t2)"
    "t4 = (if has_flag REREF_INCLUDE t3 \<and> \<not> has_flag REREF_NEEDED t3 then add_flag REREF_NEEDED t3 else t3)"
    "t5 = (if has_flag REREF_REALLY_SUPPLIED t4 \<and> \<not> has_flag REREF_SUPPLIED t4 then add_flag REREF_SUPPLIED t4 else t4)"
    and r: "fst (rationalize_resource l r t) = (if has_flag REREF_REMOVED t5 then add_flag REREF_NEEDED (clear_flag REREF_SUPPLIED t5) else t5)"
    by (rule rationalize_resource_stages)
  have f: "f AND 1 = 0" "f AND 2 = 0" "f AND 128 = 0" using assms by auto
  have "has_flag f t1 \<longleftrightarrow> has_flag f t" "has_flag f t2 \<longleftrightarrow> has_flag f t1" "has_flag f t4 \<longleftrightarrow> has_flag f t3"
    "has_flag f t5 \<longleftrightarrow> has_flag f t4" using f by (simp_all add: t(1,2,4,5))
  moreover have "has_flag f t3 \<longleftrightarrow> has_flag f t2" using f by (simp add: t(3) rationalize_unclear_def)
  ultimately show ?thesis using f by (simp add: r)
qed

lemma rationalize_thing_ptr: "th_ptr (fst (rationalize_thing l t)) = th_ptr t"
  by (simp add: rationalize_thing_def rationalize_resource_def rationalize_unclear_def Let_def split: thing_ptr.split)

subsection \<open>Segments\<close>

lemma length_assign_segments [simp]: "length (assign_segments p n f c) = n"
  by (induction p n f c rule: assign_segments.induct) auto

lemma next_segment:
  assumes "0 \<le> p"
  shows "(p + 1 + int (Suc n)) div (p + 2) = 1 + int n div (p + 2)"
proof -
  have "(int n + (p + 2)) div (p + 2) = int n div (p + 2) + 1" using assms by (intro div_add_self2) simp
  moreover have "p + 1 + int (Suc n) = int n + (p + 2)" by simp
  ultimately show ?thesis by (simp only: add.commute [of 1])
qed

lemma segments_range:
  assumes "0 \<le> p" "0 \<le> f" "f \<le> p + 1" "0 \<le> c" "c + (f + int n) div (p + 2) < 256" "x \<in> set (assign_segments p n f c)"
  shows "c \<le> x \<and> x \<le> c + (f + int n) div (p + 2)"
  using assms
proof (induction p n f c rule: assign_segments.induct)
  case (2 p n f c)
  show ?case
  proof (cases "f > p")
    case True
    then have f: "f = p + 1" using 2 by simp
    have d: "(f + int (Suc n)) div (p + 2) = 1 + int n div (p + 2)" using next_segment [OF 2(3)] f by simp
    have "0 \<le> int n div (p + 2)" using 2(3) by (simp add: pos_imp_zdiv_nonneg_iff)
    moreover have "x = c + 1 \<or> x \<in> set (assign_segments p n 0 (c + 1))" using 2(6-8) True d calculation by auto
    ultimately show ?thesis using 2(1) [OF True] 2(3,6,7) d by auto
  next
    case False
    have "0 \<le> (f + int (Suc n)) div (p + 2)" using 2(3,4) by (simp add: pos_imp_zdiv_nonneg_iff)
    moreover have "x = c \<or> x \<in> set (assign_segments p n (f + 1) c)" using 2(6-8) False calculation by auto
    ultimately show ?thesis using 2(2) [OF False] 2(3-7) False by (auto simp: ac_simps)
  qed
qed simp

lemma segments_sorted:
  assumes "0 \<le> p" "0 \<le> f" "f \<le> p + 1" "0 \<le> c" "c + (f + int n) div (p + 2) < 256"
  shows "sorted (assign_segments p n f c)"
  using assms
proof (induction p n f c rule: assign_segments.induct)
  case (2 p n f c)
  show ?case
  proof (cases "f > p")
    case True
    then have f: "f = p + 1" using 2 by simp
    have d: "(f + int (Suc n)) div (p + 2) = 1 + int n div (p + 2)" using next_segment [OF 2(3)] f by simp
    moreover have "0 \<le> int n div (p + 2)" using 2(3) by (simp add: pos_imp_zdiv_nonneg_iff)
    ultimately show ?thesis using 2(1) [OF True] 2(3,6,7) True segments_range [of p 0 "c + 1" n] by auto
  next
    case False
    have "0 \<le> (f + int (Suc n)) div (p + 2)" using 2(3,4) by (simp add: pos_imp_zdiv_nonneg_iff)
    then have "c < 256" using 2(7) by simp
    then show ?thesis using 2(2) [OF False] 2(3-7) False segments_range [of p "f + 1" c n] by (auto simp: ac_simps)
  qed
qed simp

lemma first_segment:
  assumes "0 \<le> c" "c < 256" "0 \<le> f" "f \<le> p + 1" "p + 1 - f < int n"
  shows "\<exists>m. assign_segments p n f c = replicate (nat (p + 1 - f)) c @ (c + 1) mod 256 # assign_segments p m 0 (c + 1)"
  using assms
proof (induction p n f c rule: assign_segments.induct)
  case (2 p n f c)
  show ?case
  proof (cases "f > p")
    case True
    then show ?thesis using 2 by (intro exI [of _ n]) auto
  next
    case False
    then obtain m where "assign_segments p n (f + 1) c = replicate (nat (p - f)) c @ (c + 1) mod 256 # assign_segments p m 0 (c + 1)"
      using 2(2) [OF False] 2(3-) by auto
    moreover have "nat (p + 1 - f) = Suc (nat (p - f))" using False by simp
    ultimately show ?thesis using False 2(3,4) by (intro exI [of _ m]) simp
  qed
qed simp

lemma few_segments:
  assumes "2 \<le> s" "0 < n" "n div s \<le> p" "0 \<le> (p :: int)"
  shows "n div (p + 2) < s"
proof -
  have "n < s * (n div s) + s" using pos_mod_bound [of s n] mult_div_mod_eq [of s n] assms(1) by linarith
  moreover have "s * (n div s) \<le> s * p" using assms by (intro mult_left_mono) simp_all
  moreover have "s * (p + 2) = s * p + s * 2" by (rule distrib_left)
  ultimately have "n < s * (p + 2)" using assms(1) by linarith
  moreover have "n div (p + 2) * (p + 2) \<le> n" using pos_mod_sign [of "p + 2" n] div_mult_mod_eq [of n "p + 2"] assms(4) by linarith
  ultimately have "n div (p + 2) * (p + 2) < s * (p + 2)" by linarith
  then show ?thesis using assms(4) by (simp add: mult_less_cancel_right)
qed

lemma fragment_size:
  assumes "0 \<le> n" "2 \<le> s" "0 < pf"
  shows "n div s \<le> pages_per_fragment n s pf" "0 \<le> pages_per_fragment n s pf" "pages_per_fragment n s pf mod pf = 0"
proof -
  have q: "0 \<le> n div s" using assms by (simp add: pos_imp_zdiv_nonneg_iff)
  have e: "pages_per_fragment n s pf = (n div s + pf - 1) div pf * pf"
    using assms q by (simp add: pages_per_fragment_def c_div_def)
  show "pages_per_fragment n s pf mod pf = 0" by (simp add: e)
  have "(n div s + pf - 1) div pf * pf = n div s + pf - 1 - (n div s + pf - 1) mod pf" by (simp add: minus_mod_eq_div_mult)
  then show "n div s \<le> pages_per_fragment n s pf" using e pos_mod_bound [OF assms(3), of "n div s + pf - 1"] by simp
  then show "0 \<le> pages_per_fragment n s pf" using q by simp
qed

lemma split_pages_segments:
  assumes "split_pages s j = Inr (Some xs, j')"
  shows "xs = assign_segments (pages_per_fragment (pagenumber j) s (at_pagefactor (j_attr (qentry j)))) (nat (pagenumber j)) 0 1" "last xs > 1"
    "at_pagefactor (j_attr (qentry j)) < pagenumber j"
  using assms by (auto simp: split_pages_def Let_def split: if_splits)

lemma split_in_range:
  assumes "split_pages s j = Inr (Some xs, j')" "2 \<le> s" "s \<le> MAX_SEGMENTS" "0 < at_pagefactor (j_attr (qentry j))"
  defines "p \<equiv> pages_per_fragment (pagenumber j) s (at_pagefactor (j_attr (qentry j)))"
  shows "0 \<le> p" "1 + (0 + int (nat (pagenumber j))) div (p + 2) \<le> s" "0 < pagenumber j"
proof -
  show n: "0 < pagenumber j" using split_pages_segments(3) [OF assms(1)] assms(4) by simp
  show "0 \<le> p" unfolding p_def using fragment_size(2) [of "pagenumber j" s] n assms(2,4) by simp
  have "pagenumber j div (p + 2) < s"
    unfolding p_def using few_segments fragment_size [of "pagenumber j" s] n assms(2,4) by simp
  then show "1 + (0 + int (nat (pagenumber j))) div (p + 2) \<le> s" using n by simp
qed

subsection \<open>Media\<close>

lemma find_found: "(case find P xs of Some x \<Rightarrow> x \<in> set xs \<and> P x | None \<Rightarrow> \<forall>x \<in> set xs. \<not> P x)"
  by (auto simp: find_None_iff find_Some_iff split: option.split)

lemma notify_warning [simp]: "notify_me (warning l m j) = notify_me j" "qentry (warning l m j) = qentry j" "things (warning l m j) = things j"
  by (simp_all add: notify_me_def warning_def)

lemma write_media_line_chosen:
  assumes "write_media_line b mfile m j = Inr (x, j')"
  shows "chosen b (notify_me j) mfile m x \<and> qentry j' = qentry j \<and> things j' = things j"
  using assms find_found [of mfile "exact_match m"] find_found [of mfile "close_match m"] find_found [of mfile "poor_match m"]
  by (auto simp: write_media_line_def chosen_def acceptable_def notify_me_def split: option.splits if_splits)

lemma media_step_result:
  "media_step b mfile m (ls, j) = Inr s \<longleftrightarrow> (\<exists>x j1. write_media_line b mfile m j = Inr (x, j1)
     \<and> s = (case x of Some l \<Rightarrow> (ls @ [l], j1) | None \<Rightarrow> (ls, warning WARNING_SEVERE ''Requested medium is not listed in the media database'' j1)))"
  by (auto simp: media_step_def bindE_eq_Inr split: option.splits)

lemma media_steps:
  assumes "foldE (media_step b mfile) ms (ls, j) = Inr (ls', j')"
  shows "\<exists>xs. ls' = ls @ somes xs \<and> list_all2 (chosen b (notify_me j) mfile) ms xs
    \<and> qentry j' = qentry j \<and> things j' = things j"
  using assms
proof (induction ms arbitrary: ls j)
  case (Cons m ms)
  then obtain x j1 where w: "write_media_line b mfile m j = Inr (x, j1)"
    and f: "foldE (media_step b mfile) ms (case x of Some l \<Rightarrow> (ls @ [l], j1) | None \<Rightarrow> (ls, warning WARNING_SEVERE ''Requested medium is not listed in the media database'' j1)) = Inr (ls', j')"
    by (auto simp: bindE_eq_Inr media_step_result)
  note c = write_media_line_chosen [OF w]
  have n: "notify_me j1 = notify_me j" using c by (simp add: notify_me_def)
  show ?case
  proof (cases x)
    case None
    obtain xs where "ls' = ls @ somes xs" "list_all2 (chosen b (notify_me j) mfile) ms xs"
      "qentry j' = qentry j \<and> things j' = things j"
      using Cons.IH [OF f [unfolded None option.case]] c n by auto
    then show ?thesis using c None by (intro exI [of _ "x # xs"]) simp
  next
    case (Some l)
    obtain xs where "ls' = (ls @ [l]) @ somes xs" "list_all2 (chosen b (notify_me j) mfile) ms xs"
      "qentry j' = qentry j \<and> things j' = things j"
      using Cons.IH [OF f [unfolded Some option.case]] c n by auto
    then show ?thesis using c Some by (intro exI [of _ "x # xs"]) simp
  qed
qed auto

lemma chosen_lines:
  assumes "list_all2 (chosen b notify mfile) ms xs" "ls = somes xs"
  shows "\<forall>l \<in> set ls. \<exists>m \<in> set ms. \<exists>km \<in> set mfile. l = media_line b km m \<and> acceptable notify m km"
    "\<forall>m \<in> set ms. notify \<or> (\<exists>km \<in> set mfile. acceptable notify m km) \<longrightarrow> (\<exists>km \<in> set mfile. media_line b km m \<in> set ls \<and> acceptable notify m km)"
proof -
  show "\<forall>l \<in> set ls. \<exists>m \<in> set ms. \<exists>km \<in> set mfile. l = media_line b km m \<and> acceptable notify m km"
    using assms(1) unfolding assms(2) by (induction rule: list_all2_induct) (auto simp: chosen_def split: option.splits)
  show "\<forall>m \<in> set ms. notify \<or> (\<exists>km \<in> set mfile. acceptable notify m km) \<longrightarrow> (\<exists>km \<in> set mfile. media_line b km m \<in> set ls \<and> acceptable notify m km)"
    using assms(1) unfolding assms(2) by (induction rule: list_all2_induct) (auto simp: chosen_def split: option.splits)
qed

lemma write_media_lines_named:
  assumes "write_media_lines b (Some mfile) dm frag j = Inr (ls, j')"
  shows "ls \<noteq> [] \<and> qentry j' = qentry j \<and> things j' = things j
    \<and> (media_named b (notify_me j) mfile (media_of frag j) ls
       \<or> media_named b (notify_me j) mfile (media_of frag j) []
         \<and> (\<exists>def. first_default mfile dm = Inr def
              \<and> (media_named b (notify_me j) mfile [adjust_default (guess_media dm) def] ls
                 \<or> ls = [''Media: UNRECOGNIZED NULL''] \<and> \<not> notify_me j)))"
proof -
  obtain l1 j1 where f: "foldE (media_step b mfile) (media_of frag j) ([], j) = Inr (l1, j1)"
    and more: "(if l1 \<noteq> [] then Inr (l1, j1) else
            bindE (first_default mfile dm) (\<lambda>def.
            bindE (write_media_line b mfile (adjust_default (guess_media dm) def) j1) (\<lambda>(line, j).
              case line of
                Some l \<Rightarrow> Inr ([l], j)
              | None \<Rightarrow> Inr ([''Media: UNRECOGNIZED NULL''], warning WARNING_SEVERE ''Default medium as overridden does not exist'' j)))) = Inr (ls, j')"
    using assms by (auto simp: write_media_lines_def)
  obtain xs where xs: "l1 = somes xs" "list_all2 (chosen b (notify_me j) mfile) (media_of frag j) xs"
    "qentry j1 = qentry j" "things j1 = things j" using media_steps [OF f] by auto
  have l1: "media_named b (notify_me j) mfile (media_of frag j) l1"
    unfolding media_named_def using chosen_lines [OF xs(2,1)] by blast
  show ?thesis
  proof (cases "l1 = []")
    case False
    then show ?thesis using more l1 xs by simp
  next
    case True
    then obtain def x j2 where d: "first_default mfile dm = Inr def" "write_media_line b mfile (adjust_default (guess_media dm) def) j1 = Inr (x, j2)"
      and r: "(case x of Some l \<Rightarrow> Inr ([l], j2)
              | None \<Rightarrow> Inr ([''Media: UNRECOGNIZED NULL''], warning WARNING_SEVERE ''Default medium as overridden does not exist'' j2)) = (Inr (ls, j') :: ppr_abort + string list \<times> ppr_job)"
      using more by auto
    have c: "chosen b (notify_me j) mfile (adjust_default (guess_media dm) def) x" "qentry j2 = qentry j" "things j2 = things j"
      using write_media_line_chosen [OF d(2)] xs by (simp_all add: notify_me_def)
    then show ?thesis using l1 True d(1) r by (cases x) (auto simp: chosen_def media_named_def)
  qed
qed

subsection \<open>Lines that the daemon passes over\<close>

lemma ordinary_first: "c \<noteq> CHR ''P'' \<Longrightarrow> c \<noteq> CHR ''M'' \<Longrightarrow> ordinary (c # l)"
  by (simp add: ordinary_def)

lemma rstrip_prefix: "\<exists>t. s = rstrip s @ t"
proof -
  have "s = rev (takeWhile gu_ascii_isspace (rev s) @ dropWhile gu_ascii_isspace (rev s))" by simp
  then show ?thesis unfolding rstrip_def rev_append by blast
qed

lemma ordinary_rstrip: "ordinary l \<Longrightarrow> ordinary (rstrip l)"
proof -
  assume o: "ordinary l"
  obtain t where t: "l = rstrip l @ t" using rstrip_prefix by blast
  have "take (length p) l = p" if "take (length p) (rstrip l) = p" for p
  proof -
    have "length p \<le> length (rstrip l)" using that by (metis length_take min.absorb_iff2 min.commute)
    then show ?thesis using that by (subst t) simp
  qed
  from this [of "''PPRD:''"] this [of "''Media:''"] show ?thesis using o by (auto simp: ordinary_def numeral_eq_Suc)
qed

lemma foldE_append: "foldE f (xs @ ys) s = bindE (foldE f xs s) (foldE f ys)"
  proof (induction xs arbitrary: s)
  case (Cons x xs)
  then have "foldE f (xs @ ys) = (\<lambda>s. bindE (foldE f xs s) (foldE f ys))" by (intro ext)
  then show ?case by (simp add: bindE_assoc)
qed simp

lemma scan_literal:
  assumes "list_all (\<lambda>c. c \<noteq> CHR ''%'' \<and> \<not> gu_ascii_isspace c) lit" "length lit \<le> fuel" "take (length lit) s \<noteq> lit"
  shows "sscanf_loop fuel input (lit @ p) s ws n vs = Inr (n, vs)"
  using assms
proof (induction lit arbitrary: fuel s)
  case (Cons c lit)
  then obtain k where "fuel = Suc k" by (cases fuel) auto
  then show ?case using Cons by (cases s) auto
qed simp

lemma scan_mismatch:
  assumes "take 5 l \<noteq> ''PPRD:''"
  shows "gu_sscanf l ''PPRD: %hx %x %hx %hx'' [] = Inr (0, [])"
proof -
  have "take (length ''PPRD:'') l \<noteq> ''PPRD:''" using assms by (simp add: numeral_eq_Suc)
  then show ?thesis unfolding gu_sscanf_def using scan_literal [of "''PPRD:''" _ l _ "'' %hx %x %hx %hx''"] by (simp add: gu_ascii_isspace_def del: sscanf_loop.simps)
qed

lemma scan_no_media:
  assumes "take 6 l \<noteq> ''Media:''"
  shows "gu_sscanf l ''Media: %@s'' ws = Inr (0, [])"
proof -
  have "take (length ''Media:'') l \<noteq> ''Media:''" using assms by (simp add: numeral_eq_Suc)
  then show ?thesis unfolding gu_sscanf_def using scan_literal [of "''Media:''" _ l _ "'' %@s''"] by (simp add: gu_ascii_isspace_def del: sscanf_loop.simps)
qed

lemma read_ordinary: "ordinary l \<Longrightarrow> read_line l s = Inr s"
  by (cases s) (simp add: ordinary_def read_line_def scan_mismatch scan_no_media lift_gu_def pprd_setters_def)

lemma read_ordinaries: "list_all ordinary ls \<Longrightarrow> foldE read_line (map rstrip ls) s = Inr s"
  by (induction ls) (simp_all add: read_ordinary ordinary_rstrip)

lemma ordinary_opt_line: "(\<And>v. ordinary (name @ v)) \<Longrightarrow> list_all ordinary (opt_line name x)"
  by (simp add: opt_line_def split: option.split)

lemma saved_lines_ordinary:
  "submitter_lines q = Inr l1 \<Longrightarrow> list_all ordinary l1"
  "document_lines q = Inr l2 \<Longrightarrow> list_all ordinary l2"
  "ipp_lines q = Inr l3 \<Longrightarrow> list_all ordinary l3"
proof -
  have o: "list_all ordinary (opt_line (c # name) x)" if "c \<noteq> CHR ''P''" "c \<noteq> CHR ''M''" for c name x
    using that by (intro ordinary_opt_line) (simp add: ordinary_first)
  show "submitter_lines q = Inr l1 \<Longrightarrow> list_all ordinary l1"
    by (auto simp: submitter_lines_def o ordinary_first) (simp_all add: ordinary_def)
  have p: "list_all ordinary (opt_line ''PassThruPDL: '' x)" for x by (rule ordinary_opt_line) (simp add: ordinary_def)
  have m: "list_all ordinary (case x of None \<Rightarrow> [] | Some m \<Rightarrow> [''PageList: '' @ v @ '' '' @ m])" for x v by (simp add: ordinary_def split: option.split)
  show "document_lines q = Inr l2 \<Longrightarrow> list_all ordinary l2"
    unfolding document_lines_def Let_def by (elim bindE_InrE) (auto simp: o p m ordinary_first simp del: opt_line_def)
  have "list_all ordinary (case j_Title q of Some (c # t) \<Rightarrow> [''job-name '' @ c # t] | _ \<Rightarrow> opt_line ''job-name '' (j_lpqFileName q))"
    by (simp add: o ordinary_first split: option.split list.split)
  then show "ipp_lines q = Inr l3 \<Longrightarrow> list_all ordinary l3"
    by (auto simp: ipp_lines_def Let_def ordinary_first split: if_splits)
qed

subsection \<open>Lines that the daemon reads\<close>

lemma read_pprd:
  assumes "proper_spool_state st"
  shows "read_line (rstrip (pprd_save_line st)) (q, seen, ms, d)
    = Inr (q\<lparr>q_priority := jss_priority st, q_sequence_number := word_of_int (jss_sequence_number st),
              q_status := jss_status st, q_flags := word_of_int (jss_flags st)\<rparr>, True, ms, d)"
  using assms scan_pprd_save [OF assms] by (simp add: read_line_def lift_gu_def pprd_setters_def to_int16_id proper_spool_state_def)

lemma rstrip_after_word:
  assumes "is_word name"
  shows "\<exists>u. rstrip (name @ '' '' @ t) = name @ u \<and> (u = [] \<or> hd u = CHR '' '')"
proof (cases "rstrip t = []")
  case True
  then show ?thesis using rstrip_trail [of t name] assms by (intro exI [of _ "[]"]) simp
next
  case False
  then show ?thesis using rstrip_append [of "name @ '' ''" t] by (intro exI [of _ "'' '' @ rstrip t"]) simp
qed

lemma scan_media:
  assumes "is_word name" "length name \<le> 16" "u = [] \<or> hd u = CHR '' ''"
  shows "gu_sscanf (''Media: '' @ name @ u) ''Media: %@s'' [17] = Inr (1, [SStr name])"
proof -
  have "takeWhile (\<lambda>c. \<not> gu_ascii_isspace c) (name @ u) = name"
    using assms(1,3) by (intro takeWhile_ends) (auto simp: is_word_def ends_number_def gu_ascii_isspace_def)
  moreover have "parse_flags ''@s'' [17] = Inr (\<lparr>cf_suppress = False, cf_maxextlen = 17, cf_islong = False, cf_isshort = False\<rparr>, [], ''s'')"
    by (simp add: parse_flags_def)
  moreover have "conversion CHR ''s'' f n s = conv_s f s" for f n s by (simp add: conversion_def)
  moreover have "dropWhile gu_ascii_isspace (name @ u) = name @ u" using assms(1) by (rule is_word_hd)
  ultimately show ?thesis using assms(1,2) is_word_not_Nil [OF assms(1)]
    by (simp add: gu_sscanf_def conv_s_def Let_def store_def gu_ascii_isspace_def del: dropWhile_eq_self_iff takeWhile_eq_all_conv)
qed

lemma read_media:
  assumes "names_medium l name"
  shows "read_line (rstrip l) (q, seen, ms, d)
    = (if length ms < 4 then bindE (id_step name (ms, d)) (\<lambda>a. Inr (q, seen, a)) else Inr (q, seen, ms, d))"
proof -
  obtain t where t: "is_word name" "length name \<le> 16" "l = ''Media: '' @ name @ '' '' @ t" using assms by (auto simp: names_medium_def)
  obtain u where u: "rstrip (name @ '' '' @ t) = name @ u" "u = [] \<or> hd u = CHR '' ''" using rstrip_after_word [OF t(1)] by blast
  then have "rstrip l = ''Media: '' @ name @ u"
    unfolding t(3) using rstrip_append [of "''Media: ''" "name @ '' '' @ t"] is_word_not_Nil [OF t(1)] by simp
  moreover have "gu_sscanf (''Media: '' @ name @ u) ''PPRD: %hx %x %hx %hx'' [] = Inr (0, [])" by (rule scan_mismatch) simp
  ultimately show ?thesis using scan_media [OF t(1,2) u(2)]
    by (simp add: read_line_def lift_gu_def pprd_setters_def id_step_def bindE_assoc case_prod_unfold)
qed

lemma read_medias:
  assumes "list_all2 names_medium ls names" "length ms \<le> 4"
  shows "foldE read_line (map rstrip ls) (q, seen, ms, d)
    = bindE (foldE id_step (take (4 - length ms) names) (ms, d)) (\<lambda>a. Inr (q, seen, a))"
  using assms
proof (induction ls names arbitrary: ms d rule: list_all2_induct)
  case (Cons l ls name names)
  show ?case
  proof (cases "length ms < 4")
    case True
    then obtain k where k: "4 - length ms = Suc k" by (cases "4 - length ms") auto
    have "foldE read_line (map rstrip ls) (q, seen, ms', d') = bindE (foldE id_step (take k names) (ms', d')) (\<lambda>a. Inr (q, seen, a))"
      if "id_step name (ms, d) = Inr (ms', d')" for ms' d'
    proof -
      have "length ms' = Suc (length ms)" using that by (auto simp: id_step_def)
      moreover have "4 - length ms' = k" using calculation k by simp
      ultimately show ?thesis using Cons.IH [of ms' d'] True by simp
    qed
    then show ?thesis using Cons(1) True k
      by (cases "id_step name (ms, d)") (auto simp: read_media)
  next
    case False
    then have "4 - length ms = 0" by simp
    then show ?thesis using Cons.IH [of ms d] Cons(1,4) False by (simp add: read_media)
  qed
qed simp

subsection \<open>What is written\<close>

lemma list_choice: "\<forall>l \<in> set ls. \<exists>n. R l n \<Longrightarrow> \<exists>ns. list_all2 R ls ns"
  by (induction ls) (auto simp: list_all2_Cons1)

lemma clean_take: "clean s \<Longrightarrow> clean (take n s)"
  by (auto simp: clean_def dest: in_set_takeD)

lemma clean_unpad: "clean s \<Longrightarrow> clean (unpad b s)"
  by (simp add: unpad_def padded_to_ASCIIZ_def clean_take)

lemma unpad_record:
  assumes "proper_record km"
  shows "is_word (unpad b (m_medianame km))" "length (unpad b (m_medianame km)) \<le> MAX_MEDIANAME"
proof -
  obtain name where n: "is_word name" "length name \<le> 16" "m_medianame km = ASCIIZ_to_padded name 16" using assms by (auto simp: proper_record_def)
  moreover have "length (ASCIIZ_to_padded name 16) = 16" using n(2) by (simp add: ASCIIZ_to_padded_def)
  moreover have "last name \<noteq> CHR '' ''" using n(1) last_in_set [of name] by (auto simp: is_word_def gu_ascii_isspace_def)
  ultimately have "unpad b (m_medianame km) = name" using padded_to_ASCIIZ_pad [of name 16 b] by (simp add: unpad_def)
  then show "is_word (unpad b (m_medianame km))" "length (unpad b (m_medianame km)) \<le> MAX_MEDIANAME" using n by simp_all
qed

lemma media_line_named:
  assumes "proper_record km" "clean (m_medianame m)"
  shows "names_medium (media_line b km m) (unpad b (m_medianame km))" "clean (media_line b km m)"
  using unpad_record [OF assms(1), of b] clean_unpad [OF assms(2)] by (auto simp: names_medium_def media_line_def clean_texts)

lemma media_of_clean:
  assumes "list_all proper_thing (things j)" "m \<in> set (media_of frag j)"
  shows "clean (m_medianame m)"
  using assms by (fastforce simp: media_of_def list_all_iff proper_thing_def split: thing_ptr.splits)

lemma medianame_kept:
  "m_medianame (if c then m\<lparr>m_width := x, m_height := y\<rparr> else m) = m_medianame m" "m_medianame (if c then m\<lparr>m_weight := x\<rparr> else m) = m_medianame m"
  "m_medianame (if c then m\<lparr>m_colour := v\<rparr> else m) = m_medianame m" "m_medianame (if c then m\<lparr>m_type := v\<rparr> else m) = m_medianame m"
  by simp_all

lemma default_clean:
  assumes "first_default mfile dm = Inr def"
  shows "clean (m_medianame (adjust_default g def))"
proof -
  have "m_medianame def = ASCIIZ_to_padded ''NULL'' 16" using assms by (auto simp: first_default_def)
  moreover have "clean (ASCIIZ_to_padded ''NULL'' 16)" by code_simp
  ultimately show ?thesis by (simp only: adjust_default_def Let_def medianame_kept)
qed

lemma media_named_read:
  assumes "media_named b x mfile ms ls" "\<And>m. m \<in> set ms \<Longrightarrow> clean (m_medianame m)" "\<forall>km \<in> set mfile. proper_record km"
  shows "\<forall>l \<in> set ls. \<exists>n. names_medium l n \<and> clean l \<and> n \<in> (\<lambda>km. unpad b (m_medianame km)) ` set mfile"
proof
  fix l assume "l \<in> set ls"
  then obtain m km where m: "m \<in> set ms" "km \<in> set mfile" "l = media_line b km m" using assms(1) unfolding media_named_def by blast
  then show "\<exists>n. names_medium l n \<and> clean l \<and> n \<in> (\<lambda>km. unpad b (m_medianame km)) ` set mfile"
    using media_line_named [of km m b] assms(2,3) by blast
qed

lemma unrecognized_read: "names_medium ''Media: UNRECOGNIZED NULL'' ''UNRECOGNIZED''" "clean ''Media: UNRECOGNIZED NULL''"
proof -
  show "names_medium ''Media: UNRECOGNIZED NULL'' ''UNRECOGNIZED''"
    unfolding names_medium_def by (intro conjI exI [of _ "''NULL''"]) code_simp+
  show "clean ''Media: UNRECOGNIZED NULL''" by code_simp
qed

lemma media_lines_read:
  assumes "write_media_lines b (Some mfile) dm frag j = Inr (ls, j')" "list_all proper_thing (things j)" "\<forall>km \<in> set mfile. proper_record km"
  shows "\<exists>names. list_all2 names_medium ls names \<and> names \<noteq> [] \<and> list_all clean ls
    \<and> set names \<subseteq> insert ''UNRECOGNIZED'' ((\<lambda>km. unpad b (m_medianame km)) ` set mfile)"
proof -
  define S where "S = insert ''UNRECOGNIZED'' ((\<lambda>km. unpad b (m_medianame km)) ` set mfile)"
  note w = write_media_lines_named [OF assms(1)]
  have u: "''UNRECOGNIZED'' \<in> S" unfolding S_def by (rule insertI1)
  have n: "\<forall>l \<in> set ls. \<exists>n. names_medium l n \<and> clean l \<and> n \<in> S" if "media_named b x mfile ms ls" "\<And>m. m \<in> set ms \<Longrightarrow> clean (m_medianame m)" for x ms
    using media_named_read [OF that assms(3)] unfolding S_def by blast
  consider "media_named b (notify_me j) mfile (media_of frag j) ls"
    | def where "first_default mfile dm = Inr def" "media_named b (notify_me j) mfile [adjust_default (guess_media dm) def] ls"
    | "ls = [''Media: UNRECOGNIZED NULL'']" using w by blast
  then have "\<forall>l \<in> set ls. \<exists>n. names_medium l n \<and> clean l \<and> n \<in> S"
  proof cases
    case 1
    then show ?thesis by (rule n) (rule media_of_clean [OF assms(2)])
  next
    case 2
    then show ?thesis by (intro n) (use default_clean [OF 2(1)] in auto)
  next
    case 3
    show ?thesis unfolding 3 using unrecognized_read u by (simp only: list.set ball_simps simp_thms) blast
  qed
  then obtain ns where "list_all2 (\<lambda>l n. names_medium l n \<and> clean l \<and> n \<in> S) ls ns" using list_choice [of ls "\<lambda>l n. names_medium l n \<and> clean l \<and> n \<in> S"] by blast
  then have "list_all2 names_medium ls ns" "list_all clean ls" "set ns \<subseteq> S"
    by (induction rule: list_all2_induct) auto
  moreover have "ns \<noteq> []" using calculation(1) w by auto
  ultimately show ?thesis unfolding S_def by blast
qed

lemma quote_name_clean: "clean s \<Longrightarrow> clean (quote_name s)"
  by (induction s) (auto simp: quote_name_def)

lemma resource_line_plain:
  assumes "resource_line t r = Inr l" "clean (R_Type r)" "clean (R_Name r)"
  shows "plain l"
  using assms quote_name_clean [of "R_Name r"] clean_dtostr
  by (auto simp: resource_line_def plain_def ordinary_first)

lemma resource_lines_plain:
  assumes "write_resource_lines frag j = Inr ls" "list_all proper_thing (things j)"
  shows "list_all plain ls"
proof -
  have "list_all plain ls" if "foldE (\<lambda>t lines. case th_ptr t of
         TH_RESOURCE r \<Rightarrow> if R_Flags t = 0 then Inr lines else bindE (resource_line t r) (\<lambda>l. Inr (lines @ [l]))
       | _ \<Rightarrow> Inr lines) ts acc = Inr ls" "list_all proper_thing ts" "list_all plain acc" for ts acc
    using that
  proof (induction ts arbitrary: acc)
    case (Cons t ts)
    then show ?case by (auto simp: proper_thing_def split: thing_ptr.splits if_splits dest: resource_line_plain)
  qed simp
  from this [of "things j" "[]"] show ?thesis using assms by (simp add: write_resource_lines_def)
qed

lemma requirement_lines_plain: "list_all proper_thing (things j) \<Longrightarrow> list_all plain (write_requirement_lines frag j)"
  by (auto simp: write_requirement_lines_def list_all_iff proper_thing_def plain_def ordinary_first split: thing_ptr.splits)

lemma lift_ppr_Inr [simp]: "lift_ppr r = Inr a \<longleftrightarrow> r = Inr a"
  by (simp add: lift_ppr_def split: sum.split)

lemma saved_lines:
  assumes "check_values q = Inr ()" "proper_spool_state (j_spool_state q)" "proper_numbers fl q" "proper_strings q"
  shows "\<exists>ls. qentryfile_save q = Inr (lines_text (pprd_save_line (j_spool_state q) # ls)) \<and> list_all plain ls"
proof -
  let ?q0 = "qentryfile_clear q"
  have "j_lc_messages ?q0 = None" "j_charge_to ?q0 = None" "j_Title ?q0 = None" "j_draft_notice ?q0 = None" "j_Creator ?q0 = None"
      "j_Routing ?q0 = None" "j_lpqFileName ?q0 = None" "rs_options (j_responder ?q0) = None" by (simp_all add: qentryfile_clear_def)
  then obtain l1 where l1: "submitter_lines q = Inr l1" "list_all clean l1" by (rule submitter_read [OF assms(1,3,4)])
  have r: "opt_all clean (j_ripopts q)" using check_values_texts(10) [OF assms(1)] by (rule opt_all_mono) (auto simp: clean_def)
  have "j_Filters ?q0 = None" "j_PassThruPDL ?q0 = None" "j_page_mask ?q0 = None" "j_page_count ?q0 = -1" "j_question ?q0 = None" "j_ripopts ?q0 = None"
    by (simp_all add: qentryfile_clear_def)
  then obtain l2 where l2: "document_lines q = Inr (l2 @ [''EndMisc''])" "list_all clean l2" by (rule document_read [OF assms(3,4) r])
  obtain l3 where l3: "ipp_lines q = Inr l3" using assms(3) by (simp add: ipp_lines_def proper_numbers_def Let_def)
  have "opt_all clean (j_user q)" using assms(4) by (auto simp: proper_strings_def opt_all_def clean_texts split: option.splits)
  moreover have "opt_all clean (j_Title q)" using check_values_texts(7) [OF assms(1)] by (rule opt_all_mono) (auto simp: clean_texts)
  ultimately have c3: "list_all clean l3" using ipp_lines_clean [OF l3] clean_opts(1) [OF check_values_texts(6) [OF assms(1)]] by simp
  have "qentryfile_save q = Inr (lines_text (pprd_save_line (j_spool_state q) # l1 @ (l2 @ [''EndMisc'']) @ l3))"
    using l1(1) l2(1) l3 length_pprd_save_line [OF assms(2)] by (simp add: qentryfile_save_def lines_text_def)
  moreover have "list_all plain (l1 @ (l2 @ [''EndMisc'']) @ l3)"
    using l1 l2 c3 saved_lines_ordinary(1) [OF l1(1)] saved_lines_ordinary(2) [OF l2(1)] saved_lines_ordinary(3) [OF l3]
    by (auto simp: plain_def list_all_iff)
  ultimately show ?thesis by blast
qed

lemma check_values_cookie: "check_values (q\<lparr>j_magic_cookie := x\<rparr>) = check_values q"
  by (simp add: check_values_def)

lemma pjl_lines:
  assumes "proper_pjl x"
  shows "\<exists>ls. (case x of None \<Rightarrow> [] | Some pjl \<Rightarrow> lines_text [''PJLHint: '' @ print_d (int (length pjl))] @ pjl) = lines_text ls \<and> list_all plain ls"
proof (cases x)
  case None
  then show ?thesis by (intro exI [of _ "[]"]) (simp add: lines_text_def)
next
  case (Some pjl)
  then obtain ls where ls: "list_all pjl_line ls" "pjl = lines_text ls" using assms by (auto simp: proper_pjl_def)
  have "plain l" if "pjl_line l" for l using that by (cases l) (auto simp: pjl_line_def plain_def ordinary_first)
  then have "list_all plain ls" using ls(1) by (auto simp: list_all_iff)
  moreover have "plain (''PJLHint: '' @ print_d n)" for n by (simp add: plain_def ordinary_def)
  ultimately show ?thesis using Some ls(2)
    by (intro exI [of _ "(''PJLHint: '' @ print_d (int (length pjl))) # ls"]) (simp add: lines_text_def del: append_Cons)
qed

lemma queue_file_lines:
  assumes "queue_file_text b (Some mfile) dm features j = Inr (content, j')" "check_values (qentry j) = Inr ()"
    "proper_spool_state (j_spool_state (qentry j))" "proper_numbers fl (qentry j)" "proper_strings (qentry j)" "proper_pjl (j_PJL (qentry j))"
    "list_all proper_thing (things j)" "\<forall>km \<in> set mfile. proper_record km" "list_all clean features"
  shows "\<exists>before medias after names. content = lines_text (pprd_save_line (j_spool_state (qentry j)) # before @ medias @ after)
    \<and> list_all plain before \<and> list_all plain after \<and> list_all clean medias \<and> list_all2 names_medium medias names \<and> names \<noteq> []
    \<and> set names \<subseteq> insert ''UNRECOGNIZED'' ((\<lambda>km. unpad b (m_medianame km)) ` set mfile) \<and> qentry j' = qentry j"
proof -
  let ?q = "qentry j"
  obtain ls where ls: "qentryfile_save ?q = Inr (lines_text (pprd_save_line (j_spool_state ?q) # ls))" "list_all plain ls"
    using saved_lines [OF assms(2-5)] by blast
  obtain medias j1 res where m: "write_media_lines b (Some mfile) dm (j_subid ?q) j = Inr (medias, j1)"
    and r: "write_resource_lines (j_subid ?q) j1 = Inr res" and j': "j' = j1"
    and c: "content = lines_text (pprd_save_line (j_spool_state ?q) # ls) @ lines_text ([''EndAddon''] @ medias @ [''EndMedia''] @ res @ [''EndRes''] @ write_requirement_lines (j_subid ?q) j1 @ [''EndReq'']) @
             (case j_PJL ?q of None \<Rightarrow> [] | Some pjl \<Rightarrow> lines_text [''PJLHint: '' @ print_d (int (length pjl))] @ pjl) @
             lines_text ([''EndPJL''] @ write_feature_lines features @ [''EndSetups''])"
    using assms(1) ls(1) unfolding queue_file_text_def Let_def
    by (auto simp: bindE_eq_Inr)
  have k: "things j1 = things j" "qentry j1 = qentry j" using write_media_lines_named [OF m] by simp_all
  obtain names where n: "list_all2 names_medium medias names" "names \<noteq> []" "list_all clean medias"
    "set names \<subseteq> insert ''UNRECOGNIZED'' ((\<lambda>km. unpad b (m_medianame km)) ` set mfile)"
    using media_lines_read [OF m assms(7,8)] by blast
  obtain ps where ps: "(case j_PJL ?q of None \<Rightarrow> [] | Some pjl \<Rightarrow> lines_text [''PJLHint: '' @ print_d (int (length pjl))] @ pjl) = lines_text ps" "list_all plain ps"
    using pjl_lines [OF assms(6)] by blast
  let ?after = "[''EndMedia''] @ res @ [''EndRes''] @ write_requirement_lines (j_subid ?q) j1 @ [''EndReq''] @ ps @ [''EndPJL''] @ write_feature_lines features @ [''EndSetups'']"
  have e: "plain ''EndAddon''" "plain ''EndMedia''" "plain ''EndRes''" "plain ''EndReq''" "plain ''EndPJL''" "plain ''EndSetups''" by code_simp+
  have "list_all plain (write_feature_lines features)" using assms(9) by (auto simp: write_feature_lines_def list_all_iff plain_def ordinary_first)
  then have "list_all plain ?after"
    using e resource_lines_plain [OF r] requirement_lines_plain [of j1] ps(2) k assms(7) by simp
  moreover have "content = lines_text (pprd_save_line (j_spool_state ?q) # (ls @ [''EndAddon'']) @ medias @ ?after)"
    unfolding c ps(1) by (simp add: lines_text_def)
  moreover have "list_all plain (ls @ [''EndAddon''])" using ls(2) e by simp
  ultimately show ?thesis using n k(2) j' by blast
qed

subsection \<open>What is read\<close>

lemma lines_read:
  assumes "proper_spool_state st" "list_all plain before" "list_all plain after" "list_all clean medias" "list_all2 names_medium medias names"
  shows "foldE read_line (file_lines (lines_text (pprd_save_line st # before @ medias @ after))) (q, False, [], d)
    = bindE (numbers_of_media (take MAX_DOCMEDIA names) d) (\<lambda>a. Inr (q\<lparr>q_priority := jss_priority st,
        q_sequence_number := word_of_int (jss_sequence_number st), q_status := jss_status st, q_flags := word_of_int (jss_flags st)\<rparr>, True, a))"
proof -
  let ?ls = "pprd_save_line st # before @ medias @ after"
  have p: "list_all clean ls" "list_all ordinary ls" if "list_all plain ls" for ls using that by (auto simp: list_all_iff plain_def)
  have "list_all clean ?ls" using p(1) [OF assms(2)] p(1) [OF assms(3)] assms(4) by (simp add: pprd_save_line_def)
  then have f: "file_lines (lines_text ?ls) = map rstrip ?ls" using file_lines_clean [of ?ls "[]"] by (simp add: lines_text_def file_lines_def)
  show ?thesis unfolding f numbers_of_media_def
    using read_medias [OF assms(5), of "[]"] read_ordinaries [OF p(2) [OF assms(2)]] read_ordinaries [OF p(2) [OF assms(3)]]
    by (simp add: foldE_append read_pprd [OF assms(1)] bindE_assoc)
qed

lemma submission_reads:
  assumes "write_queue_file b (Some mfile) dm features queuedir rand False files j = Inr (fname, content, j')"
    and "proper_spool_state (j_spool_state (qentry j'))" "proper_numbers fl (qentry j')" "proper_strings (qentry j')" "proper_pjl (j_PJL (qentry j'))"
    and "list_all proper_thing (things j)" "\<forall>km \<in> set mfile. proper_record km" "list_all clean features"
    and "path_of ''%s/%s'' [FStr (QUEUEDIR (dirs d)), FStr qfname] d = Inr fname" "fs d fname = Some content"
  shows "\<exists>names. names \<noteq> [] \<and> set names \<subseteq> insert ''UNRECOGNIZED'' ((\<lambda>km. unpad b (m_medianame km)) ` set mfile)
    \<and> read_queue_file qfname destid jid subid d
      = bindE (numbers_of_media (take MAX_DOCMEDIA names) d) (\<lambda>(ms, d). Inr (submitted_entry (j_spool_state (qentry j')) destid jid subid ms d, d))"
proof -
  let ?j = "j\<lparr>qentry := (qentry j)\<lparr>j_magic_cookie := Some (take 15 (print_X 8 rand))\<rparr>\<rparr>"
  have c: "check_values (qentry ?j) = Inr ()"
    using assms(1) by (auto simp: write_queue_file_def fatal_check_def check_values_cookie split: sum.splits gu_err.splits)
  obtain body where t: "queue_file_text b (Some mfile) dm features ?j = Inr (body, j')" and n: "files fname = None" "content = body"
    using assms(1) by (auto simp: write_queue_file_def Let_def bindE_eq_Inr split: if_splits)
  have q: "qentry j' = qentry ?j"
    using t write_media_lines_named by (auto simp: queue_file_text_def Let_def bindE_eq_Inr)
  obtain before medias after names where l: "content = lines_text (pprd_save_line (j_spool_state (qentry j')) # before @ medias @ after)"
    "list_all plain before" "list_all plain after" "list_all clean medias" "list_all2 names_medium medias names" "names \<noteq> []"
    "set names \<subseteq> insert ''UNRECOGNIZED'' ((\<lambda>km. unpad b (m_medianame km)) ` set mfile)"
    using queue_file_lines [OF t c, of fl] assms(2-8) n(2) q by auto
  have "read_queue_file qfname destid jid subid d
      = bindE (numbers_of_media (take MAX_DOCMEDIA names) d) (\<lambda>(ms, d). Inr (submitted_entry (j_spool_state (qentry j')) destid jid subid ms d, d))"
    using assms(9,10) lines_read [OF assms(2) l(2-5)]
    by (simp add: read_queue_file_def l(1) bindE_assoc submitted_entry_def blank_entry_def case_prod_unfold)
  then show ?thesis using l(6,7) by blast
qed

subsection \<open>The example\<close>

lemma example_written_proper:
  "check_values example_written_qf = Inr ()" "proper_spool_state (j_spool_state example_written_qf)" "proper_numbers example_fl example_written_qf"
  "proper_strings example_written_qf"
proof -
  note p = example_proper [OF disjI1 [OF refl]]
  show "check_values example_written_qf = Inr ()" using p(1) by (simp add: example_written_qf_def check_values_cookie)
  show "proper_spool_state (j_spool_state example_written_qf)" using p(2) by (simp add: example_written_qf_def)
  show "proper_numbers example_fl example_written_qf" using p(3) by (simp add: example_written_qf_def proper_numbers_def ipp_fits_def ipp_results_def)
  show "proper_strings example_written_qf" by code_simp
qed

lemma example_media:
  "\<exists>ls. write_media_lines CHR ''x'' (Some [letter]) example_defaults 0 (example_submission\<lparr>qentry := example_written_qf\<rparr>)
    = Inr (ls, example_submission\<lparr>qentry := example_written_qf\<rparr>)"
  by (simp add: write_media_lines_def media_of_def example_submission_def media_step_def write_media_line_def exact_match_def letter_def padded_cmp_def)

lemma example_resources: "\<exists>ls. write_resource_lines 0 (example_submission\<lparr>qentry := example_written_qf\<rparr>) = Inr ls"
proof -
  obtain v where "gu_dtostr 0 = Inr v" using dtostr_ok [of 0] by auto
  then show ?thesis by (simp add: write_resource_lines_def example_submission_def resource_line_def)
qed

lemma example_written:
  "\<exists>content. write_queue_file CHR ''x'' (Some [letter]) example_defaults [''*Duplex None''] ''/q'' 42 False (\<lambda>_. None) example_submission
     = Inr (''/q/laser-7.0'', content, example_submission\<lparr>qentry := example_written_qf\<rparr>)"
proof -
  have f: "ppr_fnamef ''%s/%s-%d.%d'' [FStr ''/q'', FStr ''laser'', FInt 7, FInt 0] = Inr ''/q/laser-7.0''" "take 15 (print_X 8 42) = ''0000002A''" by code_simp+
  have q: "qentry example_submission = example_qf" "j_destname example_written_qf = Some ''laser''" "j_id example_written_qf = 7" "j_subid example_written_qf = 0"
    by (simp_all add: example_submission_def example_written_qf_def example_qf_def)
  obtain body where b: "qentryfile_save example_written_qf = Inr body" using saved_lines [OF example_written_proper] by blast
  obtain ls rs where l: "write_media_lines CHR ''x'' (Some [letter]) example_defaults 0 (example_submission\<lparr>qentry := example_written_qf\<rparr>)
    = Inr (ls, example_submission\<lparr>qentry := example_written_qf\<rparr>)" "write_resource_lines 0 (example_submission\<lparr>qentry := example_written_qf\<rparr>) = Inr rs"
    using example_media example_resources by blast
  then have "\<exists>c. queue_file_text CHR ''x'' (Some [letter]) example_defaults [''*Duplex None''] (example_submission\<lparr>qentry := example_written_qf\<rparr>)
    = Inr (c, example_submission\<lparr>qentry := example_written_qf\<rparr>)" using b q by (simp add: queue_file_text_def lift_ppr_def)
  then show ?thesis using q f example_proper(1) [of example_qf]
    by (auto simp: write_queue_file_def fatal_check_def lift_ppr_def print_s_def example_written_qf_def [symmetric] Let_def)
qed

lemma letter_proper: "proper_record letter"
proof -
  have "m_medianame letter = ASCIIZ_to_padded ''letter'' 16" "is_word ''letter''" by code_simp+
  then show ?thesis by (auto simp: proper_record_def intro!: exI [of _ "''letter''"])
qed

lemma example_things: "list_all proper_thing (things example_submission)" by code_simp

lemma example_features: "list_all clean [''*Duplex None'']" by code_simp

lemma example_no_pjl: "proper_pjl (j_PJL example_written_qf)"
proof -
  have "j_PJL example_written_qf = None" by (simp add: example_written_qf_def example_qf_def)
  then show ?thesis by (simp add: proper_pjl_def)
qed

lemma example_path:
  "path_of ''%s/%s'' [FStr (QUEUEDIR (dirs (example_busy\<lparr>fs := f\<rparr>))), FStr ''laser-7.0''] (example_busy\<lparr>fs := f\<rparr>) = Inr ''/q/laser-7.0''"
proof -
  have "returns (path_of ''%s/%s'' [FStr ''/q'', FStr ''laser-7.0''] example_busy) (\<lambda>f. f = ''/q/laser-7.0'')" by code_simp
  then have "path_of ''%s/%s'' [FStr ''/q'', FStr ''laser-7.0''] example_busy = Inr ''/q/laser-7.0''" by (simp add: returns_iff)
  moreover have "QUEUEDIR (dirs example_busy) = ''/q''" by code_simp
  ultimately show ?thesis by (simp add: path_of_iff)
qed

section \<open>Properties\<close>





text \<open>
  C21. After \<open>rationalize_resources\<close> the flags of every resource agree with each other and with the document: included resources are needed, needed ones are included or will be, and those marked as supplied are exactly those that are really in the document and not removed. The flags that say what the document contains have not been touched, nor has any thing been added, removed or reordered.
\<close>

theorem resources_consistent:
  shows "map th_ptr (things (rationalize_resources j)) = map th_ptr (things j)
    \<and> (\<forall>i < length (things j). \<forall>r. th_ptr (things j ! i) = TH_RESOURCE r \<and> R_Flags (things j ! i) \<noteq> 0 \<longrightarrow>
        consistent (things (rationalize_resources j) ! i)
        \<and> (\<forall>f \<in> {REREF_INCLUDE, REREF_REALLY_SUPPLIED, REREF_PAGE, REREF_UNCLEAR, REREF_REMOVED}.
             has_flag f (things (rationalize_resources j) ! i) \<longleftrightarrow> has_flag f (things j ! i)))"
proof -
  let ?l = "at_DSClevel (j_attr (qentry j))"
  have t: "things (rationalize_resources j) = map (\<lambda>t. fst (rationalize_thing ?l t)) (things j)"
    by (simp add: rationalize_resources_def Let_def)
  have "map th_ptr (things (rationalize_resources j)) = map th_ptr (things j)" by (simp add: t rationalize_thing_ptr)
  moreover have "consistent (things (rationalize_resources j) ! i)
      \<and> (\<forall>f \<in> {REREF_INCLUDE, REREF_REALLY_SUPPLIED, REREF_PAGE, REREF_UNCLEAR, REREF_REMOVED}.
           has_flag f (things (rationalize_resources j) ! i) \<longleftrightarrow> has_flag f (things j ! i))"
    if "i < length (things j)" "th_ptr (things j ! i) = TH_RESOURCE r" "R_Flags (things j ! i) \<noteq> 0" for i r
  proof -
    have "things (rationalize_resources j) ! i = fst (rationalize_resource ?l r (things j ! i))"
      using that by (simp add: t rationalize_thing_def)
    then show ?thesis using rationalize_resource_consistent rationalize_resource_kept by simp
  qed
  ultimately show ?thesis by blast
qed

theorem resources_consistent_witness:
  "consistent (things (rationalize_resources example_submission) ! 2) \<and> has_flag REREF_UNCLEAR (things (rationalize_resources example_submission) ! 2)"
proof -
  have "R_Flags (things example_submission ! 2) \<noteq> 0" "has_flag REREF_UNCLEAR (things example_submission ! 2)" by code_simp+
  then show ?thesis using resources_consistent [of example_submission, THEN conjunct2, rule_format, of 2] by (simp add: example_submission_def)
qed

text \<open>
  C29. A job that is divided gets one segment number for each page, in rising order, from 1 to the number of segments asked for.
\<close>

theorem segments_bounded:
  assumes "split_pages s j = Inr (Some xs, j')" "2 \<le> s" "s \<le> MAX_SEGMENTS" "0 < at_pagefactor (j_attr (qentry j))"
  shows "length xs = nat (pagenumber j) \<and> sorted xs \<and> set xs \<subseteq> {1..s}"
proof -
  let ?p = "pages_per_fragment (pagenumber j) s (at_pagefactor (j_attr (qentry j)))"
  note xs = split_pages_segments(1) [OF assms(1)] and r = split_in_range [OF assms]
  have "set xs \<subseteq> {1..s}"
    using segments_range [of ?p 0 1 "nat (pagenumber j)"] r assms(3) unfolding xs by fastforce
  moreover have "sorted xs" unfolding xs using r assms(3) by (intro segments_sorted) auto
  ultimately show ?thesis using xs by simp
qed

theorem segments_bounded_witness:
  "\<exists>xs. split_pages 2 example_submission = Inr (Some xs, example_submission) \<and> length xs = 20 \<and> sorted xs \<and> set xs \<subseteq> {1..2}"
proof -
  have "case split_pages 2 example_submission of Inr (Some xs, j) \<Rightarrow> True | _ \<Rightarrow> False" by code_simp
  then obtain xs j where s: "split_pages 2 example_submission = Inr (Some xs, j)" by (auto split: sum.splits option.splits)
  moreover have "j = example_submission" using s by (auto simp: split_pages_def Let_def split: if_splits)
  moreover have "at_pagefactor (j_attr (qentry example_submission)) = 2" "pagenumber example_submission = 20" by (simp_all add: example_submission_def example_qf_def)
  ultimately show ?thesis using segments_bounded [of 2 example_submission xs j] by simp
qed

text \<open>
  C34. Deleting a requirement has no effect on the queue file: the lines that \<open>write_requirement_lines\<close> writes are the same as before. And a requirement with an argument, such as \<^verbatim>\<open>duplex(tumble)\<close>, is not marked as deleted by the deletion of \<^verbatim>\<open>duplex\<close>.
\<close>

theorem deletion_without_effect:
  assumes "delete_requirement name j = Inr j'"
  shows "write_requirement_lines frag j' = write_requirement_lines frag j
    \<and> (\<forall>i < length (things j). \<forall>v. th_ptr (things j ! i) = TH_REQUIREMENT (name @ ''('' @ v) \<longrightarrow> things j' ! i = things j ! i)"
proof -
  obtain ts where ts: "j' = j\<lparr>things := ts\<rparr>" and a: "list_all2 (\<lambda>t t'. delete_thing name t = Inr t') (things j) ts"
    using assms delete_requirement_things by blast
  have "map th_ptr ts = map th_ptr (things j)"
    using a by (induction rule: list_all2_induct) (auto dest: delete_thing_ptr)
  moreover have "ts ! i = things j ! i" if "i < length (things j)" "th_ptr (things j ! i) = TH_REQUIREMENT (name @ ''('' @ v)" for i v
    using list_all2_nthD [OF a that(1)] delete_thing_more [of "things j ! i" name "CHR ''(''" v] that(2) by simp
  ultimately show ?thesis using ts requirement_lines_ptr [of j' j] by simp
qed

theorem deletion_without_effect_witness:
  "\<exists>j'. delete_requirement ''duplex'' example_submission = Inr j' \<and> write_requirement_lines 0 j' = [''Req: duplex(tumble)'']
    \<and> th_ptr (things j' ! 1) = TH_REQUIREMENT ''duplex(tumble)''"
proof -
  have "case delete_requirement ''duplex'' example_submission of Inl _ \<Rightarrow> False | Inr _ \<Rightarrow> True" by code_simp
  then obtain j' where j': "delete_requirement ''duplex'' example_submission = Inr j'" by (auto split: sum.splits)
  moreover have "write_requirement_lines 0 example_submission = [''Req: duplex(tumble)'']" by code_simp
  ultimately show ?thesis using deletion_without_effect [OF j', of 0] by (simp add: example_submission_def)
qed

text \<open>
  The first segment of a divided job has one page more than a whole number of sheets.
\<close>

theorem segments_cut_sheets:
  assumes "split_pages s j = Inr (Some xs, j')" "2 \<le> s" "s \<le> MAX_SEGMENTS" "2 \<le> at_pagefactor (j_attr (qentry j))"
  shows "int (length (filter (\<lambda>x. x = 1) xs)) mod at_pagefactor (j_attr (qentry j)) = 1"
proof -
  let ?pf = "at_pagefactor (j_attr (qentry j))" let ?p = "pages_per_fragment (pagenumber j) s ?pf"
  have pf: "0 < ?pf" using assms(4) by simp
  note xs = split_pages_segments(1) [OF assms(1)] and r = split_in_range [OF assms(1-3) pf]
  have "?p + 1 < pagenumber j"
  proof (rule ccontr)
    assume "\<not> ?p + 1 < pagenumber j"
    then have "(0 + int (nat (pagenumber j))) div (?p + 2) = 0" using r(1,3) by (simp add: zdiv_eq_0_iff)
    moreover have "last xs \<in> set xs" using xs r(3) by (intro last_in_set) (auto simp: xs simp flip: length_greater_0_conv)
    ultimately show False using segments_range [of ?p 0 1 "nat (pagenumber j)" "last xs"] r split_pages_segments(2) [OF assms(1)] unfolding xs by simp
  qed
  then obtain m where m: "xs = replicate (nat (?p + 1)) 1 @ 2 # assign_segments ?p m 0 2"
    using first_segment [of 1 0 ?p "nat (pagenumber j)"] r(1) unfolding xs by auto
  have "length xs = nat (pagenumber j)" by (simp add: xs)
  then have "Suc m \<le> nat (pagenumber j)" using m by simp
  then have "int m div (?p + 2) \<le> int (nat (pagenumber j)) div (?p + 2)" using r(1,3) by (intro zdiv_mono1) auto
  then have "\<forall>x \<in> set (assign_segments ?p m 0 2). 2 \<le> x"
    using segments_range [of ?p 0 2 m] r(1,2) assms(3) by auto
  then have "filter (\<lambda>x. x = 1) xs = replicate (nat (?p + 1)) 1" unfolding m by (auto simp: filter_empty_conv)
  moreover have "?p mod ?pf = 0" using fragment_size(3) [of "pagenumber j" s ?pf] r(3) assms(2) pf by simp
  ultimately show ?thesis using r(1) assms(4) by (simp add: mod_add_left_eq [symmetric])
qed

theorem segments_cut_sheets_witness:
  "\<exists>xs. split_pages 2 example_submission = Inr (Some xs, example_submission) \<and> int (length (filter (\<lambda>x. x = 1) xs)) mod 2 = 1"
proof -
  have "case split_pages 2 example_submission of Inr (Some xs, j) \<Rightarrow> True | _ \<Rightarrow> False" by code_simp
  then obtain xs j where s: "split_pages 2 example_submission = Inr (Some xs, j)" by (auto split: sum.splits option.splits)
  moreover have "j = example_submission" using s by (auto simp: split_pages_def Let_def split: if_splits)
  moreover have "at_pagefactor (j_attr (qentry example_submission)) = 2" by (simp add: example_submission_def example_qf_def)
  ultimately show ?thesis using segments_cut_sheets [of 2 example_submission xs j] by simp
qed

end
