(* ===== verification/Spec2Isabelle.thy ===== *)
theory Spec2Isabelle
  imports Startup Ipp_Orders Automaton Imposition Output Access Submission
begin

text \<open>
  A verification library for the PPR PostScript print spooler: its daemon \<^verbatim>\<open>pprd\<close>, the parts of its driver \<^verbatim>\<open>pprdrv\<close>
  that arrange and send the pages of a job, the queue file through which the programs of the package pass a job
  on, access control, and the text routines all of this rests on.

  \<^bold>\<open>The program.\<close> Users submit jobs with \<^verbatim>\<open>ppr\<close>, which writes a queue file and data files and tells the daemon
  by a line in its FIFO. The daemon keeps the queue, the printers and the groups of printers in arrays,
  decides which job goes to which printer, starts one \<^verbatim>\<open>pprdrv\<close> process for each job that prints, judges its
  exit code, retries faulty printers at intervals, asks questions about jobs and informs users and operators.
  Operators act through \<^verbatim>\<open>ppop\<close> (commands in the FIFO, answers in a reply file), IPP clients through a socket,
  administrators through \<^verbatim>\<open>ppad\<close>, which changes configuration files and tells the daemon so. What must
  survive a restart is in files: a \<^verbatim>\<open>PPRD:\<close> line in each queue file, a \<^verbatim>\<open>spool_state\<close> file for each destination, the
  list of mounted media of each printer.

  The driver reads the queue file, makes a table of the pages the user asked for, arranges them on sheets,
  booklets included, sends the document through a buffer into the pipe to the interface program, watches for
  stalls and for the end of the interface and of the RIP, and ends with an exit code that the daemon understands.

  \<^bold>\<open>The model.\<close> The state is the record \<open>daemon\<close>: the global and static variables of the source, with the C names,
  and the operating system as far as the daemon sees it (the files as a map from paths to contents, the
  results of the coming calls of \<^verbatim>\<open>fork()\<close> and \<^verbatim>\<open>time()\<close>, the list of everything emitted). A function of the
  source is a function on this state with a result in \<open>abort + 'a\<close>: \<open>Fatal\<close> for \<^verbatim>\<open>fatal()\<close>, \<open>Throw\<close> for an
  exception together with the state at the throw, \<open>UB\<close> for an access outside an array or another action
  whose effect C leaves open. Integers that are stored in 8, 16 or 32 bits are words of that width. An array
  with its element count is a list, so a wrong index is \<open>UB\<close> and not a default value. The main loop is the
  step relation \<open>step\<close>; its steps are a new or changed job, a reminder, a ppop command, a request from the
  socket, a timer tick, a batch of ended children, and a change of the files by other processes.
  The driver's theories have their own records in the same style: \<open>arrangement\<close> and \<open>PAGETABLE\<close> for the pages,
  \<open>writemon\<close> and \<open>stall\<close> for the stall monitor, \<open>fault_flags\<close> for what the signal handlers noted, \<open>drv\<close> for the output,
  with the results of the coming calls of \<^verbatim>\<open>select()\<close>, \<^verbatim>\<open>write()\<close> and the clock as input. \<open>QEntryFile\<close> is the contents
  of a queue file.

  \<^bold>\<open>Theories and sources\<close> (paths under \<^verbatim>\<open>src/\<close>).
  \<^item> \<open>Prelude\<close>: results, folds with errors, searches in lists, the predicate \<open>returns\<close> (total correctness).
  \<^item> \<open>Libgu\<close>: \<^verbatim>\<open>libgu/gu_sscanf.c\<close>, \<^verbatim>\<open>gu_strsep.c\<close>, \<^verbatim>\<open>torf.c\<close>, \<^verbatim>\<open>padded.c\<close>, \<^verbatim>\<open>libppr/ppr_fnamef.c\<close>, \<^verbatim>\<open>jobid.c\<close>,
    \<^verbatim>\<open>parse_qfname.c\<close>.
  \<^item> \<open>Daemon\<close>: the structures and constants, locking, the log, state updates (\<^verbatim>\<open>pprd/pprd.h\<close>, \<^verbatim>\<open>pprd_log.c\<close>,
    \<^verbatim>\<open>pprd_state.c\<close>).
  \<^item> \<open>Destid\<close> (\<^verbatim>\<open>pprd_destid.c\<close>), \<open>Spool_State\<close> (\<^verbatim>\<open>pprd_statedirs.c\<close>, \<^verbatim>\<open>libppr/spool_state.c\<close>), \<open>Queue\<close> and \<open>Enqueue\<close>
    (\<^verbatim>\<open>pprd_queue.c\<close>), \<open>Printers\<close> (\<^verbatim>\<open>pprd_printer.c\<close>, the start of a driver in \<^verbatim>\<open>pprd_pprdrv.c\<close>), \<open>Pprdrv_Exit\<close> (its
    end), \<open>Media\<close> (\<^verbatim>\<open>pprd_media.c\<close>), \<open>Respond\<close> (\<^verbatim>\<open>pprd_respond.c\<close>, \<^verbatim>\<open>pprd_alert.c\<close>, \<^verbatim>\<open>pprd_remind.c\<close>), \<open>Question\<close>
    (\<^verbatim>\<open>pprd_question.c\<close>).
  \<^item> \<open>Ppop\<close>, \<open>Ppop_Jobs\<close>, \<open>Ppop_Dest\<close> (\<^verbatim>\<open>pprd_ppop.c\<close>), \<open>Ipp\<close> (\<^verbatim>\<open>pprd_ipp.c\<close>), \<open>Load\<close> (\<^verbatim>\<open>pprd_load.c\<close>), \<open>Pprd\<close>
    (\<^verbatim>\<open>pprd.c\<close>; its FIFO commands and start-up are at the end of \<open>Load\<close>).
  \<^item> \<open>Wp\<close>, \<open>Slots\<close>: what every operation keeps. The locale \<open>slot_frame\<close> is the interface of the operations that
    change no slot, \<open>slot_start\<close> of those that may start a driver, \<open>slot_invariant\<close> of all; each asks for a few
    elementary transitions and gives the invariance of every command. They are interpreted with the
    invariant of the drivers (\<open>slots_ok\<close>), with the destinations, with the slot of a printer whose driver has
    ended, with equal slots, and with the transitions of the abstract slot machine.
  \<^item> \<open>Starting\<close>, \<open>Exits\<close>, \<open>Supplies\<close>, \<open>Timing\<close>, \<open>Orders\<close>, \<open>Ipp_Orders\<close>, \<open>Loading\<close>, \<open>Startup\<close>, \<open>Automaton\<close>: lemmas and
    properties by subject; the properties of whole runs are below.

  \<^item> \<open>Pagemask\<close> (\<^verbatim>\<open>libppr/pagemask.c\<close>): page lists, with their properties. \<open>Sheets\<close> (\<^verbatim>\<open>pprdrv/pprdrv.c\<close>, \<^verbatim>\<open>pprdrv_signature.c\<close>,
    \<^verbatim>\<open>libppr/charge.c\<close>) models the table of pages, the numbers of sheets, copies, booklets and the charge; \<open>Imposition\<close>
    has its properties.
  \<^item> \<open>Writemon\<close> (\<^verbatim>\<open>libgu/gu_timeval.c\<close>, \<^verbatim>\<open>pprdrv/pprdrv_writemon.c\<close>): the stall monitor. \<open>Faults\<close> (\<^verbatim>\<open>pprdrv_interface.c\<close>,
    \<^verbatim>\<open>pprdrv_rip.c\<close>, \<^verbatim>\<open>fault_check()\<close> in \<^verbatim>\<open>pprdrv.c\<close>): early ends. \<open>Printer_Buf\<close> (\<^verbatim>\<open>pprdrv_buf.c\<close>, \<^verbatim>\<open>ppr/tbcp2bin.c\<close>) models the output,
    and \<open>Output\<close> has its properties.
  \<^item> \<open>Access\<close> (\<^verbatim>\<open>nonppr_misc/wildmat/gu_wildmat.c\<close>, \<^verbatim>\<open>libppr/username_match.c\<close>, \<^verbatim>\<open>libppr/acl.c\<close>): wildcards and access control
    lists. \<open>Queue_File\<close> (\<^verbatim>\<open>libppr/qentryfile_clear.c\<close>, \<^verbatim>\<open>qentryfile_save.c\<close>, \<^verbatim>\<open>qentryfile_load.c\<close>, \<^verbatim>\<open>libgu/gu_dtostr.c\<close>, the checks of
    \<^verbatim>\<open>ppr/ppr_main.c\<close>) models the queue file, and \<open>Queue_Files\<close> has its properties.
  \<^item> \<open>Things\<close> (\<^verbatim>\<open>ppr/ppr_media.c\<close>, \<^verbatim>\<open>ppr_req.c\<close>, \<^verbatim>\<open>ppr_res.c\<close>, the deciding part of \<^verbatim>\<open>ppr_split.c\<close>, \<^verbatim>\<open>write_queue_file()\<close> and \<^verbatim>\<open>submit_job()\<close>
    of \<^verbatim>\<open>ppr_main.c\<close>) models what \<^verbatim>\<open>ppr\<close> collects about a job, in the record \<open>ppr_job\<close>, and the queue file it makes of it;
    \<open>Submission\<close> has its properties and joins it to the daemon's reader.

  \<^bold>\<open>What is shown.\<close> Over every run from start-up the number of drivers is the number counted, is at most
  \<^verbatim>\<open>MAX_ACTIVE\<close>, and every slot obeys the abstract machine \<open>slot_move\<close>; the tables stay well formed and the
  destinations the same. A printer starts exactly the first job it may print; group jobs go round the members;
  a driver's end leads to the status its exit code stands for. The queue stays ordered by urgency under
  insertion, and insertion, removal, cancel and rush change exactly what they should. Saved states, mounted
  media, queue file names, padded fields and \<^verbatim>\<open>PPRD:\<close> lines are read back as written. Refused jobs leave nothing
  behind. Retries come when announced, with bounded delays; questions and media ids are bounded.

  A page list selects exactly the pages it names; the driver sends exactly those, each once per copy and in
  reading order; the sheets of a booklet read in order when they are folded; the charge counts the sheets printed.
  What is printed reaches the pipe as one stream of bytes, whole, within the buffer, and the two encodings used on
  the way can be undone. Stalls are announced each full minute and the page time limit is met. However the
  interface or the RIP ends early, the job is not taken for printed. A pattern matches exactly the texts it stands
  for, and an access control list admits exactly the users its lines allow. A queue file is read back as it
  was written, but for white space at the ends of lines and the account, of which one word is left. What \<^verbatim>\<open>ppr\<close> writes
  the daemon reads as the job that was submitted, whatever texts came with it; every job names a medium; the flags
  of its resources agree with the document; the segments of a divided job are numbered within their bounds.

  The properties and lemmas about errors show faults of the source on the smallest case: a hold of a canceled
  job, a move that forgets the counters, a stopping printer after a restart, a reloaded group, an IPP purge, copies
  without end, a booklet with more than two pages to a side, the account of a queue file, blank options for the RIP, the deletion of a
  requirement, segments that cut sheets.

  \<^bold>\<open>Bounds and fuel.\<close> The loops that do not follow a list take a number of rounds: the scanner the length of its
  format (\<open>scan_rounds_enough\<close>), \<open>ppr_fnamef\<close> the length of the pattern, \<open>cancel_loop\<close> the length of the queue
  (\<open>cancel_rounds_enough\<close>), \<open>fifo_loop\<close> one more than the characters of the buffer (\<open>fifo_loop_fuel\<close>), \<open>mounted_loop\<close> and
  \<open>split_lines\<close> the length of the file, \<open>hungry_loop\<close> the number of printers, which the source counts too. The loops
  over a page list (\<open>mask_outer\<close>, \<open>mask_inner\<close>) and over a quoted value (\<open>quoted_loop\<close>) take the length of their text, of
  which each round consumes a character; \<open>sheet_loop\<close> takes the number of sheets, \<open>stall_loop\<close> two rounds, since the
  second finds the announcement moved past the present, \<open>flush_loop\<close> one round more than there are results of
  \<^verbatim>\<open>write()\<close>. \<open>do_match\<close> and all other functions are total by a measure.

  \<^bold>\<open>Not modelled.\<close> Sockets, FIFOs, signals and privileges (\<^verbatim>\<open>pprd_listener.c\<close>, \<^verbatim>\<open>pprd_mainsup.c\<close>, the \<^verbatim>\<open>select()\<close> loop),
  debugging output, and translations of messages; the texts of log entries are shortened. Writing a file,
  \<^verbatim>\<open>pipe()\<close>, \<^verbatim>\<open>mkdir()\<close> and the opening of directories succeed in the model. What C does not determine is an
  argument or a field: uninitialised slots, the bytes in front of a buffer, floating point rounding of a
  charge (record \<open>machine\<close>) and of a number in a queue file (the argument \<open>fl\<close>), and the text read through a wrong
  pointer (\<open>struct_text\<close>). Of \<^verbatim>\<open>pprdrv\<close>, the copying of the document text, PPD files, resources, feedback parsing and the
  starting of processes are not modelled; of \<^verbatim>\<open>ppr\<close>, the parsing of documents and of the command line, the filters and the
  writing of the document's parts into files are not. The interfaces, \<^verbatim>\<open>ppop\<close>, \<^verbatim>\<open>ppad\<close>, the network servers, filters and font tools are not
  modelled; the daemon sees them through files, command lines and exit codes. Next would be the clients
  \<^verbatim>\<open>ppop\<close> and \<^verbatim>\<open>ppad\<close>, whose commands this daemon answers, and the document structure parser of \<^verbatim>\<open>ppr\<close>.
\<close>

section \<open>Properties of the whole daemon\<close>

lemma example_busy_ok: "slots_ok example_busy"
  by (simp add: slots_ok_def running_def example_busy_def example_daemon_def example_printer_def)

lemma example_started:
  "\<exists>d. ppop_dispatch ''7 b laser'' example_busy = Inr d \<and> active_printers d = 0"
proof -
  have "case ppop_dispatch ''7 b laser'' example_busy of Inl _ \<Rightarrow> False | Inr d \<Rightarrow> active_printers d = 0"
    by code_simp
  then show ?thesis by (auto split: sum.splits)
qed









end
